(* ===== verification/Prelude.thy ===== *)
theory Prelude
  imports Main "HOL-Library.Word" "HOL-Library.List_Lexorder" "HOL-Library.Sublist"
begin

text \<open>
  Shared vocabulary of the development: bytes and machine integers at the width the Go code
  uses, the fixed-width encodings of \<^verbatim>\<open>encoding/binary\<close>, decimal printing and parsing
  (\<^verbatim>\<open>strconv\<close>), Go errors and panics as values, and the generic lemmas on lists and
  on the lexicographic order of byte strings that the component theories share.
\<close>

named_theorems enc_simps \<open>evaluation and round-trip rules of the byte encodings\<close>
named_theorems lex_simps \<open>decomposition of the lexicographic order of byte strings\<close>
named_theorems out_simps \<open>rules that open a computation that may fail or panic\<close>

section \<open>Bytes, strings and machine integers\<close>

type_synonym byte = "8 word"
type_synonym bytes = "byte list"
type_synonym u64 = "64 word"
type_synonym i64 = "64 word" \<comment> \<open>two's complement, read with \<open>sint\<close>\<close>

text \<open>A Go string is a byte sequence; \<open>str\<close> is \<^verbatim>\<open>[]byte(s)\<close>.\<close>

definition byte_of_char :: "char \<Rightarrow> byte" where
  "byte_of_char c = of_nat (of_char c)"

definition str :: "string \<Rightarrow> bytes" where
  "str = map byte_of_char"

lemma of_char_less_256: "(of_char c :: nat) < 256"
  by (metis mod_less_divisor of_char_mod_256 zero_less_numeral)

lemma unat_of_nat_byte: "n < 256 \<Longrightarrow> unat (of_nat n :: byte) = n"
  by (simp add: unsigned_of_nat take_bit_nat_eq_self)

lemma unat_of_nat_u64: "n < 256 ^ 8 \<Longrightarrow> unat (of_nat n :: u64) = n"
  by (simp add: unsigned_of_nat take_bit_nat_eq_self)

lemma unat_byte_of_char: "unat (byte_of_char c) = of_char c"
  by (simp add: byte_of_char_def unat_of_nat_byte of_char_less_256)

lemma byte_of_char_inject [simp]: "byte_of_char c = byte_of_char d \<longleftrightarrow> c = d"
  by (metis of_char_eq_iff unat_byte_of_char)

lemma str_simps [simp]:
  "str [] = []" "str (c # s) = byte_of_char c # str s" "str (s @ t) = str s @ str t"
  "length (str s) = length s" "str s = [] \<longleftrightarrow> s = []"
  by (simp_all add: str_def)

lemma str_inject [simp]: "str s = str t \<longleftrightarrow> s = t"
  unfolding str_def by (rule inj_map_eq_map) (simp add: inj_def)

section \<open>Fixed-width encodings (encoding/binary)\<close>

text \<open>
  \<open>le_bytes n x\<close> and \<open>be_bytes n x\<close> are the low \<open>n\<close> bytes of \<open>x\<close>, least and most
  significant byte first; \<open>le_val\<close> and \<open>be_val\<close> read a byte string back.
\<close>

fun le_bytes :: "nat \<Rightarrow> nat \<Rightarrow> bytes" where
  "le_bytes 0 x = []"
| "le_bytes (Suc n) x = of_nat (x mod 256) # le_bytes n (x div 256)"

definition be_bytes :: "nat \<Rightarrow> nat \<Rightarrow> bytes" where
  "be_bytes n x = rev (le_bytes n x)"

fun le_val :: "bytes \<Rightarrow> nat" where
  "le_val [] = 0"
| "le_val (b # bs) = unat b + 256 * le_val bs"

definition be_val :: "bytes \<Rightarrow> nat" where
  "be_val bs = le_val (rev bs)"

lemma length_le_bytes [simp]: "length (le_bytes n x) = n"
  by (induction n arbitrary: x) auto

lemma length_be_bytes [simp]: "length (be_bytes n x) = n"
  by (simp add: be_bytes_def)

lemma le_val_le_bytes: "le_val (le_bytes n x) = x mod 256 ^ n"
proof (induction n arbitrary: x)
  case (Suc n)
  have "le_val (le_bytes (Suc n) x) = x mod 256 + 256 * (x div 256 mod 256 ^ n)"
    by (simp add: Suc.IH unat_of_nat_byte)
  also have "\<dots> = x mod (256 * 256 ^ n)"
    by (simp add: mod_mult2_eq)
  finally show ?case by simp
qed simp

lemma be_val_be_bytes: "be_val (be_bytes n x) = x mod 256 ^ n"
  by (simp add: be_val_def be_bytes_def le_val_le_bytes)

lemma unat_byte_less: "unat (b :: byte) < 256"
  using unsigned_less [of b] by simp

lemma le_bytes_le_val: "le_bytes (length bs) (le_val bs) = bs"
  by (induction bs) (simp_all add: unat_byte_less)

lemma le_val_less: "le_val bs < 256 ^ length bs"
proof (induction bs)
  case (Cons b bs)
  have "unat b + 256 * le_val bs < 256 * (le_val bs + 1)"
    using unat_byte_less [of b] by simp
  also have "\<dots> \<le> 256 * 256 ^ length bs"
    using Cons.IH by (intro mult_le_mono2) simp
  finally show ?case by simp
qed simp

text \<open>\<^verbatim>\<open>binary.BigEndian.PutUint64\<close>, \<^verbatim>\<open>Uint64\<close> and their little-endian forms.
  Reading from a slice shorter than eight bytes panics, here \<open>None\<close>.\<close>

definition be64 :: "u64 \<Rightarrow> bytes" where
  "be64 w = be_bytes 8 (unat w)"

definition le64 :: "u64 \<Rightarrow> bytes" where
  "le64 w = le_bytes 8 (unat w)"

definition read_be64 :: "bytes \<Rightarrow> u64 option" where
  "read_be64 bs = (if length bs < 8 then None else Some (of_nat (be_val (take 8 bs))))"

definition read_le64 :: "bytes \<Rightarrow> u64 option" where
  "read_le64 bs = (if length bs < 8 then None else Some (of_nat (le_val (take 8 bs))))"

lemma length_be64 [simp]: "length (be64 w) = 8"
  by (simp add: be64_def)

lemma length_le64 [simp]: "length (le64 w) = 8"
  by (simp add: le64_def)

lemma unat_u64_less: "unat (w :: u64) < 256 ^ 8"
  using unsigned_less [of w] by simp

lemma read_be64_be64 [enc_simps, simp]: "read_be64 (be64 w @ xs) = Some w"
  by (simp add: read_be64_def be64_def be_val_be_bytes mod_less [OF unat_u64_less]
    del: power_numeral)

lemma read_le64_le64 [enc_simps, simp]: "read_le64 (le64 w @ xs) = Some w"
  by (simp add: read_le64_def le64_def le_val_le_bytes mod_less [OF unat_u64_less]
    del: power_numeral)

lemma read_be64_be64_nil [enc_simps, simp]: "read_be64 (be64 w) = Some w"
  using read_be64_be64 [of w "[]"] by simp

lemma read_le64_le64_nil [enc_simps, simp]: "read_le64 (le64 w) = Some w"
  using read_le64_le64 [of w "[]"] by simp

lemma be64_inject [simp]: "be64 a = be64 b \<longleftrightarrow> a = b"
  by (metis option.inject read_be64_be64_nil)

lemma le64_inject [simp]: "le64 a = le64 b \<longleftrightarrow> a = b"
  by (metis option.inject read_le64_le64_nil)

lemma be64_neq_Nil [simp]: "be64 a \<noteq> []"
  by (metis length_be64 list.size(3) zero_neq_numeral)

text \<open>Every eight-byte string is the big-endian form of one word.\<close>

lemma eight_bytes_be64:
  assumes "length bs = 8"
  obtains w where "bs = be64 w"
proof
  let ?v = "be_val bs"
  have "?v < 256 ^ 8"
    using le_val_less [of "rev bs"] assms by (simp add: be_val_def)
  then have "unat (of_nat ?v :: u64) = ?v"
    by (rule unat_of_nat_u64)
  then show "bs = be64 (of_nat ?v)"
    using le_bytes_le_val [of "rev bs"] assms
    by (simp add: be64_def be_bytes_def be_val_def)
qed

section \<open>Lexicographic order of byte strings (bytes.Compare)\<close>

lemma append_less_same [lex_simps]: "(p @ xs < p @ ys) \<longleftrightarrow> xs < (ys :: 'a::linorder list)"
  by (induction p) auto

lemma append_le_same [lex_simps]: "(p @ xs \<le> p @ ys) \<longleftrightarrow> xs \<le> (ys :: 'a::linorder list)"
  by (simp add: order.order_iff_strict append_less_same)

lemma append_less_same_length [lex_simps]:
  "length xs = length ys \<Longrightarrow>
    (xs @ us < ys @ vs) \<longleftrightarrow> xs < ys \<or> (xs = ys \<and> us < (vs :: 'a::linorder list))"
  by (induction xs ys rule: list_induct2) auto

lemma be_bytes_Suc: "be_bytes (Suc n) x = be_bytes n (x div 256) @ [of_nat (x mod 256)]"
  by (simp add: be_bytes_def)

lemma of_nat_byte_less: "m < 256 \<Longrightarrow> n < 256 \<Longrightarrow> (of_nat m :: byte) < of_nat n \<longleftrightarrow> m < n"
  by (simp add: word_less_nat_alt unat_of_nat_byte)

lemma be_bytes_inject:
  assumes "x < 256 ^ n" and "y < 256 ^ n"
  shows "be_bytes n x = be_bytes n y \<longleftrightarrow> x = y"
  by (metis assms be_val_be_bytes mod_less)

lemma div_mod_less:
  "x div 256 < y div 256 \<or> (x div 256 = y div 256 \<and> x mod 256 < y mod 256) \<longleftrightarrow> x < (y :: nat)"
proof -
  have "x = 256 * (x div 256) + x mod 256" "y = 256 * (y div 256) + y mod 256" by simp_all
  moreover have "x mod 256 < 256" "y mod 256 < 256" by simp_all
  ultimately show ?thesis by linarith
qed

lemma be_bytes_less:
  "x < 256 ^ n \<Longrightarrow> y < 256 ^ n \<Longrightarrow> be_bytes n x < be_bytes n y \<longleftrightarrow> x < y"
proof (induction n arbitrary: x y)
  case (Suc n)
  let ?a = "x div 256" and ?b = "y div 256"
  have ab: "?a < 256 ^ n" "?b < 256 ^ n"
    using Suc.prems by (auto simp: less_mult_imp_div_less mult.commute)
  have "be_bytes (Suc n) x < be_bytes (Suc n) y \<longleftrightarrow>
      be_bytes n ?a < be_bytes n ?b \<or> (be_bytes n ?a = be_bytes n ?b \<and> x mod 256 < y mod 256)"
    unfolding be_bytes_Suc
    by (subst append_less_same_length) (simp_all add: of_nat_byte_less)
  also have "\<dots> \<longleftrightarrow> ?a < ?b \<or> (?a = ?b \<and> x mod 256 < y mod 256)"
    unfolding Suc.IH [OF ab] be_bytes_inject [OF ab] ..
  also have "\<dots> \<longleftrightarrow> x < y" by (rule div_mod_less)
  finally show ?case .
qed (simp add: be_bytes_def)

lemma be64_less [lex_simps]: "be64 a < be64 b \<longleftrightarrow> a < b"
  unfolding be64_def word_less_nat_alt by (rule be_bytes_less) (rule unat_u64_less)+

section \<open>Decimal numbers (fmt \<open>%d\<close> and strconv)\<close>

text \<open>\<open>dec n\<close> is the decimal form of \<open>n\<close> as \<^verbatim>\<open>%d\<close> and
  \<^verbatim>\<open>strconv.FormatUint(n, 10)\<close> print it.\<close>

definition digit :: "nat \<Rightarrow> byte" where
  "digit d = of_nat (48 + d)"

fun dec :: "nat \<Rightarrow> bytes" where
  "dec n = (if n < 10 then [digit n] else dec (n div 10) @ [digit (n mod 10)])"

declare dec.simps [simp del]

definition is_digit :: "byte \<Rightarrow> bool" where
  "is_digit b \<longleftrightarrow> 48 \<le> unat b \<and> unat b \<le> 57"

lemma unat_digit: "d < 10 \<Longrightarrow> unat (digit d) = 48 + d"
  unfolding digit_def by (rule unat_of_nat_byte) simp

lemma is_digit_digit [simp]: "d < 10 \<Longrightarrow> is_digit (digit d)"
  by (simp add: is_digit_def unat_digit)

lemma not_digit_separators [simp]:
  "\<not> is_digit (byte_of_char (CHR ''-''))" "\<not> is_digit (byte_of_char (CHR ''/''))"
  by (simp_all add: is_digit_def unat_byte_of_char)

lemma dec_digits: "b \<in> set (dec n) \<Longrightarrow> is_digit b"
proof (induction n rule: dec.induct)
  case (1 n)
  then show ?case by (cases "n < 10") (auto simp: dec.simps [of n])
qed

lemma dec_neq_Nil [simp]: "dec n \<noteq> []"
  by (subst dec.simps) simp

text \<open>Go errors as values: a sentinel, a fresh message, or a message wrapped around an
  error (\<^verbatim>\<open>fmt.Errorf\<close> with \<^verbatim>\<open>%w\<close>, \<^verbatim>\<open>sdkerrors.Wrap\<close>).\<close>

datatype error = Sentinel string | Errorf string | Wrap string error

abbreviation ErrSyntax :: error where
  "ErrSyntax \<equiv> Sentinel ''strconv.ErrSyntax''"

abbreviation ErrRange :: error where
  "ErrRange \<equiv> Sentinel ''strconv.ErrRange''"

abbreviation ErrSliceBounds :: error where
  "ErrSliceBounds \<equiv> Sentinel ''slice bounds out of range''"

text \<open>\<^verbatim>\<open>strconv.ParseUint(s, 10, bits)\<close>: the digit loop with its range check.\<close>

fun parse_digits :: "nat \<Rightarrow> nat \<Rightarrow> bytes \<Rightarrow> error + nat" where
  "parse_digits bits n [] = Inr n"
| "parse_digits bits n (b # bs) =
     (if \<not> is_digit b then Inl ErrSyntax
      else if 2 ^ bits \<le> n * 10 + (unat b - 48) then Inl ErrRange
      else parse_digits bits (n * 10 + (unat b - 48)) bs)"

definition parse_uint :: "nat \<Rightarrow> bytes \<Rightarrow> error + nat" where
  "parse_uint bits bs = (if bs = [] then Inl ErrSyntax else parse_digits bits 0 bs)"

lemma parse_digits_append:
  "parse_digits bits n (xs @ ys) =
     (case parse_digits bits n xs of Inl e \<Rightarrow> Inl e | Inr m \<Rightarrow> parse_digits bits m ys)"
  by (induction xs arbitrary: n) auto

lemma parse_digits_dec: "x < 2 ^ bits \<Longrightarrow> parse_digits bits 0 (dec x) = Inr x"
proof (induction x rule: dec.induct)
  case (1 x)
  show ?case
  proof (cases "x < 10")
    case True
    with 1 show ?thesis by (simp add: dec.simps [of x] unat_digit)
  next
    case False
    moreover from False 1 have "parse_digits bits 0 (dec (x div 10)) = Inr (x div 10)"
      by (meson div_le_dividend le_less_trans)
    ultimately show ?thesis
      using 1 by (simp add: dec.simps [of x] parse_digits_append unat_digit)
  qed
qed

lemma parse_uint_dec [enc_simps, simp]: "x < 2 ^ bits \<Longrightarrow> parse_uint bits (dec x) = Inr x"
  by (simp add: parse_uint_def parse_digits_dec)

lemma parse_digits_less: "parse_digits bits n bs = Inr x \<Longrightarrow> n < 2 ^ bits \<Longrightarrow> x < 2 ^ bits"
  by (induction bits n bs rule: parse_digits.induct) (auto split: if_splits)

lemma parse_uint_less: "parse_uint bits bs = Inr x \<Longrightarrow> x < 2 ^ bits"
  by (auto simp: parse_uint_def split: if_splits dest: parse_digits_less)

lemma parse_digits_mono:
  assumes "m \<le> bits"
  shows "parse_digits m n bs = Inr x \<Longrightarrow> parse_digits bits n bs = Inr x"
proof (induction bs arbitrary: n)
  case (Cons b bs)
  have "y < 2 ^ bits" if "y < 2 ^ m" for y :: nat
    using that assms by (meson less_le_trans one_le_numeral power_increasing)
  then show ?case using Cons by (auto simp: not_le split: if_splits)
qed simp

lemma parse_uint_mono: "parse_uint m bs = Inr x \<Longrightarrow> m \<le> bits \<Longrightarrow> parse_uint bits bs = Inr x"
  by (auto simp: parse_uint_def split: if_splits dest: parse_digits_mono)

lemma dec_inject [simp]: "dec a = dec b \<longleftrightarrow> a = b"
proof
  assume eq: "dec a = dec b"
  let ?n = "a + b"
  have "?n < 2 ^ ?n" by (rule less_exp)
  then have "a < 2 ^ ?n" "b < 2 ^ ?n" by linarith+
  then show "a = b" using eq by (metis parse_uint_dec sum.inject(2))
qed simp

section \<open>Hexadecimal\<close>

text \<open>\<^verbatim>\<open>hex.DecodeString\<close>: pairs of hexadecimal digits.\<close>

definition from_hex_char :: "byte \<Rightarrow> byte option" where
  "from_hex_char c =
     (let x = unat c in
      if 48 \<le> x \<and> x \<le> 57 then Some (of_nat (x - 48))
      else if 97 \<le> x \<and> x \<le> 102 then Some (of_nat (x - 97 + 10))
      else if 65 \<le> x \<and> x \<le> 70 then Some (of_nat (x - 65 + 10))
      else None)"

fun hex_DecodeString :: "bytes \<Rightarrow> error + bytes" where
  "hex_DecodeString (p # q # rest) =
     (case from_hex_char p of None \<Rightarrow> Inl (Errorf ''encoding/hex: invalid byte'')
      | Some a \<Rightarrow> (case from_hex_char q of None \<Rightarrow> Inl (Errorf ''encoding/hex: invalid byte'')
        | Some b \<Rightarrow> map_sum id ((#) (16 * a + b)) (hex_DecodeString rest)))"
| "hex_DecodeString [p] =
     (case from_hex_char p of None \<Rightarrow> Inl (Errorf ''encoding/hex: invalid byte'')
      | Some _ \<Rightarrow> Inl (Errorf ''encoding/hex: odd length hex string''))"
| "hex_DecodeString [] = Inr []"

definition hex_digit :: "nat \<Rightarrow> byte" where
  "hex_digit d = of_nat (if d < 10 then 48 + d else 87 + d)"

text \<open>\<^verbatim>\<open>hex.EncodeToString\<close>.\<close>

definition hex_EncodeToString :: "bytes \<Rightarrow> bytes" where
  "hex_EncodeToString bs = concat (map (\<lambda>b. [hex_digit (unat b div 16), hex_digit (unat b mod 16)]) bs)"

lemma from_hex_char_digit: "d < 16 \<Longrightarrow> from_hex_char (hex_digit d) = Some (of_nat d)"
  by (auto simp: from_hex_char_def hex_digit_def Let_def unat_of_nat_byte)

lemma hex_roundtrip [enc_simps, simp]: "hex_DecodeString (hex_EncodeToString bs) = Inr bs"
proof (induction bs)
  case (Cons b bs)
  have d: "unat b div 16 < 16" using unat_byte_less [of b] by simp
  have "(16 :: byte) * of_nat (unat b div 16) + of_nat (unat b mod 16) = of_nat (16 * (unat b div 16) + unat b mod 16)"
    by (simp only: of_nat_add of_nat_mult of_nat_numeral)
  also have "\<dots> = of_nat (unat b)" by (simp only: mult_div_mod_eq)
  also have "\<dots> = b" by simp
  finally have "(16 :: byte) * of_nat (unat b div 16) + of_nat (unat b mod 16) = b" .
  then show ?case using Cons d by (simp add: hex_EncodeToString_def from_hex_char_digit)
qed (simp add: hex_EncodeToString_def)

section \<open>Computations that may fail or panic\<close>

text \<open>
  A Go function with an error result returns or fails; a run-time panic (\<^verbatim>\<open>panic\<close>, an
  index out of range, a nil dereference, a \<^verbatim>\<open>Must\<close> function) is the third outcome.
\<close>

datatype 'a outcome = Ok 'a | Fail error | Panic error

fun bind_out :: "'a outcome \<Rightarrow> ('a \<Rightarrow> 'b outcome) \<Rightarrow> 'b outcome" where
  "bind_out (Ok a) f = f a"
| "bind_out (Fail e) f = Fail e"
| "bind_out (Panic e) f = Panic e"

fun wrap_out :: "string \<Rightarrow> 'a outcome \<Rightarrow> 'a outcome" where
  "wrap_out m (Ok a) = Ok a"
| "wrap_out m (Fail e) = Fail (Wrap m e)"
| "wrap_out m (Panic e) = Panic e"

fun of_result :: "error + 'a \<Rightarrow> 'a outcome" where
  "of_result (Inr a) = Ok a"
| "of_result (Inl e) = Fail e"

fun must :: "error + 'a \<Rightarrow> 'a outcome" where
  "must (Inr a) = Ok a"
| "must (Inl e) = Panic e"

definition guard_out :: "bool \<Rightarrow> error \<Rightarrow> unit outcome" where
  "guard_out b e = (if b then Ok () else Fail e)"

lemma bind_out_eq_Ok [out_simps]: "bind_out x f = Ok b \<longleftrightarrow> (\<exists>a. x = Ok a \<and> f a = Ok b)"
  by (cases x) auto

lemma bind_out_eq_Panic: "bind_out x f = Panic e \<longleftrightarrow> x = Panic e \<or> (\<exists>a. x = Ok a \<and> f a = Panic e)"
  by (cases x) auto

lemma bind_out_assoc: "bind_out (bind_out x f) g = bind_out x (\<lambda>a. bind_out (f a) g)"
  by (cases x) auto

lemma wrap_out_eq_Ok [out_simps]: "wrap_out m x = Ok a \<longleftrightarrow> x = Ok a"
  by (cases x) auto

lemma wrap_out_eq_Panic [out_simps]: "wrap_out m x = Panic e \<longleftrightarrow> x = Panic e"
  by (cases x) auto

lemma of_result_eq_Ok [out_simps]: "of_result x = Ok a \<longleftrightarrow> x = Inr a"
  by (cases x) auto

lemma must_eq_Ok [out_simps]: "must x = Ok a \<longleftrightarrow> x = Inr a"
  by (cases x) auto

lemma guard_out_eq_Ok [out_simps]: "guard_out b e = Ok u \<longleftrightarrow> b"
  by (simp add: guard_out_def)

lemma of_result_neq_Panic [simp]: "of_result x \<noteq> Panic e"
  by (cases x) auto

lemma guard_out_neq_Panic [simp]: "guard_out b e \<noteq> Panic e'"
  by (simp add: guard_out_def)

text \<open>A loop over a list whose body may fail.\<close>

fun fold_out :: "('a \<Rightarrow> 's \<Rightarrow> 's outcome) \<Rightarrow> 'a list \<Rightarrow> 's \<Rightarrow> 's outcome" where
  "fold_out f [] s = Ok s"
| "fold_out f (x # xs) s = bind_out (f x s) (fold_out f xs)"

section \<open>Options and lists\<close>

lemma option_eqI: "(\<And>a. x = Some a \<longleftrightarrow> y = Some a) \<Longrightarrow> x = y"
  by (cases x; cases y) auto

lemma takeWhile_append_stop:
  "\<forall>x \<in> set xs. P x \<Longrightarrow> rest = [] \<or> \<not> P (hd rest) \<Longrightarrow> takeWhile P (xs @ rest) = xs"
  by (induction xs) (cases rest, auto)

lemma append_eq_split:
  assumes "xs @ us = ys @ vs"
    and "\<forall>x \<in> set xs. P x" "\<forall>y \<in> set ys. P y"
    and "us = [] \<or> \<not> P (hd us)" "vs = [] \<or> \<not> P (hd vs)"
  shows "xs = ys \<and> us = vs"
proof -
  have "takeWhile P (xs @ us) = xs"
    by (rule takeWhile_append_stop [OF assms(2) assms(4)])
  moreover have "takeWhile P (ys @ vs) = ys"
    by (rule takeWhile_append_stop [OF assms(3) assms(5)])
  ultimately have "xs = ys" using assms(1) by simp
  with assms(1) show ?thesis by simp
qed

text \<open>Two association lists in strict key order with the same entries are equal.\<close>

lemma strict_sorted_entries_unique:
  fixes xs ys :: "('k::linorder \<times> 'v) list"
  assumes "sorted_wrt (<) (map fst xs)" and "sorted_wrt (<) (map fst ys)" and "set xs = set ys"
  shows "xs = ys"
proof -
  have "map fst xs = map fst ys"
    using assms by (intro strict_sorted_equal) simp_all
  moreover have "inj_on fst (set xs \<union> set ys)"
    using assms distinct_map strict_sorted_iff by (metis sup.idem)
  ultimately show ?thesis by (rule map_inj_on)
qed

lemma sorted_list_of_set_insert_least:
  fixes x :: "'a::linorder"
  assumes "finite A" and "\<forall>y \<in> A. x < y"
  shows "sorted_list_of_set (insert x A) = x # sorted_list_of_set A"
proof (rule sorted_distinct_set_unique)
  show "sorted (x # sorted_list_of_set A)" using assms by (auto intro: less_imp_le)
  show "distinct (x # sorted_list_of_set A)" using assms by auto
  show "set (sorted_list_of_set (insert x A)) = set (x # sorted_list_of_set A)"
    using assms(1) by (simp del: sorted_list_of_set_insert_remove)
qed (simp_all del: sorted_list_of_set_insert_remove)

lemma sorted_list_of_set_greatest:
  fixes A :: "'a::linorder set"
  assumes "finite A" and "A \<noteq> {}"
  shows "sorted_list_of_set A = sorted_list_of_set (A - {Max A}) @ [Max A]"
proof (rule sorted_distinct_set_unique)
  show "sorted (sorted_list_of_set (A - {Max A}) @ [Max A])"
    using assms by (auto simp: sorted_append)
  show "distinct (sorted_list_of_set (A - {Max A}) @ [Max A])"
    using assms by simp
  show "set (sorted_list_of_set A) = set (sorted_list_of_set (A - {Max A}) @ [Max A])"
    using assms Max_in [OF assms] by (simp add: insert_absorb)
qed simp_all

end
