(* ===== verification/Stores.thy ===== *)
theory Stores
  imports Prelude "HOL-Library.Finite_Map"
begin

text \<open>
  The key-value stores the program is built on. Their code is not part of the repository, so
  every definition that uses a store takes its operations as an argument, and what the code
  relies on is the locale of laws below:
  \<^item> \<open>kv_map\<close>: a byte map with lookup and update;
  \<^item> \<open>kv_store\<close>: \<^verbatim>\<open>storetypes.KVStore\<close> of the Cosmos SDK, with deletion, the prefix
    iterator \<^verbatim>\<open>storetypes.KVStorePrefixIterator\<close>, and the two iterators of
    \<^verbatim>\<open>prefix.NewStore(store, p)\<close> the light client opens;
  \<^item> \<open>core_store\<close>: \<^verbatim>\<open>store.KVStore\<close> of \<^verbatim>\<open>cosmossdk.io/core\<close>, whose operations
    return errors.
  The documentation of the SDK store says that \<^verbatim>\<open>Set\<close> panics on an empty key, so the
  laws speak of non-empty keys only. \<open>mem_kv\<close> and \<open>mem_core\<close>, on a finite map with the
  keys in byte order, are the instances the concrete examples run on.
\<close>

section \<open>Byte maps\<close>

locale kv_map =
  fixes get :: "'s \<Rightarrow> bytes \<Rightarrow> bytes option"
    and put :: "'s \<Rightarrow> bytes \<Rightarrow> bytes \<Rightarrow> 's"
  assumes get_put: "k \<noteq> [] \<Longrightarrow> get (put s k v) k' = (if k' = k then Some v else get s k')"
begin

lemma get_put_same [simp]: "k \<noteq> [] \<Longrightarrow> get (put s k v) k = Some v"
  by (simp add: get_put)

lemma get_put_other: "k \<noteq> [] \<Longrightarrow> k' \<noteq> k \<Longrightarrow> get (put s k v) k' = get s k'"
  by (simp add: get_put)

lemma put_put_commute:
  "k \<noteq> [] \<Longrightarrow> l \<noteq> [] \<Longrightarrow> k \<noteq> l \<Longrightarrow> get (put (put s k v) l w) = get (put (put s l w) k v)"
  by (auto simp: get_put fun_eq_iff)

end

section \<open>The SDK store\<close>

record 's KVStore =
  kv_Get :: "'s \<Rightarrow> bytes \<Rightarrow> bytes option"
  kv_Set :: "'s \<Rightarrow> bytes \<Rightarrow> bytes \<Rightarrow> 's"
  kv_Delete :: "'s \<Rightarrow> bytes \<Rightarrow> 's"
  kv_PrefixIterator :: "'s \<Rightarrow> bytes \<Rightarrow> (bytes \<times> bytes) list"
  kv_SubIterator :: "'s \<Rightarrow> bytes \<Rightarrow> bytes \<Rightarrow> (bytes \<times> bytes) list"
  kv_SubReverseIterator :: "'s \<Rightarrow> bytes \<Rightarrow> bytes \<Rightarrow> (bytes \<times> bytes) list"

locale kv_store = kv_map "kv_Get kv" "kv_Set kv"
  for kv :: "'s KVStore" +
  assumes get_delete:
      "k \<noteq> [] \<Longrightarrow> kv_Get kv (kv_Delete kv s k) k' = (if k' = k then None else kv_Get kv s k')"
    and prefix_iterator_entries:
      "set (kv_PrefixIterator kv s p) = {(k, v). kv_Get kv s k = Some v \<and> prefix p k}"
    and prefix_iterator_sorted: "sorted_wrt (<) (map fst (kv_PrefixIterator kv s p))"
    and sub_iterator_entries:
      "set (kv_SubIterator kv s p a) = {(k, v). kv_Get kv s (p @ k) = Some v \<and> a \<le> k}"
    and sub_iterator_sorted: "sorted_wrt (<) (map fst (kv_SubIterator kv s p a))"
    and sub_reverse_entries:
      "set (kv_SubReverseIterator kv s p b) = {(k, v). kv_Get kv s (p @ k) = Some v \<and> k < b}"
    and sub_reverse_sorted:
      "sorted_wrt (\<lambda>x y. y < x) (map fst (kv_SubReverseIterator kv s p b))"
begin

text \<open>The first entry of an iterator is the least (greatest) key of its range.\<close>

lemma sub_iterator_Nil:
  "kv_SubIterator kv s p a = [] \<longleftrightarrow> (\<forall>k v. kv_Get kv s (p @ k) = Some v \<longrightarrow> \<not> a \<le> k)"
proof -
  have "kv_SubIterator kv s p a = [] \<longleftrightarrow> set (kv_SubIterator kv s p a) = {}" by simp
  then show ?thesis unfolding sub_iterator_entries by blast
qed

lemma sub_iterator_Cons:
  assumes "kv_SubIterator kv s p a = (k, v) # rest"
  shows "kv_Get kv s (p @ k) = Some v" and "a \<le> k"
    and "set rest = {(k', v'). kv_Get kv s (p @ k') = Some v' \<and> a \<le> k' \<and> k < k'}"
proof -
  have all: "insert (k, v) (set rest) = {(k', v'). kv_Get kv s (p @ k') = Some v' \<and> a \<le> k'}"
    using sub_iterator_entries [of s p a] assms by simp
  then have "(k, v) \<in> {(k', v'). kv_Get kv s (p @ k') = Some v' \<and> a \<le> k'}" by blast
  then show "kv_Get kv s (p @ k) = Some v" and "a \<le> k" by simp_all
  have gt: "k < k'" if "(k', v') \<in> set rest" for k' v'
    using sub_iterator_sorted [of s p a] that unfolding assms by fastforce
  show "set rest = {(k', v'). kv_Get kv s (p @ k') = Some v' \<and> a \<le> k' \<and> k < k'}" (is "_ = ?R")
  proof (intro set_eqI iffI)
    fix x assume "x \<in> set rest"
    moreover from this have "x \<in> insert (k, v) (set rest)" by simp
    ultimately show "x \<in> ?R" unfolding all using gt [of "fst x" "snd x"] by auto
  next
    fix x assume x: "x \<in> ?R"
    then have "x \<in> insert (k, v) (set rest)" unfolding all by blast
    moreover from x have "x \<noteq> (k, v)" by auto
    ultimately show "x \<in> set rest" by blast
  qed
qed

lemma sub_iterator_Cons_least:
  assumes "kv_SubIterator kv s p a = (k, v) # rest"
    and "kv_Get kv s (p @ k') = Some v'" and "a \<le> k'"
  shows "k \<le> k'"
proof (cases "k' = k")
  case False
  have "(k', v') \<in> set (kv_SubIterator kv s p a)"
    unfolding sub_iterator_entries using assms(2,3) by simp
  with assms(1) False have "(k', v') \<in> set rest" by auto
  then show ?thesis using sub_iterator_Cons(3) [OF assms(1)] by auto
qed simp

lemma sub_reverse_Nil:
  "kv_SubReverseIterator kv s p b = [] \<longleftrightarrow> (\<forall>k v. kv_Get kv s (p @ k) = Some v \<longrightarrow> \<not> k < b)"
proof -
  have "kv_SubReverseIterator kv s p b = [] \<longleftrightarrow> set (kv_SubReverseIterator kv s p b) = {}" by simp
  then show ?thesis unfolding sub_reverse_entries by blast
qed

lemma sub_reverse_Cons:
  assumes "kv_SubReverseIterator kv s p b = (k, v) # rest"
  shows "kv_Get kv s (p @ k) = Some v" and "k < b"
    and "kv_Get kv s (p @ k') = Some v' \<Longrightarrow> k' < b \<Longrightarrow> k' \<le> k"
proof -
  have "(k, v) \<in> set (kv_SubReverseIterator kv s p b)" using assms by simp
  then show "kv_Get kv s (p @ k) = Some v" and "k < b"
    unfolding sub_reverse_entries by simp_all
  assume "kv_Get kv s (p @ k') = Some v'" and "k' < b"
  then have "(k', v') \<in> set (kv_SubReverseIterator kv s p b)"
    unfolding sub_reverse_entries by simp
  then show "k' \<le> k"
    using sub_reverse_sorted [of s p b] assms by (fastforce intro: less_imp_le)
qed

end

subsection \<open>An in-memory store\<close>

type_synonym mem = "(bytes, bytes) fmap"

definition mem_entries :: "mem \<Rightarrow> (bytes \<times> bytes) list" where
  "mem_entries m = map (\<lambda>k. (k, the (fmlookup m k))) (sorted_list_of_fset (fmdom m))"

definition mem_kv :: "mem KVStore" where
  "mem_kv = \<lparr>kv_Get = fmlookup, kv_Set = (\<lambda>m k v. fmupd k v m), kv_Delete = (\<lambda>m k. fmdrop k m),
     kv_PrefixIterator = (\<lambda>m p. filter (\<lambda>e. prefix p (fst e)) (mem_entries m)),
     kv_SubIterator = (\<lambda>m p a. map (\<lambda>(k, v). (drop (length p) k, v))
        (filter (\<lambda>e. prefix p (fst e) \<and> p @ a \<le> fst e) (mem_entries m))),
     kv_SubReverseIterator = (\<lambda>m p b. rev (map (\<lambda>(k, v). (drop (length p) k, v))
        (filter (\<lambda>e. prefix p (fst e) \<and> fst e < p @ b) (mem_entries m))))\<rparr>"

lemma set_mem_entries: "set (mem_entries m) = {(k, v). fmlookup m k = Some v}"
  by (auto simp: mem_entries_def fmdomI fmlookup_dom_iff image_iff)

lemma sorted_mem_entries: "sorted_wrt (<) (map fst (mem_entries m))"
  by (simp add: mem_entries_def comp_def sorted_list_of_fset.rep_eq strict_sorted_iff)

lemma sorted_wrt_map_filter: "sorted_wrt R (map f xs) \<Longrightarrow> sorted_wrt R (map f (filter P xs))"
  by (induction xs) auto

lemma drop_prefix_less:
  "prefix p k \<Longrightarrow> prefix p l \<Longrightarrow> drop (length p) k < drop (length p) l \<longleftrightarrow> k < (l :: bytes)"
  by (auto simp: prefix_def append_less_same)

lemma sorted_wrt_drop_prefix:
  "sorted_wrt (<) (map fst xs) \<Longrightarrow> \<forall>x \<in> set xs. prefix p (fst x) \<Longrightarrow>
     sorted_wrt (<) (map fst (map (\<lambda>(k, v). (drop (length p) k, v)) (xs :: (bytes \<times> bytes) list)))"
  by (induction xs) (fastforce simp: drop_prefix_less)+

interpretation mem_store: kv_store mem_kv
proof (unfold_locales, goal_cases)
  case (3 s p)
  show ?case by (auto simp: mem_kv_def set_mem_entries)
next
  case (4 s p)
  show ?case by (simp add: mem_kv_def sorted_wrt_map_filter sorted_mem_entries)
next
  case (5 s p a)
  show ?case
    by (force simp: mem_kv_def set_mem_entries prefix_def append_le_same image_iff)
next
  case (6 s p a)
  show ?case
    unfolding mem_kv_def KVStore.simps
    by (rule sorted_wrt_drop_prefix) (auto intro: sorted_wrt_map_filter sorted_mem_entries)
next
  case (7 s p b)
  show ?case
    by (force simp: mem_kv_def set_mem_entries prefix_def append_less_same image_iff)
next
  case (8 s p b)
  show ?case
    unfolding mem_kv_def KVStore.simps rev_map [symmetric] sorted_wrt_rev
    by (rule sorted_wrt_drop_prefix) (auto intro: sorted_wrt_map_filter sorted_mem_entries)
qed (auto simp: mem_kv_def)

section \<open>The core store\<close>

text \<open>\<^verbatim>\<open>store.KVStore\<close> of \<^verbatim>\<open>cosmossdk.io/core\<close>: each operation may fail. \<^verbatim>\<open>Get\<close>
  returns nil for a missing key; the iterators run over the whole store.\<close>

record 's CoreStore =
  c_Get :: "'s \<Rightarrow> bytes \<Rightarrow> bytes option outcome"
  c_Set :: "'s \<Rightarrow> bytes \<Rightarrow> bytes \<Rightarrow> 's outcome"
  c_Delete :: "'s \<Rightarrow> bytes \<Rightarrow> 's outcome"
  c_Iterator :: "'s \<Rightarrow> (bytes \<times> bytes) list outcome"
  c_ReverseIterator :: "'s \<Rightarrow> (bytes \<times> bytes) list outcome"

definition core_lookup :: "'s CoreStore \<Rightarrow> 's \<Rightarrow> bytes \<Rightarrow> bytes option" where
  "core_lookup K s k = (case c_Get K s k of Ok v \<Rightarrow> if k = [] then None else v | _ \<Rightarrow> None)"

text \<open>On non-empty keys and values the operations succeed; reading a nil key is an error or a
  panic.\<close>

locale core_store =
  fixes K :: "'s CoreStore"
  assumes core_get_ok: "k \<noteq> [] \<Longrightarrow> c_Get K s k = Ok (core_lookup K s k)"
    and core_get_nil: "c_Get K s [] \<noteq> Ok ov"
    and core_set_ok: "k \<noteq> [] \<Longrightarrow> v \<noteq> [] \<Longrightarrow> \<exists>t. c_Set K s k v = Ok t \<and> core_lookup K t = (core_lookup K s)(k \<mapsto> v)"
    and core_delete_ok: "k \<noteq> [] \<Longrightarrow> \<exists>t. c_Delete K s k = Ok t \<and> core_lookup K t = (core_lookup K s)(k := None)"
    and core_iterator_ok: "\<exists>es. c_Iterator K s = Ok es \<and> c_ReverseIterator K s = Ok (rev es) \<and>
      set es = {(k, v). core_lookup K s k = Some v} \<and> sorted_wrt (<) (map fst es)"

definition mem_core :: "mem CoreStore" where
  "mem_core = \<lparr>c_Get = (\<lambda>m k. if k = [] then Panic (Errorf ''key is nil or empty'') else Ok (fmlookup m k)),
     c_Set = (\<lambda>m k v. if k = [] \<or> v = [] then Panic (Errorf ''key or value is nil'') else Ok (fmupd k v m)),
     c_Delete = (\<lambda>m k. if k = [] then Panic (Errorf ''key is nil or empty'') else Ok (fmdrop k m)),
     c_Iterator = (\<lambda>m. Ok (filter (\<lambda>e. fst e \<noteq> []) (mem_entries m))),
     c_ReverseIterator = (\<lambda>m. Ok (rev (filter (\<lambda>e. fst e \<noteq> []) (mem_entries m))))\<rparr>"

interpretation mem_core: core_store mem_core
proof (unfold_locales, goal_cases)
  case (5 s)
  have "set (filter (\<lambda>e. fst e \<noteq> []) (mem_entries s)) = {(k, v). core_lookup mem_core s k = Some v}"
    by (auto simp: set_mem_entries core_lookup_def mem_core_def split: if_splits)
  moreover have "sorted_wrt (<) (map fst (filter (\<lambda>e. fst e \<noteq> []) (mem_entries s)))"
    by (intro sorted_wrt_map_filter sorted_mem_entries)
  ultimately show ?case by (simp add: mem_core_def)
qed (auto simp: mem_core_def core_lookup_def fun_eq_iff)

end
