(* ===== verification/Groth16_Types.thy ===== *)
theory Groth16_Types
  imports Prelude
begin

text \<open>
  The data of the Groth16 light client (\<^verbatim>\<open>ibc/lightclients/groth16\<close>): the protobuf
  messages of \<^verbatim>\<open>groth16.pb.go\<close> with their nil-safe getters, the constants of
  \<^verbatim>\<open>consts.go\<close>, the methods of \<^verbatim>\<open>consensus_state.go\<close> and \<^verbatim>\<open>header.go\<close>, and
  the interfaces to the codec and to the key and height conventions of ibc-go, which are
  arguments of the model (records of operations) with their laws in the locales
  \<open>client_codec\<close> and \<open>ibc_host\<close>.
\<close>

section \<open>Time\<close>

text \<open>
  A \<^verbatim>\<open>timestamppb.Timestamp\<close> holds seconds and nanoseconds; a \<^verbatim>\<open>time.Time\<close> is the
  integer number of nanoseconds since the Unix epoch.
\<close>

record Timestamp =
  Seconds :: i64
  Nanos :: "32 word"

type_synonym time = int

text \<open>\<^verbatim>\<open>uint64(t.UnixNano())\<close>: the nanoseconds at 64 bits, wrapping.\<close>

definition UnixNano :: "time \<Rightarrow> u64" where
  "UnixNano t = word_of_int t"

definition day :: time where "day = 24 * 3600 * 10 ^ 9"
definition week :: time where "week = 7 * day"
definition unbondingTime :: time where "unbondingTime = 3 * week"

definition ModuleName :: bytes where "ModuleName = str ''08-groth16''"
definition Groth16ClientType :: bytes where "Groth16ClientType = ModuleName"

lemma unbondingTime_eq: "unbondingTime = 1814400 * 10 ^ 9"
  by (simp add: unbondingTime_def week_def day_def)

section \<open>Messages\<close>

record ClientState =
  LatestHeight :: u64
  StateTransitionVerifierKey :: bytes
  CodeCommitment :: bytes
  GenesisStateRoot :: bytes
  StateMembershipVerifierKey :: bytes
  Groth16Vk :: bytes

record ConsensusState =
  HeaderTimestamp :: "Timestamp option"
  StateRoot :: bytes

record Header =
  StateTransitionProof :: bytes
  PublicValues :: bytes
  TrustedHeight :: i64
  NewestStateRoot :: bytes
  NewestHeight :: u64
  HdrTimestamp :: "Timestamp option"

text \<open>The generated getters take a pointer and return the zero value on nil.\<close>

definition GetLatestHeight :: "ClientState option \<Rightarrow> u64" where
  "GetLatestHeight x = (case x of Some c \<Rightarrow> LatestHeight c | None \<Rightarrow> 0)"
definition GetStateTransitionVerifierKey :: "ClientState option \<Rightarrow> bytes" where
  "GetStateTransitionVerifierKey x = (case x of Some c \<Rightarrow> StateTransitionVerifierKey c | None \<Rightarrow> [])"
definition GetCodeCommitment :: "ClientState option \<Rightarrow> bytes" where
  "GetCodeCommitment x = (case x of Some c \<Rightarrow> CodeCommitment c | None \<Rightarrow> [])"
definition GetGenesisStateRoot :: "ClientState option \<Rightarrow> bytes" where
  "GetGenesisStateRoot x = (case x of Some c \<Rightarrow> GenesisStateRoot c | None \<Rightarrow> [])"
definition GetStateMembershipVerifierKey :: "ClientState option \<Rightarrow> bytes" where
  "GetStateMembershipVerifierKey x = (case x of Some c \<Rightarrow> StateMembershipVerifierKey c | None \<Rightarrow> [])"
definition GetGroth16Vk :: "ClientState option \<Rightarrow> bytes" where
  "GetGroth16Vk x = (case x of Some c \<Rightarrow> Groth16Vk c | None \<Rightarrow> [])"
definition GetHeaderTimestamp :: "ConsensusState option \<Rightarrow> Timestamp option" where
  "GetHeaderTimestamp x = (case x of Some c \<Rightarrow> HeaderTimestamp c | None \<Rightarrow> None)"
definition GetStateRoot :: "ConsensusState option \<Rightarrow> bytes" where
  "GetStateRoot x = (case x of Some c \<Rightarrow> StateRoot c | None \<Rightarrow> [])"
definition GetStateTransitionProof :: "Header option \<Rightarrow> bytes" where
  "GetStateTransitionProof x = (case x of Some h \<Rightarrow> StateTransitionProof h | None \<Rightarrow> [])"
definition GetPublicValues :: "Header option \<Rightarrow> bytes" where
  "GetPublicValues x = (case x of Some h \<Rightarrow> PublicValues h | None \<Rightarrow> [])"
definition GetTrustedHeight :: "Header option \<Rightarrow> i64" where
  "GetTrustedHeight x = (case x of Some h \<Rightarrow> TrustedHeight h | None \<Rightarrow> 0)"
definition GetNewestStateRoot :: "Header option \<Rightarrow> bytes" where
  "GetNewestStateRoot x = (case x of Some h \<Rightarrow> NewestStateRoot h | None \<Rightarrow> [])"
definition GetNewestHeight :: "Header option \<Rightarrow> u64" where
  "GetNewestHeight x = (case x of Some h \<Rightarrow> NewestHeight h | None \<Rightarrow> 0)"
definition Header_GetTimestamp :: "Header option \<Rightarrow> Timestamp option" where
  "Header_GetTimestamp x = (case x of Some h \<Rightarrow> HdrTimestamp h | None \<Rightarrow> None)"

record BlevmAggOutput =
  NewestHeaderHash :: bytes
  OldestHeaderHash :: bytes
  CelestiaHeaderHashes :: "bytes list"
  blevm_NewestStateRoot :: bytes
  blevm_NewestHeight :: u64

section \<open>Heights\<close>

datatype Height = Height (RevisionNumber: u64) (RevisionHeight: u64)

instantiation Height :: linorder
begin

definition less_eq_Height :: "Height \<Rightarrow> Height \<Rightarrow> bool" where
  "a \<le> b \<longleftrightarrow> RevisionNumber a < RevisionNumber b \<or>
     (RevisionNumber a = RevisionNumber b \<and> RevisionHeight a \<le> RevisionHeight b)"

definition less_Height :: "Height \<Rightarrow> Height \<Rightarrow> bool" where
  "a < b \<longleftrightarrow> RevisionNumber a < RevisionNumber b \<or>
     (RevisionNumber a = RevisionNumber b \<and> RevisionHeight a < RevisionHeight b)"

instance
  by standard (auto simp: less_eq_Height_def less_Height_def Height.expand)

end

definition ZeroHeight :: Height where
  "ZeroHeight = Height 0 0"

section \<open>Library interfaces\<close>

text \<open>
  Functions of ibc-go (\<^verbatim>\<open>24-host\<close> keys, \<^verbatim>\<open>02-client\<close> heights and identifiers),
  of the protobuf timestamp package and of \<^verbatim>\<open>cosmos-sdk/types\<close> that the light client
  calls.
\<close>

record IBCLib =
  ConsensusStateKey :: "Height \<Rightarrow> bytes"
  ClientStateKey :: bytes
  KeyConsensusStatePrefix :: bytes
  HeightString :: "Height \<Rightarrow> bytes"
  ParseHeight :: "bytes \<Rightarrow> error + Height"
  LTE :: "Height \<Rightarrow> Height \<Rightarrow> bool"
  GT :: "Height \<Rightarrow> Height \<Rightarrow> bool"
  ParseClientIdentifier :: "bytes \<Rightarrow> error + (bytes \<times> u64)"
  AsTime :: "Timestamp option \<Rightarrow> time"
  timestamppb_New :: "time \<Rightarrow> Timestamp"
  Uint64ToBigEndian :: "u64 \<Rightarrow> bytes"
  BigEndianToUint64 :: "bytes \<Rightarrow> u64 outcome"

text \<open>
  What the client relies on. The key format is the one the comment at the head of
  \<^verbatim>\<open>store.go\<close> documents, \<^verbatim>\<open>consensusStates/{revision_number}-{revision_height}\<close>;
  heights are ordered by revision number first.
\<close>

locale ibc_host =
  fixes L :: IBCLib
  assumes consensus_state_key: "ConsensusStateKey L h = str ''consensusStates/'' @ HeightString L h"
    and height_string:
      "HeightString L h = dec (unat (RevisionNumber h)) @ str ''-'' @ dec (unat (RevisionHeight h))"
    and client_state_key: "ClientStateKey L = str ''clientState''"
    and consensus_prefix: "KeyConsensusStatePrefix L = str ''consensusStates''"
    and parse_height: "ParseHeight L (HeightString L h) = Inr h"
    and lte: "LTE L g h \<longleftrightarrow> g \<le> h"
    and gt: "GT L g h \<longleftrightarrow> h < g"
    and uint64_to_big_endian: "Uint64ToBigEndian L w = be64 w"
    and big_endian_to_uint64: "BigEndianToUint64 L (be64 w) = Ok w"

text \<open>Values behind the \<^verbatim>\<open>exported.ClientState\<close> and \<^verbatim>\<open>exported.ConsensusState\<close>
  interfaces: this client's type, or that of another light client.\<close>

datatype ClientStateI = G16Client ClientState | OtherClient bytes
datatype ConsensusStateI = G16Consensus ConsensusState | OtherConsensus bytes

record Codec =
  MarshalClientState :: "ClientState \<Rightarrow> error + bytes"
  UnmarshalClientState :: "bytes \<Rightarrow> error + ClientStateI"
  MarshalConsensusState :: "ConsensusState \<Rightarrow> error + bytes"
  UnmarshalConsensusState :: "bytes \<Rightarrow> error + ConsensusStateI"
  Unmarshal_into_ClientState :: "bytes \<Rightarrow> error + ClientState"
  Unmarshal_into_ConsensusState :: "bytes \<Rightarrow> error + ConsensusState"

locale client_codec =
  fixes C :: Codec
  assumes client_roundtrip:
      "MarshalClientState C cs = Inr bz \<Longrightarrow> UnmarshalClientState C bz = Inr (G16Client cs) \<and> bz \<noteq> []"
    and consensus_roundtrip:
      "MarshalConsensusState C s = Inr bz \<Longrightarrow>
         UnmarshalConsensusState C bz = Inr (G16Consensus s) \<and> bz \<noteq> []"

section \<open>Methods of the consensus state and of the header\<close>

definition NewConsensusState :: "IBCLib \<Rightarrow> time \<Rightarrow> bytes \<Rightarrow> ConsensusState" where
  "NewConsensusState L timestamp root =
     \<lparr>HeaderTimestamp = Some (timestamppb_New L timestamp), StateRoot = root\<rparr>"

definition ConsensusState_ClientType :: "ConsensusState \<Rightarrow> bytes" where
  "ConsensusState_ClientType cs = Groth16ClientType"

definition GetRoot :: "ConsensusState \<Rightarrow> bytes" where
  "GetRoot cs = StateRoot cs"

definition GetTimestamp :: "IBCLib \<Rightarrow> ConsensusState \<Rightarrow> u64" where
  "GetTimestamp L cs = UnixNano (AsTime L (HeaderTimestamp cs))"

definition ConsensusState_ValidateBasic :: "ConsensusState \<Rightarrow> unit outcome" where
  "ConsensusState_ValidateBasic cs = Ok ()"

definition IsExpired :: "IBCLib \<Rightarrow> ConsensusState \<Rightarrow> time \<Rightarrow> bool" where
  "IsExpired L cs blockTime \<longleftrightarrow> AsTime L (HeaderTimestamp cs) + unbondingTime > blockTime"

definition Header_ClientType :: "Header \<Rightarrow> bytes" where
  "Header_ClientType h = Groth16ClientType"

definition GetHeight :: "Header \<Rightarrow> Height" where
  "GetHeight h = Height 0 (NewestHeight h)"

definition Header_ValidateBasic :: "Header \<Rightarrow> unit outcome" where
  "Header_ValidateBasic h = Ok ()"

section \<open>An instance of the libraries\<close>

text \<open>
  Concrete functions that satisfy the two contracts, for the examples: the codec writes each
  field of a message as a self-delimiting byte string.
\<close>

text \<open>A byte string as a self-delimiting field: each byte is flagged, and a zero ends it.\<close>

fun put_field :: "bytes \<Rightarrow> bytes" where
  "put_field [] = [0]"
| "put_field (b # bs) = 1 # b # put_field bs"

fun get_field :: "bytes \<Rightarrow> (bytes \<times> bytes) option" where
  "get_field (x # b # bs) =
     (if x = 0 then Some ([], b # bs) else map_option (\<lambda>(f, r). (b # f, r)) (get_field bs))"
| "get_field [x] = (if x = 0 then Some ([], []) else None)"
| "get_field [] = None"

lemma get_put_field [simp]: "get_field (put_field f @ r) = Some (f, r)"
proof (induction f)
  case Nil
  then show ?case by (cases r) simp_all
qed simp

lemma put_field_neq_Nil [simp]: "put_field f \<noteq> []"
  by (cases f) simp_all

definition put_fields :: "bytes list \<Rightarrow> bytes" where
  "put_fields fs = concat (map put_field fs)"

fun get_fields :: "nat \<Rightarrow> bytes \<Rightarrow> bytes list option" where
  "get_fields 0 bs = (if bs = [] then Some [] else None)"
| "get_fields (Suc n) bs = (case get_field bs of None \<Rightarrow> None
     | Some (f, r) \<Rightarrow> map_option ((#) f) (get_fields n r))"

lemma get_put_fields [simp]: "length fs = n \<Longrightarrow> get_fields n (put_fields fs) = Some fs"
  by (induction fs arbitrary: n) (auto simp: put_fields_def)

definition put_time :: "Timestamp option \<Rightarrow> bytes" where
  "put_time t = (case t of None \<Rightarrow> [] | Some ts \<Rightarrow> be64 (Seconds ts) @ be_bytes 4 (unat (Nanos ts)))"

definition get_time :: "bytes \<Rightarrow> Timestamp option" where
  "get_time bs = (case read_be64 bs of None \<Rightarrow> None
     | Some s \<Rightarrow> Some \<lparr>Seconds = s, Nanos = of_nat (be_val (drop 8 bs))\<rparr>)"

lemma get_put_time [simp]: "get_time (put_time t) = t"
proof (cases t)
  case None
  then show ?thesis by (simp add: put_time_def get_time_def read_be64_def)
next
  case (Some ts)
  have "unat (Nanos ts) < 256 ^ 4" using unsigned_less [of "Nanos ts"] by simp
  then show ?thesis using Some
    by (simp add: put_time_def get_time_def be_val_be_bytes del: power_numeral)
qed

definition mini_get_client :: "bytes \<Rightarrow> error + ClientState" where
  "mini_get_client bz = (case get_fields 6 bz of
       Some [h, a, b, c, d, e] \<Rightarrow> (case read_be64 h of None \<Rightarrow> Inl (Errorf ''proto: client'')
         | Some w \<Rightarrow> Inr \<lparr>LatestHeight = w, StateTransitionVerifierKey = a, CodeCommitment = b,
             GenesisStateRoot = c, StateMembershipVerifierKey = d, Groth16Vk = e\<rparr>)
     | _ \<Rightarrow> Inl (Errorf ''proto: client''))"

definition mini_get_consensus :: "bytes \<Rightarrow> error + ConsensusState" where
  "mini_get_consensus bz = (case get_fields 2 bz of
       Some [t, r] \<Rightarrow> Inr \<lparr>HeaderTimestamp = get_time t, StateRoot = r\<rparr>
     | _ \<Rightarrow> Inl (Errorf ''proto: consensus''))"

definition mini_put_client :: "ClientState \<Rightarrow> bytes" where
  "mini_put_client c = put_fields [be64 (LatestHeight c), StateTransitionVerifierKey c,
     CodeCommitment c, GenesisStateRoot c, StateMembershipVerifierKey c, Groth16Vk c]"

definition mini_put_consensus :: "ConsensusState \<Rightarrow> bytes" where
  "mini_put_consensus s = put_fields [put_time (HeaderTimestamp s), StateRoot s]"

lemma mini_get_put [simp]:
  "mini_get_client (mini_put_client c) = Inr c" "mini_get_consensus (mini_put_consensus s) = Inr s"
  by (simp_all add: mini_get_client_def mini_put_client_def mini_get_consensus_def mini_put_consensus_def)

lemma mini_put_neq_Nil [simp]: "mini_put_client c \<noteq> []" "mini_put_consensus s \<noteq> []"
  by (simp_all add: mini_put_client_def mini_put_consensus_def put_fields_def)

definition mini_codec :: Codec where
  "mini_codec = \<lparr>
     MarshalClientState = (\<lambda>c. Inr (mini_put_client c)),
     UnmarshalClientState = map_sum id G16Client \<circ> mini_get_client,
     MarshalConsensusState = (\<lambda>s. Inr (mini_put_consensus s)),
     UnmarshalConsensusState = map_sum id G16Consensus \<circ> mini_get_consensus,
     Unmarshal_into_ClientState = mini_get_client,
     Unmarshal_into_ConsensusState = mini_get_consensus\<rparr>"

interpretation mini: client_codec mini_codec
  by unfold_locales (auto simp: mini_codec_def)

definition std_parse_height :: "bytes \<Rightarrow> error + Height" where
  "std_parse_height bs =
     (case (parse_uint 64 (takeWhile is_digit bs), parse_uint 64 (tl (dropWhile is_digit bs))) of
        (Inr r, Inr h) \<Rightarrow> Inr (Height (of_nat r) (of_nat h))
      | _ \<Rightarrow> Inl (Errorf ''invalid height''))"

definition std_height_string :: "Height \<Rightarrow> bytes" where
  "std_height_string h = dec (unat (RevisionNumber h)) @ str ''-'' @ dec (unat (RevisionHeight h))"

definition std_lib :: IBCLib where
  "std_lib = \<lparr>ConsensusStateKey = (\<lambda>h. str ''consensusStates/'' @ std_height_string h),
     ClientStateKey = str ''clientState'', KeyConsensusStatePrefix = str ''consensusStates'',
     HeightString = std_height_string, ParseHeight = std_parse_height,
     LTE = (\<le>), GT = (>),
     ParseClientIdentifier = (\<lambda>b. Inr (take 13 b, 0)),
     AsTime = (\<lambda>t. case t of None \<Rightarrow> 0 | Some ts \<Rightarrow> sint (Seconds ts) * 10 ^ 9 + sint (Nanos ts)),
     timestamppb_New = (\<lambda>t. \<lparr>Seconds = word_of_int (t div 10 ^ 9), Nanos = word_of_int (t mod 10 ^ 9)\<rparr>),
     Uint64ToBigEndian = be64,
     BigEndianToUint64 = (\<lambda>bs. if bs = [] then Ok 0 else case read_be64 bs of
        None \<Rightarrow> Panic ErrSliceBounds | Some w \<Rightarrow> Ok w)\<rparr>"

lemma std_parse_height_string: "std_parse_height (std_height_string h) = Inr h"
proof -
  let ?r = "dec (unat (RevisionNumber h))" and ?s = "byte_of_char (CHR ''-'') # dec (unat (RevisionHeight h))"
  have t: "takeWhile is_digit (?r @ ?s) = ?r"
    by (rule takeWhile_append_stop) (auto dest: dec_digits)
  have "?r @ dropWhile is_digit (?r @ ?s) = ?r @ ?s"
    by (metis t takeWhile_dropWhile_id)
  then have d: "dropWhile is_digit (?r @ ?s) = ?s" by simp
  have "unat (RevisionNumber h) < 2 ^ 64" "unat (RevisionHeight h) < 2 ^ 64"
    using unat_u64_less by simp_all
  then show ?thesis
    unfolding std_parse_height_def std_height_string_def using t d by simp
qed

interpretation std: ibc_host std_lib
proof (unfold_locales, goal_cases)
  case (5 h)
  show ?case by (simp add: std_lib_def std_parse_height_string)
qed (simp_all add: std_lib_def std_height_string_def)

end
