(* ===== verification/Groth16_Store.thy ===== *)
theory Groth16_Store
  imports Stores Groth16_Types
begin

text \<open>
  The client store of the Groth16 light client, \<^verbatim>\<open>ibc/lightclients/groth16/store.go\<close>:
  the key layout, reading and writing client and consensus states, the consensus metadata
  (processed time, processed height, iteration key), ordered iteration, and pruning.
  An \<open>Env\<close> bundles the libraries the functions call; the store is state that is passed in
  and returned. The Go iterators are the lists of entries they run through, opened on the
  store as it is when the iterator is created.
\<close>

section \<open>Environment and context\<close>

record 's Env =
  kv :: "'s KVStore"
  lib :: IBCLib
  cdc :: Codec

text \<open>What the functions read of \<^verbatim>\<open>sdk.Context\<close>: the block time and
  \<^verbatim>\<open>clienttypes.GetSelfHeight(ctx)\<close>.\<close>

record Context =
  BlockTime :: time
  SelfHeight :: Height

abbreviation ErrConsensusStateNotFound :: error where
  "ErrConsensusStateNotFound \<equiv> Sentinel ''consensus state not found''"
abbreviation ErrInvalidConsensus :: error where
  "ErrInvalidConsensus \<equiv> Sentinel ''invalid consensus state''"

section \<open>Keys\<close>

definition KeyIterateConsensusStatePrefix :: bytes where
  "KeyIterateConsensusStatePrefix = str ''iterateConsensusStates''"
definition KeyProcessedTime :: bytes where
  "KeyProcessedTime = str ''/processedTime''"
definition KeyProcessedHeight :: bytes where
  "KeyProcessedHeight = str ''/processedHeight''"
definition KeyIteration :: bytes where
  "KeyIteration = str ''/iterationKey''"

definition ProcessedTimeKey :: "IBCLib \<Rightarrow> Height \<Rightarrow> bytes" where
  "ProcessedTimeKey L height = ConsensusStateKey L height @ KeyProcessedTime"

definition ProcessedHeightKey :: "IBCLib \<Rightarrow> Height \<Rightarrow> bytes" where
  "ProcessedHeightKey L height = ConsensusStateKey L height @ KeyProcessedHeight"

definition bigEndianHeightBytes :: "Height \<Rightarrow> bytes" where
  "bigEndianHeightBytes height = be64 (RevisionNumber height) @ be64 (RevisionHeight height)"

definition IterationKey :: "Height \<Rightarrow> bytes" where
  "IterationKey height = KeyIterateConsensusStatePrefix @ bigEndianHeightBytes height"

text \<open>The two slice expressions and the two eight-byte reads panic on a short key.\<close>

definition GetHeightFromIterationKey :: "bytes \<Rightarrow> Height outcome" where
  "GetHeightFromIterationKey iterKey =
     (if length iterKey < length KeyIterateConsensusStatePrefix then Panic ErrSliceBounds
      else let bigEndianBytes = drop (length KeyIterateConsensusStatePrefix) iterKey in
        if length bigEndianBytes < 8 then Panic ErrSliceBounds
        else case (read_be64 (take 8 bigEndianBytes), read_be64 (drop 8 bigEndianBytes)) of
            (Some revision, Some height) \<Rightarrow> Ok (Height revision height)
          | _ \<Rightarrow> Panic ErrSliceBounds)"

section \<open>Client and consensus states\<close>

text \<open>\<^verbatim>\<open>store.Get\<close> returns nil for a missing key; the callers test the length.\<close>

definition store_Get :: "'s Env \<Rightarrow> 's \<Rightarrow> bytes \<Rightarrow> bytes" where
  "store_Get E s k = (case kv_Get (kv E) s k of None \<Rightarrow> [] | Some bz \<Rightarrow> bz)"

definition SetConsensusState :: "'s Env \<Rightarrow> 's \<Rightarrow> ConsensusState \<Rightarrow> Height \<Rightarrow> 's outcome" where
  "SetConsensusState E s consensusState height =
     bind_out (must (MarshalConsensusState (cdc E) consensusState))
       (\<lambda>val. Ok (kv_Set (kv E) s (ConsensusStateKey (lib E) height) val))"

definition setClientState :: "'s Env \<Rightarrow> 's \<Rightarrow> ClientState \<Rightarrow> 's outcome" where
  "setClientState E s clientState =
     bind_out (must (MarshalClientState (cdc E) clientState))
       (\<lambda>val. Ok (kv_Set (kv E) s (ClientStateKey (lib E)) val))"

definition GetConsensusState :: "'s Env \<Rightarrow> 's \<Rightarrow> Height \<Rightarrow> ConsensusState outcome" where
  "GetConsensusState E s height =
     (let bz = store_Get E s (ConsensusStateKey (lib E) height) in
      if bz = [] then Fail (Wrap ''consensus state does not exist for height'' ErrConsensusStateNotFound)
      else case UnmarshalConsensusState (cdc E) bz of
          Inl e \<Rightarrow> Fail (Wrap ''unmarshal error'' ErrInvalidConsensus)
        | Inr (OtherConsensus _) \<Rightarrow> Fail (Wrap ''invalid consensus type'' ErrInvalidConsensus)
        | Inr (G16Consensus cs) \<Rightarrow> Ok cs)"

text \<open>The result is the pointer and the found flag: \<open>None\<close> is (nil, false).\<close>

definition getClientState :: "'s Env \<Rightarrow> 's \<Rightarrow> ClientState option outcome" where
  "getClientState E s =
     (let bz = store_Get E s (ClientStateKey (lib E)) in
      if bz = [] then Ok None
      else bind_out (must (UnmarshalClientState (cdc E) bz))
        (\<lambda>i. case i of G16Client cs \<Rightarrow> Ok (Some cs)
              | OtherClient _ \<Rightarrow> Panic (Errorf ''cannot convert client state'')))"

definition deleteConsensusState :: "'s Env \<Rightarrow> 's \<Rightarrow> Height \<Rightarrow> 's" where
  "deleteConsensusState E s height = kv_Delete (kv E) s (ConsensusStateKey (lib E) height)"

section \<open>Consensus metadata\<close>

definition SetProcessedTime :: "'s Env \<Rightarrow> 's \<Rightarrow> Height \<Rightarrow> u64 \<Rightarrow> 's" where
  "SetProcessedTime E s height timeNs =
     kv_Set (kv E) s (ProcessedTimeKey (lib E) height) (Uint64ToBigEndian (lib E) timeNs)"

definition GetProcessedTime :: "'s Env \<Rightarrow> 's \<Rightarrow> Height \<Rightarrow> u64 option outcome" where
  "GetProcessedTime E s height =
     (let bz = store_Get E s (ProcessedTimeKey (lib E) height) in
      if bz = [] then Ok None else bind_out (BigEndianToUint64 (lib E) bz) (\<lambda>t. Ok (Some t)))"

definition deleteProcessedTime :: "'s Env \<Rightarrow> 's \<Rightarrow> Height \<Rightarrow> 's" where
  "deleteProcessedTime E s height = kv_Delete (kv E) s (ProcessedTimeKey (lib E) height)"

definition SetProcessedHeight :: "'s Env \<Rightarrow> 's \<Rightarrow> Height \<Rightarrow> Height \<Rightarrow> 's" where
  "SetProcessedHeight E s consHeight processedHeight =
     kv_Set (kv E) s (ProcessedHeightKey (lib E) consHeight) (HeightString (lib E) processedHeight)"

definition GetProcessedHeight :: "'s Env \<Rightarrow> 's \<Rightarrow> Height \<Rightarrow> Height option" where
  "GetProcessedHeight E s height =
     (let bz = store_Get E s (ProcessedHeightKey (lib E) height) in
      if bz = [] then None
      else case ParseHeight (lib E) bz of Inl _ \<Rightarrow> None | Inr h \<Rightarrow> Some h)"

definition deleteProcessedHeight :: "'s Env \<Rightarrow> 's \<Rightarrow> Height \<Rightarrow> 's" where
  "deleteProcessedHeight E s height = kv_Delete (kv E) s (ProcessedHeightKey (lib E) height)"

definition SetIterationKey :: "'s Env \<Rightarrow> 's \<Rightarrow> Height \<Rightarrow> 's" where
  "SetIterationKey E s height =
     kv_Set (kv E) s (IterationKey height) (ConsensusStateKey (lib E) height)"

definition GetIterationKey :: "'s Env \<Rightarrow> 's \<Rightarrow> Height \<Rightarrow> bytes" where
  "GetIterationKey E s height = store_Get E s (IterationKey height)"

definition deleteIterationKey :: "'s Env \<Rightarrow> 's \<Rightarrow> Height \<Rightarrow> 's" where
  "deleteIterationKey E s height = kv_Delete (kv E) s (IterationKey height)"

definition setConsensusMetadataWithValues ::
    "'s Env \<Rightarrow> 's \<Rightarrow> Height \<Rightarrow> Height \<Rightarrow> u64 \<Rightarrow> 's" where
  "setConsensusMetadataWithValues E s height processedHeight processedTime =
     (let s1 = SetProcessedTime E s height processedTime;
          s2 = SetProcessedHeight E s1 height processedHeight
      in SetIterationKey E s2 height)"

definition setConsensusMetadata :: "'s Env \<Rightarrow> Context \<Rightarrow> 's \<Rightarrow> Height \<Rightarrow> 's" where
  "setConsensusMetadata E ctx s height =
     setConsensusMetadataWithValues E s height (SelfHeight ctx) (UnixNano (BlockTime ctx))"

definition deleteConsensusMetadata :: "'s Env \<Rightarrow> 's \<Rightarrow> Height \<Rightarrow> 's" where
  "deleteConsensusMetadata E s height =
     (let s1 = deleteProcessedTime E s height;
          s2 = deleteProcessedHeight E s1 height
      in deleteIterationKey E s2 height)"

section \<open>Iteration\<close>

text \<open>\<^verbatim>\<open>strings.Split(s, "/")\<close>.\<close>

fun split_on :: "byte \<Rightarrow> bytes \<Rightarrow> bytes list" where
  "split_on c [] = [[]]"
| "split_on c (b # bs) =
     (if b = c then [] # split_on c bs
      else case split_on c bs of [] \<Rightarrow> [[b]] | w # ws \<Rightarrow> (b # w) # ws)"

text \<open>The callback may keep state of its own, here the accumulator \<open>acc\<close>; its Boolean
  result asks the loop it is called from to stop.\<close>

type_synonym 'a meta_cb = "'a \<Rightarrow> bytes \<Rightarrow> bytes \<Rightarrow> 'a \<times> bool"

fun iterate_metadata_keys :: "'a meta_cb \<Rightarrow> 'a \<Rightarrow> (bytes \<times> bytes) list \<Rightarrow> 'a" where
  "iterate_metadata_keys cb acc [] = acc"
| "iterate_metadata_keys cb acc ((k, v) # rest) =
     (let keySplit = split_on (byte_of_char (CHR ''/'')) k in
      if length keySplit \<noteq> 3 then iterate_metadata_keys cb acc rest
      else if keySplit ! 2 \<noteq> str ''processedTime'' \<and> keySplit ! 2 \<noteq> str ''processedHeight''
        then iterate_metadata_keys cb acc rest
      else case cb acc k v of (acc', stop) \<Rightarrow>
        if stop then acc' else iterate_metadata_keys cb acc' rest)"

fun iterate_iteration_keys :: "'a meta_cb \<Rightarrow> 'a \<Rightarrow> (bytes \<times> bytes) list \<Rightarrow> 'a" where
  "iterate_iteration_keys cb acc [] = acc"
| "iterate_iteration_keys cb acc ((k, v) # rest) =
     (case cb acc k v of (acc', stop) \<Rightarrow>
        if stop then acc' else iterate_iteration_keys cb acc' rest)"

definition IterateConsensusMetadata :: "'s Env \<Rightarrow> 's \<Rightarrow> 'a meta_cb \<Rightarrow> 'a \<Rightarrow> 'a" where
  "IterateConsensusMetadata E s cb acc =
     iterate_iteration_keys cb
       (iterate_metadata_keys cb acc (kv_PrefixIterator (kv E) s (KeyConsensusStatePrefix (lib E))))
       (kv_PrefixIterator (kv E) s KeyIterateConsensusStatePrefix)"

fun iterate_heights :: "('a \<Rightarrow> Height \<Rightarrow> 'a \<times> bool) \<Rightarrow> 'a \<Rightarrow> (bytes \<times> bytes) list \<Rightarrow> 'a outcome" where
  "iterate_heights cb acc [] = Ok acc"
| "iterate_heights cb acc ((k, v) # rest) =
     bind_out (GetHeightFromIterationKey k)
       (\<lambda>height. case cb acc height of (acc', stop) \<Rightarrow>
          if stop then Ok acc' else iterate_heights cb acc' rest)"

definition IterateConsensusStateAscending ::
    "'s Env \<Rightarrow> 's \<Rightarrow> ('a \<Rightarrow> Height \<Rightarrow> 'a \<times> bool) \<Rightarrow> 'a \<Rightarrow> 'a outcome" where
  "IterateConsensusStateAscending E s cb acc =
     iterate_heights cb acc (kv_PrefixIterator (kv E) s KeyIterateConsensusStatePrefix)"

definition getTmConsensusState :: "'s Env \<Rightarrow> 's \<Rightarrow> bytes \<Rightarrow> ConsensusState option" where
  "getTmConsensusState E s key =
     (let bz = store_Get E s key in
      if bz = [] then None
      else case UnmarshalConsensusState (cdc E) bz of
          Inl _ \<Rightarrow> None
        | Inr (OtherConsensus _) \<Rightarrow> None
        | Inr (G16Consensus cs) \<Rightarrow> Some cs)"

definition GetNextConsensusState :: "'s Env \<Rightarrow> 's \<Rightarrow> Height \<Rightarrow> ConsensusState option" where
  "GetNextConsensusState E s height =
     (case kv_SubIterator (kv E) s KeyIterateConsensusStatePrefix (bigEndianHeightBytes height) of
        [] \<Rightarrow> None
      | (k, csKey) # rest \<Rightarrow>
          if csKey = ConsensusStateKey (lib E) height then
            (case rest of [] \<Rightarrow> None | (k', csKey') # _ \<Rightarrow> getTmConsensusState E s csKey')
          else getTmConsensusState E s csKey)"

definition GetPreviousConsensusState :: "'s Env \<Rightarrow> 's \<Rightarrow> Height \<Rightarrow> ConsensusState option" where
  "GetPreviousConsensusState E s height =
     (case kv_SubReverseIterator (kv E) s KeyIterateConsensusStatePrefix (bigEndianHeightBytes height) of
        [] \<Rightarrow> None
      | (k, csKey) # _ \<Rightarrow> getTmConsensusState E s csKey)"

section \<open>Pruning\<close>

definition pruneCb :: "'s Env \<Rightarrow> Context \<Rightarrow> 's \<Rightarrow> Height list \<Rightarrow> Height \<Rightarrow> Height list \<times> bool" where
  "pruneCb E ctx s heights height =
     (case GetConsensusState E s height of
        Ok consState \<Rightarrow>
          (if IsExpired (lib E) consState (BlockTime ctx) then heights @ [height] else heights, False)
      | _ \<Rightarrow> (heights, True))"

fun delete_heights :: "'s Env \<Rightarrow> 's \<Rightarrow> Height list \<Rightarrow> 's" where
  "delete_heights E s [] = s"
| "delete_heights E s (height # heights) =
     delete_heights E (deleteConsensusMetadata E (deleteConsensusState E s height) height) heights"

definition PruneAllExpiredConsensusStates :: "'s Env \<Rightarrow> Context \<Rightarrow> 's \<Rightarrow> 's outcome" where
  "PruneAllExpiredConsensusStates E ctx s =
     bind_out (IterateConsensusStateAscending E s (pruneCb E ctx s) [])
       (\<lambda>heights. Ok (delete_heights E s heights))"

section \<open>The key layout\<close>

lemma length_bigEndianHeightBytes [simp]: "length (bigEndianHeightBytes h) = 16"
  by (simp add: bigEndianHeightBytes_def)

lemma bigEndianHeightBytes_inject [simp]: "bigEndianHeightBytes g = bigEndianHeightBytes h \<longleftrightarrow> g = h"
  by (auto simp: bigEndianHeightBytes_def Height.expand)

lemma bigEndianHeightBytes_less [lex_simps]: "bigEndianHeightBytes g < bigEndianHeightBytes h \<longleftrightarrow> g < h"
  by (simp add: bigEndianHeightBytes_def append_less_same_length be64_less less_Height_def)

lemma bigEndianHeightBytes_le [lex_simps]: "bigEndianHeightBytes g \<le> bigEndianHeightBytes h \<longleftrightarrow> g \<le> h"
  by (simp add: order.order_iff_strict bigEndianHeightBytes_less)

lemma sixteen_bytes_height:
  assumes "length bs = 16"
  obtains h where "bs = bigEndianHeightBytes h"
proof -
  obtain a b where "take 8 bs = be64 a" "drop 8 bs = be64 b"
    using assms eight_bytes_be64 [of "take 8 bs"] eight_bytes_be64 [of "drop 8 bs"]
    by (metis add_diff_cancel_left' length_drop length_take min.absorb2 numeral_Bit0 le_add1)
  then have "bs = bigEndianHeightBytes (Height a b)"
    by (metis Height.sel append_take_drop_id bigEndianHeightBytes_def)
  then show ?thesis by (rule that)
qed

lemma IterationKey_inject [simp]: "IterationKey g = IterationKey h \<longleftrightarrow> g = h"
  by (simp add: IterationKey_def)

lemma IterationKey_less [lex_simps]: "IterationKey g < IterationKey h \<longleftrightarrow> g < h"
  by (simp add: IterationKey_def append_less_same bigEndianHeightBytes_less)

lemma IterationKey_neq_Nil [simp]: "IterationKey h \<noteq> []"
  by (simp add: IterationKey_def KeyIterateConsensusStatePrefix_def)

lemma GetHeightFromIterationKey_IterationKey [simp]:
  "GetHeightFromIterationKey (IterationKey h) = Ok h"
  by (simp add: GetHeightFromIterationKey_def IterationKey_def Let_def bigEndianHeightBytes_def)

abbreviation slash :: byte where
  "slash \<equiv> byte_of_char (CHR ''/'')"

lemma dec_sep_inject:
  assumes "\<not> is_digit c"
  shows "dec a @ c # xs = dec b @ c # ys \<longleftrightarrow> a = b \<and> xs = ys"
proof
  assume "dec a @ c # xs = dec b @ c # ys"
  then have "dec a = dec b \<and> c # xs = c # ys"
    by (rule append_eq_split [where P = is_digit]) (use assms in \<open>auto dest: dec_digits\<close>)
  then show "a = b \<and> xs = ys" by simp
qed simp

context ibc_host
begin

lemma HeightString_inject [simp]: "HeightString L g = HeightString L h \<longleftrightarrow> g = h"
  by (auto simp: height_string dec_sep_inject word_unat_eq_iff intro: Height.expand)

lemma HeightString_no_slash: "\<forall>b \<in> set (HeightString L h). b \<noteq> slash"
  using dec_digits not_digit_separators(2) by (fastforce simp: height_string)

lemma HeightString_neq_Nil [simp]: "HeightString L h \<noteq> []"
  by (simp add: height_string)

text \<open>A height string is a full path segment: what follows it, if anything, starts with a
  slash, so two keys that agree have the same height and the same suffix.\<close>

lemma HeightString_segment:
  assumes "us = [] \<or> hd us = slash" and "vs = [] \<or> hd vs = slash"
  shows "HeightString L g @ us = HeightString L h @ vs \<longleftrightarrow> g = h \<and> us = vs"
proof
  assume "HeightString L g @ us = HeightString L h @ vs"
  then have "HeightString L g = HeightString L h \<and> us = vs"
    by (rule append_eq_split [where P = "\<lambda>b. b \<noteq> slash"])
      (use assms HeightString_no_slash in auto)
  then show "g = h \<and> us = vs" by simp
qed simp

lemmas key_defs = consensus_state_key ProcessedTimeKey_def ProcessedHeightKey_def
  client_state_key IterationKey_def KeyProcessedTime_def KeyProcessedHeight_def
  KeyIterateConsensusStatePrefix_def

lemma cons_key_cases [simp]:
  "ConsensusStateKey L g = ConsensusStateKey L h \<longleftrightarrow> g = h"
  "ProcessedTimeKey L g = ProcessedTimeKey L h \<longleftrightarrow> g = h"
  "ProcessedHeightKey L g = ProcessedHeightKey L h \<longleftrightarrow> g = h"
  by (simp_all add: consensus_state_key ProcessedTimeKey_def ProcessedHeightKey_def)

lemma cons_key_disjoint [simp]:
  "ConsensusStateKey L g \<noteq> ProcessedTimeKey L h" "ProcessedTimeKey L h \<noteq> ConsensusStateKey L g"
  "ConsensusStateKey L g \<noteq> ProcessedHeightKey L h" "ProcessedHeightKey L h \<noteq> ConsensusStateKey L g"
  "ProcessedTimeKey L g \<noteq> ProcessedHeightKey L h" "ProcessedHeightKey L h \<noteq> ProcessedTimeKey L g"
  using HeightString_segment [of "[]" KeyProcessedTime g h] HeightString_segment [of "[]" KeyProcessedHeight g h]
    HeightString_segment [of KeyProcessedTime KeyProcessedHeight g h]
  by (auto simp: consensus_state_key ProcessedTimeKey_def ProcessedHeightKey_def KeyProcessedTime_def
      KeyProcessedHeight_def)

lemma key_kind_disjoint [simp]:
  "IterationKey g \<noteq> ConsensusStateKey L h" "ConsensusStateKey L h \<noteq> IterationKey g"
  "IterationKey g \<noteq> ProcessedTimeKey L h" "ProcessedTimeKey L h \<noteq> IterationKey g"
  "IterationKey g \<noteq> ProcessedHeightKey L h" "ProcessedHeightKey L h \<noteq> IterationKey g"
  "ClientStateKey L \<noteq> ConsensusStateKey L h" "ConsensusStateKey L h \<noteq> ClientStateKey L"
  "ClientStateKey L \<noteq> ProcessedTimeKey L h" "ProcessedTimeKey L h \<noteq> ClientStateKey L"
  "ClientStateKey L \<noteq> ProcessedHeightKey L h" "ProcessedHeightKey L h \<noteq> ClientStateKey L"
  "ClientStateKey L \<noteq> IterationKey h" "IterationKey h \<noteq> ClientStateKey L"
  by (simp_all add: key_defs)

lemma key_neq_Nil [simp]:
  "ConsensusStateKey L h \<noteq> []" "ProcessedTimeKey L h \<noteq> []" "ProcessedHeightKey L h \<noteq> []"
  "ClientStateKey L \<noteq> []" "[] \<noteq> ConsensusStateKey L h"
  by (simp_all add: key_defs)

lemma not_iteration_prefix [simp]:
  "\<not> prefix KeyIterateConsensusStatePrefix (ConsensusStateKey L h)"
  "\<not> prefix KeyIterateConsensusStatePrefix (ProcessedTimeKey L h)"
  "\<not> prefix KeyIterateConsensusStatePrefix (ProcessedHeightKey L h)"
  "\<not> prefix KeyIterateConsensusStatePrefix (ClientStateKey L)"
  by (simp_all add: key_defs)

lemma iteration_prefix [simp]: "prefix KeyIterateConsensusStatePrefix (IterationKey h)"
  by (simp add: IterationKey_def)

end

section \<open>The environment the client runs in\<close>

locale client_env =
  fixes E :: "'s Env"
  assumes store_ok: "kv_store (kv E)" and lib_ok: "ibc_host (lib E)" and codec_ok: "client_codec (cdc E)"

sublocale client_env \<subseteq> st: kv_store "kv E"
  by (rule store_ok)

sublocale client_env \<subseteq> ho: ibc_host "lib E"
  by (rule lib_ok)

sublocale client_env \<subseteq> co: client_codec "cdc E"
  by (rule codec_ok)

text \<open>
  The abstract state of a client store: what its own readers see of it. An operation is
  specified by what it does to this view.
\<close>

record ClientView =
  v_client :: "ClientState option"
  v_cons :: "Height \<rightharpoonup> ConsensusState"
  v_time :: "Height \<rightharpoonup> u64"
  v_pheight :: "Height \<rightharpoonup> Height"
  v_iter :: "Height set"

definition view_cons :: "'s Env \<Rightarrow> 's \<Rightarrow> Height \<rightharpoonup> ConsensusState" where
  "view_cons E s h = (case GetConsensusState E s h of Ok c \<Rightarrow> Some c | _ \<Rightarrow> None)"

definition view_time :: "'s Env \<Rightarrow> 's \<Rightarrow> Height \<rightharpoonup> u64" where
  "view_time E s h = (case GetProcessedTime E s h of Ok t \<Rightarrow> t | _ \<Rightarrow> None)"

definition view_client :: "'s Env \<Rightarrow> 's \<Rightarrow> ClientState option" where
  "view_client E s = (case getClientState E s of Ok c \<Rightarrow> c | _ \<Rightarrow> None)"

definition view_iter :: "'s Env \<Rightarrow> 's \<Rightarrow> Height set" where
  "view_iter E s = {h. GetIterationKey E s h = ConsensusStateKey (lib E) h}"

definition view :: "'s Env \<Rightarrow> 's \<Rightarrow> ClientView" where
  "view E s = \<lparr>v_client = view_client E s, v_cons = view_cons E s, v_time = view_time E s,
     v_pheight = GetProcessedHeight E s, v_iter = view_iter E s\<rparr>"

text \<open>
  The invariant of a client store: the region of iteration keys holds exactly the keys of
  heights, each pointing at its consensus state key, and a height is iterated over exactly
  when its consensus state is stored, with its processed time and height.
\<close>

definition iter_wf :: "'s Env \<Rightarrow> 's \<Rightarrow> bool" where
  "iter_wf E s \<longleftrightarrow> (\<forall>k v. kv_Get (kv E) s k = Some v \<longrightarrow> prefix KeyIterateConsensusStatePrefix k \<longrightarrow>
     (\<exists>h. k = IterationKey h \<and> v = ConsensusStateKey (lib E) h))"

definition view_wf :: "ClientView \<Rightarrow> bool" where
  "view_wf v \<longleftrightarrow> v_iter v = dom (v_cons v) \<and> v_iter v \<subseteq> dom (v_time v) \<inter> dom (v_pheight v)"

definition store_inv :: "'s Env \<Rightarrow> 's \<Rightarrow> bool" where
  "store_inv E s \<longleftrightarrow> iter_wf E s \<and> view_wf (view E s)"

text \<open>What storing one verified height and deleting a set of heights do to the view.\<close>

definition spec_store :: "Context \<Rightarrow> ClientState \<Rightarrow> ConsensusState \<Rightarrow> Height \<Rightarrow> ClientView \<Rightarrow> ClientView" where
  "spec_store ctx c cs h v = \<lparr>v_client = Some c, v_cons = (v_cons v)(h \<mapsto> cs),
     v_time = (v_time v)(h \<mapsto> UnixNano (BlockTime ctx)),
     v_pheight = (v_pheight v)(h \<mapsto> SelfHeight ctx), v_iter = insert h (v_iter v)\<rparr>"

text \<open>\<open>spec_delete H\<close> forgets the heights of \<open>H\<close>.\<close>

definition spec_delete :: "Height set \<Rightarrow> ClientView \<Rightarrow> ClientView" where
  "spec_delete H v = \<lparr>v_client = v_client v, v_cons = v_cons v |` (- H), v_time = v_time v |` (- H),
     v_pheight = v_pheight v |` (- H), v_iter = v_iter v - H\<rparr>"

lemmas view_defs = view_cons_def view_time_def view_client_def view_iter_def
lemmas reader_defs = GetConsensusState_def GetProcessedTime_def getClientState_def
  GetProcessedHeight_def GetIterationKey_def
lemmas metadata_defs = setConsensusMetadata_def setConsensusMetadataWithValues_def
  SetProcessedTime_def SetProcessedHeight_def SetIterationKey_def
lemmas delete_defs = deleteConsensusState_def deleteConsensusMetadata_def deleteProcessedTime_def
  deleteProcessedHeight_def deleteIterationKey_def

context client_env
begin

lemma store_Get_Set [simp]:
  "k \<noteq> [] \<Longrightarrow> store_Get E (kv_Set (kv E) s k v) k' = (if k' = k then v else store_Get E s k')"
  by (simp add: store_Get_def st.get_put)

lemma store_Get_Delete [simp]:
  "k \<noteq> [] \<Longrightarrow> store_Get E (kv_Delete (kv E) s k) k' = (if k' = k then [] else store_Get E s k')"
  by (simp add: store_Get_def st.get_delete)

lemma SetConsensusState_Ok:
  "SetConsensusState E s cs h = Ok t \<longleftrightarrow>
     (\<exists>bz. MarshalConsensusState (cdc E) cs = Inr bz \<and> t = kv_Set (kv E) s (ConsensusStateKey (lib E) h) bz)"
  by (auto simp: SetConsensusState_def out_simps)

lemma setClientState_Ok:
  "setClientState E s c = Ok t \<longleftrightarrow>
     (\<exists>bz. MarshalClientState (cdc E) c = Inr bz \<and> t = kv_Set (kv E) s (ClientStateKey (lib E)) bz)"
  by (auto simp: setClientState_def out_simps)

lemma view_SetConsensusState:
  assumes "SetConsensusState E s cs h = Ok t"
  shows "view E t = (view E s)\<lparr>v_cons := (v_cons (view E s))(h \<mapsto> cs)\<rparr>"
proof -
  obtain bz where bz: "MarshalConsensusState (cdc E) cs = Inr bz"
    and t: "t = kv_Set (kv E) s (ConsensusStateKey (lib E) h) bz"
    using assms by (auto simp: SetConsensusState_Ok)
  from co.consensus_roundtrip [OF bz] show ?thesis
    unfolding t view_def by (auto simp: view_defs reader_defs fun_eq_iff Let_def)
qed

lemma view_setClientState:
  assumes "setClientState E s c = Ok t"
  shows "view E t = (view E s)\<lparr>v_client := Some c\<rparr>"
proof -
  obtain bz where bz: "MarshalClientState (cdc E) c = Inr bz"
    and t: "t = kv_Set (kv E) s (ClientStateKey (lib E)) bz"
    using assms by (auto simp: setClientState_Ok)
  from co.client_roundtrip [OF bz] show ?thesis
    unfolding t view_def by (auto simp: view_defs reader_defs fun_eq_iff Let_def)
qed

lemma view_setConsensusMetadata:
  "view E (setConsensusMetadata E ctx s h) =
     (view E s)\<lparr>v_time := (v_time (view E s))(h \<mapsto> UnixNano (BlockTime ctx)),
       v_pheight := (v_pheight (view E s))(h \<mapsto> SelfHeight ctx), v_iter := insert h (v_iter (view E s))\<rparr>"
  by (auto simp: view_def view_defs reader_defs metadata_defs fun_eq_iff Let_def
      ho.uint64_to_big_endian ho.big_endian_to_uint64 ho.parse_height)

lemma view_delete_height:
  "view E (deleteConsensusMetadata E (deleteConsensusState E s h) h) = spec_delete {h} (view E s)"
  by (auto simp: view_def view_defs reader_defs delete_defs spec_delete_def fun_eq_iff Let_def
      restrict_map_def)

lemma view_wf_spec_store: "view_wf v \<Longrightarrow> view_wf (spec_store ctx c cs h v)"
  by (auto simp: view_wf_def spec_store_def)

lemma view_wf_spec_delete: "view_wf v \<Longrightarrow> view_wf (spec_delete H v)"
  by (auto simp: view_wf_def spec_delete_def)

lemma iter_wf_Set:
  assumes "iter_wf E s" and "k \<noteq> []"
    and "prefix KeyIterateConsensusStatePrefix k \<Longrightarrow> \<exists>h. k = IterationKey h \<and> v = ConsensusStateKey (lib E) h"
  shows "iter_wf E (kv_Set (kv E) s k v)"
  using assms by (auto simp: iter_wf_def st.get_put split: if_splits)

lemma iter_wf_Delete: "iter_wf E s \<Longrightarrow> k \<noteq> [] \<Longrightarrow> iter_wf E (kv_Delete (kv E) s k)"
  by (auto simp: iter_wf_def st.get_delete split: if_splits)

lemma iter_wf_setConsensusMetadata: "iter_wf E s \<Longrightarrow> iter_wf E (setConsensusMetadata E ctx s h)"
  unfolding metadata_defs Let_def by (intro iter_wf_Set) auto

lemma iter_wf_delete_heights: "iter_wf E s \<Longrightarrow> iter_wf E (delete_heights E s hs)"
  by (induction hs arbitrary: s) (simp_all add: delete_defs Let_def iter_wf_Delete)

lemma spec_delete_delete: "spec_delete G (spec_delete H v) = spec_delete (H \<union> G) v"
  by (auto simp: spec_delete_def restrict_map_def fun_eq_iff)

lemma view_delete_heights: "view E (delete_heights E s hs) = spec_delete (set hs) (view E s)"
proof (induction hs arbitrary: s)
  case Nil
  then show ?case by (simp add: spec_delete_def restrict_map_def)
next
  case (Cons h hs)
  then show ?case by (simp add: view_delete_height spec_delete_delete)
qed

end

subsection \<open>Ordered iteration\<close>

context client_env
begin

lemma iter_entry:
  assumes "iter_wf E s"
  shows "kv_Get (kv E) s (KeyIterateConsensusStatePrefix @ k) = Some v \<longleftrightarrow>
    (\<exists>h \<in> view_iter E s. k = bigEndianHeightBytes h \<and> v = ConsensusStateKey (lib E) h)"
    (is "?l \<longleftrightarrow> ?r")
proof
  assume l: ?l
  then obtain h where "KeyIterateConsensusStatePrefix @ k = IterationKey h" "v = ConsensusStateKey (lib E) h"
    using assms unfolding iter_wf_def by (meson prefixI)
  with l show ?r
    by (auto simp: view_iter_def GetIterationKey_def store_Get_def IterationKey_def)
next
  assume ?r
  then obtain h where h: "GetIterationKey E s h = ConsensusStateKey (lib E) h"
    and kv: "k = bigEndianHeightBytes h" "v = ConsensusStateKey (lib E) h"
    by (auto simp: view_iter_def)
  from h show ?l
    unfolding kv by (auto simp: GetIterationKey_def store_Get_def IterationKey_def split: option.splits)
qed

lemma getTmConsensusState_view: "getTmConsensusState E s (ConsensusStateKey (lib E) h) = view_cons E s h"
  by (simp add: getTmConsensusState_def view_cons_def GetConsensusState_def Let_def
      split: sum.splits ConsensusStateI.splits)

lemma finite_view_iter: "finite (view_iter E s)"
proof -
  have "IterationKey ` view_iter E s \<subseteq> fst ` set (kv_PrefixIterator (kv E) s KeyIterateConsensusStatePrefix)"
  proof
    fix k assume "k \<in> IterationKey ` view_iter E s"
    then obtain h where k: "k = IterationKey h" and "GetIterationKey E s h = ConsensusStateKey (lib E) h"
      by (auto simp: view_iter_def)
    then have "kv_Get (kv E) s k = Some (ConsensusStateKey (lib E) h)"
      by (auto simp: GetIterationKey_def store_Get_def split: option.splits)
    then have "(k, ConsensusStateKey (lib E) h) \<in> set (kv_PrefixIterator (kv E) s KeyIterateConsensusStatePrefix)"
      unfolding st.prefix_iterator_entries by (simp add: k)
    then show "k \<in> fst ` set (kv_PrefixIterator (kv E) s KeyIterateConsensusStatePrefix)" by force
  qed
  then have "finite (IterationKey ` view_iter E s)" by (rule finite_subset) simp
  then show ?thesis by (rule finite_imageD) (simp add: inj_on_def)
qed

text \<open>Under the invariant an iterator runs through heights in their order.\<close>

lemma height_list_sorted:
  "sorted_wrt (<) (map fst (map (\<lambda>g. (bigEndianHeightBytes g, f g)) (sorted_list_of_set H)))"
  by (simp add: sorted_wrt_map comp_def bigEndianHeightBytes_less)

lemma sub_iterator_heights:
  assumes "iter_wf E s"
  shows "kv_SubIterator (kv E) s KeyIterateConsensusStatePrefix (bigEndianHeightBytes h) =
    map (\<lambda>g. (bigEndianHeightBytes g, ConsensusStateKey (lib E) g)) (sorted_list_of_set {g \<in> view_iter E s. h \<le> g})"
  using st.sub_iterator_sorted height_list_sorted
proof (rule strict_sorted_entries_unique)
  show "set (kv_SubIterator (kv E) s KeyIterateConsensusStatePrefix (bigEndianHeightBytes h)) =
    set (map (\<lambda>g. (bigEndianHeightBytes g, ConsensusStateKey (lib E) g)) (sorted_list_of_set {g \<in> view_iter E s. h \<le> g}))"
    unfolding st.sub_iterator_entries iter_entry [OF assms]
    using finite_view_iter [of s] by (auto simp: bigEndianHeightBytes_le)
qed

lemma sub_reverse_heights:
  assumes "iter_wf E s"
  shows "rev (kv_SubReverseIterator (kv E) s KeyIterateConsensusStatePrefix (bigEndianHeightBytes h)) =
    map (\<lambda>g. (bigEndianHeightBytes g, ConsensusStateKey (lib E) g)) (sorted_list_of_set {g \<in> view_iter E s. g < h})"
  using st.sub_reverse_sorted [THEN sorted_wrt_rev [THEN iffD2], unfolded rev_map] height_list_sorted
proof (rule strict_sorted_entries_unique)
  show "set (rev (kv_SubReverseIterator (kv E) s KeyIterateConsensusStatePrefix (bigEndianHeightBytes h))) =
    set (map (\<lambda>g. (bigEndianHeightBytes g, ConsensusStateKey (lib E) g)) (sorted_list_of_set {g \<in> view_iter E s. g < h}))"
    unfolding set_rev st.sub_reverse_entries iter_entry [OF assms]
    using finite_view_iter [of s] by (auto simp: bigEndianHeightBytes_less)
qed

lemma prefix_iterator_heights:
  assumes "iter_wf E s"
  shows "kv_PrefixIterator (kv E) s KeyIterateConsensusStatePrefix =
    map (\<lambda>g. (IterationKey g, ConsensusStateKey (lib E) g)) (sorted_list_of_set (view_iter E s))"
  using st.prefix_iterator_sorted
proof (rule strict_sorted_entries_unique)
  show "sorted_wrt (<) (map fst (map (\<lambda>g. (IterationKey g, ConsensusStateKey (lib E) g)) (sorted_list_of_set (view_iter E s))))"
    by (simp add: sorted_wrt_map comp_def IterationKey_less)
  have "kv_Get (kv E) s k = Some v \<and> prefix KeyIterateConsensusStatePrefix k \<longleftrightarrow>
      (\<exists>g \<in> view_iter E s. k = IterationKey g \<and> v = ConsensusStateKey (lib E) g)" for k v
    using iter_entry [OF assms] by (auto simp: prefix_def IterationKey_def)
  then show "set (kv_PrefixIterator (kv E) s KeyIterateConsensusStatePrefix) =
    set (map (\<lambda>g. (IterationKey g, ConsensusStateKey (lib E) g)) (sorted_list_of_set (view_iter E s)))"
    unfolding st.prefix_iterator_entries using finite_view_iter [of s] by auto
qed

lemma sorted_list_from:
  assumes "finite A"
  shows "sorted_list_of_set {g \<in> A. h \<le> g} =
    (if h \<in> A then [h] else []) @ sorted_list_of_set {g \<in> A. (h::Height) < g}"
proof -
  have "{g \<in> A. h \<le> g} = (if h \<in> A then insert h else id) {g \<in> A. h < g}"
    by (auto simp: order.order_iff_strict)
  moreover have "sorted_list_of_set (insert h {g \<in> A. h < g}) = h # sorted_list_of_set {g \<in> A. h < g}"
    using assms by (intro sorted_list_of_set_insert_least) auto
  ultimately show ?thesis by simp
qed

lemma next_consensus_state:
  fixes h :: Height
  assumes "iter_wf E s"
  defines "H \<equiv> {h' \<in> view_iter E s. h < h'}"
  shows "GetNextConsensusState E s h = (if H = {} then None else view_cons E s (Min H))"
proof -
  have fin: "finite H" unfolding H_def using finite_view_iter [of s] by simp
  have hd: "sorted_list_of_set H = (if H = {} then [] else Min H # sorted_list_of_set (H - {Min H}))"
    using fin by (simp add: sorted_list_of_set_nonempty)
  have "Min H \<noteq> h" if "H \<noteq> {}"
    using Min_in [OF fin that] by (auto simp: H_def)
  then show ?thesis
    unfolding GetNextConsensusState_def sub_iterator_heights [OF assms(1)]
      sorted_list_from [OF finite_view_iter] H_def [symmetric] hd
    by (auto simp: getTmConsensusState_view)
qed

lemma previous_consensus_state:
  fixes h :: Height
  assumes "iter_wf E s"
  defines "H \<equiv> {h' \<in> view_iter E s. h' < h}"
  shows "GetPreviousConsensusState E s h = (if H = {} then None else view_cons E s (Max H))"
proof -
  have fin: "finite H" unfolding H_def using finite_view_iter [of s] by simp
  let ?f = "\<lambda>g. (bigEndianHeightBytes g, ConsensusStateKey (lib E) g)"
  have "kv_SubReverseIterator (kv E) s KeyIterateConsensusStatePrefix (bigEndianHeightBytes h) =
      map ?f (rev (sorted_list_of_set H))"
    using sub_reverse_heights [OF assms(1), of h] by (simp add: H_def rev_swap rev_map)
  moreover have "rev (sorted_list_of_set H) = (if H = {} then [] else Max H # rev (sorted_list_of_set (H - {Max H})))"
    using fin by (simp add: sorted_list_of_set_greatest)
  ultimately show ?thesis
    by (auto simp: GetPreviousConsensusState_def getTmConsensusState_view)
qed

end

subsection \<open>Pruning\<close>

text \<open>The stored heights whose consensus state \<^verbatim>\<open>IsExpired\<close> accepts.\<close>

definition expired_heights :: "'s Env \<Rightarrow> Context \<Rightarrow> 's \<Rightarrow> Height set" where
  "expired_heights E ctx s =
     {h. \<exists>cs. view_cons E s h = Some cs \<and> IsExpired (lib E) cs (BlockTime ctx)}"

lemma view_cons_Some: "view_cons E s h = Some cs \<longleftrightarrow> GetConsensusState E s h = Ok cs"
  by (auto simp: view_cons_def split: outcome.splits)

lemma iterate_heights_pruneCb:
  "\<forall>g \<in> set hs. view_cons E s g \<noteq> None \<Longrightarrow>
     iterate_heights (pruneCb E ctx s) acc (map (\<lambda>g. (IterationKey g, f g)) hs) =
     Ok (acc @ filter (\<lambda>g. g \<in> expired_heights E ctx s) hs)"
  by (induction hs arbitrary: acc)
    (auto simp: pruneCb_def expired_heights_def view_cons_Some split: if_splits)

context client_env
begin

lemma prune_all_expired:
  assumes "store_inv E s"
  obtains t where "PruneAllExpiredConsensusStates E ctx s = Ok t"
    and "view E t = spec_delete (expired_heights E ctx s) (view E s)" and "store_inv E t"
proof
  let ?hs = "filter (\<lambda>g. g \<in> expired_heights E ctx s) (sorted_list_of_set (view_iter E s))"
  let ?t = "delete_heights E s ?hs"
  have inv: "iter_wf E s" "view_iter E s = dom (view_cons E s)" and wf: "view_wf (view E s)"
    using assms by (auto simp: store_inv_def view_wf_def view_def)
  then have "\<forall>g \<in> set (sorted_list_of_set (view_iter E s)). view_cons E s g \<noteq> None"
    using finite_view_iter [of s] by auto
  then show "PruneAllExpiredConsensusStates E ctx s = Ok ?t"
    by (simp add: PruneAllExpiredConsensusStates_def IterateConsensusStateAscending_def
        prefix_iterator_heights [OF inv(1)] iterate_heights_pruneCb)
  have "set ?hs = expired_heights E ctx s"
    using inv(2) finite_view_iter [of s] by (auto simp: expired_heights_def)
  then show v: "view E ?t = spec_delete (expired_heights E ctx s) (view E s)"
    by (simp add: view_delete_heights)
  show "store_inv E ?t"
    using inv(1) wf by (simp add: store_inv_def v iter_wf_delete_heights view_wf_spec_delete)
qed

lemma store_one_height:
  assumes "SetConsensusState E s cs h = Ok s1" and "setClientState E (setConsensusMetadata E ctx s1 h) c = Ok t"
  shows "view E t = spec_store ctx c cs h (view E s)" and "iter_wf E s \<Longrightarrow> iter_wf E t"
proof -
  show "view E t = spec_store ctx c cs h (view E s)"
    using view_setClientState [OF assms(2)] view_SetConsensusState [OF assms(1)]
    by (simp add: view_setConsensusMetadata spec_store_def)
  show "iter_wf E t" if "iter_wf E s"
    using assms that unfolding SetConsensusState_Ok setClientState_Ok
    by (auto intro!: iter_wf_Set iter_wf_setConsensusMetadata)
qed

end

subsection \<open>The environment of the examples\<close>

definition mem_env :: "mem Env" where
  "mem_env = \<lparr>kv = mem_kv, lib = std_lib, cdc = mini_codec\<rparr>"

interpretation mem_client: client_env mem_env
  by (rule client_env.intro)
    (simp_all add: mem_env_def mem_store.kv_store_axioms std.ibc_host_axioms mini.client_codec_axioms)

definition ex_ctx :: Context where
  "ex_ctx = \<lparr>BlockTime = 2000000 * 10 ^ 9, SelfHeight = Height 0 7\<rparr>"

definition ex_cons :: "i64 \<Rightarrow> bytes \<Rightarrow> ConsensusState" where
  "ex_cons secs root = \<lparr>HeaderTimestamp = Some \<lparr>Seconds = secs, Nanos = 0\<rparr>, StateRoot = root\<rparr>"

definition ex_put :: "mem \<Rightarrow> ConsensusState \<Rightarrow> Height \<Rightarrow> mem" where
  "ex_put s cs h = setConsensusMetadata mem_env ex_ctx
     (kv_Set mem_kv s (ConsensusStateKey std_lib h) (mini_put_consensus cs)) h"

text \<open>Heights 5 and 9, with header times of 100 and 1900000 seconds.\<close>

definition ex_store :: mem where
  "ex_store = ex_put (ex_put fmempty (ex_cons 100 [1]) (Height 0 5)) (ex_cons 1900000 [2]) (Height 0 9)"

lemma mem_env_simps [simp]: "kv mem_env = mem_kv" "lib mem_env = std_lib" "cdc mem_env = mini_codec"
  by (simp_all add: mem_env_def)

lemma SetConsensusState_mem:
  "SetConsensusState mem_env s cs h =
     Ok (kv_Set mem_kv s (ConsensusStateKey std_lib h) (mini_put_consensus cs))"
  by (simp add: SetConsensusState_def mini_codec_def)

lemma view_ex_put:
  "view mem_env (ex_put s cs h) = (view mem_env s)\<lparr>v_cons := (v_cons (view mem_env s))(h \<mapsto> cs),
     v_time := (v_time (view mem_env s))(h \<mapsto> UnixNano (BlockTime ex_ctx)),
     v_pheight := (v_pheight (view mem_env s))(h \<mapsto> SelfHeight ex_ctx), v_iter := insert h (v_iter (view mem_env s))\<rparr>"
  using mem_client.view_SetConsensusState [OF SetConsensusState_mem [of s cs h]]
  by (simp add: ex_put_def mem_client.view_setConsensusMetadata)

lemma view_empty: "view mem_env fmempty =
  \<lparr>v_client = None, v_cons = Map.empty, v_time = Map.empty, v_pheight = Map.empty, v_iter = {}\<rparr>"
  by (auto simp: view_def view_defs reader_defs store_Get_def mem_kv_def fun_eq_iff std.key_neq_Nil)

lemma iter_wf_ex_put: "iter_wf mem_env s \<Longrightarrow> iter_wf mem_env (ex_put s cs h)"
  unfolding ex_put_def
  using mem_client.iter_wf_Set [of s "ConsensusStateKey std_lib h"]
  by (intro mem_client.iter_wf_setConsensusMetadata) simp

lemma iter_wf_empty: "iter_wf mem_env fmempty"
  by (simp add: iter_wf_def mem_kv_def)

lemma view_ex_store: "view mem_env ex_store = \<lparr>v_client = None,
   v_cons = [Height 0 5 \<mapsto> ex_cons 100 [1], Height 0 9 \<mapsto> ex_cons 1900000 [2]],
   v_time = [Height 0 5 \<mapsto> UnixNano (BlockTime ex_ctx), Height 0 9 \<mapsto> UnixNano (BlockTime ex_ctx)],
   v_pheight = [Height 0 5 \<mapsto> Height 0 7, Height 0 9 \<mapsto> Height 0 7],
   v_iter = {Height 0 5, Height 0 9}\<rparr>"
  by (auto simp: ex_store_def view_ex_put view_empty ex_ctx_def)

lemma view_iter_ex_store: "view_iter mem_env ex_store = {Height 0 5, Height 0 9}"
  and view_cons_ex_store:
    "view_cons mem_env ex_store = [Height 0 5 \<mapsto> ex_cons 100 [1], Height 0 9 \<mapsto> ex_cons 1900000 [2]]"
  using view_ex_store by (simp_all add: view_def)

lemma ex_store_inv: "store_inv mem_env ex_store"
proof -
  have "iter_wf mem_env ex_store"
    by (simp add: ex_store_def iter_wf_ex_put iter_wf_empty)
  moreover have "view_wf (view mem_env ex_store)"
    unfolding view_ex_store by (auto simp: view_wf_def)
  ultimately show ?thesis by (simp add: store_inv_def)
qed

section \<open>Properties\<close>

text \<open>
  C11. Iteration keys are an order-preserving, invertible encoding of heights: the byte order of
  two iteration keys is the order of their heights (revision number first), equal keys come from
  equal heights, and \<^verbatim>\<open>GetHeightFromIterationKey\<close> recovers the height without panicking.
\<close>

theorem IterationKey_order_embedding:
  "(IterationKey g < IterationKey h \<longleftrightarrow> g < h) \<and> (IterationKey g = IterationKey h \<longleftrightarrow> g = h) \<and>
   GetHeightFromIterationKey (IterationKey h) = Ok h"
  by (simp add: IterationKey_less)

text \<open>
  C8. \<^verbatim>\<open>GetNextConsensusState\<close> returns the consensus state at the least iterated height above
  the given one, and nothing when there is none; \<^verbatim>\<open>GetPreviousConsensusState\<close> returns the one
  at the greatest iterated height below it. The given height itself need not be stored.
\<close>

theorem next_and_previous_consensus_state:
  assumes "client_env E" and "iter_wf E s"
  shows "GetNextConsensusState E s h =
      (if {g \<in> view_iter E s. h < g} = {} then None
       else view_cons E s (Min {g \<in> view_iter E s. h < g})) \<and>
    GetPreviousConsensusState E s h =
      (if {g \<in> view_iter E s. g < h} = {} then None
       else view_cons E s (Max {g \<in> view_iter E s. g < h}))"
  using client_env.next_consensus_state [OF assms] client_env.previous_consensus_state [OF assms]
  by simp

theorem next_and_previous_consensus_state_witness:
  "GetNextConsensusState mem_env ex_store (Height 0 5) = Some (ex_cons 1900000 [2]) \<and>
   GetPreviousConsensusState mem_env ex_store (Height 0 8) = Some (ex_cons 100 [1])"
proof -
  have "iter_wf mem_env ex_store" using ex_store_inv by (simp add: store_inv_def)
  note th = next_and_previous_consensus_state [OF mem_client.client_env_axioms this]
  have "{g \<in> view_iter mem_env ex_store. Height 0 5 < g} = {Height 0 9}"
    and "{g \<in> view_iter mem_env ex_store. g < Height 0 8} = {Height 0 5}"
    by (auto simp: view_iter_ex_store less_Height_def)
  then show ?thesis using th [of "Height 0 5"] th [of "Height 0 8"]
    by (simp add: view_cons_ex_store)
qed

text \<open>
  C9. On a store that satisfies the invariant, \<^verbatim>\<open>PruneAllExpiredConsensusStates\<close> always
  returns without error. It deletes the consensus state and all metadata of exactly the heights
  whose consensus state \<^verbatim>\<open>IsExpired\<close> accepts, leaves every other height and the client
  state as they were, and keeps the invariant. What \<^verbatim>\<open>IsExpired\<close> accepts is a header time
  whose unbonding period is not over yet, so the survivors are the consensus states that are
  older than the unbonding period.
\<close>

theorem prune_deletes_exactly_IsExpired:
  assumes "client_env E" and "store_inv E s"
  shows "\<exists>t. PruneAllExpiredConsensusStates E ctx s = Ok t \<and> store_inv E t \<and>
    view E t = spec_delete (expired_heights E ctx s) (view E s) \<and>
    (\<forall>h cs. view_cons E t h = Some cs \<longleftrightarrow> view_cons E s h = Some cs \<and>
       AsTime (lib E) (HeaderTimestamp cs) + 3 * 7 * 24 * 3600 * 10 ^ 9 \<le> BlockTime ctx)"
proof -
  obtain t where t: "PruneAllExpiredConsensusStates E ctx s = Ok t" "store_inv E t"
    "view E t = spec_delete (expired_heights E ctx s) (view E s)"
    using client_env.prune_all_expired [OF assms] by metis
  have "view_cons E t = view_cons E s |` (- expired_heights E ctx s)"
    using arg_cong [OF t(3), of v_cons] by (simp add: view_def spec_delete_def)
  then have "view_cons E t h = Some cs \<longleftrightarrow> view_cons E s h = Some cs \<and>
      AsTime (lib E) (HeaderTimestamp cs) + 3 * 7 * 24 * 3600 * 10 ^ 9 \<le> BlockTime ctx" for h cs
    by (auto simp: restrict_map_def expired_heights_def IsExpired_def unbondingTime_eq)
  with t show ?thesis by blast
qed

theorem prune_deletes_exactly_IsExpired_witness:
  "\<exists>t. PruneAllExpiredConsensusStates mem_env ex_ctx ex_store = Ok t \<and>
     view_cons mem_env t (Height 0 9) = None \<and> view_cons mem_env t (Height 0 5) = Some (ex_cons 100 [1])"
proof -
  obtain t where t: "PruneAllExpiredConsensusStates mem_env ex_ctx ex_store = Ok t"
    and v: "\<And>h cs. view_cons mem_env t h = Some cs \<longleftrightarrow> view_cons mem_env ex_store h = Some cs \<and>
       AsTime (lib mem_env) (HeaderTimestamp cs) + 3 * 7 * 24 * 3600 * 10 ^ 9 \<le> BlockTime ex_ctx"
    using prune_deletes_exactly_IsExpired [OF mem_client.client_env_axioms ex_store_inv, of ex_ctx] by blast
  have "view_cons mem_env t (Height 0 5) = Some (ex_cons 100 [1])"
    unfolding v by (simp add: view_cons_ex_store ex_cons_def std_lib_def ex_ctx_def)
  moreover have "view_cons mem_env t (Height 0 9) \<noteq> Some cs" for cs
    unfolding v by (auto simp: view_cons_ex_store ex_cons_def std_lib_def ex_ctx_def)
  ultimately show ?thesis using t by (metis not_None_eq)
qed

end
