(* ===== verification/MPT.thy ===== *)
theory MPT
  imports Stores
begin

text \<open>
  The Merkle Patricia trie package \<^verbatim>\<open>ibc/mpt\<close>: the proof verifier the light client calls
  (\<^verbatim>\<open>mpt.go\<close>), the layered node database (\<^verbatim>\<open>database.go\<close>), the proof list
  (\<^verbatim>\<open>prooflist.go\<close>) and the trie generator (\<^verbatim>\<open>test_helpers.go\<close>). The functions of
  go-ethereum they call (hashing, the memory database, \<^verbatim>\<open>trie.VerifyProof\<close>, rawdb) are
  arguments; the laws of the ones that matter are the locales \<open>proof_lib\<close> and
  \<open>trie_update\<close>.
\<close>

section \<open>Proof verification\<close>

type_synonym hash = bytes

record 'd ProofLib =
  Keccak256 :: "bytes \<Rightarrow> bytes"
  NewMemoryDatabase :: 'd
  db_Put :: "'d \<Rightarrow> bytes \<Rightarrow> bytes \<Rightarrow> error + 'd"
  db_Get :: "'d \<Rightarrow> bytes \<Rightarrow> bytes option"
  trie_VerifyProof :: "hash \<Rightarrow> bytes \<Rightarrow> 'd \<Rightarrow> error + bytes option"

text \<open>A proof that the key is absent is verified with a nil value, \<open>Inr None\<close>.\<close>

definition nodeKey :: "'d ProofLib \<Rightarrow> bytes \<Rightarrow> bytes" where
  "nodeKey P encodedNode = (if length encodedNode \<ge> 32 then Keccak256 P encodedNode else encodedNode)"

fun load_nodes :: "'d ProofLib \<Rightarrow> 'd \<Rightarrow> bytes list \<Rightarrow> 'd outcome" where
  "load_nodes P proofDB [] = Ok proofDB"
| "load_nodes P proofDB (encodedNode # rest) =
     bind_out (wrap_out ''failed to load proof node into mem db''
        (of_result (db_Put P proofDB (nodeKey P encodedNode) encodedNode)))
       (\<lambda>proofDB'. load_nodes P proofDB' rest)"

definition ReconstructProofDB :: "'d ProofLib \<Rightarrow> bytes list \<Rightarrow> 'd outcome" where
  "ReconstructProofDB P proof = load_nodes P (NewMemoryDatabase P) proof"

definition VerifyMerklePatriciaTrieProof ::
    "'d ProofLib \<Rightarrow> hash \<Rightarrow> bytes \<Rightarrow> bytes list \<Rightarrow> bytes option outcome" where
  "VerifyMerklePatriciaTrieProof P rootHash key proof =
     bind_out (wrap_out ''failed to decode proof'' (ReconstructProofDB P proof))
       (\<lambda>proofDB. of_result (trie_VerifyProof P rootHash key proofDB))"

subsection \<open>The contract of the memory database and of the trie verifier\<close>

text \<open>
  A new memory database is empty and a put is read back. \<^verbatim>\<open>trie.VerifyProof\<close> takes a
  key-value reader, so it depends on the database only through what \<^verbatim>\<open>Get\<close> returns, and
  it fails when the node of the root hash is missing.
\<close>

locale proof_lib =
  fixes P :: "'d ProofLib"
  assumes new_empty: "db_Get P (NewMemoryDatabase P) k = None"
    and put_ok: "\<exists>d'. db_Put P d k v = Inr d'"
    and get_put: "db_Put P d k v = Inr d' \<Longrightarrow> db_Get P d' k' = (if k' = k then Some v else db_Get P d k')"
    and verify_reads: "db_Get P d = db_Get P d' \<Longrightarrow>
      trie_VerifyProof P root key d = trie_VerifyProof P root key d'"
    and verify_missing_root: "db_Get P d root = None \<Longrightarrow> \<exists>e. trie_VerifyProof P root key d = Inl e"
begin

text \<open>The database a proof stands for: the last node listed under each node key.\<close>

lemma load_nodes_map:
  "\<exists>d'. load_nodes P d pf = Ok d' \<and>
     db_Get P d' = db_Get P d ++ map_of (rev (map (\<lambda>n. (nodeKey P n, n)) pf))"
proof (induction pf arbitrary: d)
  case (Cons n pf)
  obtain d1 where d1: "db_Put P d (nodeKey P n) n = Inr d1" using put_ok by blast
  obtain d' where "load_nodes P d1 pf = Ok d'"
    and "db_Get P d' = db_Get P d1 ++ map_of (rev (map (\<lambda>n. (nodeKey P n, n)) pf))"
    using Cons.IH by blast
  then show ?case using d1 get_put [OF d1]
    by (auto simp: fun_eq_iff map_add_def split: option.splits)
qed simp

lemma reconstruct_map:
  obtains d where "ReconstructProofDB P pf = Ok d"
    and "db_Get P d = map_of (rev (map (\<lambda>n. (nodeKey P n, n)) pf))"
proof -
  have "db_Get P (NewMemoryDatabase P) = Map.empty" using new_empty by (simp add: fun_eq_iff)
  then show ?thesis
    using load_nodes_map [of "NewMemoryDatabase P" pf] that by (auto simp: ReconstructProofDB_def)
qed

lemma map_of_nodes:
  "inj_on (nodeKey P) (set pf) \<Longrightarrow>
     map_of (rev (map (\<lambda>n. (nodeKey P n, n)) pf)) k = Some n \<longleftrightarrow> n \<in> set pf \<and> nodeKey P n = k"
  by (induction pf rule: rev_induct) (auto simp: inj_on_def)

lemma same_nodes_same_db:
  assumes "inj_on (nodeKey P) (set pf)" and "set pf = set pf'"
  shows "map_of (rev (map (\<lambda>n. (nodeKey P n, n)) pf)) = map_of (rev (map (\<lambda>n. (nodeKey P n, n)) pf'))"
  using map_of_nodes [of pf] map_of_nodes [of pf'] assms by (intro ext option_eqI) simp

text \<open>Every entry is filed under its own node key: a proof cannot place a node under a hash
  that is not the hash of the node.\<close>

lemma reconstruct_content_addressed:
  assumes "ReconstructProofDB P pf = Ok d"
  shows "db_Get P d k = Some n \<Longrightarrow> n \<in> set pf \<and> k = nodeKey P n"
    and "n \<in> set pf \<Longrightarrow> db_Get P d (nodeKey P n) \<noteq> None"
proof -
  obtain d0 where "ReconstructProofDB P pf = Ok d0"
    and "db_Get P d0 = map_of (rev (map (\<lambda>n. (nodeKey P n, n)) pf))"
    using reconstruct_map by blast
  then have d: "db_Get P d = map_of (rev (map (\<lambda>n. (nodeKey P n, n)) pf))" using assms by simp
  show "n \<in> set pf \<and> k = nodeKey P n" if "db_Get P d k = Some n"
    using map_of_SomeD [OF that [unfolded d]] by auto
  show "db_Get P d (nodeKey P n) \<noteq> None" if "n \<in> set pf"
    unfolding d map_of_eq_None_iff using that by force
qed

lemma verify_same_nodes:
  assumes "inj_on (nodeKey P) (set pf)" and "set pf = set pf'"
  shows "VerifyMerklePatriciaTrieProof P root key pf = VerifyMerklePatriciaTrieProof P root key pf'"
proof -
  obtain d where d: "ReconstructProofDB P pf = Ok d"
    "db_Get P d = map_of (rev (map (\<lambda>n. (nodeKey P n, n)) pf))" by (rule reconstruct_map)
  obtain d' where d': "ReconstructProofDB P pf' = Ok d'"
    "db_Get P d' = map_of (rev (map (\<lambda>n. (nodeKey P n, n)) pf'))" by (rule reconstruct_map)
  have "trie_VerifyProof P root key d = trie_VerifyProof P root key d'"
    by (rule verify_reads) (simp add: d(2) d'(2) same_nodes_same_db [OF assms])
  then show ?thesis by (simp add: VerifyMerklePatriciaTrieProof_def d(1) d'(1))
qed

lemma verify_needs_root:
  assumes "VerifyMerklePatriciaTrieProof P root key pf = Ok v"
  shows "\<exists>n \<in> set pf. nodeKey P n = root"
proof -
  obtain d where d: "ReconstructProofDB P pf = Ok d" and "trie_VerifyProof P root key d = Inr v"
    using assms by (auto simp: VerifyMerklePatriciaTrieProof_def out_simps)
  then obtain n where "db_Get P d root = Some n" using verify_missing_root by (metis Inl_Inr_False option.exhaust)
  then show ?thesis using reconstruct_content_addressed(1) [OF d] by blast
qed

lemma verify_no_panic: "VerifyMerklePatriciaTrieProof P root key pf \<noteq> Panic e"
proof -
  obtain d where "ReconstructProofDB P pf = Ok d" by (rule reconstruct_map)
  then show ?thesis by (simp add: VerifyMerklePatriciaTrieProof_def)
qed

end

section \<open>The layered node database\<close>

text \<open>
  A merged node set maps an owner to a node set and a node set maps a path to a node. Both are
  Go maps; the association lists hold their entries in the order in which \<^verbatim>\<open>range\<close> visits
  them.
\<close>

record trieNode =
  nHash :: hash
  nBlob :: bytes

type_synonym NodeSet = "(bytes \<times> trieNode) list"
type_synonym MergedNodeSet = "(hash \<times> NodeSet) list"

record 'd RawDB =
  ReadTrieNode :: "'d \<Rightarrow> hash \<Rightarrow> bytes \<Rightarrow> hash \<Rightarrow> string \<Rightarrow> bytes"
  WriteTrieNode :: "'d \<Rightarrow> hash \<Rightarrow> bytes \<Rightarrow> hash \<Rightarrow> bytes \<Rightarrow> string \<Rightarrow> 'd"
  ReadPreimage :: "'d \<Rightarrow> hash \<Rightarrow> bytes"
  WritePreimages :: "'d \<Rightarrow> (hash \<rightharpoonup> bytes) \<Rightarrow> 'd"
  ForEachWithOrder :: "NodeSet \<Rightarrow> (bytes \<times> trieNode) list"
  EmptyRootHash :: hash

record 'd testReader =
  r_db :: 'd
  r_scheme :: string
  r_nodes :: "MergedNodeSet list"

record 'd testDb =
  disk :: 'd
  db_root :: hash
  scheme :: string
  db_nodes :: "hash \<rightharpoonup> MergedNodeSet"
  parents :: "hash \<rightharpoonup> hash"

definition zeroHash :: hash where
  "zeroHash = replicate 32 0"

definition IsDeleted :: "trieNode \<Rightarrow> bool" where
  "IsDeleted n \<longleftrightarrow> nBlob n = []"

abbreviation MissingNodeError :: error where
  "MissingNodeError \<equiv> Sentinel ''missing trie node''"

text \<open>The cached layers, from the latest to the oldest; the first that knows the path decides.\<close>

fun read_layers :: "MergedNodeSet list \<Rightarrow> hash \<Rightarrow> bytes \<Rightarrow> hash \<Rightarrow> bytes outcome option" where
  "read_layers [] owner path h = None"
| "read_layers (nodes # rest) owner path h =
     (case map_of nodes owner of None \<Rightarrow> read_layers rest owner path h
      | Some nset \<Rightarrow> (case map_of nset path of None \<Rightarrow> read_layers rest owner path h
        | Some n \<Rightarrow> Some (if IsDeleted n \<or> nHash n \<noteq> h then Fail MissingNodeError else Ok (nBlob n))))"

definition reader_Node :: "'d RawDB \<Rightarrow> 'd testReader \<Rightarrow> hash \<Rightarrow> bytes \<Rightarrow> hash \<Rightarrow> bytes outcome" where
  "reader_Node R r owner path h =
     (case read_layers (r_nodes r) owner path h of
        Some res \<Rightarrow> res
      | None \<Rightarrow> Ok (ReadTrieNode R (r_db r) owner path h (r_scheme r)))"

definition newTestDatabase :: "'d RawDB \<Rightarrow> 'd \<Rightarrow> string \<Rightarrow> 'd testDb" where
  "newTestDatabase R diskdb sch = \<lparr>disk = diskdb, db_root = EmptyRootHash R, scheme = sch,
     db_nodes = Map.empty, parents = Map.empty\<rparr>"

text \<open>A missing entry of \<^verbatim>\<open>db.parents\<close> reads as the zero hash.\<close>

definition parent_of :: "'d testDb \<Rightarrow> hash \<Rightarrow> hash" where
  "parent_of db root = (case parents db root of None \<Rightarrow> zeroHash | Some p \<Rightarrow> p)"

text \<open>The walk from a root to the base has no bound of its own: \<open>None\<close> is a walk that never
  returns.\<close>

partial_function (option) dirties_loop ::
    "'d testDb \<Rightarrow> bool \<Rightarrow> hash \<Rightarrow> MergedNodeSet list \<Rightarrow> hash list \<Rightarrow> (MergedNodeSet list \<times> hash list) option"
  where
  "dirties_loop db topToBottom root pending roots =
     (if root = db_root db then Some (pending, roots)
      else case db_nodes db root of
          None \<Rightarrow> Some (pending, roots)
        | Some nodes \<Rightarrow>
            if topToBottom then dirties_loop db topToBottom (parent_of db root) (pending @ [nodes]) (roots @ [root])
            else dirties_loop db topToBottom (parent_of db root) (nodes # pending) (root # roots))"

definition dirties :: "'d testDb \<Rightarrow> hash \<Rightarrow> bool \<Rightarrow> (MergedNodeSet list \<times> hash list) option" where
  "dirties db root topToBottom = dirties_loop db topToBottom root [] []"

definition NodeReader :: "'d testDb \<Rightarrow> hash \<Rightarrow> 'd testReader option" where
  "NodeReader db stateRoot = (case dirties db stateRoot True of None \<Rightarrow> None
     | Some (nodes, _) \<Rightarrow> Some \<lparr>r_db = disk db, r_scheme = scheme db, r_nodes = nodes\<rparr>)"

definition Preimage :: "'d RawDB \<Rightarrow> 'd testDb \<Rightarrow> hash \<Rightarrow> bytes" where
  "Preimage R db h = ReadPreimage R (disk db) h"

definition InsertPreimage :: "'d RawDB \<Rightarrow> 'd testDb \<Rightarrow> (hash \<rightharpoonup> bytes) \<Rightarrow> 'd testDb" where
  "InsertPreimage R db preimages = db\<lparr>disk := WritePreimages R (disk db) preimages\<rparr>"

definition Scheme :: "'d testDb \<Rightarrow> string" where
  "Scheme db = scheme db"

definition Update :: "'d testDb \<Rightarrow> hash \<Rightarrow> hash \<Rightarrow> MergedNodeSet \<Rightarrow> 'd testDb outcome" where
  "Update db root parent nodes =
     (if root = parent then Ok db
      else if db_nodes db root \<noteq> None then Ok db
      else Ok (db\<lparr>parents := (parents db)(root \<mapsto> parent), db_nodes := (db_nodes db)(root \<mapsto> nodes)\<rparr>))"

definition write_set :: "'d RawDB \<Rightarrow> string \<Rightarrow> hash \<Rightarrow> NodeSet \<Rightarrow> 'd \<Rightarrow> 'd" where
  "write_set R sch owner nset d =
     fold (\<lambda>(path, n) d. WriteTrieNode R d owner path (nHash n) (nBlob n) sch) (ForEachWithOrder R nset) d"

definition write_owners :: "'d RawDB \<Rightarrow> string \<Rightarrow> MergedNodeSet \<Rightarrow> 'd \<Rightarrow> 'd" where
  "write_owners R sch nodes d =
     fold (\<lambda>(owner, nset) d. if owner = zeroHash then d else write_set R sch owner nset d) nodes d"

text \<open>The account set \<^verbatim>\<open>nodes.Sets[common.Hash{}]\<close> is dereferenced whether or not it is
  there.\<close>

fun commit_layers :: "'d RawDB \<Rightarrow> 'd testDb \<Rightarrow> (MergedNodeSet \<times> hash) list \<Rightarrow> 'd testDb outcome" where
  "commit_layers R db [] = Ok db"
| "commit_layers R db ((nodes, root) # rest) =
     (let d = write_owners R (scheme db) nodes (disk db) in
      case map_of nodes zeroHash of
        None \<Rightarrow> Panic (Sentinel ''nil pointer dereference'')
      | Some nset \<Rightarrow>
          commit_layers R (db\<lparr>disk := write_set R (scheme db) zeroHash nset d, db_root := root\<rparr>) rest)"

definition Commit :: "'d RawDB \<Rightarrow> 'd testDb \<Rightarrow> hash \<Rightarrow> 'd testDb outcome option" where
  "Commit R db root =
     (if root = db_root db then Some (Ok db)
      else case dirties db root False of None \<Rightarrow> None
        | Some (pending, roots) \<Rightarrow> Some (bind_out (commit_layers R db (zip pending roots))
            (\<lambda>db'. Ok (db'\<lparr>db_nodes := db_nodes db' |` (- set roots), parents := parents db' |` (- set roots)\<rparr>))))"

subsection \<open>The walk over the dirty layers\<close>

inductive dirties_chain :: "'d testDb \<Rightarrow> hash \<Rightarrow> hash list \<Rightarrow> bool" for db where
  stop: "root = db_root db \<or> db_nodes db root = None \<Longrightarrow> dirties_chain db root []"
| step: "root \<noteq> db_root db \<Longrightarrow> db_nodes db root = Some nodes \<Longrightarrow>
    dirties_chain db (parent_of db root) rs \<Longrightarrow> dirties_chain db root (root # rs)"

inductive_simps dirties_chain_Nil: "dirties_chain db root []"
inductive_simps dirties_chain_Cons: "dirties_chain db root (r # rs)"

definition layers :: "'d testDb \<Rightarrow> hash list \<Rightarrow> MergedNodeSet list" where
  "layers db rs = map (\<lambda>r. the (db_nodes db r)) rs"

lemma dirties_loop_chain:
  "dirties_chain db root rs \<Longrightarrow> dirties_loop db ttb root pending roots =
     Some (if ttb then (pending @ layers db rs, roots @ rs)
           else (rev (layers db rs) @ pending, rev rs @ roots))"
proof (induction root rs arbitrary: pending roots rule: dirties_chain.induct)
  case (stop root)
  then show ?case by (subst dirties_loop.simps) (auto simp: layers_def)
next
  case (step root nodes rs)
  then show ?case by (subst dirties_loop.simps) (cases ttb; simp add: layers_def)
qed

lemma dirties_loop_returns:
  "dirties_loop db ttb root pending roots = Some r \<Longrightarrow> \<exists>rs. dirties_chain db root rs"
  by (erule dirties_loop.raw_induct [where P = "\<lambda>db ttb root pending roots r. \<exists>rs. dirties_chain db root rs", rotated])
    (fastforce split: if_splits option.splits intro: dirties_chain.intros)

lemma dirties_eq_Some: "(\<exists>r. dirties db root ttb = Some r) \<longleftrightarrow> (\<exists>rs. dirties_chain db root rs)"
  unfolding dirties_def using dirties_loop_chain dirties_loop_returns by metis

lemma dirties_chain_value:
  "dirties_chain db root rs \<Longrightarrow>
     dirties db root ttb = Some (if ttb then (layers db rs, rs) else (rev (layers db rs), rev rs))"
  by (simp add: dirties_def dirties_loop_chain)

text \<open>A rank that falls from each root to its parent bounds the walk.\<close>

definition ranked :: "'d testDb \<Rightarrow> bool" where
  "ranked db \<longleftrightarrow> (\<exists>rk :: hash \<Rightarrow> nat. \<forall>r. db_nodes db r \<noteq> None \<longrightarrow> rk (parent_of db r) < rk r)"

lemma ranked_chain:
  assumes "ranked db"
  shows "\<exists>rs. dirties_chain db root rs"
proof -
  obtain rk :: "hash \<Rightarrow> nat" where rk: "db_nodes db r \<noteq> None \<Longrightarrow> rk (parent_of db r) < rk r" for r
    using assms by (auto simp: ranked_def)
  show ?thesis
  proof (induction root rule: measure_induct_rule [of rk])
    case (less root)
    then show ?case
      by (cases "root = db_root db \<or> db_nodes db root = None") (blast intro: dirties_chain.intros rk)+
  qed
qed

lemma ranked_restrict:
  assumes "ranked db" and "db_nodes db' = db_nodes db |` A" and "parents db' = parents db |` A"
  shows "ranked db'"
  using assms unfolding ranked_def parent_of_def
  by (auto simp: restrict_map_def split: if_splits)

lemma ranked_Update:
  assumes "ranked db" and fresh: "\<And>r. db_nodes db r \<noteq> None \<Longrightarrow> parent_of db r \<noteq> root"
    and "Update db root parent nodes = Ok db'"
  shows "ranked db'"
proof (cases "root = parent \<or> db_nodes db root \<noteq> None")
  case True
  then have "db' = db" using assms(3) by (auto simp: Update_def split: if_splits)
  then show ?thesis using assms(1) by simp
next
  case False
  obtain rk :: "hash \<Rightarrow> nat" where rk: "db_nodes db r \<noteq> None \<Longrightarrow> rk (parent_of db r) < rk r" for r
    using assms(1) by (auto simp: ranked_def)
  let ?rk = "rk(root := Suc (rk parent))"
  have db': "db_nodes db' = (db_nodes db)(root \<mapsto> nodes)" "parents db' = (parents db)(root \<mapsto> parent)"
    using False assms(3) by (auto simp: Update_def)
  have "?rk (parent_of db' r) < ?rk r" if "db_nodes db' r \<noteq> None" for r
  proof (cases "r = root")
    case True
    then show ?thesis using False db' by (auto simp: parent_of_def)
  next
    case neq: False
    then have "db_nodes db r \<noteq> None" "parent_of db' r = parent_of db r"
      using that db' by (auto simp: parent_of_def)
    then show ?thesis using rk fresh neq by simp
  qed
  then show ?thesis unfolding ranked_def by blast
qed

subsection \<open>Committing\<close>

lemma commit_layers_fields:
  assumes "commit_layers R db ls = Ok db'"
  shows "db_nodes db' = db_nodes db" and "parents db' = parents db" and "scheme db' = scheme db"
    and "db_root db' = (if ls = [] then db_root db else snd (last ls))"
  using assms by (induction R db ls rule: commit_layers.induct)
    (auto simp: Let_def split: option.splits if_splits)

lemma Commit_fields:
  assumes "Commit R db root = Some (Ok db')" and "dirties_chain db root rs"
  shows "db_nodes db' = db_nodes db |` (- set rs)" and "parents db' = parents db |` (- set rs)"
    and "db_root db' = (if rs = [] then db_root db else root)"
proof -
  have hd: "rs = [] \<or> hd rs = root" using assms(2) by cases auto
  have "db_nodes db' = db_nodes db |` (- set rs) \<and> parents db' = parents db |` (- set rs) \<and>
      db_root db' = (if rs = [] then db_root db else root)"
  proof (cases "root = db_root db")
    case True
    with assms(2) have "rs = []" by cases auto
    then show ?thesis using assms(1) True by (simp add: Commit_def restrict_map_def)
  next
    case False
    then obtain db1 where c: "commit_layers R db (zip (rev (layers db rs)) (rev rs)) = Ok db1"
      and "db' = db1\<lparr>db_nodes := db_nodes db1 |` (- set rs), parents := parents db1 |` (- set rs)\<rparr>"
      using assms(1) dirties_chain_value [OF assms(2), of False]
      by (auto simp: Commit_def out_simps)
    moreover have "rs \<noteq> [] \<Longrightarrow> snd (last (zip (rev (layers db rs)) (rev rs))) = hd rs"
      by (simp add: last_zip layers_def last_rev)
    ultimately show ?thesis
      using commit_layers_fields [OF c] hd by (auto simp: layers_def zip_eq_Nil_iff)
  qed
  then show "db_nodes db' = db_nodes db |` (- set rs)" and "parents db' = parents db |` (- set rs)"
    and "db_root db' = (if rs = [] then db_root db else root)" by auto
qed

lemma ranked_Commit:
  assumes "ranked db" and "Commit R db root = Some (Ok db')"
  shows "ranked db'"
  using ranked_chain [OF assms(1), of root] Commit_fields [OF assms(2)] ranked_restrict [OF assms(1)]
  by metis

text \<open>The databases reached from a new one by commits and by updates that add a root which no
  known root has as its parent.\<close>

inductive db_reach :: "'d RawDB \<Rightarrow> 'd testDb \<Rightarrow> bool" for R where
  new: "db_reach R (newTestDatabase R d sch)"
| update: "db_reach R db \<Longrightarrow> \<forall>r. db_nodes db r \<noteq> None \<longrightarrow> parent_of db r \<noteq> root \<Longrightarrow>
    Update db root parent nodes = Ok db' \<Longrightarrow> db_reach R db'"
| commit: "db_reach R db \<Longrightarrow> Commit R db root = Some (Ok db') \<Longrightarrow> db_reach R db'"
| preimage: "db_reach R db \<Longrightarrow> db_reach R (InsertPreimage R db ps)"

lemma db_reach_ranked: "db_reach R db \<Longrightarrow> ranked db"
proof (induction rule: db_reach.induct)
  case (update db root parent nodes db')
  then show ?case using ranked_Update [of db root parent nodes db'] by blast
next
  case (commit db root db')
  then show ?case by (blast intro: ranked_Commit)
qed (simp_all add: newTestDatabase_def ranked_def InsertPreimage_def parent_of_def)

section \<open>The proof list\<close>

type_synonym ProofList = "bytes list"

text \<open>\<^verbatim>\<open>Encode\<close> is \<^verbatim>\<open>hexutil.Encode\<close>.\<close>

definition ProofList_Put :: "(bytes \<Rightarrow> bytes) \<Rightarrow> ProofList \<Rightarrow> bytes \<Rightarrow> bytes \<Rightarrow> ProofList outcome" where
  "ProofList_Put Encode n key val = Ok (n @ [Encode val])"

definition ProofList_Delete :: "ProofList \<Rightarrow> bytes \<Rightarrow> ProofList outcome" where
  "ProofList_Delete n key = Panic (Errorf ''not supported'')"

definition ProofListToBytes :: "(ProofList \<Rightarrow> error + bytes) \<Rightarrow> ProofList \<Rightarrow> bytes outcome" where
  "ProofListToBytes gob_Encode pl =
     wrap_out ''failed to encode proofList to bytes'' (of_result (gob_Encode pl))"

section \<open>The trie generator\<close>

record kv_entry =
  kv_k :: bytes
  kv_v :: bytes
  kv_t :: bool

text \<open>\<^verbatim>\<open>common.LeftPadBytes(b, 32)\<close>, the trie's update and its lookup, and the random source,
  whose state is passed along.\<close>

record ('t, 'r) TrieLib =
  NewEmpty :: 't
  MustUpdate :: "'t \<Rightarrow> bytes \<Rightarrow> bytes \<Rightarrow> 't"
  trie_Get :: "'t \<Rightarrow> bytes \<Rightarrow> bytes option"
  LeftPadBytes :: "bytes \<Rightarrow> nat \<Rightarrow> bytes"
  rand_Read :: "'r \<Rightarrow> nat \<Rightarrow> bytes \<times> 'r"

definition randBytes :: "('t, 'r) TrieLib \<Rightarrow> 'r \<Rightarrow> nat \<Rightarrow> bytes \<times> 'r" where
  "randBytes T prng n = rand_Read T prng n"

definition put_entry :: "('t, 'r) TrieLib \<Rightarrow> kv_entry \<Rightarrow> 't \<times> (bytes \<rightharpoonup> kv_entry) \<Rightarrow> 't \<times> (bytes \<rightharpoonup> kv_entry)" where
  "put_entry T e p = (MustUpdate T (fst p) (kv_k e) (kv_v e), (snd p)(kv_k e \<mapsto> e))"

text \<open>In the loop body the two trie updates come first and the two map updates after them.\<close>

fun fixed_entries :: "('t, 'r) TrieLib \<Rightarrow> nat \<Rightarrow> byte \<Rightarrow> 't \<times> (bytes \<rightharpoonup> kv_entry) \<Rightarrow> 't \<times> (bytes \<rightharpoonup> kv_entry)" where
  "fixed_entries T 0 i p = p"
| "fixed_entries T (Suc m) i (t, vals) =
     (let value1 = \<lparr>kv_k = LeftPadBytes T [i] 32, kv_v = [i], kv_t = False\<rparr>;
          value2 = \<lparr>kv_k = LeftPadBytes T [i + 10] 32, kv_v = [i], kv_t = False\<rparr>;
          t' = MustUpdate T (MustUpdate T t (kv_k value1) (kv_v value1)) (kv_k value2) (kv_v value2)
      in fixed_entries T m (i + 1) (t', vals(kv_k value1 \<mapsto> value1, kv_k value2 \<mapsto> value2)))"

fun random_entries :: "('t, 'r) TrieLib \<Rightarrow> nat \<Rightarrow> 'r \<Rightarrow> 't \<times> (bytes \<rightharpoonup> kv_entry) \<Rightarrow> 't \<times> (bytes \<rightharpoonup> kv_entry)" where
  "random_entries T 0 prng p = p"
| "random_entries T (Suc n) prng p =
     (let (k, prng1) = randBytes T prng 32; (v, prng2) = randBytes T prng1 20
      in random_entries T n prng2 (put_entry T \<lparr>kv_k = k, kv_v = v, kv_t = False\<rparr> p))"

definition RandomTrie :: "('t, 'r) TrieLib \<Rightarrow> 'r \<Rightarrow> nat \<Rightarrow> 't \<times> (bytes \<rightharpoonup> kv_entry)" where
  "RandomTrie T prng n = random_entries T n prng (fixed_entries T 100 0 (NewEmpty T, Map.empty))"

text \<open>The trie and the reference map hold the same bindings.\<close>

definition trie_agrees :: "('t, 'r) TrieLib \<Rightarrow> 't \<times> (bytes \<rightharpoonup> kv_entry) \<Rightarrow> bool" where
  "trie_agrees T p \<longleftrightarrow> (\<forall>k. trie_Get T (fst p) k = map_option kv_v (snd p k)) \<and>
     (\<forall>k e. snd p k = Some e \<longrightarrow> kv_k e = k)"

locale trie_update =
  fixes T :: "('t, 'r) TrieLib"
  assumes trie_new: "trie_Get T (NewEmpty T) k = None"
    and trie_get_update: "v \<noteq> [] \<Longrightarrow>
      trie_Get T (MustUpdate T t k v) k' = (if k' = k then Some v else trie_Get T t k')"
    and rand_length: "length (fst (rand_Read T r n)) = n"
begin

lemma agrees_put: "trie_agrees T p \<Longrightarrow> kv_v e \<noteq> [] \<Longrightarrow> trie_agrees T (put_entry T e p)"
  by (auto simp: trie_agrees_def put_entry_def trie_get_update)

lemma fixed_entries_put:
  "fixed_entries T (Suc m) i p = fixed_entries T m (i + 1)
     (put_entry T \<lparr>kv_k = LeftPadBytes T [i + 10] 32, kv_v = [i], kv_t = False\<rparr>
       (put_entry T \<lparr>kv_k = LeftPadBytes T [i] 32, kv_v = [i], kv_t = False\<rparr> p))"
  by (cases p) (simp add: put_entry_def)

lemma agrees_fixed: "trie_agrees T p \<Longrightarrow> trie_agrees T (fixed_entries T m i p)"
  by (induction m arbitrary: i p) (simp_all add: fixed_entries_put agrees_put del: fixed_entries.simps(2))

lemma agrees_random: "trie_agrees T p \<Longrightarrow> trie_agrees T (random_entries T n r p)"
proof (induction n arbitrary: r p)
  case (Suc n)
  obtain k r1 where r1: "randBytes T r 32 = (k, r1)" by fastforce
  obtain v r2 where r2: "randBytes T r1 20 = (v, r2)" by fastforce
  then have "v \<noteq> []" using rand_length [of r1 20] by (auto simp: randBytes_def)
  then show ?case using Suc r1 r2 by (simp add: agrees_put)
qed simp

lemma agrees_RandomTrie: "trie_agrees T (RandomTrie T r n)"
  unfolding RandomTrie_def
  by (intro agrees_random agrees_fixed) (simp add: trie_agrees_def trie_new)

end

section \<open>Instances of the libraries\<close>

text \<open>
  For the examples: the hash is the last 32 bytes, a trie is one leaf that holds a 32-byte key
  followed by its value, and an updatable trie is a finite map.
\<close>

definition toy_hash :: "bytes \<Rightarrow> bytes" where
  "toy_hash bs = drop (length bs) (replicate 32 0 @ bs)"

definition leaf_verify :: "hash \<Rightarrow> bytes \<Rightarrow> mem \<Rightarrow> error + bytes option" where
  "leaf_verify root key d = (case fmlookup d root of
      None \<Rightarrow> Inl (Errorf ''proof node missing'')
    | Some n \<Rightarrow> Inr (if take 32 n = key then Some (drop 32 n) else None))"

definition leaf_lib :: "mem ProofLib" where
  "leaf_lib = \<lparr>Keccak256 = toy_hash, NewMemoryDatabase = fmempty, db_Put = (\<lambda>d k v. Inr (fmupd k v d)),
     db_Get = fmlookup, trie_VerifyProof = leaf_verify\<rparr>"

interpretation leaf: proof_lib leaf_lib
  by unfold_locales (auto simp: leaf_lib_def leaf_verify_def)

definition map_trie_lib :: "(mem, nat) TrieLib" where
  "map_trie_lib = \<lparr>NewEmpty = fmempty, MustUpdate = (\<lambda>t k v. fmupd k v t), trie_Get = fmlookup,
     LeftPadBytes = (\<lambda>b n. replicate (n - length b) 0 @ b),
     rand_Read = (\<lambda>r n. (map (\<lambda>i. of_nat (7 * r + i)) [0..<n], Suc r))\<rparr>"

interpretation map_trie: trie_update map_trie_lib
  by unfold_locales (auto simp: map_trie_lib_def)

definition ex_raw :: "mem RawDB" where
  "ex_raw = \<lparr>ReadTrieNode = (\<lambda>d owner path h sch. case fmlookup d h of None \<Rightarrow> [] | Some b \<Rightarrow> b),
     WriteTrieNode = (\<lambda>d owner path h b sch. fmupd h b d),
     ReadPreimage = (\<lambda>d h. []), WritePreimages = (\<lambda>d ps. d), ForEachWithOrder = (\<lambda>ns. ns),
     EmptyRootHash = [0]\<rparr>"

definition ex_layer :: MergedNodeSet where
  "ex_layer = [(zeroHash, [([1], \<lparr>nHash = [7], nBlob = [9]\<rparr>)])]"

definition ex_db :: "mem testDb" where
  "ex_db = (newTestDatabase ex_raw fmempty ''hash'')
     \<lparr>parents := [[1] \<mapsto> [0]], db_nodes := [[1] \<mapsto> ex_layer]\<rparr>"

lemma ex_db_simps: "db_root ex_db = [0]" "db_nodes ex_db = [[1] \<mapsto> ex_layer]" "parent_of ex_db [1] = [0]"
  by (simp_all add: ex_db_def newTestDatabase_def ex_raw_def parent_of_def)

lemma ex_db_reach: "db_reach ex_raw ex_db"
  by (rule db_reach.update [where db = "newTestDatabase ex_raw fmempty ''hash''" and root = "[1]" and parent = "[0]"])
    (auto simp: ex_db_def newTestDatabase_def Update_def intro: db_reach.new [unfolded newTestDatabase_def])

section \<open>Properties\<close>

text \<open>
  C19. \<^verbatim>\<open>ReconstructProofDB\<close> accepts every proof and builds a content-addressed database:
  each entry is a node of the proof filed under its own hash (or under itself when it is shorter
  than 32 bytes), and every node of the proof can be found.
\<close>

theorem ReconstructProofDB_content_addressed:
  assumes "proof_lib P"
  shows "\<exists>d. ReconstructProofDB P pf = Ok d \<and>
    (\<forall>k n. db_Get P d k = Some n \<longrightarrow> n \<in> set pf \<and>
       k = (if 32 \<le> length n then Keccak256 P n else n)) \<and>
    (\<forall>n \<in> set pf. db_Get P d (nodeKey P n) \<noteq> None)"
proof -
  obtain d where d: "ReconstructProofDB P pf = Ok d" by (rule proof_lib.reconstruct_map [OF assms])
  show ?thesis
    using d proof_lib.reconstruct_content_addressed [OF assms d] by (force simp: nodeKey_def)
qed

theorem ReconstructProofDB_content_addressed_witness:
  "\<exists>d. ReconstructProofDB leaf_lib [[1, 2]] = Ok d \<and> db_Get leaf_lib d [1, 2] \<noteq> None"
  using ReconstructProofDB_content_addressed [OF leaf.proof_lib_axioms, of "[[1, 2]]"]
  by (auto simp: nodeKey_def)

text \<open>
  C20. The outcome of \<^verbatim>\<open>VerifyMerklePatriciaTrieProof\<close> depends only on the set of proof
  nodes, not on their order or repetition, as long as no two of them collide; it never panics,
  and it can succeed only if some node of the proof hashes to the trusted root.
\<close>

theorem VerifyMerklePatriciaTrieProof_sound:
  assumes "proof_lib P" and "inj_on (nodeKey P) (set pf)" and "set pf = set pf'"
  shows "VerifyMerklePatriciaTrieProof P root key pf = VerifyMerklePatriciaTrieProof P root key pf' \<and>
    (\<forall>e. VerifyMerklePatriciaTrieProof P root key pf \<noteq> Panic e) \<and>
    (\<forall>v. VerifyMerklePatriciaTrieProof P root key pf = Ok v \<longrightarrow> (\<exists>n \<in> set pf. nodeKey P n = root))"
  using proof_lib.verify_same_nodes [OF assms] proof_lib.verify_no_panic [OF assms(1)]
    proof_lib.verify_needs_root [OF assms(1)] by metis

theorem VerifyMerklePatriciaTrieProof_sound_witness:
  "VerifyMerklePatriciaTrieProof leaf_lib [3] [] [[3], [4], [3]] =
     VerifyMerklePatriciaTrieProof leaf_lib [3] [] [[4], [3]] \<and>
   VerifyMerklePatriciaTrieProof leaf_lib [3] [] [[4], [3]] = Ok None"
proof -
  have "inj_on (nodeKey leaf_lib) (set [[3], [4], [3]])" by (auto simp: inj_on_def nodeKey_def)
  moreover have "set [[3], [4], [3]] = set [[4], [3 :: byte]]" by auto
  ultimately show ?thesis
    using VerifyMerklePatriciaTrieProof_sound [OF leaf.proof_lib_axioms, of "[[3], [4], [3]]" "[[4], [3]]" "[3]" "[]"]
    by (simp add: VerifyMerklePatriciaTrieProof_def ReconstructProofDB_def leaf_lib_def nodeKey_def leaf_verify_def)
qed

text \<open>
  C21. On every database built by fresh updates and commits, the walk \<^verbatim>\<open>dirties\<close>
  terminates from any root: it returns the layers of the chain of parents, newest first when
  \<^verbatim>\<open>topToBottom\<close> is set and oldest first otherwise.
\<close>

theorem dirties_terminates:
  assumes "db_reach R db"
  shows "\<exists>rs. dirties_chain db root rs \<and>
    dirties db root True = Some (map (\<lambda>r. the (db_nodes db r)) rs, rs) \<and>
    dirties db root False = Some (rev (map (\<lambda>r. the (db_nodes db r)) rs), rev rs)"
proof -
  obtain rs where "dirties_chain db root rs" using ranked_chain [OF db_reach_ranked [OF assms]] by blast
  then show ?thesis using dirties_chain_value [of db root rs] by (auto simp: layers_def)
qed

theorem dirties_terminates_witness: "dirties ex_db [1] True = Some ([ex_layer], [[1]])"
proof -
  obtain rs where c: "dirties_chain ex_db [1] rs"
    and d: "dirties ex_db [1] True = Some (map (\<lambda>r. the (db_nodes ex_db r)) rs, rs)"
    using dirties_terminates [OF ex_db_reach] by blast
  from c have "rs = [[1]]"
    by (simp add: dirties_chain.simps [of ex_db "[1]"] dirties_chain.simps [of ex_db "[0]"] ex_db_simps)
  then show ?thesis using d by (simp add: ex_db_def)
qed

text \<open>
  C22. Without freshness the walk may never return: after two updates that name each other as
  parent, neither of which is the committed root, \<^verbatim>\<open>dirties\<close>, and with it
  \<^verbatim>\<open>NodeReader\<close> and \<^verbatim>\<open>Commit\<close>, diverges.
\<close>

theorem dirties_diverges_on_cycle:
  assumes "a \<noteq> b" and "a \<noteq> db_root db" and "b \<noteq> db_root db"
    and "db_nodes db a = None" and "db_nodes db b = None"
    and "Update db a b ns = Ok db1" and "Update db1 b a ms = Ok db2"
  shows "dirties db2 a ttb = None \<and> NodeReader db2 a = None \<and> Commit R db2 a = None"
proof -
  have db2: "db_root db2 = db_root db" "db_nodes db2 a = Some ns" "db_nodes db2 b = Some ms"
    "parent_of db2 a = b" "parent_of db2 b = a"
    using assms by (auto simp: Update_def parent_of_def)
  have "dirties_chain db2 r rs \<Longrightarrow> r \<noteq> a \<and> r \<noteq> b" for r rs
    by (induction rule: dirties_chain.induct) (use db2 assms in auto)
  then have "dirties db2 a t = None" for t
    using dirties_eq_Some [of db2 a t] by (metis option.exhaust)
  then show ?thesis using db2 assms(2) by (simp add: NodeReader_def Commit_def)
qed

theorem dirties_diverges_on_cycle_witness:
  "\<exists>db1 db2. Update (newTestDatabase ex_raw fmempty ''hash'') [1] [2] [] = Ok db1 \<and>
     Update db1 [2] [1] [] = Ok db2 \<and> dirties db2 [1] True = None"
proof -
  let ?db = "newTestDatabase ex_raw fmempty ''hash''"
  obtain db1 db2 where u: "Update ?db [1] [2] [] = Ok db1" "Update db1 [2] [1] [] = Ok db2"
    by (auto simp: Update_def newTestDatabase_def)
  then have "dirties db2 [1] True = None"
    using dirties_diverges_on_cycle [OF _ _ _ _ _ u] by (simp add: newTestDatabase_def ex_raw_def)
  then show ?thesis using u by blast
qed

text \<open>
  A \<^verbatim>\<open>Commit\<close> that returns makes its root the new base when the root had dirty layers,
  drops exactly the roots of the committed chain from the database, and leaves no dirty layer
  between the root and the base.
\<close>

lemma Commit_moves_base:
  assumes "Commit R db root = Some (Ok db')" and "dirties_chain db root rs"
  shows "db_nodes db' = db_nodes db |` (- set rs) \<and> parents db' = parents db |` (- set rs) \<and>
    db_root db' = (if rs = [] then db_root db else root) \<and> dirties db' root True = Some ([], [])"
proof -
  note c = Commit_fields [OF assms]
  have "dirties_chain db' root []"
    using assms(2) c by cases (auto intro: dirties_chain.stop)
  then show ?thesis using c dirties_chain_value [of db' root "[]" True] by (simp add: layers_def)
qed

lemma Commit_moves_base_example:
  "\<exists>db'. Commit ex_raw ex_db [1] = Some (Ok db') \<and> db_root db' = [1] \<and> db_nodes db' [1] = None"
proof -
  have ch: "dirties_chain ex_db [1] [[1]]"
    by (simp add: dirties_chain.simps [of ex_db "[1]"] dirties_chain.simps [of ex_db "[0]"] ex_db_simps)
  then obtain db' where c: "Commit ex_raw ex_db [1] = Some (Ok db')"
    using dirties_chain_value [OF ch, of False]
    by (auto simp: Commit_def layers_def ex_db_def newTestDatabase_def ex_raw_def ex_layer_def)
  then show ?thesis using Commit_moves_base [OF c ch] by (simp add: restrict_map_def)
qed

text \<open>
  The trie and the reference map that \<^verbatim>\<open>RandomTrie\<close> returns agree: every key of the
  trie has the value of its entry in the map, and each entry is filed under its own key.
\<close>

lemma RandomTrie_agrees:
  assumes "trie_update T" and "RandomTrie T prng n = (t, vals)"
  shows "trie_Get T t k = map_option kv_v (vals k) \<and> (\<forall>e. vals k = Some e \<longrightarrow> kv_k e = k)"
  using trie_update.agrees_RandomTrie [OF assms(1), of prng n] assms(2) by (simp add: trie_agrees_def)

lemma RandomTrie_agrees_example:
  "\<exists>t vals. RandomTrie map_trie_lib 5 1 = (t, vals) \<and> trie_Get map_trie_lib t [] = map_option kv_v (vals [])"
  using RandomTrie_agrees [OF map_trie.trie_update_axioms] by (metis surj_pair)

end
