(* ===== verification/Groth16_Client.thy ===== *)
theory Groth16_Client
  imports Groth16_Store MPT
begin

text \<open>
  The client state of the Groth16 light client, \<^verbatim>\<open>ibc/lightclients/groth16/client_state.go\<close>:
  construction, initialization, verification of headers, the update of the client after the
  external prover has checked a state transition proof, and the verification of membership and
  non-membership proofs against a stored state root. The go-ethereum functions, the environment
  and the prover service are arguments (\<open>EthLib\<close>, \<open>ProverLib\<close>).
\<close>

section \<open>Messages, paths and libraries\<close>

text \<open>\<^verbatim>\<open>Balance\<close> is a pointer and may be nil after unmarshalling.\<close>

record MptProof =
  AccountProof :: "bytes list"
  Address :: bytes
  Balance :: "nat option"
  CodeHash :: hash
  Nonce :: u64
  StorageHash :: hash
  StorageProof :: "bytes list"
  StorageKey :: hash
  StorageValue :: nat

text \<open>Values behind \<^verbatim>\<open>exported.ClientMessage\<close> and \<^verbatim>\<open>exported.Path\<close>.\<close>

datatype ClientMessage = HeaderMsg Header | OtherMsg bytes
datatype Path = MerklePath "bytes list" | OtherPath bytes

record 'd EthLib =
  proofs :: "'d ProofLib"
  BytesToHash :: "bytes \<Rightarrow> hash"
  rlp_account :: "u64 \<Rightarrow> bytes \<Rightarrow> hash \<Rightarrow> hash \<Rightarrow> error + bytes"
  rlp_bytes :: "bytes \<Rightarrow> error + bytes"
  json_MptProof :: "bytes \<Rightarrow> error + MptProof"

record VerifyProofRequest =
  vp_Proof :: bytes
  vp_Sp1PublicInputs :: bytes
  vp_Sp1VkeyHash :: bytes
  vp_Groth16Vk :: bytes

text \<open>The environment, \<^verbatim>\<open>grpc.NewClient\<close>, and the remote procedure \<^verbatim>\<open>VerifyProof\<close> on a
  connection, whose response is its \<^verbatim>\<open>Success\<close> flag.\<close>

record 'c ProverLib =
  Getenv :: "string \<Rightarrow> bytes"
  grpc_NewClient :: "bytes \<Rightarrow> error + 'c"
  rpc_VerifyProof :: "'c \<Rightarrow> VerifyProofRequest \<Rightarrow> error + bool"

datatype Status = Active | Unknown

abbreviation ErrInvalidHeader :: error where
  "ErrInvalidHeader \<equiv> Sentinel ''invalid client header''"
abbreviation ErrInvalidClientType :: error where
  "ErrInvalidClientType \<equiv> Sentinel ''invalid client type''"
abbreviation ErrUpdateClientFailed :: error where
  "ErrUpdateClientFailed \<equiv> Sentinel ''unable to update light client''"
abbreviation ErrInvalidProof :: error where
  "ErrInvalidProof \<equiv> Sentinel ''invalid proof''"
abbreviation ErrNilPointer :: error where
  "ErrNilPointer \<equiv> Sentinel ''nil pointer dereference''"
abbreviation ErrIndexRange :: error where
  "ErrIndexRange \<equiv> Sentinel ''index out of range''"

section \<open>Construction and initialization\<close>

definition NewClientState ::
    "u64 \<Rightarrow> bytes \<Rightarrow> bytes \<Rightarrow> bytes \<Rightarrow> bytes \<Rightarrow> bytes \<Rightarrow> ClientState" where
  "NewClientState latestHeight stateTransitionVerifierKey stateMembershipVerifierKey groth16Vk
      codeCommitment genesisStateRoot =
     \<lparr>LatestHeight = latestHeight, StateTransitionVerifierKey = stateTransitionVerifierKey,
      CodeCommitment = codeCommitment, GenesisStateRoot = genesisStateRoot,
      StateMembershipVerifierKey = stateMembershipVerifierKey, Groth16Vk = groth16Vk\<rparr>"

definition ClientType :: "ClientState \<Rightarrow> bytes" where
  "ClientType cs = Groth16ClientType"

definition GetLatestClientHeight :: "ClientState \<Rightarrow> Height" where
  "GetLatestClientHeight cs = Height 0 (LatestHeight cs)"

definition status :: "ClientState \<Rightarrow> Status" where
  "status cs = Active"

definition Validate :: "ClientState \<Rightarrow> unit outcome" where
  "Validate cs = Ok ()"

definition ZeroCustomFields :: "ClientState \<Rightarrow> ClientState" where
  "ZeroCustomFields cs =
     \<lparr>LatestHeight = LatestHeight cs, StateTransitionVerifierKey = StateTransitionVerifierKey cs,
      CodeCommitment = [], GenesisStateRoot = [], StateMembershipVerifierKey = [], Groth16Vk = []\<rparr>"

definition initialize :: "'s Env \<Rightarrow> Context \<Rightarrow> 's \<Rightarrow> ClientState \<Rightarrow> ConsensusStateI \<Rightarrow> 's outcome" where
  "initialize E ctx clientStore cs initialConsensusState =
     (case initialConsensusState of
        OtherConsensus _ \<Rightarrow> Fail (Wrap ''invalid initial consensus state'' ErrInvalidConsensus)
      | G16Consensus consensusState \<Rightarrow>
          let height = GetLatestClientHeight cs in
          bind_out (SetConsensusState E clientStore consensusState height)
            (\<lambda>s1. let s2 = setConsensusMetadata E ctx s1 height in setClientState E s2 cs))"

section \<open>Membership proofs\<close>

text \<open>\<^verbatim>\<open>big.Int.Bytes\<close>: the big-endian bytes without leading zeros.\<close>

fun big_Bytes :: "nat \<Rightarrow> bytes" where
  "big_Bytes n = (if n = 0 then [] else big_Bytes (n div 256) @ [of_nat (n mod 256)])"

declare big_Bytes.simps [simp del]

text \<open>\<^verbatim>\<open>bytes.Equal\<close> treats nil as empty.\<close>

definition bytes_Equal :: "bytes option \<Rightarrow> bytes \<Rightarrow> bool" where
  "bytes_Equal a b \<longleftrightarrow> (case a of None \<Rightarrow> [] | Some x \<Rightarrow> x) = b"

definition verifyMembership ::
    "'s Env \<Rightarrow> 'd EthLib \<Rightarrow> 's \<Rightarrow> ClientState \<Rightarrow> Height \<Rightarrow> u64 \<Rightarrow> u64 \<Rightarrow> bytes \<Rightarrow> Path \<Rightarrow> bytes \<Rightarrow> unit outcome"
  where
  "verifyMembership E X clientStore cs height delayTime delayBlock pbz path val =
     bind_out (wrap_out ''failed to get consensus state'' (GetConsensusState E clientStore height))
       (\<lambda>consensusState.
     bind_out (wrap_out ''failed to deserialize mpt proof'' (of_result (json_MptProof X pbz)))
       (\<lambda>p.
     let ICS26RouterAddress = Keccak256 (proofs X) (Address p) in
     bind_out (wrap_out ''inclusion verification failed''
        (VerifyMerklePatriciaTrieProof (proofs X) (BytesToHash X (StateRoot consensusState))
           ICS26RouterAddress (AccountProof p)))
       (\<lambda>verifiedAccountState.
     case Balance p of None \<Rightarrow> Panic ErrNilPointer
     | Some balance \<Rightarrow>
     bind_out (wrap_out ''failed to rlp encode reconstructed account value''
        (of_result (rlp_account X (Nonce p) (big_Bytes balance) (StorageHash p) (CodeHash p))))
       (\<lambda>encodedAccountState.
     if \<not> bytes_Equal verifiedAccountState encodedAccountState
     then Fail (Errorf ''expected account claimed value does not match the verified value'')
     else
     let commitmentPath = Keccak256 (proofs X) (StorageKey p) in
     bind_out (wrap_out ''inclusion verification failed''
        (VerifyMerklePatriciaTrieProof (proofs X) (StorageHash p) commitmentPath (StorageProof p)))
       (\<lambda>verifiedValue.
     bind_out (wrap_out ''failed to encode value'' (of_result (rlp_bytes X val)))
       (\<lambda>expectedValue.
     if \<not> bytes_Equal verifiedValue expectedValue
     then Fail (Errorf ''verified value does not match the expected value'')
     else Ok ()))))))"

text \<open>The last error formats a nil error with \<^verbatim>\<open>%w\<close>, so it wraps nothing.\<close>

definition verifyNonMembership ::
    "'s Env \<Rightarrow> 'd EthLib \<Rightarrow> 's \<Rightarrow> ClientState \<Rightarrow> Height \<Rightarrow> u64 \<Rightarrow> u64 \<Rightarrow> bytes \<Rightarrow> Path \<Rightarrow> unit outcome"
  where
  "verifyNonMembership E X clientStore cs height delayTime delayBlock pbz path =
     bind_out (wrap_out ''failed to get consensus state'' (GetConsensusState E clientStore height))
       (\<lambda>consensusState.
     case path of
       OtherPath _ \<Rightarrow> Fail (Wrap ''expected MerklePath'' ErrInvalidProof)
     | MerklePath KeyPath \<Rightarrow>
     if length KeyPath < 2 then Panic ErrIndexRange
     else let mptKey = KeyPath ! 0 @ KeyPath ! 1 in
     bind_out (wrap_out ''failed to deserialize mpt proof'' (of_result (json_MptProof X pbz)))
       (\<lambda>decodedProof.
     bind_out (wrap_out ''inclusion verification failed''
        (VerifyMerklePatriciaTrieProof (proofs X) (BytesToHash X (StateRoot consensusState))
           mptKey (AccountProof decodedProof)))
       (\<lambda>verifiedValue.
     if verifiedValue \<noteq> None then Fail (Errorf ''the value for the specified key exists'')
     else Ok ())))"

definition getTimestampAtHeight :: "'s Env \<Rightarrow> 's \<Rightarrow> Height \<Rightarrow> u64 outcome" where
  "getTimestampAtHeight E clientStore height =
     bind_out (wrap_out ''failed to get consensus state'' (GetConsensusState E clientStore height))
       (\<lambda>consensusState. Ok (GetTimestamp (lib E) consensusState))"

section \<open>Headers and updates\<close>

definition CheckForMisbehaviour :: "ClientState \<Rightarrow> ClientMessage \<Rightarrow> bool" where
  "CheckForMisbehaviour cs msg = False"

definition CheckSubstituteAndUpdateState :: "ClientState \<Rightarrow> 's \<Rightarrow> 's \<Rightarrow> ClientState \<Rightarrow> 's outcome" where
  "CheckSubstituteAndUpdateState cs subjectClientStore substituteClientStore substituteClient =
     Fail (Wrap ''cannot update groth16 client with a proposal'' ErrUpdateClientFailed)"

definition VerifyUpgradeAndUpdateState ::
    "ClientState \<Rightarrow> 's \<Rightarrow> ClientState \<Rightarrow> ConsensusState \<Rightarrow> bytes \<Rightarrow> bytes \<Rightarrow> 's outcome" where
  "VerifyUpgradeAndUpdateState cs clientStore upgradedClient upgradedConsState
      proofUpgradeClient proofUpgradeConsState = Fail (Errorf ''not implemented'')"

text \<open>\<^verbatim>\<open>uint64(header.TrustedHeight)\<close> keeps the 64 bits of the signed field.\<close>

definition verifyHeader :: "'s Env \<Rightarrow> 's \<Rightarrow> Header \<Rightarrow> unit outcome" where
  "verifyHeader E clientStore header =
     bind_out (wrap_out ''could not get consensus state from clientstore at TrustedHeight''
        (GetConsensusState E clientStore (Height 0 (TrustedHeight header))))
       (\<lambda>_. if LTE (lib E) (GetHeight header) (Height 0 (TrustedHeight header))
            then Fail (Wrap ''header height <= consensus state height'' ErrInvalidHeader)
            else Ok ())"

definition VerifyClientMessage :: "'s Env \<Rightarrow> 's \<Rightarrow> ClientState \<Rightarrow> ClientMessage \<Rightarrow> unit outcome" where
  "VerifyClientMessage E clientStore cs clientMsg =
     (case clientMsg of
        HeaderMsg msg \<Rightarrow> verifyHeader E clientStore msg
      | OtherMsg _ \<Rightarrow> Fail ErrInvalidClientType)"

definition verifyProofRequest :: "ClientState \<Rightarrow> Header \<Rightarrow> VerifyProofRequest" where
  "verifyProofRequest cs header =
     \<lparr>vp_Proof = StateTransitionProof header, vp_Sp1PublicInputs = PublicValues header,
      vp_Sp1VkeyHash = StateTransitionVerifierKey cs, vp_Groth16Vk = Groth16Vk cs\<rparr>"

definition UpdateState ::
    "'s Env \<Rightarrow> 'c ProverLib \<Rightarrow> Context \<Rightarrow> 's \<Rightarrow> ClientState \<Rightarrow> ClientMessage \<Rightarrow> (Height list \<times> 's) outcome"
  where
  "UpdateState E V ctx clientStore cs clientMsg =
     (case clientMsg of
        OtherMsg _ \<Rightarrow> Fail (Errorf ''the only supported clientMsg type is Header'')
      | HeaderMsg header \<Rightarrow>
     let height = GetHeight header;
         evmProverRPC = Getenv V ''EVM_PROVER_URL'' in
     bind_out (wrap_out ''failed to connect to prover'' (of_result (grpc_NewClient V evmProverRPC)))
       (\<lambda>conn.
     bind_out (wrap_out ''failed to verify proof''
        (of_result (rpc_VerifyProof V conn (verifyProofRequest cs header))))
       (\<lambda>success.
     if \<not> success then Fail (Errorf ''proof verification failed'')
     else
     let newConsensusState = \<lparr>HeaderTimestamp = HdrTimestamp header, StateRoot = NewestStateRoot header\<rparr> in
     bind_out (SetConsensusState E clientStore newConsensusState (GetHeight header))
       (\<lambda>s1.
     let s2 = setConsensusMetadata E ctx s1 (GetHeight header);
         newClientState =
           \<lparr>LatestHeight = RevisionHeight (GetHeight header),
            StateTransitionVerifierKey = StateTransitionVerifierKey cs,
            CodeCommitment = CodeCommitment cs, GenesisStateRoot = GenesisStateRoot cs,
            StateMembershipVerifierKey = StateMembershipVerifierKey cs, Groth16Vk = Groth16Vk cs\<rparr> in
     bind_out (setClientState E s2 newClientState) (\<lambda>s3. Ok ([height], s3))))))"

section \<open>Updates against the abstract store\<close>

definition prover_accepts :: "'c ProverLib \<Rightarrow> ClientState \<Rightarrow> Header \<Rightarrow> bool" where
  "prover_accepts V cs header =
     (case grpc_NewClient V (Getenv V ''EVM_PROVER_URL'') of
        Inl _ \<Rightarrow> False
      | Inr conn \<Rightarrow> rpc_VerifyProof V conn (verifyProofRequest cs header) = Inr True)"

definition header_consensus :: "Header \<Rightarrow> ConsensusState" where
  "header_consensus header = \<lparr>HeaderTimestamp = HdrTimestamp header, StateRoot = NewestStateRoot header\<rparr>"

text \<open>A codec that encodes every client and consensus state.\<close>

definition marshal_total :: "Codec \<Rightarrow> bool" where
  "marshal_total C \<longleftrightarrow> (\<forall>c. \<exists>bz. MarshalClientState C c = Inr bz) \<and>
     (\<forall>c. \<exists>bz. MarshalConsensusState C c = Inr bz)"

text \<open>The part of an update that writes: one verified height and the new client state.\<close>

definition store_height ::
    "'s Env \<Rightarrow> Context \<Rightarrow> 's \<Rightarrow> ClientState \<Rightarrow> ConsensusState \<Rightarrow> Height \<Rightarrow> 's outcome" where
  "store_height E ctx s c cs h =
     bind_out (SetConsensusState E s cs h) (\<lambda>s1. setClientState E (setConsensusMetadata E ctx s1 h) c)"

lemma GetConsensusState_no_panic: "GetConsensusState E s h \<noteq> Panic e"
  by (auto simp: GetConsensusState_def Let_def split: sum.splits ConsensusStateI.splits)

lemma initialize_store_height:
  "initialize E ctx s c (G16Consensus cs) = store_height E ctx s c cs (GetLatestClientHeight c)"
  by (simp add: initialize_def store_height_def Let_def)

lemma update_record:
  "\<lparr>LatestHeight = n, StateTransitionVerifierKey = StateTransitionVerifierKey cs,
     CodeCommitment = CodeCommitment cs, GenesisStateRoot = GenesisStateRoot cs,
     StateMembershipVerifierKey = StateMembershipVerifierKey cs, Groth16Vk = Groth16Vk cs\<rparr> = cs\<lparr>LatestHeight := n\<rparr>"
  by simp

lemma UpdateState_accepted:
  "prover_accepts V cs header \<Longrightarrow> UpdateState E V ctx s cs (HeaderMsg header) =
     bind_out (store_height E ctx s (cs\<lparr>LatestHeight := NewestHeight header\<rparr>) (header_consensus header)
         (GetHeight header)) (\<lambda>t. Ok ([GetHeight header], t))"
  by (auto simp: UpdateState_def prover_accepts_def store_height_def bind_out_assoc Let_def
      header_consensus_def GetHeight_def update_record split: sum.splits)

lemma UpdateState_rejected:
  "\<not> prover_accepts V cs header \<Longrightarrow> \<exists>e. UpdateState E V ctx s cs (HeaderMsg header) = Fail e"
proof (cases "grpc_NewClient V (Getenv V ''EVM_PROVER_URL'')")
  case (Inr conn)
  assume "\<not> prover_accepts V cs header"
  with Inr show ?thesis
    by (cases "rpc_VerifyProof V conn (verifyProofRequest cs header)")
      (simp_all add: UpdateState_def prover_accepts_def Let_def)
qed (simp add: UpdateState_def)

lemma UpdateState_Ok:
  "UpdateState E V ctx s cs msg = Ok (hs, t) \<longleftrightarrow> (\<exists>header. msg = HeaderMsg header \<and>
     prover_accepts V cs header \<and> hs = [GetHeight header] \<and>
     store_height E ctx s (cs\<lparr>LatestHeight := NewestHeight header\<rparr>) (header_consensus header) (GetHeight header) = Ok t)"
proof (cases msg)
  case (HeaderMsg header)
  then show ?thesis
    using UpdateState_rejected [of V cs header E ctx s]
    by (cases "prover_accepts V cs header") (auto simp: UpdateState_accepted out_simps)
qed (simp add: UpdateState_def)

context client_env
begin

lemma store_height_Ok:
  assumes "store_height E ctx s c cs h = Ok t"
  shows "view E t = spec_store ctx c cs h (view E s)" and "store_inv E s \<Longrightarrow> store_inv E t"
proof -
  obtain s1 where s1: "SetConsensusState E s cs h = Ok s1"
    "setClientState E (setConsensusMetadata E ctx s1 h) c = Ok t"
    using assms by (auto simp: store_height_def out_simps)
  show v: "view E t = spec_store ctx c cs h (view E s)" by (rule store_one_height(1) [OF s1])
  show "store_inv E s \<Longrightarrow> store_inv E t"
    using store_one_height(2) [OF s1] by (simp add: store_inv_def v view_wf_spec_store)
qed

lemma store_height_total: "marshal_total (cdc E) \<Longrightarrow> \<exists>t. store_height E ctx s c cs h = Ok t"
  unfolding store_height_def SetConsensusState_def setClientState_def marshal_total_def
  by (metis bind_out.simps(1) must.simps(1))

lemma view_cons_eq: "view_cons E s h = Some cs \<longleftrightarrow> GetConsensusState E s h = Ok cs"
  by (simp add: view_cons_def split: outcome.splits)

lemma verifyHeader_Ok:
  "verifyHeader E s header = Ok u \<longleftrightarrow>
     view_cons E s (Height 0 (TrustedHeight header)) \<noteq> None \<and> TrustedHeight header < NewestHeight header"
proof -
  have "\<not> LTE (lib E) (GetHeight header) (Height 0 (TrustedHeight header)) \<longleftrightarrow>
      TrustedHeight header < NewestHeight header"
    by (auto simp: ho.lte GetHeight_def less_eq_Height_def not_le)
  then show ?thesis
    by (auto simp: verifyHeader_def out_simps view_cons_eq [symmetric] split: if_splits)
qed

end

section \<open>Reachable clients\<close>

definition empty_view :: ClientView where
  "empty_view = \<lparr>v_client = None, v_cons = Map.empty, v_time = Map.empty, v_pheight = Map.empty, v_iter = {}\<rparr>"

text \<open>
  The stores of a client that starts with client state \<open>c0\<close> and consensus state \<open>cs0\<close>
  in an empty store and is updated the way the IBC client keeper does it: the message is
  verified against the stored client state, then the update runs.
\<close>

inductive client_reach :: "'s Env \<Rightarrow> 'c ProverLib \<Rightarrow> ClientState \<Rightarrow> ConsensusState \<Rightarrow> 's \<Rightarrow> bool"
  for E V c0 cs0 where
  init: "iter_wf E s \<Longrightarrow> view E s = empty_view \<Longrightarrow>
    initialize E ctx s c0 (G16Consensus cs0) = Ok t \<Longrightarrow> client_reach E V c0 cs0 t"
| update: "client_reach E V c0 cs0 s \<Longrightarrow> getClientState E s = Ok (Some c) \<Longrightarrow>
    VerifyClientMessage E s c msg = Ok () \<Longrightarrow> UpdateState E V ctx s c msg = Ok (hs, t) \<Longrightarrow>
    client_reach E V c0 cs0 t"

text \<open>The invariant: the keys of the client never change; a consensus state is stored at the
  latest height; no stored height is below the initial one; and every stored consensus state is
  the initial one or comes from a header whose proof the prover accepted under the initial keys.\<close>

definition client_inv :: "'c ProverLib \<Rightarrow> ClientState \<Rightarrow> ConsensusState \<Rightarrow> ClientView \<Rightarrow> bool" where
  "client_inv V c0 cs0 v \<longleftrightarrow>
     (\<exists>n. v_client v = Some (c0\<lparr>LatestHeight := n\<rparr>) \<and> v_cons v (Height 0 n) \<noteq> None) \<and>
     (\<forall>h cs. v_cons v h = Some cs \<longrightarrow> RevisionNumber h = 0 \<and> LatestHeight c0 \<le> RevisionHeight h \<and>
        (h = GetLatestClientHeight c0 \<and> cs = cs0 \<or>
         (\<exists>header. prover_accepts V c0 header \<and> h = GetHeight header \<and> cs = header_consensus header)))"

lemma prover_accepts_keys: "prover_accepts V (c\<lparr>LatestHeight := n\<rparr>) = prover_accepts V c"
proof
  fix header
  have "verifyProofRequest (c\<lparr>LatestHeight := n\<rparr>) header = verifyProofRequest c header"
    by (simp add: verifyProofRequest_def)
  then show "prover_accepts V (c\<lparr>LatestHeight := n\<rparr>) header = prover_accepts V c header"
    by (simp add: prover_accepts_def split: sum.splits)
qed

lemma client_inv_init: "client_inv V c0 cs0 (spec_store ctx c0 cs0 (GetLatestClientHeight c0) empty_view)"
  by (auto simp: client_inv_def spec_store_def empty_view_def GetLatestClientHeight_def
      intro: exI [of _ "LatestHeight c0"] split: if_splits)

lemma client_inv_update:
  assumes inv: "client_inv V c0 cs0 v" and "v_client v = Some c" and acc: "prover_accepts V c header"
    and trusted: "v_cons v (Height 0 (TrustedHeight header)) \<noteq> None" and newer: "TrustedHeight header < NewestHeight header"
  shows "client_inv V c0 cs0 (spec_store ctx (c\<lparr>LatestHeight := NewestHeight header\<rparr>)
    (header_consensus header) (GetHeight header) v)"
proof -
  obtain n where c: "c = c0\<lparr>LatestHeight := n\<rparr>" using inv assms(2) by (auto simp: client_inv_def)
  have "LatestHeight c0 \<le> TrustedHeight header" using inv trusted unfolding client_inv_def
    by (metis Height.sel(2) not_None_eq)
  then have low: "LatestHeight c0 \<le> NewestHeight header" using newer by simp
  have "prover_accepts V c0 header" using acc by (simp add: c prover_accepts_keys)
  then show ?thesis
    using inv low unfolding client_inv_def
    by (auto simp: spec_store_def c GetHeight_def intro: exI [of _ "NewestHeight header"] split: if_splits)
qed

context client_env
begin

lemma view_client_eq: "view_client E s = Some c \<longleftrightarrow> getClientState E s = Ok (Some c)"
  by (simp add: view_client_def split: outcome.splits)

lemma client_reach_inv: "client_reach E V c0 cs0 s \<Longrightarrow> store_inv E s \<and> client_inv V c0 cs0 (view E s)"
proof (induction rule: client_reach.induct)
  case (init s ctx t)
  then have st: "store_height E ctx s c0 cs0 (GetLatestClientHeight c0) = Ok t"
    by (simp add: initialize_store_height)
  have "store_inv E s" using init by (auto simp: store_inv_def empty_view_def view_wf_def)
  then show ?case using store_height_Ok [OF st] init client_inv_init by simp
next
  case (update s c msg ctx hs t)
  then obtain header where h: "msg = HeaderMsg header" "prover_accepts V c header"
    and st: "store_height E ctx s (c\<lparr>LatestHeight := NewestHeight header\<rparr>) (header_consensus header) (GetHeight header) = Ok t"
    by (auto simp: UpdateState_Ok)
  have "view_cons E s (Height 0 (TrustedHeight header)) \<noteq> None" "TrustedHeight header < NewestHeight header"
    using update h by (auto simp: VerifyClientMessage_def verifyHeader_Ok)
  moreover have "view_client E s = Some c" using update by (simp add: view_client_eq)
  ultimately have "client_inv V c0 cs0 (spec_store ctx (c\<lparr>LatestHeight := NewestHeight header\<rparr>)
      (header_consensus header) (GetHeight header) (view E s))"
    using client_inv_update [of V c0 cs0 "view E s" c header ctx] update h by (simp add: view_def)
  then show ?case using store_height_Ok [OF st] update by simp
qed

end

section \<open>Membership proofs\<close>

text \<open>What the code relies on in RLP: an encoding determines the byte string.\<close>

locale eth_lib =
  fixes X :: "'d EthLib"
  assumes proofs_lib: "proof_lib (proofs X)"
    and rlp_bytes_inj: "rlp_bytes X a = Inr e \<Longrightarrow> rlp_bytes X b = Inr e \<Longrightarrow> a = b"

sublocale eth_lib \<subseteq> pl: proof_lib "proofs X"
  by (rule proofs_lib)

definition membership_evidence ::
    "'d EthLib \<Rightarrow> bytes \<Rightarrow> MptProof \<Rightarrow> bytes \<Rightarrow> bool" where
  "membership_evidence X stateRoot p val \<longleftrightarrow>
     (\<exists>balance account. Balance p = Some balance \<and>
        rlp_account X (Nonce p) (big_Bytes balance) (StorageHash p) (CodeHash p) = Inr account \<and>
        (\<exists>a. VerifyMerklePatriciaTrieProof (proofs X) (BytesToHash X stateRoot)
            (Keccak256 (proofs X) (Address p)) (AccountProof p) = Ok a \<and> bytes_Equal a account)) \<and>
     (\<exists>v e. VerifyMerklePatriciaTrieProof (proofs X) (StorageHash p)
        (Keccak256 (proofs X) (StorageKey p)) (StorageProof p) = Ok v \<and> rlp_bytes X val = Inr e \<and> bytes_Equal v e)"

lemma verifyMembership_Ok:
  "verifyMembership E X s cs h dt db pbz path val = Ok u \<longleftrightarrow>
     (\<exists>con p. GetConsensusState E s h = Ok con \<and> json_MptProof X pbz = Inr p \<and>
        membership_evidence X (StateRoot con) p val)"
  unfolding verifyMembership_def membership_evidence_def Let_def
  by (auto simp: out_simps split: option.splits if_splits) blast

context eth_lib
begin

lemma evidence_unique_value:
  assumes "membership_evidence X root p a" and "membership_evidence X root p b"
  shows "a = b"
proof -
  obtain v e where "VerifyMerklePatriciaTrieProof (proofs X) (StorageHash p)
      (Keccak256 (proofs X) (StorageKey p)) (StorageProof p) = Ok v" "rlp_bytes X a = Inr e" "bytes_Equal v e"
    using assms(1) unfolding membership_evidence_def by blast
  moreover obtain w f where "VerifyMerklePatriciaTrieProof (proofs X) (StorageHash p)
      (Keccak256 (proofs X) (StorageKey p)) (StorageProof p) = Ok w" "rlp_bytes X b = Inr f" "bytes_Equal w f"
    using assms(2) unfolding membership_evidence_def by blast
  ultimately show ?thesis using rlp_bytes_inj [of a e b] by (simp add: bytes_Equal_def)
qed

lemma evidence_nodes:
  assumes "membership_evidence X root p a"
  shows "\<exists>n \<in> set (AccountProof p). nodeKey (proofs X) n = BytesToHash X root"
    and "\<exists>n \<in> set (StorageProof p). nodeKey (proofs X) n = StorageHash p"
  using assms pl.verify_needs_root unfolding membership_evidence_def by blast+

end

lemma verifyMembership_Panic:
  assumes "proof_lib (proofs X)"
  shows "(\<exists>e. verifyMembership E X s cs h dt db pbz path val = Panic e) \<longleftrightarrow>
    (\<exists>con p a. GetConsensusState E s h = Ok con \<and> json_MptProof X pbz = Inr p \<and>
       VerifyMerklePatriciaTrieProof (proofs X) (BytesToHash X (StateRoot con))
         (Keccak256 (proofs X) (Address p)) (AccountProof p) = Ok a \<and> Balance p = None)"
  unfolding verifyMembership_def Let_def
  by (auto simp: bind_out_eq_Panic out_simps GetConsensusState_no_panic proof_lib.verify_no_panic [OF assms]
      split: option.splits if_splits)

lemma verifyNonMembership_Ok:
  "verifyNonMembership E X s cs h dt db pbz path = Ok u \<longleftrightarrow>
     (\<exists>con k1 k2 ks p. GetConsensusState E s h = Ok con \<and> path = MerklePath (k1 # k2 # ks) \<and>
        json_MptProof X pbz = Inr p \<and>
        VerifyMerklePatriciaTrieProof (proofs X) (BytesToHash X (StateRoot con)) (k1 @ k2) (AccountProof p) = Ok None)"
proof (cases path)
  case (MerklePath ks)
  then show ?thesis
    by (cases ks rule: remdups_adj.cases) (auto simp: verifyNonMembership_def Let_def out_simps split: if_splits)
qed (auto simp: verifyNonMembership_def out_simps)

lemma verifyNonMembership_Panic:
  assumes "proof_lib (proofs X)"
  shows "(\<exists>e. verifyNonMembership E X s cs h dt db pbz path = Panic e) \<longleftrightarrow>
    (\<exists>con ks. GetConsensusState E s h = Ok con \<and> path = MerklePath ks \<and> length ks < 2)"
  by (cases path) (auto simp: verifyNonMembership_def Let_def bind_out_eq_Panic out_simps
      GetConsensusState_no_panic proof_lib.verify_no_panic [OF assms] split: if_splits)

section \<open>Examples\<close>

text \<open>A prover that accepts one proof, a client at height 1, and headers for it.\<close>

definition ex_prover :: "unit ProverLib" where
  "ex_prover = \<lparr>Getenv = (\<lambda>_. str ''localhost:50052''), grpc_NewClient = (\<lambda>_. Inr ()),
     rpc_VerifyProof = (\<lambda>_ r. Inr (vp_Proof r = [1]))\<rparr>"

definition ex_client :: ClientState where
  "ex_client = NewClientState 1 (str ''vk'') [2] [3] [4] [5]"

definition ex_header :: "u64 \<Rightarrow> bytes \<Rightarrow> Header" where
  "ex_header n root = \<lparr>StateTransitionProof = [1], PublicValues = [7], TrustedHeight = 1,
     NewestStateRoot = root, NewestHeight = n, HdrTimestamp = Some \<lparr>Seconds = 100, Nanos = 0\<rparr>\<rparr>"

lemma ex_prover_accepts: "prover_accepts ex_prover c (ex_header n root)"
  by (simp add: prover_accepts_def ex_prover_def verifyProofRequest_def ex_header_def)

lemma marshal_total_mini: "marshal_total mini_codec"
  by (simp add: marshal_total_def mini_codec_def)

lemma ex_reach_init:
  obtains s where "client_reach mem_env ex_prover ex_client (ex_cons 50 [6]) s"
    and "view mem_env s = spec_store ex_ctx ex_client (ex_cons 50 [6]) (Height 0 1) empty_view"
proof -
  obtain s where s: "store_height mem_env ex_ctx fmempty ex_client (ex_cons 50 [6]) (Height 0 1) = Ok s"
    using mem_client.store_height_total marshal_total_mini by (metis mem_env_simps(3))
  have init: "initialize mem_env ex_ctx fmempty ex_client (G16Consensus (ex_cons 50 [6])) = Ok s"
    using s by (simp add: initialize_store_height GetLatestClientHeight_def ex_client_def NewClientState_def)
  have "client_reach mem_env ex_prover ex_client (ex_cons 50 [6]) s"
    by (rule client_reach.init [OF iter_wf_empty _ init]) (simp add: view_empty empty_view_def)
  moreover have "view mem_env s = spec_store ex_ctx ex_client (ex_cons 50 [6]) (Height 0 1) empty_view"
    using mem_client.store_height_Ok(1) [OF s] by (simp add: view_empty empty_view_def)
  ultimately show ?thesis by (rule that)
qed

text \<open>A header with trusted height 1 is accepted whenever height 1 is stored.\<close>

lemma ex_reach_update:
  assumes "client_reach mem_env ex_prover c0 cs0 s" and "view_client mem_env s = Some c"
    and "view_cons mem_env s (Height 0 1) \<noteq> None" and "1 < n"
  obtains t where "VerifyClientMessage mem_env s c (HeaderMsg (ex_header n root)) = Ok ()"
    and "UpdateState mem_env ex_prover ex_ctx s c (HeaderMsg (ex_header n root)) = Ok ([Height 0 n], t)"
    and "client_reach mem_env ex_prover c0 cs0 t"
    and "view mem_env t = spec_store ex_ctx (c\<lparr>LatestHeight := n\<rparr>) (header_consensus (ex_header n root)) (Height 0 n) (view mem_env s)"
proof -
  let ?h = "ex_header n root"
  have gh: "GetHeight ?h = Height 0 n" "NewestHeight ?h = n" by (simp_all add: GetHeight_def ex_header_def)
  obtain t where t: "store_height mem_env ex_ctx s (c\<lparr>LatestHeight := n\<rparr>) (header_consensus ?h) (Height 0 n) = Ok t"
    using mem_client.store_height_total marshal_total_mini by (metis mem_env_simps(3))
  have v: "VerifyClientMessage mem_env s c (HeaderMsg ?h) = Ok ()"
    using assms(3,4) by (simp add: VerifyClientMessage_def mem_client.verifyHeader_Ok ex_header_def)
  have u: "UpdateState mem_env ex_prover ex_ctx s c (HeaderMsg ?h) = Ok ([Height 0 n], t)"
    using t by (simp add: UpdateState_Ok ex_prover_accepts gh)
  have g: "getClientState mem_env s = Ok (Some c)" using assms(2) by (simp add: mem_client.view_client_eq)
  show ?thesis
    using that [OF v u client_reach.update [OF assms(1) g v u] mem_client.store_height_Ok(1) [OF t]] .
qed

text \<open>A one-leaf account trie and a one-leaf storage trie that holds the value 42.\<close>

definition ex_storage_hash :: hash where
  "ex_storage_hash = replicate 30 3 @ [1, 42]"

definition ex_proof :: MptProof where
  "ex_proof = \<lparr>AccountProof = [replicate 12 0 @ replicate 20 5 @ replicate 8 0 @ ex_storage_hash],
     Address = replicate 20 5, Balance = Some 0, CodeHash = [], Nonce = 0, StorageHash = ex_storage_hash,
     StorageProof = [replicate 32 3 @ [1, 42]], StorageKey = replicate 32 3, StorageValue = 42\<rparr>"

definition ex_eth :: "mem EthLib" where
  "ex_eth = \<lparr>proofs = leaf_lib, BytesToHash = toy_hash,
     rlp_account = (\<lambda>n b sh ch. Inr (be64 n @ b @ sh @ ch)), rlp_bytes = (\<lambda>b. Inr (1 # b)),
     json_MptProof = (\<lambda>bz. if bz = [1] then Inr ex_proof
        else if bz = [2] then Inr (ex_proof\<lparr>Balance := None\<rparr>) else Inl (Errorf ''json''))\<rparr>"

interpretation ex_eth: eth_lib ex_eth
  by (rule eth_lib.intro) (auto simp: ex_eth_def leaf.proof_lib_axioms)

lemma ex_verify_account:
  "VerifyMerklePatriciaTrieProof leaf_lib (toy_hash ex_storage_hash) (toy_hash (replicate 20 5)) (AccountProof ex_proof) =
     Ok (Some (replicate 8 0 @ ex_storage_hash))"
  by code_simp

lemma ex_verify_storage:
  "VerifyMerklePatriciaTrieProof leaf_lib ex_storage_hash (toy_hash (replicate 32 3)) (StorageProof ex_proof) =
     Ok (Some [1, 42])"
  by code_simp

lemma ex_evidence: "membership_evidence ex_eth ex_storage_hash ex_proof [42]"
proof -
  have "be64 0 = replicate 8 0" by code_simp
  moreover have "big_Bytes 0 = []" by (simp add: big_Bytes.simps)
  ultimately show ?thesis
    using ex_verify_account ex_verify_storage
    by (simp add: membership_evidence_def ex_eth_def ex_proof_def bytes_Equal_def leaf_lib_def)
qed

lemma ex_member_store: "view_cons mem_env (ex_put fmempty (ex_cons 100 root) (Height 0 5)) (Height 0 5) = Some (ex_cons 100 root)"
  using view_ex_put [of fmempty "ex_cons 100 root" "Height 0 5"] by (simp add: view_def)

lemma ex_member_get: "GetConsensusState mem_env (ex_put fmempty (ex_cons 100 root) (Height 0 5)) (Height 0 5) = Ok (ex_cons 100 root)"
  using ex_member_store by (simp add: mem_client.view_cons_eq)

section \<open>Properties\<close>

text \<open>
  C2. Invariant of every client the keeper can reach (initialization in an empty store, then
  updates that \<^verbatim>\<open>VerifyClientMessage\<close> accepted): the store is well formed; the verifier keys,
  code commitment and genesis root are those of the initial client state; a consensus state is
  stored at the latest height; no stored height has another revision or lies below the initial
  height; and every stored consensus state is the initial one or that of a header whose proof
  the prover accepted under the initial keys.
\<close>

theorem reachable_client_invariant:
  assumes "client_env E" and "client_reach E V c0 cs0 s"
  shows "store_inv E s \<and>
    (\<exists>n. view_client E s = Some (c0\<lparr>LatestHeight := n\<rparr>) \<and> view_cons E s (Height 0 n) \<noteq> None) \<and>
    (\<forall>h cs. view_cons E s h = Some cs \<longrightarrow> RevisionNumber h = 0 \<and> LatestHeight c0 \<le> RevisionHeight h \<and>
       (h = GetLatestClientHeight c0 \<and> cs = cs0 \<or>
        (\<exists>header. prover_accepts V c0 header \<and> h = GetHeight header \<and> cs = header_consensus header)))"
  using client_env.client_reach_inv [OF assms] by (simp add: client_inv_def view_def)

theorem reachable_client_invariant_witness:
  "\<exists>s. client_reach mem_env ex_prover ex_client (ex_cons 50 [6]) s \<and> store_inv mem_env s"
proof -
  obtain s where "client_reach mem_env ex_prover ex_client (ex_cons 50 [6]) s" by (rule ex_reach_init)
  with reachable_client_invariant [OF mem_client.client_env_axioms this] show ?thesis by blast
qed

text \<open>
  C3. \<^verbatim>\<open>UpdateState\<close> succeeds exactly when the message is a header whose proof the prover
  accepts under the keys of the client. It then stores the header's root and time at the
  header's height with its metadata and moves the latest height there, keeping the other fields
  of the client and the store invariant. In every other case it returns an error.
\<close>

theorem UpdateState_correct:
  assumes "client_env E" and "marshal_total (cdc E)"
  shows "case UpdateState E V ctx s cs msg of
      Ok (hs, t) \<Rightarrow> \<exists>header. msg = HeaderMsg header \<and> prover_accepts V cs header \<and> hs = [GetHeight header] \<and>
        view E t = spec_store ctx (cs\<lparr>LatestHeight := NewestHeight header\<rparr>)
          \<lparr>HeaderTimestamp = HdrTimestamp header, StateRoot = NewestStateRoot header\<rparr>
          (Height 0 (NewestHeight header)) (view E s) \<and>
        (store_inv E s \<longrightarrow> store_inv E t)
    | Fail _ \<Rightarrow> \<forall>header. msg = HeaderMsg header \<longrightarrow> \<not> prover_accepts V cs header
    | Panic _ \<Rightarrow> False"
proof (cases "\<exists>header. msg = HeaderMsg header \<and> prover_accepts V cs header")
  case True
  then obtain header where h: "msg = HeaderMsg header" "prover_accepts V cs header" by blast
  obtain t where t: "store_height E ctx s (cs\<lparr>LatestHeight := NewestHeight header\<rparr>)
      (header_consensus header) (GetHeight header) = Ok t"
    using client_env.store_height_total [OF assms] by blast
  then show ?thesis
    using h client_env.store_height_Ok [OF assms(1) t] UpdateState_accepted [OF h(2), of E ctx s]
    by (auto simp: GetHeight_def header_consensus_def)
next
  case False
  then have "\<exists>e. UpdateState E V ctx s cs msg = Fail e"
    using UpdateState_rejected by (cases msg) (fastforce simp: UpdateState_def)+
  then show ?thesis using False by auto
qed

theorem UpdateState_correct_witness:
  "\<exists>t. UpdateState mem_env ex_prover ex_ctx fmempty ex_client (HeaderMsg (ex_header 9 [8])) = Ok ([Height 0 9], t) \<and>
     view_cons mem_env t (Height 0 9) = Some \<lparr>HeaderTimestamp = Some \<lparr>Seconds = 100, Nanos = 0\<rparr>, StateRoot = [8]\<rparr>"
proof -
  have "marshal_total (cdc mem_env)" by (simp add: marshal_total_mini)
  from UpdateState_correct [OF mem_client.client_env_axioms this,
      where V = ex_prover and ctx = ex_ctx and s = fmempty and cs = ex_client and msg = "HeaderMsg (ex_header 9 [8])"]
  obtain t where "UpdateState mem_env ex_prover ex_ctx fmempty ex_client (HeaderMsg (ex_header 9 [8])) =
      Ok ([GetHeight (ex_header 9 [8])], t)"
    and "view_cons mem_env t = (view_cons mem_env fmempty)(Height 0 9 \<mapsto>
      \<lparr>HeaderTimestamp = Some \<lparr>Seconds = 100, Nanos = 0\<rparr>, StateRoot = [8]\<rparr>)"
    using ex_prover_accepts [of ex_client 9 "[8]"]
    by (auto simp: view_def spec_store_def ex_header_def split: outcome.splits)
  then show ?thesis by (simp add: GetHeight_def ex_header_def)
qed

text \<open>
  C13. \<^verbatim>\<open>initialize\<close> refines the abstract store: it fails only on a consensus state of another
  client type, and otherwise stores the initial consensus state at the client's latest height,
  with its metadata and the client state, keeping the store invariant.
\<close>

theorem initialize_correct:
  assumes "client_env E" and "marshal_total (cdc E)"
  shows "case ics of
      OtherConsensus b \<Rightarrow> initialize E ctx s c ics = Fail (Wrap ''invalid initial consensus state'' ErrInvalidConsensus)
    | G16Consensus cs \<Rightarrow> \<exists>t. initialize E ctx s c ics = Ok t \<and>
        view E t = spec_store ctx c cs (Height 0 (LatestHeight c)) (view E s) \<and> (store_inv E s \<longrightarrow> store_inv E t)"
proof (cases ics)
  case (G16Consensus cs)
  obtain t where t: "store_height E ctx s c cs (GetLatestClientHeight c) = Ok t"
    using client_env.store_height_total [OF assms] by blast
  then show ?thesis
    using G16Consensus client_env.store_height_Ok [OF assms(1) t]
    by (simp add: initialize_store_height GetLatestClientHeight_def)
qed (simp add: initialize_def)

theorem initialize_correct_witness:
  "\<exists>t. initialize mem_env ex_ctx fmempty ex_client (G16Consensus (ex_cons 50 [6])) = Ok t \<and>
     view mem_env t = spec_store ex_ctx ex_client (ex_cons 50 [6]) (Height 0 1) (view mem_env fmempty)"
  using initialize_correct [OF mem_client.client_env_axioms, where ics = "G16Consensus (ex_cons 50 [6])" and c = ex_client]
  by (simp add: marshal_total_mini) (metis ex_client_def NewClientState_def ClientState.select_convs(1))

text \<open>
  C14. \<^verbatim>\<open>VerifyClientMessage\<close> accepts exactly the headers whose trusted height has a stored
  consensus state and whose own height is greater, both read as unsigned 64-bit numbers.
\<close>

theorem VerifyClientMessage_iff:
  assumes "client_env E"
  shows "VerifyClientMessage E s c msg = Ok () \<longleftrightarrow> (\<exists>header. msg = HeaderMsg header \<and>
    view_cons E s (Height 0 (TrustedHeight header)) \<noteq> None \<and> TrustedHeight header < NewestHeight header)"
  by (cases msg) (simp_all add: VerifyClientMessage_def client_env.verifyHeader_Ok [OF assms])

theorem VerifyClientMessage_iff_witness:
  "VerifyClientMessage mem_env ex_store ex_client (HeaderMsg ((ex_header 6 [])\<lparr>TrustedHeight := 5\<rparr>)) = Ok () \<and>
   VerifyClientMessage mem_env ex_store ex_client (HeaderMsg ((ex_header 5 [])\<lparr>TrustedHeight := 5\<rparr>)) \<noteq> Ok ()"
  unfolding VerifyClientMessage_iff [OF mem_client.client_env_axioms]
  by (simp add: view_cons_ex_store ex_header_def)

text \<open>
  C10. Soundness of \<^verbatim>\<open>verifyMembership\<close>: it succeeds only if a consensus state is stored at
  the height and the proof holds an account leaf, verified under that state root, whose RLP
  encoding contains the storage root under which the value is verified; the account proof has a
  node hashing to the state root and the storage proof one hashing to the storage root; and the
  same proof bytes never verify two different values at the same height.
\<close>

theorem verifyMembership_sound:
  assumes "eth_lib X" and "verifyMembership E X s cs h dt db pbz path val = Ok ()"
  shows "\<exists>con p. GetConsensusState E s h = Ok con \<and> json_MptProof X pbz = Inr p \<and>
    membership_evidence X (StateRoot con) p val \<and>
    (\<exists>n \<in> set (AccountProof p). nodeKey (proofs X) n = BytesToHash X (StateRoot con)) \<and>
    (\<exists>n \<in> set (StorageProof p). nodeKey (proofs X) n = StorageHash p) \<and>
    (\<forall>val' path'. verifyMembership E X s cs h dt db pbz path' val' = Ok () \<longrightarrow> val' = val)"
proof -
  obtain con p where c: "GetConsensusState E s h = Ok con" "json_MptProof X pbz = Inr p"
    and m: "membership_evidence X (StateRoot con) p val"
    using assms(2) by (auto simp: verifyMembership_Ok)
  have "val' = val" if "verifyMembership E X s cs h dt db pbz path' val' = Ok ()" for val' path'
    using that c by (intro eth_lib.evidence_unique_value [OF assms(1) _ m]) (simp add: verifyMembership_Ok)
  then show ?thesis using c m eth_lib.evidence_nodes [OF assms(1) m] by blast
qed

theorem verifyMembership_sound_witness:
  "verifyMembership mem_env ex_eth (ex_put fmempty (ex_cons 100 ex_storage_hash) (Height 0 5)) ex_client
     (Height 0 5) 0 0 [1] (MerklePath []) [42] = Ok () \<and>
   verifyMembership mem_env ex_eth (ex_put fmempty (ex_cons 100 ex_storage_hash) (Height 0 5)) ex_client
     (Height 0 5) 0 0 [1] (MerklePath []) [43] \<noteq> Ok ()"
proof -
  have "verifyMembership mem_env ex_eth (ex_put fmempty (ex_cons 100 ex_storage_hash) (Height 0 5)) ex_client
     (Height 0 5) 0 0 [1] (MerklePath []) [42] = Ok ()"
    unfolding verifyMembership_Ok using ex_member_get ex_evidence by (simp add: ex_eth_def ex_cons_def)
  moreover from verifyMembership_sound [OF ex_eth.eth_lib_axioms this] this show ?thesis by auto
qed

text \<open>
  C15. \<^verbatim>\<open>verifyMembership\<close> can panic: it does exactly when the account proof verifies and the
  proof JSON carries no balance. \<^verbatim>\<open>verifyNonMembership\<close> panics exactly when the consensus
  state is found and the Merkle path has fewer than two keys; it succeeds exactly when the
  concatenation of the first two keys is verified as absent under the stored state root.
\<close>

theorem membership_panics:
  assumes "proof_lib (proofs X)"
  shows "((\<exists>e. verifyMembership E X s cs h dt db pbz path val = Panic e) \<longleftrightarrow>
      (\<exists>con p a. GetConsensusState E s h = Ok con \<and> json_MptProof X pbz = Inr p \<and>
         VerifyMerklePatriciaTrieProof (proofs X) (BytesToHash X (StateRoot con))
           (Keccak256 (proofs X) (Address p)) (AccountProof p) = Ok a \<and> Balance p = None)) \<and>
    ((\<exists>e. verifyNonMembership E X s cs h dt db pbz path = Panic e) \<longleftrightarrow>
      (\<exists>con ks. GetConsensusState E s h = Ok con \<and> path = MerklePath ks \<and> length ks < 2)) \<and>
    (verifyNonMembership E X s cs h dt db pbz path = Ok () \<longleftrightarrow>
      (\<exists>con k1 k2 ks p. GetConsensusState E s h = Ok con \<and> path = MerklePath (k1 # k2 # ks) \<and>
         json_MptProof X pbz = Inr p \<and> VerifyMerklePatriciaTrieProof (proofs X)
           (BytesToHash X (StateRoot con)) (k1 @ k2) (AccountProof p) = Ok None))"
  by (intro conjI verifyMembership_Panic verifyNonMembership_Panic verifyNonMembership_Ok assms)

theorem membership_panics_witness:
  "\<exists>e. verifyMembership mem_env ex_eth (ex_put fmempty (ex_cons 100 ex_storage_hash) (Height 0 5)) ex_client
     (Height 0 5) 0 0 [2] (MerklePath []) [42] = Panic e"
proof -
  have "json_MptProof ex_eth [2] = Inr (ex_proof\<lparr>Balance := None\<rparr>)"
    and "VerifyMerklePatriciaTrieProof (proofs ex_eth) (BytesToHash ex_eth ex_storage_hash)
      (Keccak256 (proofs ex_eth) (Address ex_proof)) (AccountProof ex_proof) = Ok (Some (replicate 8 0 @ ex_storage_hash))"
    using ex_verify_account by (simp_all add: ex_eth_def leaf_lib_def ex_proof_def)
  then show ?thesis
    unfolding membership_panics [OF ex_eth.proofs_lib, THEN conjunct1] ex_member_get
    by (simp add: ex_cons_def)
qed

text \<open>
  C16. The stored root is not bound to the proof: whenever an update succeeds, the same proof and
  public values are accepted with any other state root and height in the header, and that root
  is stored at that height.
\<close>

theorem UpdateState_root_not_bound:
  assumes "client_env E" and "marshal_total (cdc E)"
    and "UpdateState E V ctx s cs (HeaderMsg header) = Ok (hs, t)"
  shows "\<exists>t'. UpdateState E V ctx s cs (HeaderMsg (header\<lparr>NewestStateRoot := r, NewestHeight := n\<rparr>)) =
      Ok ([Height 0 n], t') \<and>
    view_cons E t' (Height 0 n) = Some \<lparr>HeaderTimestamp = HdrTimestamp header, StateRoot = r\<rparr> \<and>
    view_client E t' = Some (cs\<lparr>LatestHeight := n\<rparr>)"
proof -
  let ?h = "header\<lparr>NewestStateRoot := r, NewestHeight := n\<rparr>"
  have "verifyProofRequest cs ?h = verifyProofRequest cs header" by (simp add: verifyProofRequest_def)
  then have acc: "prover_accepts V cs ?h"
    using assms(3) by (auto simp: UpdateState_Ok prover_accepts_def split: sum.splits)
  obtain t' where t': "store_height E ctx s (cs\<lparr>LatestHeight := n\<rparr>) (header_consensus ?h) (Height 0 n) = Ok t'"
    using client_env.store_height_total [OF assms(1,2)] by blast
  show ?thesis
    using client_env.store_height_Ok(1) [OF assms(1) t'] t' UpdateState_accepted [OF acc, of E ctx s]
    by (simp add: view_def spec_store_def header_consensus_def GetHeight_def)
qed

theorem UpdateState_root_not_bound_witness:
  "\<exists>t'. UpdateState mem_env ex_prover ex_ctx fmempty ex_client (HeaderMsg (ex_header 3 [99])) = Ok ([Height 0 3], t')"
proof -
  obtain t where "store_height mem_env ex_ctx fmempty (ex_client\<lparr>LatestHeight := 9\<rparr>)
      (header_consensus (ex_header 9 [8])) (Height 0 9) = Ok t"
    using mem_client.store_height_total marshal_total_mini by (metis mem_env_simps(3))
  then have u: "UpdateState mem_env ex_prover ex_ctx fmempty ex_client (HeaderMsg (ex_header 9 [8])) =
      Ok ([GetHeight (ex_header 9 [8])], t)"
    unfolding UpdateState_Ok using ex_prover_accepts by (simp add: GetHeight_def ex_header_def)
  show ?thesis
    using UpdateState_root_not_bound [OF mem_client.client_env_axioms _ u, where r = "[99]" and n = 3]
    by (auto simp: ex_header_def marshal_total_mini)
qed


end
