(* ===== verification/Groth16_Typing.thy ===== *)
theory Groth16_Typing
  imports Groth16_Client
begin

text \<open>
  Types for the client store of \<^verbatim>\<open>ibc/lightclients/groth16/store.go\<close>. A key-value store holds bytes; the
  key says what they encode. The readers of the store panic on bytes of another kind, so the
  client is safe because its writers keep every entry at the type of its key.
\<close>

section \<open>Types of keys and of values\<close>

datatype StoreTy = ClientTy | ConsensusTy | TimeTy | HeightTy | IndexTy Height

inductive key_ty :: "IBCLib \<Rightarrow> bytes \<Rightarrow> StoreTy \<Rightarrow> bool" for L where
  client: "key_ty L (ClientStateKey L) ClientTy"
| consensus: "key_ty L (ConsensusStateKey L h) ConsensusTy"
| ptime: "key_ty L (ProcessedTimeKey L h) TimeTy"
| pheight: "key_ty L (ProcessedHeightKey L h) HeightTy"
| index: "key_ty L (IterationKey h) (IndexTy h)"

declare key_ty.intros [intro]

fun has_ty :: "'s Env \<Rightarrow> StoreTy \<Rightarrow> bytes \<Rightarrow> bool" where
  "has_ty E ClientTy v = (\<exists>c. UnmarshalClientState (cdc E) v = Inr (G16Client c))"
| "has_ty E ConsensusTy v = (\<exists>c. UnmarshalConsensusState (cdc E) v = Inr (G16Consensus c))"
| "has_ty E TimeTy v = (\<exists>t. BigEndianToUint64 (lib E) v = Ok t)"
| "has_ty E HeightTy v = (\<exists>h. ParseHeight (lib E) v = Inr h)"
| "has_ty E (IndexTy h) v = (v = ConsensusStateKey (lib E) h)"

definition store_typed :: "'s Env \<Rightarrow> 's \<Rightarrow> bool" where
  "store_typed E s \<longleftrightarrow> (\<forall>k v. kv_Get (kv E) s k = Some v \<longrightarrow> (\<exists>T. key_ty (lib E) k T \<and> has_ty E T v))"

section \<open>Progress: readers of a typed store\<close>

context client_env
begin

text \<open>A key has one type.\<close>

lemma key_ty_simps [simp]:
  "key_ty (lib E) (ClientStateKey (lib E)) T \<longleftrightarrow> T = ClientTy"
  "key_ty (lib E) (ConsensusStateKey (lib E) h) T \<longleftrightarrow> T = ConsensusTy"
  "key_ty (lib E) (ProcessedTimeKey (lib E) h) T \<longleftrightarrow> T = TimeTy"
  "key_ty (lib E) (ProcessedHeightKey (lib E) h) T \<longleftrightarrow> T = HeightTy"
  "key_ty (lib E) (IterationKey h) T \<longleftrightarrow> T = IndexTy h"
  by (auto elim: key_ty.cases)

lemma typed_read:
  assumes "store_typed E s" and "key_ty (lib E) k T" and "\<And>T'. key_ty (lib E) k T' \<Longrightarrow> T' = T"
  shows "store_Get E s k = [] \<or> has_ty E T (store_Get E s k)"
proof (cases "kv_Get (kv E) s k")
  case (Some v)
  then obtain T' where "key_ty (lib E) k T'" "has_ty E T' v" using assms(1) unfolding store_typed_def by blast
  then show ?thesis using assms(3) Some by (simp add: store_Get_def)
qed (simp add: store_Get_def)

lemma typed_getClientState:
  assumes "store_typed E s"
  shows "\<exists>c. getClientState E s = Ok c"
  using typed_read [OF assms, of "ClientStateKey (lib E)" ClientTy] by (auto simp: getClientState_def Let_def)

lemma typed_GetConsensusState:
  assumes "store_typed E s"
  shows "(\<exists>cs. GetConsensusState E s h = Ok cs)
    \<or> GetConsensusState E s h = Fail (Wrap ''consensus state does not exist for height'' ErrConsensusStateNotFound)"
  using typed_read [OF assms, of "ConsensusStateKey (lib E) h" ConsensusTy] by (auto simp: GetConsensusState_def Let_def)

lemma typed_GetProcessedTime:
  assumes "store_typed E s"
  shows "\<exists>t. GetProcessedTime E s h = Ok t"
  using typed_read [OF assms, of "ProcessedTimeKey (lib E) h" TimeTy] by (auto simp: GetProcessedTime_def Let_def out_simps)

text \<open>Under an iteration prefix there are only iteration keys, so that the heights can be read off.\<close>

lemma typed_iter_wf: "store_typed E s \<Longrightarrow> iter_wf E s"
  unfolding iter_wf_def store_typed_def by (fastforce elim: key_ty.cases)

end

section \<open>Preservation: writers keep the types\<close>

context client_env
begin

lemma typed_Set:
  "store_typed E s \<Longrightarrow> k \<noteq> [] \<Longrightarrow> key_ty (lib E) k T \<Longrightarrow> has_ty E T v \<Longrightarrow> store_typed E (kv_Set (kv E) s k v)"
  by (auto simp: store_typed_def st.get_put)

lemma typed_Delete: "store_typed E s \<Longrightarrow> k \<noteq> [] \<Longrightarrow> store_typed E (kv_Delete (kv E) s k)"
  by (auto simp: store_typed_def st.get_delete)

lemma typed_SetConsensusState: "store_typed E s \<Longrightarrow> SetConsensusState E s cs h = Ok t \<Longrightarrow> store_typed E t"
  unfolding SetConsensusState_Ok using co.consensus_roundtrip by (auto intro!: typed_Set)

lemma typed_setClientState: "store_typed E s \<Longrightarrow> setClientState E s c = Ok t \<Longrightarrow> store_typed E t"
  unfolding setClientState_Ok using co.client_roundtrip by (auto intro!: typed_Set)

lemma typed_setConsensusMetadata: "store_typed E s \<Longrightarrow> store_typed E (setConsensusMetadata E ctx s h)"
  unfolding metadata_defs Let_def
  by (intro typed_Set) (auto simp: ho.uint64_to_big_endian ho.big_endian_to_uint64 ho.parse_height)

lemma typed_store_height: "store_typed E s \<Longrightarrow> store_height E ctx s c cs h = Ok t \<Longrightarrow> store_typed E t"
  unfolding store_height_def
  by (auto simp: out_simps intro: typed_SetConsensusState typed_setConsensusMetadata typed_setClientState)

lemma typed_delete_heights: "store_typed E s \<Longrightarrow> store_typed E (delete_heights E s hs)"
  by (induction hs arbitrary: s) (simp_all add: delete_defs Let_def typed_Delete)

lemma typed_initialize: "store_typed E s \<Longrightarrow> initialize E ctx s c cs = Ok t \<Longrightarrow> store_typed E t"
proof (cases cs)
  case (OtherConsensus x)
  then show "initialize E ctx s c cs = Ok t \<Longrightarrow> store_typed E t" by (simp add: initialize_def)
qed (auto simp: initialize_store_height dest: typed_store_height)

lemma typed_UpdateState: "store_typed E s \<Longrightarrow> UpdateState E V ctx s c msg = Ok (hs, t) \<Longrightarrow> store_typed E t"
  by (auto simp: UpdateState_Ok dest: typed_store_height)

lemma typed_prune:
  "store_typed E s \<Longrightarrow> PruneAllExpiredConsensusStates E ctx s = Ok t \<Longrightarrow> store_typed E t"
  by (auto simp: PruneAllExpiredConsensusStates_def out_simps typed_delete_heights)

text \<open>Pruning reads every height off its iteration key, which cannot fail on a typed store.\<close>

lemma iterate_heights_Ok: "\<exists>r. iterate_heights cb acc (map (\<lambda>g. (IterationKey g, f g)) hs) = Ok r"
  by (induction hs arbitrary: acc) (auto split: prod.splits)

lemma typed_prune_runs:
  assumes "store_typed E s"
  obtains t where "PruneAllExpiredConsensusStates E ctx s = Ok t"
  using iterate_heights_Ok [of "pruneCb E ctx s" "[]" "ConsensusStateKey (lib E)" "sorted_list_of_set (view_iter E s)"]
    prefix_iterator_heights [OF typed_iter_wf [OF assms]]
  by (auto simp: PruneAllExpiredConsensusStates_def IterateConsensusStateAscending_def)

end

lemma typed_empty: "store_typed mem_env fmempty"
  by (simp add: store_typed_def mem_env_def mem_kv_def)

section \<open>Property\<close>



end
