(* ===== verification/Relayer_Data.thy ===== *)
theory Relayer_Data
  imports Groth16_Client
begin

text \<open>
  The data handling of the demo relayer, \<^verbatim>\<open>testing/demo/pkg/transfer\<close>: decoding the public
  values of the aggregated EVM proof (\<^verbatim>\<open>update_groth16_client.go\<close>), packet commitment paths,
  storage keys, event extraction and the translation of \<^verbatim>\<open>eth_getProof\<close> responses
  (\<^verbatim>\<open>eth_utils.go\<close>, \<^verbatim>\<open>simapp_to_evm_relay.go\<close>, \<^verbatim>\<open>evm_to_simapp_relay.go\<close>), and the
  verifier keys of the provers (\<^verbatim>\<open>celestia_prover_utils.go\<close>, \<^verbatim>\<open>verifier_keys.go\<close>).
\<close>

section \<open>Constants\<close>

definition transferAmount :: nat where "transferAmount = 100000"
definition transferBackAmount :: nat where "transferBackAmount = 10000"
definition denom :: bytes where "denom = str ''stake''"
definition sender :: bytes where "sender = str ''cosmos1ltvzpwf3eg8e9s7wzleqdmw02lesrdex9jgt0q''"
definition receiver :: bytes where "receiver = str ''0xaF9053bB6c4346381C77C2FeD279B17ABAfCDf4d''"
definition tendermintClientID :: bytes where "tendermintClientID = str ''07-tendermint-0''"
definition groth16ClientID :: bytes where "groth16ClientID = str ''08-groth16-0''"

section \<open>Public values\<close>

text \<open>
  \<^verbatim>\<open>binary.Read\<close> into a 32-byte array fails when fewer bytes are left. The slice expressions
  after it panic out of range; the capacity of the slice is taken to be its length. The number
  of header hashes is an unchecked 64-bit prefix: allocating the result or slicing past the end
  panics when the data is too short for it.
\<close>

fun read_hashes :: "bytes \<Rightarrow> nat \<Rightarrow> nat \<Rightarrow> bytes list outcome" where
  "read_hashes data currentIndex 0 = Ok []"
| "read_hashes data currentIndex (Suc n) =
     (if length data < currentIndex + 32 then Panic ErrSliceBounds
      else bind_out (read_hashes data (currentIndex + 32) n)
        (\<lambda>hs. Ok (take 32 (drop currentIndex data) # hs)))"

definition slice_u64 :: "bytes \<Rightarrow> u64 outcome" where
  "slice_u64 bs = (case read_le64 bs of None \<Rightarrow> Panic ErrSliceBounds | Some w \<Rightarrow> Ok w)"

definition DecodePublicValues :: "bytes \<Rightarrow> BlevmAggOutput outcome" where
  "DecodePublicValues data =
     (if length data < 32 then Fail (Wrap ''read newest header hash'' (Errorf ''unexpected EOF''))
      else if length data < 64 then Fail (Wrap ''read oldest header hash'' (Errorf ''unexpected EOF''))
      else if length data < 72 then Panic ErrSliceBounds
      else
      bind_out (slice_u64 (take 8 (drop 64 data)))
        (\<lambda>celestiaHeaderHashesLength.
      let n = unat celestiaHeaderHashesLength; currentIndex = 72 + 32 * n in
      bind_out (read_hashes data 72 n)
        (\<lambda>hashes.
      if length data < currentIndex + 32 then Panic ErrSliceBounds
      else
      bind_out (slice_u64 (drop (length data - 8) data))
        (\<lambda>height.
      Ok \<lparr>NewestHeaderHash = take 32 data, OldestHeaderHash = take 32 (drop 32 data),
          CelestiaHeaderHashes = hashes, blevm_NewestStateRoot = take 32 (drop currentIndex data),
          blevm_NewestHeight = height\<rparr>))))"

text \<open>The bincode layout of the values, as the comment of the decoder describes it.\<close>

definition encode_public_values :: "BlevmAggOutput \<Rightarrow> bytes" where
  "encode_public_values x =
     NewestHeaderHash x @ OldestHeaderHash x @ le64 (of_nat (length (CelestiaHeaderHashes x)))
       @ concat (CelestiaHeaderHashes x) @ blevm_NewestStateRoot x @ le64 (blevm_NewestHeight x)"

definition output_wf :: "BlevmAggOutput \<Rightarrow> bool" where
  "output_wf x \<longleftrightarrow> length (NewestHeaderHash x) = 32 \<and> length (OldestHeaderHash x) = 32 \<and>
     (\<forall>h \<in> set (CelestiaHeaderHashes x). length h = 32) \<and> length (CelestiaHeaderHashes x) < 2 ^ 64 \<and>
     length (blevm_NewestStateRoot x) = 32"

section \<open>Packet commitments\<close>

definition packetCommitmentPath :: "bytes \<Rightarrow> u64 \<Rightarrow> bytes" where
  "packetCommitmentPath clientId sequence = clientId @ [1] @ be64 sequence"

record SendPacketEvent =
  SourceClient :: bytes
  DestinationClient :: bytes
  Sequence :: u64
  TimeoutTimestamp :: u64
  EncodedPacketHex :: bytes

definition getPacketCommitmentPath :: "SendPacketEvent \<Rightarrow> bytes" where
  "getPacketCommitmentPath event = SourceClient event @ [1] @ be64 (Sequence event)"

text \<open>\<^verbatim>\<open>common.LeftPadBytes(b, 32)\<close> and the storage slot constant of the router contract are
  arguments.\<close>

definition GetCommitmentsStorageKey ::
    "'d ProofLib \<Rightarrow> (bytes \<Rightarrow> nat \<Rightarrow> bytes) \<Rightarrow> bytes \<Rightarrow> bytes \<Rightarrow> hash" where
  "GetCommitmentsStorageKey P leftPad storageSlot path =
     (let pathHash = Keccak256 P path; paddedSlot = leftPad storageSlot 32
      in Keccak256 P (pathHash @ paddedSlot))"

section \<open>Events\<close>

record EventAttr =
  attr_Key :: bytes
  attr_Value :: bytes

record TxEvent =
  event_Type :: bytes
  Attributes :: "EventAttr list"

fun add_attrs :: "(bytes \<rightharpoonup> bytes) \<Rightarrow> EventAttr list \<Rightarrow> (bytes \<rightharpoonup> bytes)" where
  "add_attrs m [] = m"
| "add_attrs m (a # as) = add_attrs (m(attr_Key a \<mapsto> attr_Value a)) as"

fun send_packet_events :: "TxEvent list \<Rightarrow> (bytes \<rightharpoonup> bytes) list" where
  "send_packet_events [] = []"
| "send_packet_events (event # events) =
     (if event_Type event = str ''send_packet'' then add_attrs Map.empty (Attributes event) # send_packet_events events
      else send_packet_events events)"

definition getRawEvent :: "TxEvent list \<Rightarrow> (bytes \<rightharpoonup> bytes) outcome" where
  "getRawEvent events =
     (let sendPacketEvents = send_packet_events events in
      if length sendPacketEvents = 0 then Fail (Errorf ''no SendPacket events found in transaction'')
      else if length sendPacketEvents > 1 then Fail (Errorf ''multiple SendPacket events found in transaction'')
      else Ok (sendPacketEvents ! 0))"

text \<open>The type assertion \<^verbatim>\<open>raw[key].(string)\<close> panics when the attribute is missing.\<close>

definition raw_string :: "(bytes \<rightharpoonup> bytes) \<Rightarrow> string \<Rightarrow> bytes outcome" where
  "raw_string raw key = (case raw (str key) of None \<Rightarrow> Panic (Sentinel ''interface conversion'') | Some v \<Rightarrow> Ok v)"

definition TrimPrefix :: "bytes \<Rightarrow> bytes \<Rightarrow> bytes" where
  "TrimPrefix s p = (if take (length p) s = p then drop (length p) s else s)"

text \<open>\<open>queryTx\<close> sets up the client context and queries the transaction.\<close>

definition getSendPacketEvent :: "(bytes \<Rightarrow> error + TxEvent list) \<Rightarrow> bytes \<Rightarrow> SendPacketEvent outcome" where
  "getSendPacketEvent queryTx sourceTxHash =
     bind_out (wrap_out ''failed to decode source tx hash''
        (of_result (hex_DecodeString (TrimPrefix sourceTxHash (str ''0x'')))))
       (\<lambda>h.
     bind_out (wrap_out ''failed to query transaction'' (of_result (queryTx h)))
       (\<lambda>events.
     bind_out (getRawEvent events)
       (\<lambda>raw.
     bind_out (raw_string raw ''packet_sequence'')
       (\<lambda>sequenceStr.
     bind_out (wrap_out ''failed to parse packet sequence'' (of_result (parse_uint 64 sequenceStr)))
       (\<lambda>sequence.
     bind_out (raw_string raw ''packet_timeout_timestamp'')
       (\<lambda>timeoutStr.
     bind_out (wrap_out ''failed to parse timeout timestamp'' (of_result (parse_uint 64 timeoutStr)))
       (\<lambda>timeoutTimestamp.
     bind_out (raw_string raw ''packet_source_client'')
       (\<lambda>source.
     bind_out (raw_string raw ''packet_dest_client'')
       (\<lambda>dest.
     bind_out (raw_string raw ''encoded_packet_hex'')
       (\<lambda>encoded.
     Ok \<lparr>SourceClient = source, DestinationClient = dest, Sequence = of_nat sequence,
         TimeoutTimestamp = of_nat timeoutTimestamp, EncodedPacketHex = encoded\<rparr>))))))))))"

text \<open>A parse function returns an event pointer and an error; the loop keeps the last pointer.\<close>

fun find_event :: "('l \<Rightarrow> 'e option \<times> error option) \<Rightarrow> 'e option \<Rightarrow> 'l list \<Rightarrow> 'e option" where
  "find_event parseFn event [] = event"
| "find_event parseFn event (l # ls) =
     (case parseFn l of
        (Some e, None) \<Rightarrow> Some e
      | (event', _) \<Rightarrow> find_event parseFn event' ls)"

definition GetEvmEvent :: "'l list \<Rightarrow> ('l \<Rightarrow> 'e option \<times> error option) \<Rightarrow> 'e outcome" where
  "GetEvmEvent logs parseFn =
     (case find_event parseFn None logs of None \<Rightarrow> Fail (Errorf ''event not found'') | Some event \<Rightarrow> Ok event)"

section \<open>Packets and messages\<close>

record Payload =
  SourcePort :: bytes
  DestPort :: bytes
  Version :: bytes
  Encoding :: bytes
  Value :: bytes

record Packet =
  pkt_Sequence :: u64
  pkt_SourceClient :: bytes
  pkt_DestClient :: bytes
  pkt_TimeoutTimestamp :: u64
  Payloads :: "Payload list"

record MsgRecvPacket =
  recv_Packet :: Packet
  ProofCommitment :: bytes
  ProofHeight :: Height
  recv_Signer :: bytes

text \<open>The message of the EVM router, whose proof height has 32 bits, and no signer.\<close>

record EvmMsgRecvPacket =
  evm_Packet :: Packet
  evm_ProofCommitment :: bytes
  evm_RevisionNumber :: "32 word"
  evm_RevisionHeight :: "32 word"

record MsgSendPacket =
  send_SourceClient :: bytes
  send_TimeoutTimestamp :: u64
  send_Payloads :: "Payload list"
  send_Signer :: bytes

record FungibleTokenPacketData =
  ft_Denom :: bytes
  ft_Amount :: bytes
  ft_Sender :: bytes
  ft_Receiver :: bytes
  ft_Memo :: bytes

text \<open>The ABI encoder and the constants of the transfer module.\<close>

record TransferLib =
  EncodeABI :: "FungibleTokenPacketData \<Rightarrow> error + bytes"
  PortID :: bytes
  V1 :: bytes
  EncodingABI :: bytes

definition getPayloadValue :: "TransferLib \<Rightarrow> bytes outcome" where
  "getPayloadValue T =
     of_result (EncodeABI T \<lparr>ft_Denom = denom, ft_Amount = dec transferAmount, ft_Sender = sender,
       ft_Receiver = receiver, ft_Memo = str ''test transfer''\<rparr>)"

definition transfer_payload :: "TransferLib \<Rightarrow> bytes \<Rightarrow> Payload" where
  "transfer_payload T v = \<lparr>SourcePort = PortID T, DestPort = PortID T, Version = V1 T, Encoding = EncodingABI T, Value = v\<rparr>"

text \<open>\<open>now\<close> is the Unix time in seconds at which the message is made.\<close>

definition createMsgSendPacket :: "TransferLib \<Rightarrow> i64 \<Rightarrow> MsgSendPacket outcome" where
  "createMsgSendPacket T now =
     bind_out (getPayloadValue T)
       (\<lambda>payloadValue. Ok \<lparr>send_SourceClient = groth16ClientID, send_TimeoutTimestamp = now + 30 * 60,
          send_Payloads = [transfer_payload T payloadValue], send_Signer = sender\<rparr>)"

definition getMsgRecvPacket :: "TransferLib \<Rightarrow> SendPacketEvent \<Rightarrow> bytes \<Rightarrow> i64 \<Rightarrow> EvmMsgRecvPacket outcome" where
  "getMsgRecvPacket T event respProof respHeight =
     bind_out (wrap_out ''failed to get payload value'' (getPayloadValue T))
       (\<lambda>value. Ok \<lparr>evm_Packet = \<lparr>pkt_Sequence = Sequence event, pkt_SourceClient = groth16ClientID,
            pkt_DestClient = tendermintClientID, pkt_TimeoutTimestamp = TimeoutTimestamp event,
            Payloads = [transfer_payload T value]\<rparr>,
          evm_ProofCommitment = respProof, evm_RevisionNumber = 0, evm_RevisionHeight = ucast respHeight\<rparr>)"

definition createMsgRecvPacket :: "(MptProof \<Rightarrow> error + bytes) \<Rightarrow> Packet \<Rightarrow> MptProof \<Rightarrow> u64 \<Rightarrow> MsgRecvPacket outcome" where
  "createMsgRecvPacket json_Marshal packet p groth16ClientHeight =
     (case Payloads packet of
        [] \<Rightarrow> Panic ErrIndexRange
      | transferPayload # _ \<Rightarrow>
          bind_out (wrap_out ''failed to serialize proof'' (of_result (json_Marshal p)))
            (\<lambda>serializedProof. Ok \<lparr>recv_Packet = \<lparr>pkt_Sequence = pkt_Sequence packet,
                 pkt_SourceClient = pkt_SourceClient packet, pkt_DestClient = pkt_DestClient packet,
                 pkt_TimeoutTimestamp = pkt_TimeoutTimestamp packet,
                 Payloads = [\<lparr>SourcePort = SourcePort transferPayload, DestPort = DestPort transferPayload,
                    Version = Version transferPayload, Encoding = Encoding transferPayload,
                    Value = Value transferPayload\<rparr>]\<rparr>,
               ProofCommitment = serializedProof, ProofHeight = Height 0 groth16ClientHeight, recv_Signer = sender\<rparr>))"

section \<open>Storage proofs\<close>

record StorageProofEntry =
  sp_Key :: hash
  sp_Value :: nat
  sp_Proof :: "bytes list"

record EthGetProofResponse =
  gp_AccountProof :: "bytes list"
  gp_Address :: bytes
  gp_Balance :: "nat option"
  gp_CodeHash :: hash
  gp_Nonce :: u64
  gp_StorageHash :: hash
  gp_StorageProof :: "StorageProofEntry list"

definition zeroStorageProof :: StorageProofEntry where
  "zeroStorageProof = \<lparr>sp_Key = replicate 32 0, sp_Value = 0, sp_Proof = []\<rparr>"

text \<open>The search loop returns or breaks in its first iteration.\<close>

fun find_storage_proof :: "hash \<Rightarrow> StorageProofEntry list \<Rightarrow> StorageProofEntry outcome" where
  "find_storage_proof key [] = Ok zeroStorageProof"
| "find_storage_proof key (p # ps) =
     (if sp_Key p = key then Ok p else Fail (Errorf ''proof key does not match the path''))"

text \<open>\<open>eth_getProof\<close> takes the contract address, the storage key and the block number.\<close>

definition getMPTProof ::
    "'d ProofLib \<Rightarrow> (bytes \<Rightarrow> nat \<Rightarrow> bytes) \<Rightarrow> bytes \<Rightarrow> (bytes \<Rightarrow> hash \<Rightarrow> u64 \<Rightarrow> error + EthGetProofResponse) \<Rightarrow>
     bytes \<Rightarrow> bytes \<Rightarrow> u64 \<Rightarrow> MptProof outcome" where
  "getMPTProof P leftPad slot eth_getProof path contractAddress evmTransferBlockNumber =
     (let commitmentsStorageKey = GetCommitmentsStorageKey P leftPad slot path in
      bind_out (wrap_out ''failed to get MPT proof''
         (of_result (eth_getProof contractAddress commitmentsStorageKey evmTransferBlockNumber)))
        (\<lambda>result.
      bind_out (find_storage_proof commitmentsStorageKey (gp_StorageProof result))
        (\<lambda>targetProof.
      Ok \<lparr>AccountProof = gp_AccountProof result, Address = gp_Address result, Balance = gp_Balance result,
          CodeHash = gp_CodeHash result, Nonce = gp_Nonce result, StorageHash = gp_StorageHash result,
          StorageProof = sp_Proof targetProof, StorageKey = sp_Key targetProof, StorageValue = sp_Value targetProof\<rparr>)))"

section \<open>Verifier keys\<close>

record InfoResponse =
  StateMembershipVerifierKeyStr :: bytes
  StateTransitionVerifierKeyStr :: bytes

text \<open>\<^verbatim>\<open>copy(key[:], decoded)\<close> into a zero array of 32 bytes.\<close>

definition copy32 :: "bytes \<Rightarrow> bytes" where
  "copy32 b = take 32 (b @ replicate 32 0)"

definition getProverSTFKey :: "(error + InfoResponse) \<Rightarrow> bytes outcome" where
  "getProverSTFKey proverInfo =
     bind_out (wrap_out ''failed to get celestia-prover info'' (of_result proverInfo))
       (\<lambda>info.
     bind_out (wrap_out ''failed to decode state transition verifier key''
        (of_result (hex_DecodeString (TrimPrefix (StateTransitionVerifierKeyStr info) (str ''0x'')))))
       (\<lambda>decoded. Ok (copy32 decoded)))"

definition getProverMembershipKey :: "(error + InfoResponse) \<Rightarrow> bytes outcome" where
  "getProverMembershipKey proverInfo =
     bind_out (wrap_out ''failed to get celestia-prover info'' (of_result proverInfo))
       (\<lambda>info.
     bind_out (wrap_out ''failed to decode membership verifier key''
        (of_result (hex_DecodeString (TrimPrefix (StateMembershipVerifierKeyStr info) (str ''0x'')))))
       (\<lambda>decoded. Ok (copy32 decoded)))"

text \<open>\<open>lightClient\<close> is the pair of keys read from the contract on the EVM roll-up.\<close>

definition assertVerifierKeys :: "(error + bytes \<times> bytes) \<Rightarrow> (error + InfoResponse) \<Rightarrow> unit outcome" where
  "assertVerifierKeys lightClient proverInfo =
     bind_out (of_result lightClient)
       (\<lambda>(clientSTFKey, clientMembershipKey).
     bind_out (getProverSTFKey proverInfo)
       (\<lambda>proverSTFKey.
     bind_out (getProverMembershipKey proverInfo)
       (\<lambda>proverMembershipKey.
     if clientSTFKey \<noteq> proverSTFKey then Fail (Errorf ''state transition verifier key mismatch'')
     else if clientMembershipKey \<noteq> proverMembershipKey then Fail (Errorf ''membership verifier key mismatch'')
     else Ok ())))"

section \<open>Lemmas\<close>

lemma read_hashes_eq:
  "read_hashes data i n =
     (if n = 0 \<or> i + 32 * n \<le> length data then Ok (map (\<lambda>j. take 32 (drop (i + 32 * j) data)) [0..<n])
      else Panic ErrSliceBounds)"
proof (induction n arbitrary: i)
  case (Suc n)
  have "map (\<lambda>j. take 32 (drop (i + 32 * j) data)) [0..<Suc n] =
      take 32 (drop i data) # map (\<lambda>j. take 32 (drop (i + 32 + 32 * j) data)) [0..<n]"
    by (subst upt_conv_Cons) (auto simp: map_Suc_upt [symmetric] comp_def add.assoc simp del: upt_Suc)
  then show ?case using Suc [of "i + 32"] by (auto simp del: upt_Suc)
qed simp

lemma read_le64_take: "8 \<le> length bs \<Longrightarrow> read_le64 (take 8 bs) = read_le64 bs"
  by (simp add: read_le64_def)

lemma slice_u64_ok: "8 \<le> length bs \<Longrightarrow> \<exists>w. slice_u64 bs = Ok w"
  by (simp add: slice_u64_def read_le64_def)

text \<open>The number of header hashes that the data announces.\<close>

definition announced :: "bytes \<Rightarrow> nat" where
  "announced data = (case read_le64 (take 8 (drop 64 data)) of None \<Rightarrow> 0 | Some w \<Rightarrow> unat w)"

lemma slice_u64_announced:
  assumes "72 \<le> length data"
  obtains w where "slice_u64 (take 8 (drop 64 data)) = Ok w" and "unat w = announced data"
  using assms by (auto simp: slice_u64_def announced_def read_le64_def)

lemma DecodePublicValues_long:
  assumes "72 \<le> length data"
  shows "DecodePublicValues data =
    (if length data < 72 + 32 * announced data + 32 then Panic ErrSliceBounds
     else Ok \<lparr>NewestHeaderHash = take 32 data, OldestHeaderHash = take 32 (drop 32 data),
       CelestiaHeaderHashes = map (\<lambda>j. take 32 (drop (72 + 32 * j) data)) [0..<announced data],
       blevm_NewestStateRoot = take 32 (drop (72 + 32 * announced data) data),
       blevm_NewestHeight = the (read_le64 (drop (length data - 8) data))\<rparr>)"
proof -
  obtain w where w: "slice_u64 (take 8 (drop 64 data)) = Ok w" "unat w = announced data"
    by (rule slice_u64_announced [OF assms])
  have "8 \<le> length (drop (length data - 8) data)" using assms by simp
  then have h: "slice_u64 (drop (length data - 8) data) = Ok (the (read_le64 (drop (length data - 8) data)))"
    by (auto simp: slice_u64_def read_le64_def)
  show ?thesis
    using assms unfolding DecodePublicValues_def w(1) bind_out.simps Let_def w(2) read_hashes_eq h
    by simp
qed

lemma concat_slices:
  "\<forall>h \<in> set hs. length h = 32 \<Longrightarrow> map (\<lambda>j. take 32 (drop (32 * j) (concat hs @ r))) [0..<length hs] = hs"
proof (induction hs)
  case (Cons h hs)
  have "map (\<lambda>j. take 32 (drop (32 * j) (concat (h # hs) @ r))) [0..<length (h # hs)] =
      h # map (\<lambda>j. take 32 (drop (32 * j) (concat hs @ r))) [0..<length hs]"
    using Cons.prems unfolding length_Cons
    by (subst upt_conv_Cons) (auto simp: map_Suc_upt [symmetric] comp_def simp del: upt_Suc)
  then show ?case using Cons by simp
qed simp

lemma length_concat_const: "\<forall>h \<in> set hs. length h = m \<Longrightarrow> length (concat hs) = m * length hs"
  by (induction hs) auto

lemma decode_encode:
  assumes "output_wf x"
  shows "DecodePublicValues (encode_public_values x) = Ok x"
proof -
  let ?d = "encode_public_values x" and ?hs = "CelestiaHeaderHashes x"
  have len: "length (NewestHeaderHash x) = 32" "length (OldestHeaderHash x) = 32" "\<forall>h \<in> set ?hs. length h = 32"
    "length ?hs < 2 ^ 64" "length (blevm_NewestStateRoot x) = 32"
    using assms by (auto simp: output_wf_def)
  note lc = length_concat_const [OF len(3)]
  have d64: "drop 64 ?d = le64 (of_nat (length ?hs)) @ concat ?hs @ blevm_NewestStateRoot x @ le64 (blevm_NewestHeight x)"
    and d72: "drop 72 ?d = concat ?hs @ blevm_NewestStateRoot x @ le64 (blevm_NewestHeight x)"
    using len by (simp_all add: encode_public_values_def)
  have L: "length ?d = 72 + 32 * length ?hs + 40" using len lc by (simp add: encode_public_values_def)
  have n: "announced ?d = length ?hs"
    using len(4) unfolding announced_def d64 by (simp add: unat_of_nat_u64)
  have "map (\<lambda>j. take 32 (drop (72 + 32 * j) ?d)) [0..<length ?hs] =
      map (\<lambda>j. take 32 (drop (32 * j) (drop 72 ?d))) [0..<length ?hs]" by (simp add: add.commute)
  then have hs: "map (\<lambda>j. take 32 (drop (72 + 32 * j) ?d)) [0..<length ?hs] = ?hs"
    unfolding d72 by (simp only: concat_slices [OF len(3)])
  have "take 32 (drop (32 * length ?hs) (drop 72 ?d)) = blevm_NewestStateRoot x"
    unfolding d72 using len lc by simp
  then have root: "take 32 (drop (72 + 32 * length ?hs) ?d) = blevm_NewestStateRoot x" by (simp add: add.commute)
  have h: "drop (length ?d - 8) ?d = le64 (blevm_NewestHeight x)"
    using len lc by (simp add: encode_public_values_def)
  have "take 32 ?d = NewestHeaderHash x" "take 32 (drop 32 ?d) = OldestHeaderHash x"
    using len by (simp_all add: encode_public_values_def)
  then show ?thesis
    using h by (subst DecodePublicValues_long) (simp_all add: n L hs root)
qed

section \<open>Properties\<close>

text \<open>
  C31. Decoding inverts the bincode layout of the prover's output: for every output with 32-byte
  hashes, \<^verbatim>\<open>DecodePublicValues\<close> of its encoding returns the output.
\<close>

theorem DecodePublicValues_roundtrip:
  assumes "output_wf x"
  shows "DecodePublicValues (encode_public_values x) = Ok x"
  by (rule decode_encode [OF assms])

definition ex_output :: BlevmAggOutput where
  "ex_output = \<lparr>NewestHeaderHash = replicate 32 1, OldestHeaderHash = replicate 32 2,
     CelestiaHeaderHashes = [replicate 32 3], blevm_NewestStateRoot = replicate 32 4, blevm_NewestHeight = 77\<rparr>"

theorem DecodePublicValues_roundtrip_witness:
  "DecodePublicValues (encode_public_values ex_output) = Ok ex_output"
  by (rule DecodePublicValues_roundtrip) (simp add: output_wf_def ex_output_def)


text \<open>
  Packet commitment paths identify packets: the two functions that build them agree, and two
  paths are equal only for the same client identifier and the same sequence number.
\<close>

lemma packetCommitmentPath_injective:
  "getPacketCommitmentPath event = packetCommitmentPath (SourceClient event) (Sequence event) \<and>
   (packetCommitmentPath c1 n1 = packetCommitmentPath c2 n2 \<longleftrightarrow> c1 = c2 \<and> n1 = n2)"
proof -
  have "c1 = c2 \<and> n1 = n2" if "c1 @ 1 # be64 n1 = c2 @ 1 # be64 n2"
  proof -
    from that have "length c1 = length c2" by (metis add_right_imp_eq length_Cons length_append length_be64)
    then show ?thesis using that by simp
  qed
  then show ?thesis by (auto simp: getPacketCommitmentPath_def packetCommitmentPath_def)
qed

text \<open>
  What \<^verbatim>\<open>getMPTProof\<close> returns is about the requested slot, with one exception: the
  storage key of a returned proof is the commitment key of the path, and its storage proof and
  value are those of the first entry of the node's answer, unless that answer has no storage
  proof at all, in which case an empty proof for the zero key is returned without an error.
\<close>

lemma getMPTProof_key:
  assumes "getMPTProof P leftPad slot eth_getProof path addr n = Ok p"
  shows "\<exists>r. eth_getProof addr (GetCommitmentsStorageKey P leftPad slot path) n = Inr r \<and>
    AccountProof p = gp_AccountProof r \<and> StorageHash p = gp_StorageHash r \<and>
    (case gp_StorageProof r of
       [] \<Rightarrow> StorageKey p = replicate 32 0 \<and> StorageProof p = [] \<and> StorageValue p = 0
     | e # _ \<Rightarrow> StorageKey p = GetCommitmentsStorageKey P leftPad slot path \<and> sp_Key e = StorageKey p \<and>
         StorageProof p = sp_Proof e \<and> StorageValue p = sp_Value e)"
proof -
  obtain r t where "eth_getProof addr (GetCommitmentsStorageKey P leftPad slot path) n = Inr r"
    and "find_storage_proof (GetCommitmentsStorageKey P leftPad slot path) (gp_StorageProof r) = Ok t"
    and "AccountProof p = gp_AccountProof r \<and> StorageHash p = gp_StorageHash r \<and> StorageProof p = sp_Proof t \<and>
      StorageKey p = sp_Key t \<and> StorageValue p = sp_Value t"
    using assms by (auto simp: getMPTProof_def Let_def out_simps)
  then show ?thesis
    by (cases "gp_StorageProof r") (auto simp: zeroStorageProof_def split: if_splits)
qed

definition ex_response :: EthGetProofResponse where
  "ex_response = \<lparr>gp_AccountProof = [], gp_Address = [], gp_Balance = None, gp_CodeHash = [], gp_Nonce = 0,
     gp_StorageHash = [], gp_StorageProof = []\<rparr>"

lemma getMPTProof_key_example:
  "\<exists>p. getMPTProof leaf_lib (\<lambda>b n. b) [] (\<lambda>a k n. Inr ex_response) [] [] 5 = Ok p \<and> StorageKey p = replicate 32 0"
proof -
  obtain p where p: "getMPTProof leaf_lib (\<lambda>b n. b) [] (\<lambda>a k n. Inr ex_response) [] [] 5 = Ok p"
    by (simp add: getMPTProof_def ex_response_def Let_def)
  show ?thesis using getMPTProof_key [OF p] p by (simp add: ex_response_def)
qed

end
