(* ===== verification/Paths.thy ===== *)
theory Paths
  imports Groth16_Store
begin

text \<open>
  \<^verbatim>\<open>filepath.Clean\<close> and \<^verbatim>\<open>filepath.Join\<close> of the standard library, which \<^verbatim>\<open>simapp/app.go\<close> and
  \<^verbatim>\<open>testing/demo/pkg/utils/utils.go\<close> use to make the home directories.
\<close>

section \<open>Cleaning and joining paths\<close>

text \<open>The elements that are kept are collected in reverse.\<close>

fun clean_elems :: "bool \<Rightarrow> bytes list \<Rightarrow> bytes list \<Rightarrow> bytes list" where
  "clean_elems rooted acc [] = rev acc"
| "clean_elems rooted acc (c # cs) =
     (if c = [] \<or> c = str ''.'' then clean_elems rooted acc cs
      else if c = str ''..'' then
        (case acc of
           [] \<Rightarrow> clean_elems rooted (if rooted then [] else [c]) cs
         | a # as \<Rightarrow> if a = str ''..'' then clean_elems rooted (c # acc) cs else clean_elems rooted as cs)
      else clean_elems rooted (c # acc) cs)"

fun join_path :: "bytes list \<Rightarrow> bytes" where
  "join_path [] = []"
| "join_path [e] = e"
| "join_path (e # es) = e @ slash # join_path es"

definition filepath_Clean :: "bytes \<Rightarrow> bytes" where
  "filepath_Clean p =
     (if p = [] then str ''.''
      else let rooted = (hd p = slash); body = join_path (clean_elems rooted [] (split_on slash p)) in
        if rooted then slash # body else if body = [] then str ''.'' else body)"

definition filepath_Join :: "bytes list \<Rightarrow> bytes" where
  "filepath_Join elems = (case dropWhile (\<lambda>e. e = []) elems of [] \<Rightarrow> [] | es \<Rightarrow> filepath_Clean (join_path es))"

section \<open>The last element is kept\<close>

lemma clean_elems_last:
  assumes "c \<noteq> []" and "c \<noteq> str ''.''" and "c \<noteq> str ''..''"
  shows "clean_elems rooted acc (cs @ [c]) = clean_elems rooted acc cs @ [c]"
  using assms by (induction rooted acc cs rule: clean_elems.induct) (auto split: list.splits)

lemma split_on_append: "slash \<notin> set c \<Longrightarrow> split_on slash (p @ slash # c) = split_on slash p @ [c]"
proof (induction p)
  case Nil
  have "slash \<notin> set c \<Longrightarrow> split_on slash c = [c]" by (induction c) auto
  with Nil show ?case by simp
next
  case (Cons b p)
  moreover have "split_on slash p \<noteq> []" by (cases p) (auto split: list.splits)
  ultimately show ?case by (auto split: list.splits)
qed

lemma filepath_Clean_append:
  assumes "p \<noteq> []" and "slash \<notin> set c" and c: "c \<noteq> []" "c \<noteq> str ''.''" "c \<noteq> str ''..''"
  shows "filepath_Clean (p @ slash # c) =
    (if hd p = slash then [slash] else []) @ join_path (clean_elems (hd p = slash) [] (split_on slash p) @ [c])"
proof -
  have "join_path (es @ [c]) \<noteq> []" for es
    using c(1) by (induction es rule: join_path.induct) auto
  then show ?thesis
    using assms(1) by (simp add: filepath_Clean_def Let_def split_on_append [OF assms(2)] clean_elems_last [OF c])
qed

end
