(* ===== verification/Relayer.thy ===== *)
theory Relayer
  imports Relayer_Data Paths
begin

text \<open>
  The flows of the demo relayer: waiting and broadcasting (\<^verbatim>\<open>testing/demo/pkg/utils\<close>), the update
  of the Groth16 client and the relaying in both directions (\<^verbatim>\<open>testing/demo/pkg/transfer\<close>). A
  computation with effects takes the state of the outside world and returns an outcome with the
  new state; nodes, provers and contracts are the operations of \<open>Net\<close>.
\<close>

section \<open>Computations with effects\<close>

type_synonym ('w, 'a) io = "'w \<Rightarrow> 'a outcome \<times> 'w"

definition io_ret :: "'a \<Rightarrow> ('w, 'a) io" where
  "io_ret a w = (Ok a, w)"

definition io_fail :: "error \<Rightarrow> ('w, 'a) io" where
  "io_fail e w = (Fail e, w)"

definition io_out :: "'a outcome \<Rightarrow> ('w, 'a) io" where
  "io_out x w = (x, w)"

definition io_bind :: "('w, 'a) io \<Rightarrow> ('a \<Rightarrow> ('w, 'b) io) \<Rightarrow> ('w, 'b) io" where
  "io_bind m f w = (case m w of (Ok a, w') \<Rightarrow> f a w' | (Fail e, w') \<Rightarrow> (Fail e, w') | (Panic e, w') \<Rightarrow> (Panic e, w'))"

definition io_asks :: "('w \<Rightarrow> 'a) \<Rightarrow> ('w, 'a) io" where
  "io_asks f w = (Ok (f w), w)"

definition io_wrap :: "string \<Rightarrow> ('w, 'a) io \<Rightarrow> ('w, 'a) io" where
  "io_wrap msg m w = (case m w of (r, w') \<Rightarrow> (wrap_out msg r, w'))"

lemma io_bind_Ok [simp]: "m w = (Ok a, w') \<Longrightarrow> io_bind m f w = f a w'"
  by (simp add: io_bind_def)

lemma io_bind_eq_Ok: "io_bind m f w = (Ok b, w2) \<longleftrightarrow> (\<exists>a w1. m w = (Ok a, w1) \<and> f a w1 = (Ok b, w2))"
  by (cases "m w"; cases "fst (m w)") (auto simp: io_bind_def)

lemma io_wrap_eq_Ok: "io_wrap msg m w = (Ok a, w') \<longleftrightarrow> m w = (Ok a, w')"
  by (cases "m w") (simp add: io_wrap_def wrap_out_eq_Ok)

lemma io_out_eq_Ok: "io_out x w = (Ok a, w') \<longleftrightarrow> x = Ok a \<and> w' = w"
  by (auto simp: io_out_def)

lemma io_ret_eq_Ok: "io_ret x w = (Ok a, w') \<longleftrightarrow> a = x \<and> w' = w"
  by (auto simp: io_ret_def)

lemma io_asks_eq_Ok: "io_asks f w = (Ok a, w') \<longleftrightarrow> a = f w \<and> w' = w"
  by (auto simp: io_asks_def)

lemma io_fail_neq_Ok: "io_fail e w \<noteq> (Ok a, w')"
  by (simp add: io_fail_def)

lemmas io_Ok_simps = io_bind_eq_Ok io_wrap_eq_Ok io_out_eq_Ok io_ret_eq_Ok io_asks_eq_Ok io_fail_neq_Ok

section \<open>Waiting\<close>

text \<open>The text of an error, and \<^verbatim>\<open>strings.Contains\<close>.\<close>

fun error_text :: "error \<Rightarrow> string" where
  "error_text (Sentinel s) = s"
| "error_text (Errorf s) = s"
| "error_text (Wrap m e) = m @ '': '' @ error_text e"

definition Contains :: "string \<Rightarrow> string \<Rightarrow> bool" where
  "Contains s sub = list_ex (\<lambda>i. take (length sub) (drop i s) = sub) [0..<Suc (length s)]"

definition connection_error :: "error \<Rightarrow> bool" where
  "connection_error e = (Contains (error_text e) ''EOF'' \<or> Contains (error_text e) ''connection'' \<or> Contains (error_text e) ''Post'')"

text \<open>How the retry loop of one poll ends: the condition was reached, or the loop was left with
  the last error seen and the current backoff.\<close>

datatype poll_result = Reached | NotReached "error option" nat

text \<open>\<open>retries\<close> counts the attempts that are left of \<^verbatim>\<open>maxRetries\<close>, durations are in seconds.\<close>

fun retry_loop :: "(nat \<Rightarrow> 'w \<Rightarrow> 'w) \<Rightarrow> ('w, bool) io \<Rightarrow> nat \<Rightarrow> nat \<Rightarrow> error option \<Rightarrow> ('w, poll_result) io" where
  "retry_loop sleep fn 0 backoff lastErr w = (Ok (NotReached lastErr backoff), w)"
| "retry_loop sleep fn (Suc retries) backoff lastErr w =
     (case fn w of
        (Ok True, w') \<Rightarrow> (Ok Reached, w')
      | (Ok False, w') \<Rightarrow> (Ok (NotReached lastErr backoff), w')
      | (Fail e, w') \<Rightarrow>
          if connection_error e then retry_loop sleep fn retries (2 * backoff) (Some e) (sleep backoff w')
          else (Fail (Wrap ''error occurred while waiting for condition'' e), w')
      | (Panic e, w') \<Rightarrow> (Panic e, w'))"

definition maxRetries :: nat where "maxRetries = 5"

text \<open>\<open>polls\<close> is the number of times the timer fires before the deadline is taken: the select
  statement chooses the deadline in the next round.\<close>

fun wait_loop :: "(nat \<Rightarrow> 'w \<Rightarrow> 'w) \<Rightarrow> nat \<Rightarrow> nat \<Rightarrow> ('w, bool) io \<Rightarrow> nat \<Rightarrow> ('w, unit) io" where
  "wait_loop sleep 0 pollingInterval fn backoff w = (Fail (Errorf ''failed waiting for condition''), w)"
| "wait_loop sleep (Suc polls) pollingInterval fn backoff w =
     (case retry_loop sleep fn maxRetries backoff None (sleep pollingInterval w) of
        (Ok Reached, w') \<Rightarrow> (Ok (), w')
      | (Ok (NotReached None backoff'), w') \<Rightarrow> wait_loop sleep polls pollingInterval fn backoff' w'
      | (Ok (NotReached (Some e) _), w') \<Rightarrow> (Fail (Wrap ''error occurred while waiting for condition'' e), w')
      | (Fail e, w') \<Rightarrow> (Fail e, w')
      | (Panic e, w') \<Rightarrow> (Panic e, w'))"

definition WaitForCondition :: "(nat \<Rightarrow> 'w \<Rightarrow> 'w) \<Rightarrow> nat \<Rightarrow> nat \<Rightarrow> ('w, bool) io \<Rightarrow> ('w, unit) io" where
  "WaitForCondition sleep polls pollingInterval fn = wait_loop sleep polls pollingInterval fn 1"

text \<open>A closure that assigns a captured variable: the variable joins the state.\<close>

definition captured_sleep :: "(nat \<Rightarrow> 'w \<Rightarrow> 'w) \<Rightarrow> nat \<Rightarrow> 'w \<times> 'c \<Rightarrow> 'w \<times> 'c" where
  "captured_sleep sleep d s = (sleep d (fst s), snd s)"

definition run_captured :: "('w \<times> 'c, unit) io \<Rightarrow> 'c \<Rightarrow> ('w, 'c) io" where
  "run_captured m c w =
     (case m (w, c) of (Ok _, (w', c')) \<Rightarrow> (Ok c', w') | (Fail e, (w', _)) \<Rightarrow> (Fail e, w') | (Panic e, (w', _)) \<Rightarrow> (Panic e, w'))"

section \<open>The outside world\<close>

record Account =
  AccountNumber :: u64
  acc_Sequence :: u64

record Factory =
  f_AccountNumber :: u64
  f_Sequence :: u64
  f_Gas :: u64
  f_GasPrices :: string
  f_Memo :: string

record TxResponse =
  tx_Code :: nat
  TxHash :: bytes
  RawLog :: string
  tx_Height :: i64
  tx_Events :: "TxEvent list"

datatype Msg = SendPacketMsg MsgSendPacket | RecvPacketMsg MsgRecvPacket
  | MsgUpdateClient (msg_ClientId: bytes) (msg_ClientMessage: Header) (msg_Signer: bytes)
  | MsgCreateClient ClientState ConsensusState bytes
  | MsgRegisterCounterparty bytes "bytes list" bytes bytes

record ContractAddresses =
  ERC20 :: bytes
  ICS07Tendermint :: bytes
  ICS20Transfer :: bytes
  ICS26Router :: bytes
  IBCERC20Logic :: bytes

datatype Json = JObject "(bytes \<times> Json) list" | JString bytes | JOther

record TransactOpts =
  opt_Nonce :: u64
  opt_GasPrice :: nat
  opt_GasLimit :: nat

record SendTransferMsg =
  st_Denom :: bytes
  st_Amount :: nat
  st_Receiver :: bytes
  st_TimeoutTimestamp :: u64
  st_SourceClient :: bytes
  st_Memo :: bytes

text \<open>The contract calls of the relayer, with the address of the contract.\<close>

datatype EvmCall = RecvPacketCall bytes EvmMsgRecvPacket | UpdateClientCall bytes bytes bytes
  | ApproveCall bytes bytes nat | SendTransferCall bytes SendTransferMsg

record Receipt =
  Successful :: bool
  BlockNumber :: u64
  Logs :: "bytes list"

record ProverResponse =
  pr_Proof :: bytes
  pr_PublicValues :: bytes

record MembershipResponse =
  mr_Proof :: bytes
  mr_Height :: i64

text \<open>Contract addresses are the strings of the deployment file; \<open>DenomPath\<close> is the path of the
  denomination on the roll-up. An answer of the client query is unpacked into the client state of this light client, or into
  a value of another type (\<open>None\<close>). \<open>KeyringList\<close> has the names and addresses of the keys; it is empty
  when they cannot be listed.\<close>

record 'w Net =
  Sleep :: "nat \<Rightarrow> 'w \<Rightarrow> 'w"
  HttpStatus :: "bytes \<Rightarrow> ('w, nat) io"
  Getwd :: "error + bytes"
  NewDemoRegistry :: "error + unit"
  KeyringNew :: "bytes \<Rightarrow> bytes \<Rightarrow> error + unit"
  KeyringList :: "(bytes \<times> (error + bytes)) list"
  NewTextualTxConfig :: "error + unit"
  NewClientFromNode :: "bytes \<Rightarrow> error + unit"
  AddressFromBech32 :: "bytes \<Rightarrow> error + bytes"
  GetAccount :: "bytes \<Rightarrow> ('w, Account) io"
  BroadcastTx :: "Factory \<Rightarrow> Msg list \<Rightarrow> ('w, bytes) io"
  UnmarshalTxResponse :: "bytes \<Rightarrow> error + TxResponse"
  QueryTx :: "bytes \<Rightarrow> ('w, TxResponse) io"
  TxEvents :: "bytes \<Rightarrow> ('w, TxEvent list) io"
  QueryClientState :: "bytes \<Rightarrow> ('w, bytes) io"
  UnpackClientState :: "bytes \<Rightarrow> error + ClientState option"
  QueryLatestConsensusState :: "bytes \<Rightarrow> ('w, bytes) io"
  UnpackConsensusState :: "bytes \<Rightarrow> error + ConsensusState option"
  GrpcClient :: "error + unit"
  EvmProver :: "bytes \<Rightarrow> ('w, ProverResponse) io"
  CelestiaProver :: "bytes \<Rightarrow> ('w, ProverResponse) io"
  CelestiaMembership :: "bytes \<Rightarrow> bytes list \<Rightarrow> ('w, MembershipResponse) io"
  CelestiaInfo :: "('w, InfoResponse) io"
  ClientKeys :: "bytes \<Rightarrow> ('w, bytes \<times> bytes) io"
  PackUpdate :: "bytes \<Rightarrow> bytes \<Rightarrow> bytes \<Rightarrow> error + bytes"
  Dial :: "('w, unit) io"
  NewContract :: "bytes \<Rightarrow> error + unit"
  ToECDSA :: "error + unit"
  NewEthereum :: "('w, unit) io"
  PendingNonceAt :: "('w, u64) io"
  SuggestGasPrice :: "('w, nat) io"
  SendCall :: "TransactOpts \<Rightarrow> EvmCall \<Rightarrow> ('w, hash) io"
  TransactionReceipt :: "hash \<Rightarrow> ('w, Receipt option) io"
  ParseSendPacket :: "bytes \<Rightarrow> Packet option \<times> error option"
  HeaderTime :: "u64 \<Rightarrow> ('w, u64) io"
  EthGetProof :: "bytes \<Rightarrow> hash \<Rightarrow> u64 \<Rightarrow> ('w, EthGetProofResponse) io"
  IbcERC20Contract :: "bytes \<Rightarrow> ('w, bytes) io"
  Allowance :: "bytes \<Rightarrow> bytes \<Rightarrow> bytes \<Rightarrow> ('w, nat) io"
  ReadRunLatest :: "('w, bytes) io"
  UnmarshalRunLatest :: "bytes \<Rightarrow> error + (bytes \<times> Json) list"
  UnmarshalAddresses :: "bytes \<Rightarrow> error + ContractAddresses"
  Now :: "'w \<Rightarrow> i64"
  DenomPath :: bytes
  SimappBalance :: "bytes \<Rightarrow> bytes \<Rightarrow> ('w, int) io"
  Erc20Name :: "bytes \<Rightarrow> ('w, bytes) io"
  Erc20Symbol :: "bytes \<Rightarrow> ('w, bytes) io"
  Erc20FullDenomPath :: "bytes \<Rightarrow> ('w, bytes) io"
  Erc20BalanceOf :: "bytes \<Rightarrow> bytes \<Rightarrow> ('w, int) io"

section \<open>Node health and contract addresses\<close>

definition StatusOK :: nat where "StatusOK = 200"

text \<open>\<open>attempts\<close> counts the attempts that are left.\<close>

fun health_loop :: "'w Net \<Rightarrow> bytes \<Rightarrow> nat \<Rightarrow> nat \<Rightarrow> error option \<Rightarrow> ('w, unit) io" where
  "health_loop N uri 0 backoff lastErr w =
     (Fail (case lastErr of None \<Rightarrow> Errorf ''node health check failed'' | Some e \<Rightarrow> Wrap ''node health check failed'' e), w)"
| "health_loop N uri (Suc attempts) backoff lastErr w =
     (case HttpStatus N uri w of
        (Ok code, w') \<Rightarrow>
          if code = StatusOK then (Ok (), w')
          else health_loop N uri attempts (2 * backoff) (Some (Errorf ''node returned status code'')) (Sleep N backoff w')
      | (Fail e, w') \<Rightarrow> health_loop N uri attempts (2 * backoff) (Some e) (Sleep N backoff w')
      | (Panic e, w') \<Rightarrow> (Panic e, w'))"

definition CheckSimappNodeHealth :: "'w Net \<Rightarrow> bytes \<Rightarrow> nat \<Rightarrow> ('w, unit) io" where
  "CheckSimappNodeHealth N nodeURI retries = health_loop N nodeURI retries 1 None"

text \<open>The client context, with what this code sets.\<close>

record DemoContext =
  dc_ChainID :: bytes
  dc_HomeDir :: bytes
  dc_FromAddress :: bytes
  dc_FromName :: bytes
  dc_BroadcastMode :: bytes
  dc_SkipConfirmation :: bool

text \<open>After the health check: the registry, whose error is dropped, the keyring and its first key, whose
  missing address is only reported, and the connections.\<close>

definition new_context :: "'w Net \<Rightarrow> bytes \<Rightarrow> bytes \<Rightarrow> DemoContext outcome" where
  "new_context N cometNodeURI homeDir =
     bind_out (case NewDemoRegistry N of Inl _ \<Rightarrow> Panic (Sentinel ''nil pointer dereference'') | Inr u \<Rightarrow> Ok u)
       (\<lambda>_.
     bind_out (wrap_out ''failed to initialize keyring'' (of_result (KeyringNew N (str ''celestia-zkevm-ibc-demo'') homeDir)))
       (\<lambda>_.
     case KeyringList N of
       [] \<Rightarrow> Panic (Sentinel ''index out of range'')
     | (name, address) # _ \<Rightarrow>
        bind_out (wrap_out ''failed to create gRPC connection'' (of_result (GrpcClient N)))
          (\<lambda>_.
        bind_out (wrap_out ''failed to create tx config'' (of_result (NewTextualTxConfig N)))
          (\<lambda>_.
        bind_out (of_result (NewClientFromNode N cometNodeURI))
          (\<lambda>_.
        Ok \<lparr>dc_ChainID = str ''zkibc-demo'', dc_HomeDir = homeDir,
            dc_FromAddress = (case address of Inl _ \<Rightarrow> [] | Inr a \<Rightarrow> a), dc_FromName = name,
            dc_BroadcastMode = str ''sync'', dc_SkipConfirmation = True\<rparr>)))))"

definition SetupClientContext :: "'w Net \<Rightarrow> ('w, DemoContext) io" where
  "SetupClientContext N =
     io_bind (io_out (wrap_out ''failed to initialize keyring'' (of_result (Getwd N))))
       (\<lambda>home.
     let cometNodeURI = str ''http://localhost:5123'';
         homeDir = filepath_Join [home, str ''testing'', str ''files'', str ''simapp-validator''] in
     io_bind (io_wrap ''node health check failed'' (CheckSimappNodeHealth N cometNodeURI 10))
       (\<lambda>_. io_out (new_context N cometNodeURI homeDir)))"

text \<open>The type assertions on the values of the file. Byte 34 is the quote and 92 the backslash.\<close>

definition json_object :: "(bytes \<times> Json) list \<Rightarrow> string \<Rightarrow> (bytes \<times> Json) list option" where
  "json_object m k = (case map_of m (str k) of Some (JObject obj) \<Rightarrow> Some obj | _ \<Rightarrow> None)"

fun unescape_quotes :: "bytes \<Rightarrow> bytes" where
  "unescape_quotes (a # b # bs) =
     (if a = 92 \<and> b = 34 then 34 # unescape_quotes bs else a # unescape_quotes (b # bs))"
| "unescape_quotes bs = bs"

definition ExtractDeployedContractAddresses :: "'w Net \<Rightarrow> ('w, ContractAddresses) io" where
  "ExtractDeployedContractAddresses N =
     io_bind (io_wrap ''error reading file'' (ReadRunLatest N))
       (\<lambda>file.
     io_bind (io_out (wrap_out ''error unmarshalling JSON'' (of_result (UnmarshalRunLatest N file))))
       (\<lambda>runLatest.
     case json_object runLatest ''returns'' of
       None \<Rightarrow> io_fail (Errorf ''no valid returns found'')
     | Some returns \<Rightarrow>
        (case json_object returns ''0'' of
           None \<Rightarrow> io_fail (Errorf ''no valid return value found'')
         | Some returnValue \<Rightarrow>
            (case map_of returnValue (str ''value'') of
               Some (JString value) \<Rightarrow>
                 io_out (wrap_out ''error unmarshalling contract addresses''
                   (of_result (UnmarshalAddresses N (unescape_quotes value))))
             | _ \<Rightarrow> io_fail (Errorf ''no valid value found'')))))"

section \<open>Broadcasting\<close>

definition DefaultGasLimit :: u64 where "DefaultGasLimit = 200000"

definition defaultTxFactory :: "Account \<Rightarrow> Factory" where
  "defaultTxFactory account = \<lparr>f_AccountNumber = AccountNumber account, f_Sequence = acc_Sequence account,
     f_Gas = DefaultGasLimit, f_GasPrices = ''0.0001stake'', f_Memo = ''interchaintest''\<rparr>"

definition emptyFactory :: Factory where
  "emptyFactory = \<lparr>f_AccountNumber = 0, f_Sequence = 0, f_Gas = 0, f_GasPrices = [], f_Memo = []\<rparr>"

text \<open>The options are an argument that the code does not use.\<close>

definition GetFactory :: "'w Net \<Rightarrow> bytes \<Rightarrow> Factory \<Rightarrow> ('w, Factory) io" where
  "GetFactory N user factoryOptions =
     io_bind (io_out (of_result (AddressFromBech32 N user)))
       (\<lambda>sdkAdd. io_bind (GetAccount N sdkAdd) (\<lambda>account. io_ret (defaultTxFactory account)))"

definition emptyTxResponse :: TxResponse where
  "emptyTxResponse = \<lparr>tx_Code = 0, TxHash = [], RawLog = [], tx_Height = 0, tx_Events = []\<rparr>"

definition query_tx_once :: "'w Net \<Rightarrow> bytes \<Rightarrow> ('w \<times> TxResponse, bool) io" where
  "query_tx_once N txHash s =
     (case QueryTx N txHash (fst s) of
        (Ok resp, w') \<Rightarrow> (Ok True, (w', resp))
      | (Fail e, w') \<Rightarrow> (Fail e, (w', snd s))
      | (Panic e, w') \<Rightarrow> (Panic e, (w', snd s)))"

definition getFullyPopulatedResponse :: "'w Net \<Rightarrow> nat \<Rightarrow> bytes \<Rightarrow> ('w, TxResponse) io" where
  "getFullyPopulatedResponse N polls txHash =
     run_captured (WaitForCondition (captured_sleep (Sleep N)) polls 15 (query_tx_once N txHash)) emptyTxResponse"

definition BroadcastMessages :: "'w Net \<Rightarrow> nat \<Rightarrow> bytes \<Rightarrow> u64 \<Rightarrow> Msg list \<Rightarrow> ('w, TxResponse) io" where
  "BroadcastMessages N polls user gas msgs =
     io_bind (io_wrap ''failed to get factory'' (GetFactory N user (emptyFactory\<lparr>f_Gas := gas\<rparr>)))
       (\<lambda>factory.
     io_bind (io_wrap ''failed to broadcast tx'' (BroadcastTx N factory msgs))
       (\<lambda>buffer.
     if length buffer = 0 then io_fail (Errorf ''empty buffer, transaction has not been executed yet'')
     else
     io_bind (io_out (wrap_out ''failed to unmarshal tx response'' (of_result (UnmarshalTxResponse N buffer))))
       (\<lambda>txResp.
     if tx_Code txResp \<noteq> 0 then io_fail (Errorf ''transaction failed with code'')
     else getFullyPopulatedResponse N polls (TxHash txResp))))"

section \<open>Ethereum transactions\<close>

text \<open>A failing dial or transactor ends the process (\<^verbatim>\<open>log.Fatal\<close>), a failing gas price panics, and a
  failing nonce query counts as nonce 0.\<close>

definition io_must :: "('w, 'a) io \<Rightarrow> ('w, 'a) io" where
  "io_must m w = (case m w of (Fail e, w') \<Rightarrow> (Panic e, w') | r \<Rightarrow> r)"

definition io_default :: "'a \<Rightarrow> ('w, 'a) io \<Rightarrow> ('w, 'a) io" where
  "io_default d m w = (case m w of (Fail e, w') \<Rightarrow> (Ok d, w') | r \<Rightarrow> r)"

definition getTransactOpts :: "'w Net \<Rightarrow> ('w, TransactOpts) io" where
  "getTransactOpts N =
     io_bind (io_must (Dial N))
       (\<lambda>_. io_bind (io_default 0 (PendingNonceAt N))
       (\<lambda>nonce. io_bind (io_must (SuggestGasPrice N))
       (\<lambda>gasPrice. io_ret \<lparr>opt_Nonce = nonce, opt_GasPrice = gasPrice, opt_GasLimit = 5000000\<rparr>)))"

text \<open>The closure reports an error of the query as \<open>not yet\<close>.\<close>

definition query_receipt_once :: "'w Net \<Rightarrow> hash \<Rightarrow> ('w \<times> Receipt option, bool) io" where
  "query_receipt_once N h s =
     (case TransactionReceipt N h (fst s) of
        (Ok r, w') \<Rightarrow> (Ok (r \<noteq> None), (w', r))
      | (Fail e, w') \<Rightarrow> (Ok False, (w', None))
      | (Panic e, w') \<Rightarrow> (Panic e, (w', snd s)))"

text \<open>The result is a pointer that may be nil.\<close>

definition getTxReciept :: "'w Net \<Rightarrow> nat \<Rightarrow> hash \<Rightarrow> ('w, Receipt option) io" where
  "getTxReciept N polls h =
     io_bind (io_wrap ''failed to connect to Ethereum'' (Dial N))
       (\<lambda>_. io_wrap ''failed to fetch receipt''
         (run_captured (WaitForCondition (captured_sleep (Sleep N)) polls 1 (query_receipt_once N h)) None))"

text \<open>The common tail of every contract call: build the options, send, wait for the receipt and
  check its status.\<close>

definition send_and_wait :: "'w Net \<Rightarrow> nat \<Rightarrow> string \<Rightarrow> EvmCall \<Rightarrow> ('w, hash \<times> Receipt) io" where
  "send_and_wait N polls failure call =
     io_bind (getTransactOpts N)
       (\<lambda>opts.
     io_bind (io_wrap ''failed to create transaction'' (SendCall N opts call))
       (\<lambda>h.
     io_bind (io_wrap ''failed to get transaction receipt'' (getTxReciept N polls h))
       (\<lambda>receipt.
     case receipt of
       None \<Rightarrow> io_out (Panic ErrNilPointer)
     | Some r \<Rightarrow> if \<not> Successful r then io_fail (Errorf failure) else io_ret (h, r))))"

definition getIBCERC20Address :: "'w Net \<Rightarrow> ('w, bytes) io" where
  "getIBCERC20Address N =
     io_bind (io_wrap ''failed to connect to Ethereum'' (Dial N))
       (\<lambda>_. io_bind (ExtractDeployedContractAddresses N)
       (\<lambda>addresses. io_bind (io_out (wrap_out ''failed to create ICS20Transfer contract'' (of_result (NewContract N (ICS20Transfer addresses)))))
       (\<lambda>_. io_wrap ''failed to get IBC ERC20 contract address'' (IbcERC20Contract N (DenomPath N)))))"

section \<open>Updating the Groth16 client\<close>

definition relayer_getClientState :: "'w Net \<Rightarrow> ('w, ClientState) io" where
  "relayer_getClientState N =
     io_bind (io_wrap ''failed to get client context'' (SetupClientContext N))
       (\<lambda>_. io_bind (io_wrap ''failed to query client state'' (QueryClientState N groth16ClientID))
       (\<lambda>any. io_bind (io_out (wrap_out ''failed to unpack client state'' (of_result (UnpackClientState N any))))
       (\<lambda>cs. case cs of None \<Rightarrow> io_fail (Errorf ''failed to type assert to Groth16 client state'') | Some c \<Rightarrow> io_ret c)))"

definition relayer_getConsensusState :: "'w Net \<Rightarrow> ('w, ConsensusState) io" where
  "relayer_getConsensusState N =
     io_bind (io_wrap ''failed to get client context'' (SetupClientContext N))
       (\<lambda>_. io_bind (io_wrap ''failed to query consensus state'' (QueryLatestConsensusState N groth16ClientID))
       (\<lambda>any. io_bind (io_out (wrap_out ''failed to unpack consensus state'' (of_result (UnpackConsensusState N any))))
       (\<lambda>cs. case cs of None \<Rightarrow> io_fail (Errorf ''failed to type assert to Groth16 consensus state'') | Some c \<Rightarrow> io_ret c)))"

definition getTrustedHeight :: "'w Net \<Rightarrow> ('w, i64) io" where
  "getTrustedHeight N =
     io_bind (io_wrap ''failed to get groth16 client state'' (relayer_getClientState N)) (\<lambda>c. io_ret (LatestHeight c))"

definition getProof :: "'w Net \<Rightarrow> ('w, ProverResponse) io" where
  "getProof N =
     io_bind (io_out (wrap_out ''failed to connect to prover'' (of_result (GrpcClient N))))
       (\<lambda>_. io_wrap ''failed to get state transition proof'' (EvmProver N groth16ClientID))"

text \<open>\<^verbatim>\<open>time.Unix(int64(header.Time), 0)\<close> in nanoseconds.\<close>

definition getEVMTimestampAtHeight :: "'w Net \<Rightarrow> u64 \<Rightarrow> ('w, time) io" where
  "getEVMTimestampAtHeight N evmTransferBlockNumber =
     io_bind (io_wrap ''failed to connect to Reth'' (Dial N))
       (\<lambda>_. io_bind (io_wrap ''failed to get latest header'' (HeaderTime N evmTransferBlockNumber))
       (\<lambda>t. io_ret (sint t * 1000000000)))"

definition getHeader :: "IBCLib \<Rightarrow> 'w Net \<Rightarrow> u64 \<Rightarrow> ('w, Header) io" where
  "getHeader L N evmTransferBlockNumber =
     io_bind (io_wrap ''failed to get proof'' (getProof N))
       (\<lambda>resp.
     io_bind (io_wrap ''failed to get trusted height'' (getTrustedHeight N))
       (\<lambda>trustedHeight.
     io_bind (io_out (wrap_out ''failed to decode public values'' (DecodePublicValues (pr_PublicValues resp))))
       (\<lambda>blevmPublicOutput.
     io_bind (io_wrap ''failed to get evm timestamp at height'' (getEVMTimestampAtHeight N evmTransferBlockNumber))
       (\<lambda>timestamp.
     io_ret \<lparr>StateTransitionProof = pr_Proof resp, PublicValues = pr_PublicValues resp, TrustedHeight = trustedHeight,
         NewestStateRoot = blevm_NewestStateRoot blevmPublicOutput, NewestHeight = blevm_NewestHeight blevmPublicOutput,
         HdrTimestamp = Some (timestamppb_New L timestamp)\<rparr>))))"

text \<open>Packing the header into \<^verbatim>\<open>Any\<close> never fails for a registered type; \<open>packAny\<close> is that step. A
  response with a code other than 0 is reported with the nil error of the broadcast.\<close>

definition updateGroth16LightClient :: "IBCLib \<Rightarrow> (Header \<Rightarrow> error + Header) \<Rightarrow> 'w Net \<Rightarrow> nat \<Rightarrow> u64 \<Rightarrow> ('w, unit) io" where
  "updateGroth16LightClient L packAny N polls evmTransferBlockNumber =
     io_bind (io_wrap ''failed to get client state'' (relayer_getClientState N))
       (\<lambda>clientState.
     io_bind (io_wrap ''failed to get consensus state'' (relayer_getConsensusState N))
       (\<lambda>consensusState.
     io_bind (io_wrap ''failed to get client context'' (SetupClientContext N))
       (\<lambda>_.
     io_bind (io_wrap ''failed to get header'' (getHeader L N evmTransferBlockNumber))
       (\<lambda>header.
     io_bind (io_out (wrap_out ''failed to create any value'' (of_result (packAny header))))
       (\<lambda>clientMessage.
     io_bind (io_wrap ''failed to broadcast update client msg''
        (BroadcastMessages N polls sender 200000 [MsgUpdateClient groth16ClientID clientMessage sender]))
       (\<lambda>resp.
     if tx_Code resp \<noteq> 0 then io_fail (Errorf ''failed to update Groth16 light client on simapp'')
     else
     io_bind (io_wrap ''failed to get consensus state'' (relayer_getConsensusState N))
       (\<lambda>newConsensusState.
     io_bind (io_wrap ''failed to get client state'' (relayer_getClientState N))
       (\<lambda>newClientState. io_ret ()))))))))"

section \<open>Relaying\<close>

definition relayFromEvmToSimapp ::
    "(MptProof \<Rightarrow> error + bytes) \<Rightarrow> 'w Net \<Rightarrow> nat \<Rightarrow> Packet \<Rightarrow> MptProof \<Rightarrow> u64 \<Rightarrow> ('w, unit) io" where
  "relayFromEvmToSimapp json_Marshal N polls sendPacketEvent p groth16ClientHeight =
     io_bind (io_wrap ''failed to setup client context'' (SetupClientContext N))
       (\<lambda>_.
     io_bind (io_out (wrap_out ''failed to create MsgRecvPacket''
        (createMsgRecvPacket json_Marshal sendPacketEvent p groth16ClientHeight)))
       (\<lambda>msgRecvPacket.
     io_bind (io_wrap ''failed to broadcast MsgRecvPacket''
        (BroadcastMessages N polls sender 200000 [RecvPacketMsg msgRecvPacket]))
       (\<lambda>resp. if tx_Code resp \<noteq> 0 then io_fail (Errorf ''failed to execute MsgRecvPacket'') else io_ret ())))"

definition submitMsgTransfer :: "'w Net \<Rightarrow> nat \<Rightarrow> MsgSendPacket \<Rightarrow> ('w, bytes) io" where
  "submitMsgTransfer N polls msg =
     io_bind (io_wrap ''failed to setup client context'' (SetupClientContext N))
       (\<lambda>_.
     io_bind (io_wrap ''failed to broadcast MsgTransfer'' (BroadcastMessages N polls sender 200000 [SendPacketMsg msg]))
       (\<lambda>response. if tx_Code response \<noteq> 0 then io_fail (Errorf ''failed to execute MsgTransfer'') else io_ret (TxHash response)))"

text \<open>The event of the transaction, with the query as an effect; the hash is decoded before the
  client context is set up.\<close>

definition query_send_packet_event :: "'w Net \<Rightarrow> bytes \<Rightarrow> ('w, SendPacketEvent) io" where
  "query_send_packet_event N sourceTxHash =
     io_bind (io_out (wrap_out ''failed to decode source tx hash''
        (of_result (hex_DecodeString (TrimPrefix sourceTxHash (str ''0x''))))))
       (\<lambda>h.
     io_bind (io_wrap ''failed to setup client context'' (SetupClientContext N))
       (\<lambda>_.
     io_bind (io_wrap ''failed to query transaction'' (TxEvents N h))
       (\<lambda>events. io_out (getSendPacketEvent (\<lambda>_. Inr events) sourceTxHash))))"

definition getCelestiaProverResponse :: "'w Net \<Rightarrow> SendPacketEvent \<Rightarrow> ('w, MembershipResponse) io" where
  "getCelestiaProverResponse N event =
     io_bind (io_out (wrap_out ''failed to connect to celestia-prover'' (of_result (GrpcClient N))))
       (\<lambda>_. io_bind (ExtractDeployedContractAddresses N)
       (\<lambda>addresses. io_wrap ''failed to get state membership proof''
          (CelestiaMembership N (ICS07Tendermint addresses) [hex_EncodeToString (getPacketCommitmentPath event)])))"

definition relayByTx :: "TransferLib \<Rightarrow> 'w Net \<Rightarrow> nat \<Rightarrow> bytes \<Rightarrow> bytes \<Rightarrow> ('w, unit) io" where
  "relayByTx T N polls sourceTxHash targetClientID =
     io_bind (io_wrap ''failed to get SendPacket event'' (query_send_packet_event N sourceTxHash))
       (\<lambda>event.
     io_bind (getCelestiaProverResponse N event)
       (\<lambda>resp.
     io_bind (io_out (wrap_out ''failed to parse private key'' (of_result (ToECDSA N))))
       (\<lambda>_.
     io_bind (io_wrap ''failed to create Ethereum client'' (NewEthereum N))
       (\<lambda>_.
     io_bind (io_wrap ''failed to get contract addresses'' (ExtractDeployedContractAddresses N))
       (\<lambda>addresses.
     io_bind (io_wrap ''failed to connect to Ethereum'' (Dial N))
       (\<lambda>_.
     io_bind (io_out (of_result (NewContract N (ICS26Router addresses))))
       (\<lambda>_.
     io_bind (io_out (wrap_out ''failed to get MsgRecvPacket'' (getMsgRecvPacket T event (mr_Proof resp) (mr_Height resp))))
       (\<lambda>msgRecvPacket.
     io_bind (send_and_wait N polls ''RecvPacket failed'' (RecvPacketCall (ICS26Router addresses) msgRecvPacket))
       (\<lambda>_. io_ret ())))))))))"

section \<open>Updating the Tendermint client on the roll-up\<close>

definition getProofResponse :: "'w Net \<Rightarrow> ('w, ProverResponse) io" where
  "getProofResponse N =
     io_bind (ExtractDeployedContractAddresses N)
       (\<lambda>addresses. io_bind (io_out (wrap_out ''failed to connect to prover'' (of_result (GrpcClient N))))
       (\<lambda>_. io_wrap ''failed to get state transition proof'' (CelestiaProver N (ICS07Tendermint addresses))))"

definition getCelestiaProverInfo :: "'w Net \<Rightarrow> ('w, InfoResponse) io" where
  "getCelestiaProverInfo N =
     io_bind (io_out (wrap_out ''failed to connect to prover'' (of_result (GrpcClient N))))
       (\<lambda>_. io_wrap ''failed to get celestia-prover info'' (CelestiaInfo N))"

text \<open>A query whose error is passed to a function of the data layer.\<close>

definition io_result :: "('w, 'a) io \<Rightarrow> ('w, error + 'a) io" where
  "io_result m w = (case m w of (Ok a, w') \<Rightarrow> (Ok (Inr a), w') | (Fail e, w') \<Rightarrow> (Ok (Inl e), w') | (Panic e, w') \<Rightarrow> (Panic e, w'))"

text \<open>The ABI of \<^verbatim>\<open>updateClient\<close> is a constant that parses; \<open>PackUpdate\<close> packs the proof record.\<close>

definition getUpdateMsg :: "'w Net \<Rightarrow> ('w, bytes) io" where
  "getUpdateMsg N =
     io_bind (io_result (getCelestiaProverInfo N))
       (\<lambda>info.
     io_bind (io_out (wrap_out ''failed to get prover state transition verifier key'' (getProverSTFKey info)))
       (\<lambda>verifierKey.
     io_bind (io_wrap ''failed to get proof response'' (getProofResponse N))
       (\<lambda>resp. io_out (wrap_out ''error packing msg''
          (of_result (PackUpdate N verifierKey (pr_PublicValues resp) (pr_Proof resp)))))))"

definition updateTendermintLightClient :: "'w Net \<Rightarrow> nat \<Rightarrow> ('w, unit) io" where
  "updateTendermintLightClient N polls =
     io_bind (ExtractDeployedContractAddresses N)
       (\<lambda>addresses.
     io_bind (Dial N)
       (\<lambda>_.
     io_bind (io_out (of_result (NewContract N (ICS26Router addresses))))
       (\<lambda>_.
     io_bind (io_out (of_result (ToECDSA N)))
       (\<lambda>_.
     io_bind (NewEthereum N)
       (\<lambda>_.
     io_bind (io_wrap ''failed to get update msg'' (getUpdateMsg N))
       (\<lambda>updateMsg.
     io_bind (send_and_wait N polls ''UpdateClient tx failed''
        (UpdateClientCall (ICS26Router addresses) tendermintClientID updateMsg))
       (\<lambda>_. io_ret ())))))))"

section \<open>Balances\<close>

definition getSimappUserBalance :: "'w Net \<Rightarrow> ('w, int) io" where
  "getSimappUserBalance N =
     io_bind (io_wrap ''failed to setup client context'' (SetupClientContext N))
       (\<lambda>_. io_bind (io_out (wrap_out ''failed to convert sender address'' (of_result (AddressFromBech32 N sender))))
       (\<lambda>senderAcc. io_wrap ''failed to query balance on SimApp'' (SimappBalance N senderAcc denom)))"

definition zeroAddress :: bytes where "zeroAddress = replicate 20 0"

text \<open>An error of \<open>IbcERC20Contract\<close> is ignored and gives the zero address.\<close>

definition getEvmUserBalance :: "'w Net \<Rightarrow> ('w, int) io" where
  "getEvmUserBalance N =
     io_bind (io_wrap ''failed to extract deployed contract addresses'' (ExtractDeployedContractAddresses N))
       (\<lambda>addresses.
     io_bind (io_wrap ''failed to connect to Ethereum'' (Dial N))
       (\<lambda>_.
     io_bind (io_out (wrap_out ''failed to create ICS20Transfer contract'' (of_result (NewContract N (ICS20Transfer addresses)))))
       (\<lambda>_.
     io_bind (io_default zeroAddress (IbcERC20Contract N (DenomPath N)))
       (\<lambda>ibcERC20Address.
     if ibcERC20Address = zeroAddress then io_ret 0
     else
     io_bind (io_out (wrap_out ''failed to create IBCERC20 contract'' (of_result (NewContract N ibcERC20Address))))
       (\<lambda>_.
     io_bind (io_wrap ''failed to get denom on Ethereum'' (Erc20Name N ibcERC20Address))
       (\<lambda>actualDenom.
     if actualDenom \<noteq> DenomPath N then io_fail (Errorf ''denom on Ethereum does not match expected denom'')
     else
     io_bind (io_wrap ''failed to get symbol on Ethereum'' (Erc20Symbol N ibcERC20Address))
       (\<lambda>actualSymbol.
     if actualSymbol \<noteq> DenomPath N then io_fail (Errorf ''symbol on Ethereum does not match expected symbol'')
     else
     io_bind (io_wrap ''failed to get full denom path on Ethereum'' (Erc20FullDenomPath N ibcERC20Address))
       (\<lambda>actualFullDenom.
     if DenomPath N \<noteq> actualFullDenom then io_fail (Errorf ''full denom on Ethereum does not match expected full denom'')
     else
     io_bind (io_wrap ''failed to get user balance on Ethereum'' (Erc20BalanceOf N ibcERC20Address receiver))
       (\<lambda>userBalance. io_ret (sint (word_of_int userBalance :: 64 word)))))))))))"

text \<open>\<^verbatim>\<open>Int64\<close> of \<^verbatim>\<open>math.Int\<close>, which panics on a number that does not fit.\<close>

definition Int64 :: "int \<Rightarrow> i64 outcome" where
  "Int64 n = (if - (2 ^ 63) \<le> n \<and> n < 2 ^ 63 then Ok (word_of_int n) else Panic (Errorf ''Int64() out of bound''))"

text \<open>The printed number is the result.\<close>

definition queryBalanceOnSimApp :: "'w Net \<Rightarrow> ('w, i64) io" where
  "queryBalanceOnSimApp N =
     io_bind (io_wrap ''failed to get balance for SimApp'' (getSimappUserBalance N)) (\<lambda>currentBalance. io_out (Int64 currentBalance))"

definition queryBalanceOnEthereum :: "'w Net \<Rightarrow> ('w, i64) io" where
  "queryBalanceOnEthereum N =
     io_bind (io_wrap ''failed to get balance for Ethereum'' (getEvmUserBalance N)) (\<lambda>userBalance. io_out (Int64 userBalance))"

definition queryBalances :: "'w Net \<Rightarrow> ('w, unit) io" where
  "queryBalances N =
     io_bind (io_wrap ''failed to query balance on SimApp'' (queryBalanceOnSimApp N))
       (\<lambda>_. io_bind (io_wrap ''failed to query balance on Ethereum'' (queryBalanceOnEthereum N))
       (\<lambda>_. io_ret ()))"

section \<open>The two transfers\<close>

text \<open>The keys of the light client contract are read after the contract addresses; then the keys
  of the prover, each with a query of its own.\<close>

definition check_verifier_keys :: "'w Net \<Rightarrow> ('w, unit) io" where
  "check_verifier_keys N =
     io_bind (ExtractDeployedContractAddresses N)
       (\<lambda>addresses.
     io_bind (Dial N)
       (\<lambda>_.
     io_bind (io_out (of_result (NewContract N (ICS07Tendermint addresses))))
       (\<lambda>_.
     io_bind (ClientKeys N (ICS07Tendermint addresses))
       (\<lambda>keys.
     io_bind (io_result (getCelestiaProverInfo N))
       (\<lambda>info1.
     io_bind (io_out (getProverSTFKey info1))
       (\<lambda>proverSTFKey.
     io_bind (io_result (getCelestiaProverInfo N))
       (\<lambda>info2.
     io_bind (io_out (getProverMembershipKey info2))
       (\<lambda>proverMembershipKey.
     if fst keys \<noteq> proverSTFKey then io_fail (Errorf ''state transition verifier key mismatch'')
     else if snd keys \<noteq> proverMembershipKey then io_fail (Errorf ''membership verifier key mismatch'')
     else io_ret ()))))))))"

definition transferSimAppToEVM :: "TransferLib \<Rightarrow> 'w Net \<Rightarrow> nat \<Rightarrow> ('w, unit) io" where
  "transferSimAppToEVM T N polls =
     io_bind (io_wrap ''failed to assert verifier keys'' (check_verifier_keys N))
       (\<lambda>_.
     io_bind (io_asks (Now N))
       (\<lambda>now.
     io_bind (io_out (wrap_out ''failed to create msg send packet'' (createMsgSendPacket T now)))
       (\<lambda>msg.
     io_bind (io_wrap ''failed to submit msg transfer'' (submitMsgTransfer N polls msg))
       (\<lambda>txHash.
     io_bind (io_wrap ''failed to update Tendermint light client'' (updateTendermintLightClient N polls))
       (\<lambda>_.
     io_bind (io_wrap ''failed to relay IBC transaction'' (relayByTx T N polls txHash tendermintClientID))
       (\<lambda>_. io_wrap ''failed to query balance'' (queryBalances N)))))))"

definition approveSpend :: "'w Net \<Rightarrow> nat \<Rightarrow> ('w, unit) io" where
  "approveSpend N polls =
     io_bind (ExtractDeployedContractAddresses N)
       (\<lambda>addresses.
     io_bind (io_wrap ''failed to connect to Ethereum'' (Dial N))
       (\<lambda>_.
     io_bind (io_wrap ''failed to get IBC ERC20 contract address'' (getIBCERC20Address N))
       (\<lambda>ibcERC20Address.
     io_bind (io_out (of_result (NewContract N ibcERC20Address)))
       (\<lambda>_.
     io_bind (io_out (wrap_out ''failed to parse private key'' (of_result (ToECDSA N))))
       (\<lambda>_.
     io_bind (io_wrap ''failed to create Ethereum client'' (NewEthereum N))
       (\<lambda>_.
     io_bind (send_and_wait N polls ''approve failed'' (ApproveCall ibcERC20Address (ICS20Transfer addresses) transferBackAmount))
       (\<lambda>_.
     io_bind (io_wrap ''failed to get allowance'' (Allowance N ibcERC20Address receiver (ICS20Transfer addresses)))
       (\<lambda>allowance.
     if allowance \<noteq> transferBackAmount then io_fail (Errorf ''allowance is not correct'') else io_ret ()))))))))"

definition sendTransferBackMsg :: "'w Net \<Rightarrow> nat \<Rightarrow> ('w, Packet \<times> u64) io" where
  "sendTransferBackMsg N polls =
     io_bind (io_wrap ''failed to get contract addresses'' (ExtractDeployedContractAddresses N))
       (\<lambda>addresses.
     io_bind (io_wrap ''failed to get IBC ERC20 contract address'' (getIBCERC20Address N))
       (\<lambda>ibcERC20Address.
     io_bind (io_wrap ''failed to connect to Ethereum'' (Dial N))
       (\<lambda>_.
     io_bind (io_out (wrap_out ''failed to get ICS20Transfer contract address'' (of_result (NewContract N (ICS20Transfer addresses)))))
       (\<lambda>_.
     io_bind (io_out (wrap_out ''failed to get ICS26Router contract address'' (of_result (NewContract N (ICS26Router addresses)))))
       (\<lambda>_.
     io_bind (io_out (wrap_out ''failed to parse private key'' (of_result (ToECDSA N))))
       (\<lambda>_.
     io_bind (io_wrap ''failed to create Ethereum client'' (NewEthereum N))
       (\<lambda>_.
     io_bind (io_asks (\<lambda>w. \<lparr>st_Denom = ibcERC20Address, st_Amount = transferBackAmount, st_Receiver = sender,
         st_TimeoutTimestamp = Now N w + 30 * 60, st_SourceClient = tendermintClientID, st_Memo = str ''transfer back memo''\<rparr>))
       (\<lambda>msg.
     io_bind (send_and_wait N polls ''send transfer back msg failed'' (SendTransferCall (ICS20Transfer addresses) msg))
       (\<lambda>(_, receipt).
     io_bind (io_out (wrap_out ''failed to get send packet event'' (GetEvmEvent (Logs receipt) (ParseSendPacket N))))
       (\<lambda>sendPacketEvent. io_ret (sendPacketEvent, BlockNumber receipt)))))))))))"

text \<open>The storage proof, with the query as an effect.\<close>

definition query_mpt_proof ::
    "'d ProofLib \<Rightarrow> (bytes \<Rightarrow> nat \<Rightarrow> bytes) \<Rightarrow> bytes \<Rightarrow> 'w Net \<Rightarrow> bytes \<Rightarrow> bytes \<Rightarrow> u64 \<Rightarrow> ('w, MptProof) io" where
  "query_mpt_proof P leftPad slot N path contractAddress blockNumber =
     io_bind (io_wrap ''failed to connect to Reth node'' (Dial N))
       (\<lambda>_. io_bind (io_result (EthGetProof N contractAddress (GetCommitmentsStorageKey P leftPad slot path) blockNumber))
       (\<lambda>result. io_out (getMPTProof P leftPad slot (\<lambda>_ _ _. result) path contractAddress blockNumber)))"

definition transferBack ::
    "IBCLib \<Rightarrow> (Header \<Rightarrow> error + Header) \<Rightarrow> (MptProof \<Rightarrow> error + bytes) \<Rightarrow> 'd ProofLib \<Rightarrow> (bytes \<Rightarrow> nat \<Rightarrow> bytes) \<Rightarrow>
     bytes \<Rightarrow> 'w Net \<Rightarrow> nat \<Rightarrow> ('w, unit) io" where
  "transferBack L packAny json_Marshal P leftPad slot N polls =
     io_bind (io_wrap ''failed to approve spend'' (approveSpend N polls))
       (\<lambda>_.
     io_bind (io_wrap ''failed to get contract addresses'' (ExtractDeployedContractAddresses N))
       (\<lambda>addresses.
     io_bind (io_wrap ''failed to connect to Ethereum'' (Dial N))
       (\<lambda>_.
     io_bind (io_wrap ''failed to send transfer back msg'' (sendTransferBackMsg N polls))
       (\<lambda>(sendPacketEvent, evmTransferBlockNumber).
     io_bind (io_wrap ''failed to get MPT proof''
        (query_mpt_proof P leftPad slot N (packetCommitmentPath (pkt_SourceClient sendPacketEvent) (pkt_Sequence sendPacketEvent))
           (ICS26Router addresses) evmTransferBlockNumber))
       (\<lambda>p.
     io_bind (io_wrap ''failed to update Groth16 light client'' (updateGroth16LightClient L packAny N polls evmTransferBlockNumber))
       (\<lambda>_.
     io_bind (io_wrap ''failed to relay from EVM to SimApp''
        (relayFromEvmToSimapp json_Marshal N polls sendPacketEvent p evmTransferBlockNumber))
       (\<lambda>_. io_wrap ''failed to query balance'' (queryBalances N))))))))"

text \<open>The command line: the first argument selects the flow, an error of it ends the process, an unknown
  argument does nothing and a missing one is an index out of range.\<close>

definition transfer_main ::
    "TransferLib \<Rightarrow> IBCLib \<Rightarrow> (Header \<Rightarrow> error + Header) \<Rightarrow> (MptProof \<Rightarrow> error + bytes) \<Rightarrow> 'd ProofLib \<Rightarrow>
     (bytes \<Rightarrow> nat \<Rightarrow> bytes) \<Rightarrow> bytes \<Rightarrow> 'w Net \<Rightarrow> nat \<Rightarrow> string list \<Rightarrow> ('w, unit) io" where
  "transfer_main T L packAny json_Marshal P leftPad slot N polls Args =
     (if length Args < 2 then io_out (Panic (Sentinel ''index out of range''))
      else if Args ! 1 = ''transfer''
      then io_must (io_wrap ''Failed to transfer from SimApp to EVM roll-up'' (transferSimAppToEVM T N polls))
      else if Args ! 1 = ''transfer-back''
      then io_must (io_wrap ''Failed to transfer from EVM roll-up to SimApp''
        (transferBack L packAny json_Marshal P leftPad slot N polls))
      else if Args ! 1 = ''query-balance'' then io_must (io_wrap ''Failed to query balance'' (queryBalances N))
      else io_ret ())"

section \<open>Waiting, without the retry machinery\<close>

text \<open>Plain polling for a receipt: sleep, query, and stop at the first receipt.\<close>

fun first_receipt :: "'w Net \<Rightarrow> hash \<Rightarrow> nat \<Rightarrow> 'w \<Rightarrow> Receipt option \<times> 'w" where
  "first_receipt N h 0 w = (None, w)"
| "first_receipt N h (Suc polls) w =
     (case TransactionReceipt N h (Sleep N 1 w) of
        (Ok (Some r), w') \<Rightarrow> (Some r, w')
      | (_, w') \<Rightarrow> first_receipt N h polls w')"

lemma retry_loop_no_error:
  "fn s = (Ok b, s') \<Longrightarrow> retry_loop sleep fn (Suc n) k None s = (Ok (if b then Reached else NotReached None k), s')"
  by (cases b) simp_all

lemma wait_receipt:
  assumes "\<And>w e. fst (TransactionReceipt N h w) \<noteq> Panic e"
  shows "run_captured (\<lambda>s. wait_loop (captured_sleep (Sleep N)) polls 1 (query_receipt_once N h) 1 s) c w =
    (case first_receipt N h polls w of
       (Some r, w') \<Rightarrow> (Ok (Some r), w') | (None, w') \<Rightarrow> (Fail (Errorf ''failed waiting for condition''), w'))"
proof (induction polls arbitrary: w c)
  case 0
  then show ?case by (simp add: run_captured_def)
next
  case (Suc polls)
  obtain res w1 where res: "TransactionReceipt N h (Sleep N 1 w) = (res, w1)" by fastforce
  with assms[of "Sleep N 1 w"] have np: "\<forall>e. res \<noteq> Panic e" by simp
  have step: "query_receipt_once N h (Sleep N 1 w, c) =
      (Ok (case res of Ok r \<Rightarrow> r \<noteq> None | _ \<Rightarrow> False), (w1, case res of Ok r \<Rightarrow> r | _ \<Rightarrow> None))"
    using res np by (cases res) (simp_all add: query_receipt_once_def)
  have "maxRetries = Suc 4" by (simp add: maxRetries_def)
  then have r: "retry_loop (captured_sleep (Sleep N)) (query_receipt_once N h) maxRetries 1 None (Sleep N 1 w, c)
      = (Ok (case res of Ok (Some r) \<Rightarrow> Reached | _ \<Rightarrow> NotReached None 1), (w1, case res of Ok r \<Rightarrow> r | _ \<Rightarrow> None))"
    using retry_loop_no_error[of "query_receipt_once N h" "(Sleep N 1 w, c)", OF step, of "captured_sleep (Sleep N)" 4 1] np
    by (cases res) (auto split: option.splits simp del: retry_loop.simps)
  have sleep: "captured_sleep (Sleep N) 1 (w, c) = (Sleep N 1 w, c)" by (simp add: captured_sleep_def)
  show ?case
    using Suc.IH[where w = w1 and c = None] np
    by (cases res) (auto simp: run_captured_def r [simplified] sleep [simplified] res [simplified]
        simp del: retry_loop.simps split: option.splits)
qed

lemma wait_for_receipt:
  assumes "\<And>w e. fst (TransactionReceipt N h w) \<noteq> Panic e"
  shows "run_captured (WaitForCondition (captured_sleep (Sleep N)) polls 1 (query_receipt_once N h)) c w =
    (case first_receipt N h polls w of
       (Some r, w') \<Rightarrow> (Ok (Some r), w') | (None, w') \<Rightarrow> (Fail (Errorf ''failed waiting for condition''), w'))"
  using wait_receipt[OF assms] by (simp add: WaitForCondition_def)

text \<open>The queries for a transaction in one poll: at most five, with doubling pauses, and another one
  only after a connection error.\<close>

fun query_attempts :: "'w Net \<Rightarrow> bytes \<Rightarrow> nat \<Rightarrow> nat \<Rightarrow> 'w \<Rightarrow> TxResponse outcome \<times> 'w" where
  "query_attempts N h 0 backoff w = (Fail (Errorf []), w)"
| "query_attempts N h (Suc left) backoff w =
     (case QueryTx N h w of
        (Ok r, w') \<Rightarrow> (Ok r, w')
      | (Panic e, w') \<Rightarrow> (Panic e, w')
      | (Fail e, w') \<Rightarrow>
          if \<not> connection_error e then (Fail (Wrap ''error occurred while waiting for condition'' e), w')
          else if left = 0 then (Fail (Wrap ''error occurred while waiting for condition'' e), Sleep N backoff w')
          else query_attempts N h left (2 * backoff) (Sleep N backoff w'))"

lemma retry_query_tx:
  "0 < n \<Longrightarrow> (case retry_loop (captured_sleep (Sleep N)) (query_tx_once N h) n b le (w, c) of
       (Ok Reached, (w', c')) \<Rightarrow> (Ok c', w')
     | (Ok (NotReached (Some e) _), (w', _)) \<Rightarrow> (Fail (Wrap ''error occurred while waiting for condition'' e), w')
     | (Ok (NotReached None _), (w', _)) \<Rightarrow> (Fail (Errorf []), w')
     | (Fail e, (w', _)) \<Rightarrow> (Fail e, w') | (Panic e, (w', _)) \<Rightarrow> (Panic e, w'))
   = query_attempts N h n b w
   \<and> (\<forall>b' s. retry_loop (captured_sleep (Sleep N)) (query_tx_once N h) n b le (w, c) \<noteq> (Ok (NotReached None b'), s))"
proof (induction n arbitrary: b le w c)
  case (Suc n)
  obtain res w1 where res: "QueryTx N h w = (res, w1)" by fastforce
  show ?case
  proof (cases n)
    case 0
    then show ?thesis using res by (cases res) (auto simp: query_tx_once_def captured_sleep_def)
  next
    case (Suc m)
    then show ?thesis using Suc.IH[where b = "2 * b"] res
      by (cases res) (auto simp: query_tx_once_def captured_sleep_def)
  qed
qed simp

lemma wait_query_tx:
  "run_captured (\<lambda>s. wait_loop (captured_sleep (Sleep N)) (Suc polls) d (query_tx_once N h) b s) c w =
    query_attempts N h maxRetries b (Sleep N d w)"
proof -
  have "0 < maxRetries" by (simp add: maxRetries_def)
  from retry_query_tx[OF this, of N h b None "Sleep N d w" c] show ?thesis
    by (auto simp: run_captured_def captured_sleep_def split: prod.splits outcome.splits poll_result.splits option.splits)
qed

lemma full_response_attempts:
  "getFullyPopulatedResponse N (Suc polls) h w = query_attempts N h maxRetries 1 (Sleep N 15 w)"
  using wait_query_tx[of N polls 15 h 1 emptyTxResponse w]
  by (simp only: getFullyPopulatedResponse_def WaitForCondition_def)

section \<open>What a successful flow has done\<close>

lemma getHeader_Ok:
  assumes "getHeader L N blk w = (Ok h, w')"
  shows "\<exists>resp w1 out. EvmProver N groth16ClientID w = (Ok resp, w1) \<and> DecodePublicValues (pr_PublicValues resp) = Ok out
    \<and> StateTransitionProof h = pr_Proof resp \<and> PublicValues h = pr_PublicValues resp
    \<and> NewestStateRoot h = blevm_NewestStateRoot out \<and> NewestHeight h = blevm_NewestHeight out"
  using assms unfolding getHeader_def getProof_def
  by (fastforce simp: io_Ok_simps wrap_out_eq_Ok of_result_eq_Ok)

lemma io_must_eq_Ok: "io_must m w = (Ok a, w') \<longleftrightarrow> m w = (Ok a, w')"
  by (auto simp: io_must_def split: prod.splits outcome.splits)

lemma createMsgRecvPacket_Ok:
  assumes "createMsgRecvPacket jm pkt p height = Ok m"
  shows "ProofHeight m = Height 0 height \<and> jm p = Inr (ProofCommitment m)
    \<and> recv_Packet m = pkt\<lparr>Payloads := [hd (Payloads pkt)]\<rparr> \<and> Payloads pkt \<noteq> [] \<and> recv_Signer m = sender"
  using assms by (cases "Payloads pkt")
    (auto simp: createMsgRecvPacket_def bind_out_eq_Ok wrap_out_eq_Ok of_result_eq_Ok)

lemma getMPTProof_fields:
  assumes "getMPTProof P leftPad slot (\<lambda>_ _ _. Inr resp) path addr blk = Ok p"
  shows "AccountProof p = gp_AccountProof resp
    \<and> (gp_StorageProof resp = [] \<or> StorageKey p = GetCommitmentsStorageKey P leftPad slot path)"
  using assms by (cases "gp_StorageProof resp")
    (auto simp: getMPTProof_def Let_def bind_out_eq_Ok split: if_splits)

lemma query_mpt_proof_Ok:
  assumes "query_mpt_proof P leftPad slot N path addr blk w = (Ok p, w')"
  shows "\<exists>resp w1. EthGetProof N addr (GetCommitmentsStorageKey P leftPad slot path) blk w1 = (Ok resp, w')
    \<and> getMPTProof P leftPad slot (\<lambda>_ _ _. Inr resp) path addr blk = Ok p"
proof -
  obtain w1 r where "io_result (EthGetProof N addr (GetCommitmentsStorageKey P leftPad slot path) blk) w1 = (Ok r, w')"
    and r: "getMPTProof P leftPad slot (\<lambda>_ _ _. r) path addr blk = Ok p"
    using assms unfolding query_mpt_proof_def by (fastforce simp: io_Ok_simps)
  moreover from r obtain resp where "r = Inr resp"
    by (auto simp: getMPTProof_def Let_def bind_out_eq_Ok wrap_out_eq_Ok of_result_eq_Ok)
  ultimately show ?thesis by (auto simp: io_result_def split: prod.splits outcome.splits)
qed

end
