(* ===== verification/Relayer_Trace.thy ===== *)
theory Relayer_Trace
  imports Relayer
begin

text \<open>
  What the flows of the relayer send: the messages broadcast to SimApp and the contract calls sent to
  the roll-up, in order. A computation that sends nothing of one kind is quiet for it; the contracts
  \<open>quiet_net\<close>, \<open>simapp_view\<close>, \<open>observed_net\<close> and \<open>observed_evm\<close> say which operations of the outside world
  send what.
\<close>

section \<open>Quiet computations\<close>

text \<open>An observation reads off the world what was sent. A computation is quiet when it does not change
  the observation.\<close>

definition quiet :: "('w \<Rightarrow> 'o) \<Rightarrow> ('w, 'a) io \<Rightarrow> bool" where
  "quiet sent m \<longleftrightarrow> (\<forall>w. sent (snd (m w)) = sent w)"

lemma quietD: "quiet sent m \<Longrightarrow> m w = (r, w') \<Longrightarrow> sent w' = sent w"
  unfolding quiet_def by (metis snd_conv)

lemma quiet_bind: "quiet sent m \<Longrightarrow> (\<And>a. quiet sent (f a)) \<Longrightarrow> quiet sent (io_bind m f)"
  by (auto simp: quiet_def io_bind_def split: prod.splits outcome.splits) (metis snd_conv)+

lemma quiet_wrap: "quiet sent m \<Longrightarrow> quiet sent (io_wrap msg m)"
  by (auto simp: quiet_def io_wrap_def split: prod.splits) (metis snd_conv)

lemma quiet_out: "quiet sent (io_out x)" "quiet sent (io_ret a)" "quiet sent (io_fail e)" "quiet sent (io_asks f)"
  by (simp_all add: quiet_def io_out_def io_ret_def io_fail_def io_asks_def)

lemma quiet_must: "quiet sent m \<Longrightarrow> quiet sent (io_must m)" "quiet sent m \<Longrightarrow> quiet sent (io_default d m)"
    "quiet sent m \<Longrightarrow> quiet sent (io_result m)"
  by (auto simp: quiet_def io_must_def io_default_def io_result_def split: prod.splits outcome.splits) (metis snd_conv)+

lemma quiet_if: "quiet sent m \<Longrightarrow> quiet sent m' \<Longrightarrow> quiet sent (if b then m else m')"
  by simp

lemma quiet_option: "quiet sent m \<Longrightarrow> (\<And>a. quiet sent (f a)) \<Longrightarrow> quiet sent (case x of None \<Rightarrow> m | Some a \<Rightarrow> f a)"
  by (simp split: option.splits)

lemma quiet_prod: "(\<And>a b. quiet sent (f a b)) \<Longrightarrow> quiet sent (case x of (a, b) \<Rightarrow> f a b)"
  by (simp split: prod.splits)

lemmas quiet_rules = quiet_bind quiet_wrap quiet_out quiet_must quiet_if quiet_option quiet_prod

lemma quiet_retry:
  assumes "\<And>d w. sent (sleep d w) = sent w" and "quiet sent fn"
  shows "quiet sent (retry_loop sleep fn n b le)"
proof -
  have "sent (snd (retry_loop sleep fn n b le w)) = sent w" for w
    using assms(1) quietD[OF assms(2)]
    by (induction n arbitrary: b le w) (auto split: prod.splits outcome.splits bool.splits)
  then show ?thesis by (simp add: quiet_def)
qed

lemma quiet_wait:
  assumes "\<And>d w. sent (sleep d w) = sent w" and "quiet sent fn"
  shows "quiet sent (WaitForCondition sleep polls d fn)"
proof -
  have "sent (snd (wait_loop sleep polls d fn b w)) = sent w" for b w
    using assms(1) quietD[OF quiet_retry[where sleep = sleep and sent = sent, OF assms]]
    by (induction polls arbitrary: b w) (auto split: prod.splits outcome.splits poll_result.splits option.splits)
  then show ?thesis by (simp add: quiet_def WaitForCondition_def)
qed

lemma quiet_captured:
  "quiet (\<lambda>s. sent (fst s)) m \<Longrightarrow> quiet sent (run_captured m c)"
  by (auto simp: quiet_def run_captured_def split: prod.splits outcome.splits) (metis fst_conv snd_conv)+

section \<open>The steps of a transfer\<close>

text \<open>The two parts of a proof request and of the relayed message, and the steps of a transfer.\<close>

lemma getCelestiaProverResponse_Ok:
  assumes "getCelestiaProverResponse N event w = (Ok resp, w')"
  shows "\<exists>addr v. CelestiaMembership N addr [hex_EncodeToString (getPacketCommitmentPath event)] v = (Ok resp, w')"
  using assms by (auto simp: getCelestiaProverResponse_def io_Ok_simps)

lemma getMsgRecvPacket_payload:
  assumes "getMsgRecvPacket T event p height = Ok m" and "createMsgSendPacket T now = Ok msg"
  shows "m = \<lparr>evm_Packet = \<lparr>pkt_Sequence = Sequence event, pkt_SourceClient = groth16ClientID, pkt_DestClient = tendermintClientID,
      pkt_TimeoutTimestamp = TimeoutTimestamp event, Payloads = send_Payloads msg\<rparr>,
    evm_ProofCommitment = p, evm_RevisionNumber = 0, evm_RevisionHeight = ucast height\<rparr>"
  using assms by (auto simp: getMsgRecvPacket_def createMsgSendPacket_def bind_out_eq_Ok wrap_out_eq_Ok)

lemma check_verifier_keys_Ok:
  assumes "check_verifier_keys N w = (Ok (), w')"
  shows "\<exists>addrs v v1 v2 keys info1 info2. ExtractDeployedContractAddresses N w = (Ok addrs, v) \<and> Dial N v = (Ok (), v1)
    \<and> ClientKeys N (ICS07Tendermint addrs) v1 = (Ok keys, v2)
    \<and> getProverSTFKey (Inr info1) = Ok (fst keys) \<and> getProverMembershipKey (Inr info2) = Ok (snd keys)"
proof -
  obtain addrs v v1 keys v2 r1 r2 where "ExtractDeployedContractAddresses N w = (Ok addrs, v)" "Dial N v = (Ok (), v1)"
      "ClientKeys N (ICS07Tendermint addrs) v1 = (Ok keys, v2)"
      "getProverSTFKey r1 = Ok (fst keys)" "getProverMembershipKey r2 = Ok (snd keys)"
    using assms by (fastforce simp: check_verifier_keys_def io_Ok_simps split: if_splits)
  moreover from this obtain info1 info2 where "r1 = Inr info1" "r2 = Inr info2"
    by (cases r1; cases r2) (auto simp: getProverSTFKey_def getProverMembershipKey_def bind_out_eq_Ok wrap_out_eq_Ok)
  ultimately show ?thesis by blast
qed

lemma transfer_steps:
  assumes "transferSimAppToEVM T N polls w = (Ok u, w')"
  shows "\<exists>w1 msg h w2 w3 w4. check_verifier_keys N w = (Ok (), w1) \<and> createMsgSendPacket T (Now N w1) = Ok msg
    \<and> submitMsgTransfer N polls msg w1 = (Ok h, w2) \<and> updateTendermintLightClient N polls w2 = (Ok (), w3)
    \<and> relayByTx T N polls h tendermintClientID w3 = (Ok (), w4) \<and> queryBalances N w4 = (Ok u, w')"
  using assms by (auto simp: transferSimAppToEVM_def io_Ok_simps wrap_out_eq_Ok)

lemma transfer_back_steps:
  assumes "transferBack L packAny jm P leftPad slot N polls w = (Ok u, w')"
  shows "\<exists>wa addrs wb wc pkt blk w1 p w2 w3 w4.
    approveSpend N polls w = (Ok (), wa) \<and> ExtractDeployedContractAddresses N wa = (Ok addrs, wb)
    \<and> Dial N wb = (Ok (), wc) \<and> sendTransferBackMsg N polls wc = (Ok (pkt, blk), w1)
    \<and> query_mpt_proof P leftPad slot N (packetCommitmentPath (pkt_SourceClient pkt) (pkt_Sequence pkt))
         (ICS26Router addrs) blk w1 = (Ok p, w2)
    \<and> updateGroth16LightClient L packAny N polls blk w2 = (Ok (), w3)
    \<and> relayFromEvmToSimapp jm N polls pkt p blk w3 = (Ok (), w4) \<and> queryBalances N w4 = (Ok u, w')"
  using assms by (clarsimp simp: transferBack_def io_Ok_simps split: prod.splits)

lemma getIBCERC20Address_Ok:
  "getIBCERC20Address N w = (Ok token, w') \<Longrightarrow> \<exists>v. IbcERC20Contract N (DenomPath N) v = (Ok token, w')"
  by (auto simp: getIBCERC20Address_def io_Ok_simps)

text \<open>A transaction that was broadcast and later found with code 0.\<close>

definition executed :: "'w Net \<Rightarrow> Msg list \<Rightarrow> 'w \<Rightarrow> 'w \<Rightarrow> bool" where
  "executed N ms w w' \<longleftrightarrow> (\<exists>f b r resp v v'. BroadcastTx N f ms w = (Ok b, w') \<and> UnmarshalTxResponse N b = Inr r
     \<and> QueryTx N (TxHash r) v = (Ok resp, v') \<and> tx_Code resp = 0)"

lemma query_attempts_Ok: "query_attempts N h n b w = (Ok r, w') \<Longrightarrow> \<exists>v. QueryTx N h v = (Ok r, w')"
  by (induction N h n b w rule: query_attempts.induct) (auto split: prod.splits outcome.splits if_splits)

lemma full_response_Ok:
  assumes "getFullyPopulatedResponse N polls h w = (Ok r, w')"
  shows "\<exists>v. QueryTx N h v = (Ok r, w')"
proof (cases polls)
  case 0
  with assms show ?thesis by (simp add: getFullyPopulatedResponse_def WaitForCondition_def run_captured_def)
next
  case (Suc n)
  with assms show ?thesis using query_attempts_Ok[of N h maxRetries 1 "Sleep N 15 w" r w'] by (simp add: full_response_attempts)
qed

section \<open>Operations that send nothing\<close>

text \<open>Apart from the broadcast and the contract call, no operation of the outside world sends
  anything.\<close>

locale quiet_net =
  fixes N :: "'w Net" and obs :: "'w \<Rightarrow> 'o"
  assumes sleep_quiet: "obs (Sleep N d w) = obs w"
    and node_quiet: "quiet obs (HttpStatus N u)" "quiet obs (GetAccount N a)"
      "quiet obs (QueryTx N h)" "quiet obs (TxEvents N h)" "quiet obs (QueryClientState N i)"
      "quiet obs (QueryLatestConsensusState N i)" "quiet obs (SimappBalance N a d')" "quiet obs (ReadRunLatest N)"
    and prover_quiet: "quiet obs (EvmProver N i)" "quiet obs (CelestiaProver N i)"
      "quiet obs (CelestiaMembership N i ks)" "quiet obs (CelestiaInfo N)"
    and evm_quiet: "quiet obs (ClientKeys N a)" "quiet obs (Dial N)" "quiet obs (NewEthereum N)"
      "quiet obs (PendingNonceAt N)" "quiet obs (SuggestGasPrice N)"
      "quiet obs (TransactionReceipt N h)" "quiet obs (HeaderTime N n)" "quiet obs (EthGetProof N a k n)"
      "quiet obs (IbcERC20Contract N p)" "quiet obs (Allowance N a o1 o2)" "quiet obs (Erc20Name N a)"
      "quiet obs (Erc20Symbol N a)" "quiet obs (Erc20FullDenomPath N a)" "quiet obs (Erc20BalanceOf N a o1)"
begin

lemmas op_quiet = node_quiet prover_quiet evm_quiet

lemma health_quiet: "quiet obs (CheckSimappNodeHealth N u n)"
proof -
  have "obs (snd (health_loop N u n b le w)) = obs w" for b le w
    using sleep_quiet quietD[OF node_quiet(1)]
    by (induction n arbitrary: b le w) (auto split: prod.splits outcome.splits)
  then show ?thesis by (simp add: quiet_def CheckSimappNodeHealth_def)
qed

lemma context_quiet: "quiet obs (SetupClientContext N)"
  unfolding SetupClientContext_def Let_def by (intro quiet_rules health_quiet op_quiet)

lemma addresses_quiet: "quiet obs (ExtractDeployedContractAddresses N)"
  unfolding ExtractDeployedContractAddresses_def
  by (intro quiet_rules op_quiet) (auto intro!: quiet_rules split: option.splits Json.splits)

lemma opts_quiet: "quiet obs (getTransactOpts N)"
  unfolding getTransactOpts_def by (intro quiet_rules op_quiet)

lemma receipt_quiet: "quiet obs (getTxReciept N polls h)"
proof -
  have "quiet (\<lambda>s. obs (fst s)) (query_receipt_once N h)"
    using quietD[OF evm_quiet(6)]
    by (auto simp: quiet_def query_receipt_once_def split: prod.splits outcome.splits)
  then show ?thesis unfolding getTxReciept_def
    by (intro quiet_rules op_quiet quiet_captured quiet_wait) (simp_all add: captured_sleep_def sleep_quiet)
qed

lemma full_response_quiet: "quiet obs (getFullyPopulatedResponse N polls h)"
proof -
  have "quiet (\<lambda>s. obs (fst s)) (query_tx_once N h)"
    using quietD[OF node_quiet(3)]
    by (auto simp: quiet_def query_tx_once_def split: prod.splits outcome.splits)
  then show ?thesis unfolding getFullyPopulatedResponse_def
    by (intro quiet_captured quiet_wait) (simp_all add: captured_sleep_def sleep_quiet)
qed

lemma erc20_quiet: "quiet obs (getIBCERC20Address N)"
  unfolding getIBCERC20Address_def by (intro quiet_rules op_quiet addresses_quiet)

lemma client_state_quiet: "quiet obs (relayer_getClientState N)"
  unfolding relayer_getClientState_def by (intro quiet_rules op_quiet context_quiet)

lemma consensus_state_quiet: "quiet obs (relayer_getConsensusState N)"
  unfolding relayer_getConsensusState_def by (intro quiet_rules op_quiet context_quiet)

lemma header_quiet: "quiet obs (getHeader L N blk)"
  unfolding getHeader_def getProof_def getTrustedHeight_def getEVMTimestampAtHeight_def
  by (intro quiet_rules op_quiet client_state_quiet)

lemma mpt_quiet: "quiet obs (query_mpt_proof P leftPad slot N path addr blk)"
  unfolding query_mpt_proof_def by (intro quiet_rules op_quiet)

lemma balances_quiet: "quiet obs (queryBalances N)"
  unfolding queryBalances_def queryBalanceOnSimApp_def queryBalanceOnEthereum_def getSimappUserBalance_def getEvmUserBalance_def
  by (intro quiet_rules op_quiet context_quiet addresses_quiet)

lemma keys_quiet: "quiet obs (check_verifier_keys N)"
  unfolding check_verifier_keys_def getCelestiaProverInfo_def by (intro quiet_rules op_quiet addresses_quiet)

lemma factory_quiet: "quiet obs (GetFactory N u f)"
  unfolding GetFactory_def by (intro quiet_rules op_quiet)

lemma update_msg_quiet: "quiet obs (getUpdateMsg N)"
  unfolding getUpdateMsg_def getCelestiaProverInfo_def getProofResponse_def by (intro quiet_rules op_quiet addresses_quiet)

lemma event_quiet: "quiet obs (query_send_packet_event N h)"
  unfolding query_send_packet_event_def by (intro quiet_rules op_quiet context_quiet)

lemma membership_quiet: "quiet obs (getCelestiaProverResponse N event)"
  unfolding getCelestiaProverResponse_def by (intro quiet_rules op_quiet addresses_quiet)

lemma keys_checked_first:
  assumes "check_verifier_keys N w = (Ok (), w')" and "ExtractDeployedContractAddresses N w = (Ok addrs, v)" "Dial N v = (Ok (), v1)"
  shows "obs v1 = obs w" "obs w' = obs w"
  using quietD[OF keys_quiet assms(1)] quietD[OF addresses_quiet assms(2)] quietD[OF evm_quiet(2) assms(3)] by simp_all

lemmas flow_quiet = op_quiet health_quiet context_quiet addresses_quiet opts_quiet receipt_quiet full_response_quiet
  erc20_quiet client_state_quiet consensus_state_quiet header_quiet mpt_quiet balances_quiet keys_quiet factory_quiet
  update_msg_quiet event_quiet membership_quiet

text \<open>The query of the client that precedes a broadcast, and the wait that follows it.\<close>

lemma broadcast_messages_obs:
  assumes "BroadcastMessages N polls user gas msgs w = (Ok r, w')" and "tx_Code r = 0"
  shows "\<exists>v v'. obs v = obs w \<and> executed N msgs v v' \<and> obs w' = obs v'"
proof -
  obtain f w1 b w2 th where st: "GetFactory N user (emptyFactory\<lparr>f_Gas := gas\<rparr>) w = (Ok f, w1)"
      "BroadcastTx N f msgs w1 = (Ok b, w2)" "UnmarshalTxResponse N b = Inr th"
      "getFullyPopulatedResponse N polls (TxHash th) w2 = (Ok r, w')"
    using assms(1) by (auto simp: BroadcastMessages_def io_Ok_simps wrap_out_eq_Ok of_result_eq_Ok split: if_splits)
  have "executed N msgs w1 w2"
    using st(2,3) full_response_Ok[OF st(4)] assms(2) unfolding executed_def by blast
  then show ?thesis using quietD[OF factory_quiet st(1)] quietD[OF full_response_quiet st(4)] by blast
qed

lemma send_and_wait_obs:
  assumes "send_and_wait N polls e call w = (Ok r, w')"
  shows "\<exists>opts v h v'. obs v = obs w \<and> SendCall N opts call v = (Ok h, v') \<and> obs w' = obs v'"
proof -
  obtain opts w1 h w2 r' where "getTransactOpts N w = (Ok opts, w1)" "SendCall N opts call w1 = (Ok h, w2)"
      "getTxReciept N polls h w2 = (Ok r', w')"
    using assms by (auto simp: send_and_wait_def io_Ok_simps split: option.splits if_splits)
  then show ?thesis using quietD[OF opts_quiet] quietD[OF receipt_quiet] by metis
qed

text \<open>The trusted height of a header is that of the client at the same state of what is observed, and a
  client update, a relayed packet and a submitted transfer execute one transaction each.\<close>

lemma header_trusted:
  assumes "getHeader L N blk w = (Ok h, w')"
  shows "\<exists>c v v'. obs v = obs w \<and> relayer_getClientState N v = (Ok c, v') \<and> TrustedHeight h = LatestHeight c"
proof -
  obtain r w1 c w2 where "EvmProver N groth16ClientID w = (Ok r, w1)" "relayer_getClientState N w1 = (Ok c, w2)"
      "TrustedHeight h = LatestHeight c"
    using assms unfolding getHeader_def getTrustedHeight_def getProof_def by (fastforce simp: io_Ok_simps)
  then show ?thesis using quietD[OF prover_quiet(1)] by metis
qed

lemma update_obs:
  assumes "updateGroth16LightClient L packAny N polls blk w = (Ok u, w')"
  shows "\<exists>h h' w1 w2 v v'. obs w1 = obs w \<and> getHeader L N blk w1 = (Ok h, w2) \<and> packAny h = Inr h'
    \<and> obs v = obs w \<and> executed N [MsgUpdateClient groth16ClientID h' sender] v v' \<and> obs w' = obs v'"
proof -
  obtain c w1 cs w2 ctx w3 h w4 h' resp w5 cs' w6 c' where st:
      "relayer_getClientState N w = (Ok c, w1)" "relayer_getConsensusState N w1 = (Ok cs, w2)"
      "SetupClientContext N w2 = (Ok ctx, w3)" "getHeader L N blk w3 = (Ok h, w4)" "packAny h = Inr h'"
      "BroadcastMessages N polls sender 200000 [MsgUpdateClient groth16ClientID h' sender] w4 = (Ok resp, w5)" "tx_Code resp = 0"
      "relayer_getConsensusState N w5 = (Ok cs', w6)" "relayer_getClientState N w6 = (Ok c', w')"
    using assms unfolding updateGroth16LightClient_def
    by (fastforce simp: io_Ok_simps wrap_out_eq_Ok of_result_eq_Ok split: if_splits)
  have "obs w3 = obs w" "obs w4 = obs w" "obs w' = obs w5"
    using quietD[OF client_state_quiet st(1)] quietD[OF consensus_state_quiet st(2)] quietD[OF context_quiet st(3)]
      quietD[OF header_quiet st(4)] quietD[OF consensus_state_quiet st(8)] quietD[OF client_state_quiet st(9)] by simp_all
  with broadcast_messages_obs[OF st(6,7)] st(4,5) show ?thesis by metis
qed

lemma relay_obs:
  assumes "relayFromEvmToSimapp jm N polls pkt p height w = (Ok u, w')"
  shows "\<exists>m v v'. createMsgRecvPacket jm pkt p height = Ok m
    \<and> obs v = obs w \<and> executed N [RecvPacketMsg m] v v' \<and> obs w' = obs v'"
proof -
  obtain ctx w1 m resp where st: "SetupClientContext N w = (Ok ctx, w1)" "createMsgRecvPacket jm pkt p height = Ok m"
      "BroadcastMessages N polls sender 200000 [RecvPacketMsg m] w1 = (Ok resp, w')" "tx_Code resp = 0"
    using assms unfolding relayFromEvmToSimapp_def
    by (fastforce simp: io_Ok_simps wrap_out_eq_Ok split: if_splits)
  then show ?thesis using quietD[OF context_quiet st(1)] broadcast_messages_obs[OF st(3,4)] by metis
qed

lemma submit_obs:
  assumes "submitMsgTransfer N polls msg w = (Ok h, w')"
  shows "\<exists>v v'. obs v = obs w \<and> executed N [SendPacketMsg msg] v v' \<and> obs w' = obs v'"
proof -
  obtain ctx w1 resp where st: "SetupClientContext N w = (Ok ctx, w1)"
      "BroadcastMessages N polls sender 200000 [SendPacketMsg msg] w1 = (Ok resp, w')" "tx_Code resp = 0"
    using assms unfolding submitMsgTransfer_def by (fastforce simp: io_Ok_simps split: if_splits)
  then show ?thesis using quietD[OF context_quiet st(1)] broadcast_messages_obs[OF st(2,3)] by metis
qed

end

section \<open>What SimApp sees\<close>

text \<open>An observation of SimApp, which no contract call changes.\<close>

locale simapp_view = quiet_net N obs for N :: "'w Net" and obs :: "'w \<Rightarrow> 'o" +
  assumes call_quiet: "quiet obs (SendCall N opts call)"
begin

lemma send_quiet: "quiet obs (send_and_wait N polls e call)"
  unfolding send_and_wait_def by (intro quiet_rules flow_quiet call_quiet)

lemma approve_quiet: "quiet obs (approveSpend N polls)"
  unfolding approveSpend_def by (intro quiet_rules flow_quiet send_quiet)

lemma send_back_quiet: "quiet obs (sendTransferBackMsg N polls)"
  unfolding sendTransferBackMsg_def by (intro quiet_rules flow_quiet send_quiet)

lemma update_tendermint_quiet: "quiet obs (updateTendermintLightClient N polls)"
  unfolding updateTendermintLightClient_def by (intro quiet_rules flow_quiet send_quiet)

lemma relay_by_tx_quiet: "quiet obs (relayByTx T N polls h target)"
  unfolding relayByTx_def by (intro quiet_rules flow_quiet send_quiet)

text \<open>A transfer to the roll-up executes one transaction on SimApp, a transfer back two.\<close>

lemma transfer_obs:
  assumes "submitMsgTransfer N polls msg w = (Ok h, w1)" "updateTendermintLightClient N polls w1 = (Ok u1, w2)"
    "relayByTx T N polls h i w2 = (Ok u2, w3)" "queryBalances N w3 = (Ok u3, w')"
  shows "\<exists>v v'. obs v = obs w \<and> executed N [SendPacketMsg msg] v v' \<and> obs w' = obs v'"
  using submit_obs[OF assms(1)] quietD[OF update_tendermint_quiet assms(2)] quietD[OF relay_by_tx_quiet assms(3)]
    quietD[OF balances_quiet assms(4)] by metis

lemma whole_transfer_obs:
  assumes "transferSimAppToEVM T N polls w = (Ok u, w')"
  shows "\<exists>msg now v v'. createMsgSendPacket T now = Ok msg \<and> obs v = obs w \<and> executed N [SendPacketMsg msg] v v' \<and> obs w' = obs v'"
proof -
  obtain w1 msg h w2 w3 w4 where st: "check_verifier_keys N w = (Ok (), w1)" "createMsgSendPacket T (Now N w1) = Ok msg"
      "submitMsgTransfer N polls msg w1 = (Ok h, w2)" "updateTendermintLightClient N polls w2 = (Ok (), w3)"
      "relayByTx T N polls h tendermintClientID w3 = (Ok (), w4)" "queryBalances N w4 = (Ok u, w')"
    using transfer_steps[OF assms] by blast
  with transfer_obs[OF st(3-6)] quietD[OF keys_quiet st(1)] show ?thesis by metis
qed

lemma transfer_back_obs:
  assumes "transferBack L packAny jm P leftPad slot N polls w = (Ok u, w')"
  shows "\<exists>pkt blk p m h h' addr ws w1 w2 w3 w4 v1 v2 v3 v4.
    sendTransferBackMsg N polls ws = (Ok (pkt, blk), w1)
    \<and> query_mpt_proof P leftPad slot N (packetCommitmentPath (pkt_SourceClient pkt) (pkt_Sequence pkt)) addr blk w1 = (Ok p, w2)
    \<and> obs w3 = obs w \<and> getHeader L N blk w3 = (Ok h, w4) \<and> packAny h = Inr h' \<and> createMsgRecvPacket jm pkt p blk = Ok m
    \<and> obs v1 = obs w \<and> executed N [MsgUpdateClient groth16ClientID h' sender] v1 v2
    \<and> obs v3 = obs v2 \<and> executed N [RecvPacketMsg m] v3 v4 \<and> obs w' = obs v4"
proof -
  obtain wa addrs wb wc pkt blk w1 p w2 w3 w4 where st:
      "approveSpend N polls w = (Ok (), wa)" "ExtractDeployedContractAddresses N wa = (Ok addrs, wb)"
      "Dial N wb = (Ok (), wc)" "sendTransferBackMsg N polls wc = (Ok (pkt, blk), w1)"
      "query_mpt_proof P leftPad slot N (packetCommitmentPath (pkt_SourceClient pkt) (pkt_Sequence pkt))
         (ICS26Router addrs) blk w1 = (Ok p, w2)"
      "updateGroth16LightClient L packAny N polls blk w2 = (Ok (), w3)"
      "relayFromEvmToSimapp jm N polls pkt p blk w3 = (Ok (), w4)" "queryBalances N w4 = (Ok u, w')"
    using transfer_back_steps[OF assms] by blast
  have o: "obs w2 = obs w" "obs w' = obs w4"
    using quietD[OF approve_quiet st(1)] quietD[OF addresses_quiet st(2)] quietD[OF evm_quiet(2) st(3)]
      quietD[OF send_back_quiet st(4)] quietD[OF mpt_quiet st(5)] quietD[OF balances_quiet st(8)] by simp_all
  obtain h h' u1 u2 v1 v2 where up: "obs u1 = obs w" "getHeader L N blk u1 = (Ok h, u2)" "packAny h = Inr h'"
      "obs v1 = obs w" "executed N [MsgUpdateClient groth16ClientID h' sender] v1 v2" "obs w3 = obs v2"
    using update_obs[OF st(6)] o(1) by metis
  obtain m v3 v4 where "createMsgRecvPacket jm pkt p blk = Ok m" "obs v3 = obs v2" "executed N [RecvPacketMsg m] v3 v4" "obs w' = obs v4"
    using relay_obs[OF st(7)] o(2) up(6) by metis
  with st(4,5) up show ?thesis by blast
qed

end

text \<open>Two observations can be made at once.\<close>

lemma quiet_pair: "quiet (\<lambda>w. (f w, g w)) m \<longleftrightarrow> quiet f m \<and> quiet g m"
  by (auto simp: quiet_def)

lemma simapp_view_pair:
  assumes "simapp_view N f" and "simapp_view N g"
  shows "simapp_view N (\<lambda>w. (f w, g w))"
  using assms by (simp add: simapp_view_def simapp_view_axioms_def quiet_net_def quiet_pair)

section \<open>Messages sent to SimApp\<close>

text \<open>A successful broadcast sends its messages in order.\<close>

locale observed_net = simapp_view N sent for N :: "'w Net" and sent :: "'w \<Rightarrow> Msg list" +
  assumes broadcast_sends: "BroadcastTx N f ms w = (Ok b, w') \<Longrightarrow> sent w' = sent w @ ms"
begin

lemma executed_sent: "executed N ms w w' \<Longrightarrow> sent w' = sent w @ ms"
  unfolding executed_def using broadcast_sends by blast

lemma transfer_sent:
  assumes "submitMsgTransfer N polls msg w = (Ok h, w1)" "updateTendermintLightClient N polls w1 = (Ok u1, w2)"
    "relayByTx T N polls h i w2 = (Ok u2, w3)" "queryBalances N w3 = (Ok u3, w')"
  shows "sent w' = sent w @ [SendPacketMsg msg]"
  using transfer_obs[OF assms] executed_sent by metis

lemma transfer_back_sent:
  assumes "transferBack L packAny jm P leftPad slot N polls w = (Ok u, w')"
  shows "\<exists>pkt blk p m h h' addr ws w1 w2 w3 w4.
    sendTransferBackMsg N polls ws = (Ok (pkt, blk), w1)
    \<and> query_mpt_proof P leftPad slot N (packetCommitmentPath (pkt_SourceClient pkt) (pkt_Sequence pkt)) addr blk w1 = (Ok p, w2)
    \<and> getHeader L N blk w3 = (Ok h, w4) \<and> packAny h = Inr h' \<and> createMsgRecvPacket jm pkt p blk = Ok m
    \<and> sent w' = sent w @ [MsgUpdateClient groth16ClientID h' sender, RecvPacketMsg m]"
proof -
  obtain pkt blk p m h h' addr ws w1 w2 w3 w4 v1 v2 v3 v4 where st: "sendTransferBackMsg N polls ws = (Ok (pkt, blk), w1)"
      "query_mpt_proof P leftPad slot N (packetCommitmentPath (pkt_SourceClient pkt) (pkt_Sequence pkt)) addr blk w1 = (Ok p, w2)"
      "getHeader L N blk w3 = (Ok h, w4)" "packAny h = Inr h'" "createMsgRecvPacket jm pkt p blk = Ok m"
      and x: "sent v1 = sent w" "executed N [MsgUpdateClient groth16ClientID h' sender] v1 v2"
      "sent v3 = sent v2" "executed N [RecvPacketMsg m] v3 v4" "sent w' = sent v4"
    using transfer_back_obs[OF assms] by (elim exE conjE) (rule that)
  have "sent w' = sent w @ [MsgUpdateClient groth16ClientID h' sender, RecvPacketMsg m]"
    using x executed_sent[OF x(2)] executed_sent[OF x(4)] by simp
  with st show ?thesis by blast
qed

end

section \<open>Calls sent to the roll-up\<close>

text \<open>A successful contract call is appended to the calls sent; a broadcast sends none.\<close>

locale observed_evm = quiet_net N called for N :: "'w Net" and called :: "'w \<Rightarrow> EvmCall list" +
  assumes call_sends: "SendCall N opts call w = (Ok h, w') \<Longrightarrow> called w' = called w @ [call]"
    and broadcast_quiet: "quiet called (BroadcastTx N f ms)"
begin

lemma messages_quiet: "quiet called (BroadcastMessages N polls user gas msgs)"
  unfolding BroadcastMessages_def by (intro quiet_rules flow_quiet broadcast_quiet)

lemma submit_quiet: "quiet called (submitMsgTransfer N polls msg)"
  unfolding submitMsgTransfer_def by (intro quiet_rules flow_quiet messages_quiet)

lemma update_groth16_quiet: "quiet called (updateGroth16LightClient L packAny N polls blk)"
  unfolding updateGroth16LightClient_def by (intro quiet_rules flow_quiet messages_quiet)

lemma relay_from_evm_quiet: "quiet called (relayFromEvmToSimapp jm N polls pkt p height)"
  unfolding relayFromEvmToSimapp_def by (intro quiet_rules flow_quiet messages_quiet)

lemma send_called: "send_and_wait N polls e call w = (Ok r, w') \<Longrightarrow> called w' = called w @ [call]"
  using send_and_wait_obs call_sends by metis

lemma update_called:
  assumes "updateTendermintLightClient N polls w = (Ok u, w')"
  shows "\<exists>router upd v v'. getUpdateMsg N v = (Ok upd, v')
    \<and> called w' = called w @ [UpdateClientCall router tendermintClientID upd]"
proof -
  obtain addrs w1 w2 w3 upd w4 r where "ExtractDeployedContractAddresses N w = (Ok addrs, w1)" "Dial N w1 = (Ok (), w2)"
      "NewEthereum N w2 = (Ok (), w3)" and upd: "getUpdateMsg N w3 = (Ok upd, w4)"
      and "send_and_wait N polls ''UpdateClient tx failed'' (UpdateClientCall (ICS26Router addrs) tendermintClientID upd) w4 = (Ok r, w')"
    using assms by (auto simp: updateTendermintLightClient_def io_Ok_simps)
  then show ?thesis
    using quietD[OF addresses_quiet] quietD[OF evm_quiet(2)] quietD[OF evm_quiet(3)] quietD[OF update_msg_quiet] send_called
    by metis
qed

lemma relay_called:
  assumes "relayByTx T N polls h target w = (Ok u, w')"
  shows "\<exists>router event resp m v v'. query_send_packet_event N h w = (Ok event, v)
    \<and> getCelestiaProverResponse N event v = (Ok resp, v') \<and> getMsgRecvPacket T event (mr_Proof resp) (mr_Height resp) = Ok m
    \<and> called w' = called w @ [RecvPacketCall router m]"
proof -
  obtain event w1 resp w2 w3 addrs w4 w5 m r where st: "query_send_packet_event N h w = (Ok event, w1)"
      "getCelestiaProverResponse N event w1 = (Ok resp, w2)" "NewEthereum N w2 = (Ok (), w3)"
      "ExtractDeployedContractAddresses N w3 = (Ok addrs, w4)" "Dial N w4 = (Ok (), w5)"
      "getMsgRecvPacket T event (mr_Proof resp) (mr_Height resp) = Ok m"
      "send_and_wait N polls ''RecvPacket failed'' (RecvPacketCall (ICS26Router addrs) m) w5 = (Ok r, w')"
    using assms by (fastforce simp: relayByTx_def io_Ok_simps wrap_out_eq_Ok)
  have "called w5 = called w"
    using quietD[OF event_quiet st(1)] quietD[OF membership_quiet st(2)] quietD[OF evm_quiet(3) st(3)]
      quietD[OF addresses_quiet st(4)] quietD[OF evm_quiet(2) st(5)] by simp
  with st send_called[OF st(7)] show ?thesis by metis
qed

lemma transfer_called:
  assumes "submitMsgTransfer N polls msg w = (Ok h, w1)" "updateTendermintLightClient N polls w1 = (Ok u1, w2)"
    "relayByTx T N polls h i w2 = (Ok u2, w3)" "queryBalances N w3 = (Ok u3, w')"
  shows "\<exists>router router' upd event resp m v v' v1 v2. getUpdateMsg N v = (Ok upd, v')
    \<and> called w2 = called w @ [UpdateClientCall router tendermintClientID upd]
    \<and> query_send_packet_event N h w2 = (Ok event, v1) \<and> getCelestiaProverResponse N event v1 = (Ok resp, v2)
    \<and> getMsgRecvPacket T event (mr_Proof resp) (mr_Height resp) = Ok m
    \<and> called w' = called w @ [UpdateClientCall router tendermintClientID upd, RecvPacketCall router' m]"
proof -
  have "called w1 = called w" "called w' = called w3"
    using quietD[OF submit_quiet assms(1)] quietD[OF balances_quiet assms(4)] by simp_all
  with update_called[OF assms(2)] relay_called[OF assms(3)] show ?thesis
    by (metis append.assoc append_Cons append_Nil)
qed

lemma approve_called:
  assumes "approveSpend N polls w = (Ok u, w')"
  shows "\<exists>token ics20 v v'. IbcERC20Contract N (DenomPath N) v = (Ok token, v')
    \<and> called w' = called w @ [ApproveCall token ics20 transferBackAmount]"
proof -
  obtain addrs w1 w2 token w3 w4 r w5 a where st: "ExtractDeployedContractAddresses N w = (Ok addrs, w1)" "Dial N w1 = (Ok (), w2)"
      "getIBCERC20Address N w2 = (Ok token, w3)" "NewEthereum N w3 = (Ok (), w4)"
      "send_and_wait N polls ''approve failed'' (ApproveCall token (ICS20Transfer addrs) transferBackAmount) w4 = (Ok r, w5)"
      "Allowance N token receiver (ICS20Transfer addrs) w5 = (Ok a, w')"
    using assms by (fastforce simp: approveSpend_def io_Ok_simps split: if_splits)
  have "called w4 = called w" "called w' = called w5"
    using quietD[OF addresses_quiet st(1)] quietD[OF evm_quiet(2) st(2)] quietD[OF erc20_quiet st(3)]
      quietD[OF evm_quiet(3) st(4)] quietD[OF evm_quiet(10) st(6)] by simp_all
  with getIBCERC20Address_Ok[OF st(3)] send_called[OF st(5)] show ?thesis by metis
qed

lemma send_back_called:
  assumes "sendTransferBackMsg N polls w = (Ok r, w')"
  shows "\<exists>ics20 tm v v'. IbcERC20Contract N (DenomPath N) v = (Ok (st_Denom tm), v') \<and> st_Amount tm = transferBackAmount
    \<and> st_Receiver tm = sender \<and> st_SourceClient tm = tendermintClientID \<and> called w' = called w @ [SendTransferCall ics20 tm]"
proof -
  obtain addrs w1 token w2 w3 w4 tm rc where st: "ExtractDeployedContractAddresses N w = (Ok addrs, w1)"
      "getIBCERC20Address N w1 = (Ok token, w2)" "Dial N w2 = (Ok (), w3)" "NewEthereum N w3 = (Ok (), w4)"
      "send_and_wait N polls ''send transfer back msg failed'' (SendTransferCall (ICS20Transfer addrs) tm) w4 = (Ok rc, w')"
      and "tm = \<lparr>st_Denom = token, st_Amount = transferBackAmount, st_Receiver = sender,
         st_TimeoutTimestamp = Now N w4 + 30 * 60, st_SourceClient = tendermintClientID, st_Memo = str ''transfer back memo''\<rparr>"
    using assms by (fastforce simp: sendTransferBackMsg_def io_Ok_simps split: prod.splits)
  then have "st_Denom tm = token" "st_Amount tm = transferBackAmount" "st_Receiver tm = sender" "st_SourceClient tm = tendermintClientID"
    by simp_all
  moreover have "called w4 = called w"
    using quietD[OF addresses_quiet st(1)] quietD[OF erc20_quiet st(2)] quietD[OF evm_quiet(2) st(3)] quietD[OF evm_quiet(3) st(4)]
    by simp
  ultimately show ?thesis using getIBCERC20Address_Ok[OF st(2)] send_called[OF st(5)] by metis
qed

lemma transfer_back_called:
  assumes "transferBack L packAny jm P leftPad slot N polls w = (Ok u, w')"
  shows "\<exists>token ics20 ics20' tm v v' v1 v2. IbcERC20Contract N (DenomPath N) v = (Ok token, v')
    \<and> IbcERC20Contract N (DenomPath N) v1 = (Ok (st_Denom tm), v2) \<and> st_Amount tm = transferBackAmount
    \<and> st_Receiver tm = sender \<and> st_SourceClient tm = tendermintClientID
    \<and> called w' = called w @ [ApproveCall token ics20 transferBackAmount, SendTransferCall ics20' tm]"
proof -
  obtain wa addrs wb wc pkt blk w1 p w2 w3 w4 where st:
      "approveSpend N polls w = (Ok (), wa)" "ExtractDeployedContractAddresses N wa = (Ok addrs, wb)"
      "Dial N wb = (Ok (), wc)" "sendTransferBackMsg N polls wc = (Ok (pkt, blk), w1)"
      "query_mpt_proof P leftPad slot N (packetCommitmentPath (pkt_SourceClient pkt) (pkt_Sequence pkt))
         (ICS26Router addrs) blk w1 = (Ok p, w2)"
      "updateGroth16LightClient L packAny N polls blk w2 = (Ok (), w3)"
      "relayFromEvmToSimapp jm N polls pkt p blk w3 = (Ok (), w4)" "queryBalances N w4 = (Ok u, w')"
    using transfer_back_steps[OF assms] by blast
  have "called wc = called wa" "called w' = called w1"
    using quietD[OF addresses_quiet st(2)] quietD[OF evm_quiet(2) st(3)] quietD[OF mpt_quiet st(5)]
      quietD[OF update_groth16_quiet st(6)] quietD[OF relay_from_evm_quiet st(7)] quietD[OF balances_quiet st(8)] by simp_all
  with approve_called[OF st(1)] send_back_called[OF st(4)] show ?thesis
    by (metis append.assoc append_Cons append_Nil)
qed

end

end
