(* ===== verification/Groth16_Module.thy ===== *)
theory Groth16_Module
  imports Groth16_Client
begin

text \<open>
  The IBC light client module, \<^verbatim>\<open>ibc/lightclients/groth16/light_client_module.go\<close>, with the
  module boilerplate of \<^verbatim>\<open>module.go\<close> and \<^verbatim>\<open>codec.go\<close>: every entry point the IBC client
  keeper calls, over the stores of all clients. The store provider is an argument; the locale
  \<open>store_provider\<close> says that the stores of different client identifiers are separate.
\<close>

section \<open>The module\<close>

text \<open>\<^verbatim>\<open>storeProvider.ClientStore(ctx, clientID)\<close> is a view of the chain's state \<open>'g\<close>;
  \<open>PutClientStore\<close> is the effect of writes through it.\<close>

record ('g, 's) StoreProvider =
  ClientStore :: "'g \<Rightarrow> bytes \<Rightarrow> 's"
  PutClientStore :: "'g \<Rightarrow> bytes \<Rightarrow> 's \<Rightarrow> 'g"

record ('g, 's) LightClientModule =
  lcm_env :: "'s Env"
  storeProvider :: "('g, 's) StoreProvider"

definition NewLightClientModule :: "'s Env \<Rightarrow> ('g, 's) StoreProvider \<Rightarrow> ('g, 's) LightClientModule" where
  "NewLightClientModule E sp = \<lparr>lcm_env = E, storeProvider = sp\<rparr>"

abbreviation ErrClientNotFound :: error where
  "ErrClientNotFound \<equiv> Sentinel ''light client not found''"
abbreviation ErrInvalidClient :: error where
  "ErrInvalidClient \<equiv> Sentinel ''light client is invalid''"
abbreviation ErrInvalidHeight :: error where
  "ErrInvalidHeight \<equiv> Sentinel ''invalid height''"

definition Tendermint :: bytes where
  "Tendermint = str ''07-tendermint''"

definition client_store :: "('g, 's) LightClientModule \<Rightarrow> 'g \<Rightarrow> bytes \<Rightarrow> 's" where
  "client_store l g clientID = ClientStore (storeProvider l) g clientID"

text \<open>The look-up with which most entry points start. The message of the not-found error, which
  is the client identifier, is not kept.\<close>

definition found_client :: "('g, 's) LightClientModule \<Rightarrow> 'g \<Rightarrow> bytes \<Rightarrow> ClientState outcome" where
  "found_client l g clientID =
     bind_out (getClientState (lcm_env l) (client_store l g clientID))
       (\<lambda>c. case c of None \<Rightarrow> Fail (Wrap ''client'' ErrClientNotFound) | Some cs \<Rightarrow> Ok cs)"

definition Module_Initialize ::
    "('g, 's) LightClientModule \<Rightarrow> Context \<Rightarrow> 'g \<Rightarrow> bytes \<Rightarrow> bytes \<Rightarrow> bytes \<Rightarrow> 'g outcome" where
  "Module_Initialize l ctx g clientID clientStateBz consensusStateBz =
     bind_out (wrap_out ''failed to unmarshal client state bytes into client state''
        (of_result (Unmarshal_into_ClientState (cdc (lcm_env l)) clientStateBz)))
       (\<lambda>clientState.
     bind_out (Validate clientState)
       (\<lambda>_.
     bind_out (wrap_out ''failed to unmarshal consensus state bytes into consensus state''
        (of_result (Unmarshal_into_ConsensusState (cdc (lcm_env l)) consensusStateBz)))
       (\<lambda>consensusState.
     bind_out (ConsensusState_ValidateBasic consensusState)
       (\<lambda>_.
     bind_out (initialize (lcm_env l) ctx (client_store l g clientID) clientState (G16Consensus consensusState))
       (\<lambda>s'. Ok (PutClientStore (storeProvider l) g clientID s'))))))"

definition Module_VerifyClientMessage ::
    "('g, 's) LightClientModule \<Rightarrow> 'g \<Rightarrow> bytes \<Rightarrow> ClientMessage \<Rightarrow> unit outcome" where
  "Module_VerifyClientMessage l g clientID clientMsg =
     bind_out (found_client l g clientID)
       (\<lambda>cs. VerifyClientMessage (lcm_env l) (client_store l g clientID) cs clientMsg)"

definition Module_CheckForMisbehaviour ::
    "('g, 's) LightClientModule \<Rightarrow> 'g \<Rightarrow> bytes \<Rightarrow> ClientMessage \<Rightarrow> bool" where
  "Module_CheckForMisbehaviour l g clientID clientMsg = False"

definition UpdateStateOnMisbehaviour ::
    "('g, 's) LightClientModule \<Rightarrow> 'g \<Rightarrow> bytes \<Rightarrow> ClientMessage \<Rightarrow> 'g" where
  "UpdateStateOnMisbehaviour l g clientID clientMsg = g"

text \<open>\<^verbatim>\<open>panic(err)\<close> on a missing client and on every error of the update.\<close>

fun panic_on_error :: "'a outcome \<Rightarrow> 'a outcome" where
  "panic_on_error (Fail e) = Panic e"
| "panic_on_error x = x"

definition Module_UpdateState ::
    "('g, 's) LightClientModule \<Rightarrow> 'c ProverLib \<Rightarrow> Context \<Rightarrow> 'g \<Rightarrow> bytes \<Rightarrow> ClientMessage \<Rightarrow>
     (Height list \<times> 'g) outcome" where
  "Module_UpdateState l V ctx g clientID clientMsg =
     bind_out (panic_on_error (found_client l g clientID))
       (\<lambda>cs.
     bind_out (panic_on_error (UpdateState (lcm_env l) V ctx (client_store l g clientID) cs clientMsg))
       (\<lambda>(heights, s'). Ok (heights, PutClientStore (storeProvider l) g clientID s')))"

definition VerifyMembership ::
    "('g, 's) LightClientModule \<Rightarrow> 'd EthLib \<Rightarrow> 'g \<Rightarrow> bytes \<Rightarrow> Height \<Rightarrow> u64 \<Rightarrow> u64 \<Rightarrow> bytes \<Rightarrow> Path \<Rightarrow> bytes \<Rightarrow>
     unit outcome" where
  "VerifyMembership l X g clientID height delayTimePeriod delayBlockPeriod pbz path val =
     bind_out (found_client l g clientID)
       (\<lambda>cs. verifyMembership (lcm_env l) X (client_store l g clientID) cs height
          delayTimePeriod delayBlockPeriod pbz path val)"

definition VerifyNonMembership ::
    "('g, 's) LightClientModule \<Rightarrow> 'd EthLib \<Rightarrow> 'g \<Rightarrow> bytes \<Rightarrow> Height \<Rightarrow> u64 \<Rightarrow> u64 \<Rightarrow> bytes \<Rightarrow> Path \<Rightarrow>
     unit outcome" where
  "VerifyNonMembership l X g clientID height delayTimePeriod delayBlockPeriod pbz path =
     bind_out (found_client l g clientID)
       (\<lambda>cs. verifyNonMembership (lcm_env l) X (client_store l g clientID) cs height
          delayTimePeriod delayBlockPeriod pbz path)"

definition Module_Status :: "('g, 's) LightClientModule \<Rightarrow> 'g \<Rightarrow> bytes \<Rightarrow> Status outcome" where
  "Module_Status l g clientID =
     bind_out (getClientState (lcm_env l) (client_store l g clientID))
       (\<lambda>c. case c of None \<Rightarrow> Ok Unknown | Some cs \<Rightarrow> Ok (status cs))"

definition Module_LatestHeight :: "('g, 's) LightClientModule \<Rightarrow> 'g \<Rightarrow> bytes \<Rightarrow> Height outcome" where
  "Module_LatestHeight l g clientID =
     bind_out (getClientState (lcm_env l) (client_store l g clientID))
       (\<lambda>c. case c of None \<Rightarrow> Ok ZeroHeight | Some cs \<Rightarrow> Ok (GetLatestClientHeight cs))"

definition TimestampAtHeight :: "('g, 's) LightClientModule \<Rightarrow> 'g \<Rightarrow> bytes \<Rightarrow> Height \<Rightarrow> u64 outcome" where
  "TimestampAtHeight l g clientID height =
     bind_out (found_client l g clientID)
       (\<lambda>cs. getTimestampAtHeight (lcm_env l) (client_store l g clientID) height)"

definition RecoverClient :: "('g, 's) LightClientModule \<Rightarrow> 'g \<Rightarrow> bytes \<Rightarrow> bytes \<Rightarrow> 'g outcome" where
  "RecoverClient l g clientID substituteClientID =
     bind_out (of_result (ParseClientIdentifier (lib (lcm_env l)) substituteClientID))
       (\<lambda>(substituteClientType, _).
     if substituteClientType \<noteq> Tendermint
     then Fail (Wrap ''expected 07-tendermint'' ErrInvalidClientType)
     else
     bind_out (found_client l g clientID)
       (\<lambda>clientState.
     bind_out (found_client l g substituteClientID)
       (\<lambda>substituteClient.
     bind_out (CheckSubstituteAndUpdateState clientState (client_store l g clientID)
        (client_store l g substituteClientID) substituteClient)
       (\<lambda>s'. Ok (PutClientStore (storeProvider l) g clientID s')))))"

definition Module_VerifyUpgradeAndUpdateState ::
    "('g, 's) LightClientModule \<Rightarrow> 'g \<Rightarrow> bytes \<Rightarrow> bytes \<Rightarrow> bytes \<Rightarrow> bytes \<Rightarrow> bytes \<Rightarrow> 'g outcome" where
  "Module_VerifyUpgradeAndUpdateState l g clientID newClient newConsState upgradeClientProof
      upgradeConsensusStateProof =
     (case Unmarshal_into_ClientState (cdc (lcm_env l)) newClient of
        Inl e \<Rightarrow> Fail (Wrap ''unmarshal'' ErrInvalidClient)
      | Inr newClientState \<Rightarrow>
     (case Unmarshal_into_ConsensusState (cdc (lcm_env l)) newConsState of
        Inl e \<Rightarrow> Fail (Wrap ''unmarshal'' ErrInvalidConsensus)
      | Inr newConsensusState \<Rightarrow>
     bind_out (found_client l g clientID)
       (\<lambda>clientState.
     let lastHeight = GetLatestClientHeight clientState in
     if \<not> GT (lib (lcm_env l)) (GetLatestClientHeight newClientState) lastHeight
     then Fail (Wrap ''upgraded client height must be at greater than current client height'' ErrInvalidHeight)
     else
     bind_out (VerifyUpgradeAndUpdateState clientState (client_store l g clientID) newClientState
        newConsensusState upgradeClientProof upgradeConsensusStateProof)
       (\<lambda>s'. Ok (PutClientStore (storeProvider l) g clientID s')))))"

section \<open>Module boilerplate\<close>

datatype Interface = IClientState | IConsensusState | IClientMessage
datatype Implementation = ImplClientState | ImplConsensusState | ImplHeader

type_synonym InterfaceRegistry = "(Interface \<times> Implementation) list"

definition RegisterInterfaces :: "InterfaceRegistry \<Rightarrow> InterfaceRegistry" where
  "RegisterInterfaces registry =
     registry @ [(IClientState, ImplClientState)] @ [(IConsensusState, ImplConsensusState)]
       @ [(IClientMessage, ImplHeader)]"

record ('g, 's) AppModule =
  lightClientModule :: "('g, 's) LightClientModule"

definition NewAppModule :: "('g, 's) LightClientModule \<Rightarrow> ('g, 's) AppModule" where
  "NewAppModule l = \<lparr>lightClientModule = l\<rparr>"

definition AppModuleBasic_Name :: bytes where
  "AppModuleBasic_Name = ModuleName"

definition AppModuleBasic_RegisterInterfaces :: "InterfaceRegistry \<Rightarrow> InterfaceRegistry" where
  "AppModuleBasic_RegisterInterfaces registry = RegisterInterfaces registry"

definition DefaultGenesis :: "bytes option" where
  "DefaultGenesis = None"

definition ValidateGenesis :: "bytes \<Rightarrow> unit outcome" where
  "ValidateGenesis bz = Ok ()"

text \<open>Amino types and gateway routes are not registered, and there are no commands.\<close>

definition AppModuleBasic_RegisterLegacyAminoCodec :: "'amino \<Rightarrow> 'amino" where
  "AppModuleBasic_RegisterLegacyAminoCodec amino = amino"

definition AppModuleBasic_RegisterGRPCGatewayRoutes :: "'mux \<Rightarrow> 'mux" where
  "AppModuleBasic_RegisterGRPCGatewayRoutes mux = mux"

definition AppModuleBasic_GetTxCmd :: "'cmd option" where
  "AppModuleBasic_GetTxCmd = None"

definition AppModuleBasic_GetQueryCmd :: "'cmd option" where
  "AppModuleBasic_GetQueryCmd = None"

section \<open>Sentinel errors\<close>

definition SubModuleName :: string where
  "SubModuleName = ''groth16-client''"

text \<open>The errors with their codes and descriptions, in the order of the package initialisation.\<close>

definition sentinel_errors :: "(string \<times> nat \<times> string) list" where
  "sentinel_errors = [
     (''ErrInvalidChainID'', 2, ''invalid chain-id''),
     (''ErrInvalidTrustingPeriod'', 3, ''invalid trusting period''),
     (''ErrInvalidUnbondingPeriod'', 4, ''invalid unbonding period''),
     (''ErrInvalidHeaderHeight'', 5, ''invalid header height''),
     (''ErrInvalidHeader'', 6, ''invalid header''),
     (''ErrInvalidMaxClockDrift'', 7, ''invalid max clock drift''),
     (''ErrProcessedTimeNotFound'', 8, ''processed time not found''),
     (''ErrProcessedHeightNotFound'', 9, ''processed height not found''),
     (''ErrDelayPeriodNotPassed'', 10, ''packet-specified delay period has not been reached''),
     (''ErrTrustingPeriodExpired'', 11, ''time since latest trusted state has passed the trusting period''),
     (''ErrUnbondingPeriodExpired'', 12, ''time since latest trusted state has passed the unbonding period''),
     (''ErrInvalidProofSpecs'', 13, ''invalid proof specs''),
     (''ErrInvalidValidatorSet'', 14, ''invalid validator set'')]"

text \<open>\<^verbatim>\<open>Register\<close> of the SDK's error package, over the table of the registered codes: a code that is in use
  panics.\<close>

type_synonym ErrorTable = "string \<times> nat \<rightharpoonup> string"

definition register_error :: "string \<times> nat \<times> string \<Rightarrow> ErrorTable \<Rightarrow> ErrorTable outcome" where
  "register_error e used =
     (case e of (_, code, description) \<Rightarrow>
       if (SubModuleName, code) \<in> dom used then Panic (Errorf ''error with code is already registered'')
       else Ok (used((SubModuleName, code) \<mapsto> description)))"

definition register_sentinel_errors :: "ErrorTable \<Rightarrow> ErrorTable outcome" where
  "register_sentinel_errors used = fold_out register_error sentinel_errors used"

lemma register_errors_from:
  assumes "distinct (map (fst \<circ> snd) es)" and "\<forall>e \<in> set es. (SubModuleName, fst (snd e)) \<notin> dom used"
  shows "fold_out register_error es used = Ok (used ++ map_of (map (\<lambda>e. ((SubModuleName, fst (snd e)), snd (snd e))) es))"
  using assms
proof (induction es arbitrary: used)
  case (Cons e es)
  obtain n c d where e: "e = (n, c, d)" by (cases e) auto
  let ?used = "used((SubModuleName, c) \<mapsto> d)" and ?m = "map_of (map (\<lambda>e. ((SubModuleName, fst (snd e)), snd (snd e))) es)"
  have c: "\<forall>e' \<in> set es. fst (snd e') \<noteq> c"
    using Cons.prems(1) e by auto
  then have new: "(SubModuleName, c) \<notin> dom ?m"
    by (auto simp: dom_map_of_conv_image_fst)
  have step: "register_error e used = Ok ?used"
    using Cons.prems(2) e by (auto simp: register_error_def)
  have "fold_out register_error (e # es) used = fold_out register_error es ?used"
    using step by simp
  also have "\<dots> = Ok (?used ++ ?m)"
    by (rule Cons.IH) (use Cons.prems c in \<open>auto simp: domIff\<close>)
  also have "?used ++ ?m = used ++ ?m((SubModuleName, c) \<mapsto> d)"
    by (simp add: map_add_upd_left [OF new])
  also have "?m((SubModuleName, c) \<mapsto> d) = map_of (map (\<lambda>e. ((SubModuleName, fst (snd e)), snd (snd e))) (e # es))"
    using e by (simp add: fun_upd_def)
  finally show ?case .
qed simp

text \<open>The package initialises in every program in which the codespace is not used yet, and each error can
  then be found by its code.\<close>

lemma sentinel_errors_registered:
  assumes "\<forall>c. (SubModuleName, c) \<notin> dom used"
  shows "\<exists>used'. register_sentinel_errors used = Ok used'
    \<and> (\<forall>e \<in> set sentinel_errors. used' (SubModuleName, fst (snd e)) = Some (snd (snd e)))"
proof -
  let ?es = "map (\<lambda>e. ((SubModuleName, fst (snd e)), snd (snd e))) sentinel_errors"
  have d: "distinct (map (fst \<circ> snd) sentinel_errors)" by (simp add: sentinel_errors_def)
  have "distinct (map fst ?es)" by (simp add: sentinel_errors_def)
  then have "map_of ?es (SubModuleName, fst (snd e)) = Some (snd (snd e))" if "e \<in> set sentinel_errors" for e
    using that by (intro map_of_is_SomeI) auto
  then show ?thesis
    using register_errors_from [OF d, of used] assms by (simp add: register_sentinel_errors_def map_add_Some_iff)
qed

section \<open>Separate client stores\<close>

locale store_provider =
  fixes sp :: "('g, 's) StoreProvider"
  assumes client_store_put: "ClientStore sp (PutClientStore sp g i s) j = (if j = i then s else ClientStore sp g j)"

locale light_client = client_env E + store_provider sp
  for E :: "'s Env" and sp :: "('g, 's) StoreProvider"
begin

abbreviation M :: "('g, 's) LightClientModule" where
  "M \<equiv> NewLightClientModule E sp"

lemma module_simps [simp]: "lcm_env M = E" "storeProvider M = sp"
  by (simp_all add: NewLightClientModule_def)

lemma store_after_put [simp]:
  "client_store M (PutClientStore sp g i s) j = (if j = i then s else client_store M g j)"
  by (simp add: client_store_def client_store_put)

lemma found_client_Ok: "found_client M g i = Ok c \<longleftrightarrow> view_client E (client_store M g i) = Some c"
  by (auto simp: found_client_def out_simps view_client_eq split: option.splits)

lemma Module_Initialize_Ok:
  "Module_Initialize M ctx g i cbz sbz = Ok g' \<longleftrightarrow>
     (\<exists>c cs t. Unmarshal_into_ClientState (cdc E) cbz = Inr c \<and> Unmarshal_into_ConsensusState (cdc E) sbz = Inr cs \<and>
        initialize E ctx (client_store M g i) c (G16Consensus cs) = Ok t \<and> g' = PutClientStore sp g i t)"
  by (auto simp: Module_Initialize_def out_simps Validate_def ConsensusState_ValidateBasic_def)

lemma panic_on_error_Ok [simp]: "panic_on_error x = Ok a \<longleftrightarrow> x = Ok a"
  by (cases x) auto

lemma Module_UpdateState_Ok:
  "Module_UpdateState M V ctx g i msg = Ok (hs, g') \<longleftrightarrow>
     (\<exists>c t. view_client E (client_store M g i) = Some c \<and>
        UpdateState E V ctx (client_store M g i) c msg = Ok (hs, t) \<and> g' = PutClientStore sp g i t)"
  by (auto simp: Module_UpdateState_def out_simps found_client_Ok)

lemma Module_VerifyClientMessage_Ok:
  "Module_VerifyClientMessage M g i msg = Ok u \<longleftrightarrow>
     (\<exists>c. view_client E (client_store M g i) = Some c \<and> VerifyClientMessage E (client_store M g i) c msg = Ok u)"
  by (auto simp: Module_VerifyClientMessage_def out_simps found_client_Ok)

lemma missing_client:
  assumes "getClientState E (client_store M g i) = Ok None"
  shows "found_client M g i = Fail (Wrap ''client'' ErrClientNotFound)"
  using assms by (simp add: found_client_def)

lemma initialize_query:
  assumes "Module_Initialize M ctx g i cbz sbz = Ok g'"
  shows "\<exists>c cs. Unmarshal_into_ClientState (cdc E) cbz = Inr c \<and> Unmarshal_into_ConsensusState (cdc E) sbz = Inr cs \<and>
    Module_Status M g' i = Ok Active \<and> Module_LatestHeight M g' i = Ok (Height 0 (LatestHeight c)) \<and>
    TimestampAtHeight M g' i (Height 0 (LatestHeight c)) = Ok (GetTimestamp (lib E) cs) \<and>
    (\<forall>j. j \<noteq> i \<longrightarrow> ClientStore sp g' j = ClientStore sp g j)"
proof -
  obtain c cs t where c: "Unmarshal_into_ClientState (cdc E) cbz = Inr c" "Unmarshal_into_ConsensusState (cdc E) sbz = Inr cs"
    and t: "store_height E ctx (client_store M g i) c cs (GetLatestClientHeight c) = Ok t"
    and g': "g' = PutClientStore sp g i t"
    using assms by (auto simp: Module_Initialize_Ok initialize_store_height)
  have "getClientState E t = Ok (Some c)" "GetConsensusState E t (Height 0 (LatestHeight c)) = Ok cs"
    using store_height_Ok(1) [OF t]
    by (simp_all add: view_client_eq [symmetric] view_cons_eq [symmetric] view_def spec_store_def GetLatestClientHeight_def)
  then have "Module_Status M g' i = Ok Active" "Module_LatestHeight M g' i = Ok (Height 0 (LatestHeight c))"
    "TimestampAtHeight M g' i (Height 0 (LatestHeight c)) = Ok (GetTimestamp (lib E) cs)"
    unfolding g' Module_Status_def Module_LatestHeight_def TimestampAtHeight_def found_client_def
    by (simp_all add: status_def GetLatestClientHeight_def getTimestampAtHeight_def)
  then show ?thesis using c by (simp add: g' client_store_put)
qed

lemma initialize_stores:
  assumes "Module_Initialize M ctx g i cbz sbz = Ok g'"
    and "Unmarshal_into_ClientState (cdc E) cbz = Inr c" and "Unmarshal_into_ConsensusState (cdc E) sbz = Inr cs"
  shows "GetConsensusState E (ClientStore sp g' i) (Height 0 (LatestHeight c)) = Ok cs"
    and "getClientState E (ClientStore sp g' i) = Ok (Some c)"
proof -
  obtain t where t: "store_height E ctx (client_store M g i) c cs (GetLatestClientHeight c) = Ok t"
    and g': "g' = PutClientStore sp g i t"
    using assms by (auto simp: Module_Initialize_Ok initialize_store_height)
  then show "GetConsensusState E (ClientStore sp g' i) (Height 0 (LatestHeight c)) = Ok cs"
    and "getClientState E (ClientStore sp g' i) = Ok (Some c)"
    using store_height_Ok(1) [OF t]
    by (simp_all add: client_store_put view_cons_eq [symmetric] view_client_eq [symmetric] view_def spec_store_def
        GetLatestClientHeight_def)
qed

lemma update_total:
  assumes "marshal_total (cdc E)" and "getClientState E (ClientStore sp g i) = Ok oc"
  shows "case Module_UpdateState M V ctx g i msg of
      Ok (hs, g') \<Rightarrow> \<exists>c header. oc = Some c \<and> msg = HeaderMsg header \<and> prover_accepts V c header \<and>
        hs = [GetHeight header] \<and> (\<forall>j. j \<noteq> i \<longrightarrow> ClientStore sp g' j = ClientStore sp g j) \<and>
        view_cons E (ClientStore sp g' i) (GetHeight header) = Some (header_consensus header)
    | Fail _ \<Rightarrow> False
    | Panic _ \<Rightarrow> \<forall>c header. oc = Some c \<longrightarrow> msg = HeaderMsg header \<longrightarrow> \<not> prover_accepts V c header"
proof (cases "\<exists>c header. oc = Some c \<and> msg = HeaderMsg header \<and> prover_accepts V c header")
  case True
  then obtain c header where h: "oc = Some c" "msg = HeaderMsg header" "prover_accepts V c header" by blast
  obtain t where t: "store_height E ctx (ClientStore sp g i) (c\<lparr>LatestHeight := NewestHeight header\<rparr>)
      (header_consensus header) (GetHeight header) = Ok t"
    using store_height_total [OF assms(1)] by blast
  then have "Module_UpdateState M V ctx g i msg = Ok ([GetHeight header], PutClientStore sp g i t)"
    using h assms(2) unfolding Module_UpdateState_Ok
    by (simp add: client_store_def view_client_eq UpdateState_Ok)
  moreover have "view_cons E t (GetHeight header) = Some (header_consensus header)"
    using store_height_Ok(1) [OF t] by (simp add: view_def spec_store_def)
  ultimately show ?thesis using h by (simp add: client_store_put)
next
  case False
  have "\<exists>e. UpdateState E V ctx (ClientStore sp g i) c msg = Fail e" if "oc = Some c" for c
    using False that UpdateState_rejected by (cases msg) (fastforce simp: UpdateState_def)+
  then have "\<exists>e. Module_UpdateState M V ctx g i msg = Panic e"
    using assms(2) by (cases oc) (fastforce simp: Module_UpdateState_def found_client_def client_store_def)+
  then show ?thesis using False by auto
qed

end

section \<open>The client keeper's use of the module\<close>

text \<open>
  The IBC client keeper creates a client under an identifier whose store is empty, and passes a
  message to \<^verbatim>\<open>UpdateState\<close> only after \<^verbatim>\<open>VerifyClientMessage\<close> accepted it and
  \<^verbatim>\<open>CheckForMisbehaviour\<close> found nothing.
\<close>

inductive keeper_reach :: "'s Env \<Rightarrow> ('g, 's) StoreProvider \<Rightarrow> 'c ProverLib \<Rightarrow> 'g \<Rightarrow> bool"
  for E sp V where
  genesis: "\<forall>i. iter_wf E (ClientStore sp g i) \<and> view E (ClientStore sp g i) = empty_view \<Longrightarrow> keeper_reach E sp V g"
| create: "keeper_reach E sp V g \<Longrightarrow> view E (ClientStore sp g i) = empty_view \<Longrightarrow>
    Module_Initialize (NewLightClientModule E sp) ctx g i cbz sbz = Ok g' \<Longrightarrow> keeper_reach E sp V g'"
| update: "keeper_reach E sp V g \<Longrightarrow>
    Module_VerifyClientMessage (NewLightClientModule E sp) g i msg = Ok () \<Longrightarrow>
    \<not> Module_CheckForMisbehaviour (NewLightClientModule E sp) g i msg \<Longrightarrow>
    Module_UpdateState (NewLightClientModule E sp) V ctx g i msg = Ok (hs, g') \<Longrightarrow> keeper_reach E sp V g'"

text \<open>Each client store is empty or a reachable client of its own.\<close>

definition clients_wf :: "'s Env \<Rightarrow> ('g, 's) StoreProvider \<Rightarrow> 'c ProverLib \<Rightarrow> 'g \<Rightarrow> bool" where
  "clients_wf E sp V g \<longleftrightarrow> (\<forall>i. iter_wf E (ClientStore sp g i) \<and>
     (view E (ClientStore sp g i) = empty_view \<or> (\<exists>c0 cs0. client_reach E V c0 cs0 (ClientStore sp g i))))"

context light_client
begin

lemma clients_wf_put:
  "clients_wf E sp V g \<Longrightarrow> client_reach E V c0 cs0 t \<Longrightarrow> clients_wf E sp V (PutClientStore sp g i t)"
  using client_reach_inv [of V c0 cs0 t] by (auto simp: clients_wf_def client_store_put store_inv_def)

lemma client_store_M: "client_store M g i = ClientStore sp g i"
  by (simp add: client_store_def)

lemma keeper_reach_wf: "keeper_reach E sp V g \<Longrightarrow> clients_wf E sp V g"
proof (induction rule: keeper_reach.induct)
  case (genesis g)
  then show ?case by (simp add: clients_wf_def)
next
  case (create g i ctx cbz sbz g')
  then obtain c cs t where "initialize E ctx (ClientStore sp g i) c (G16Consensus cs) = Ok t"
    and g': "g' = PutClientStore sp g i t"
    by (auto simp: Module_Initialize_Ok client_store_M)
  then have "client_reach E V c cs t"
    using create by (intro client_reach.init) (auto simp: clients_wf_def)
  then show ?case unfolding g' by (rule clients_wf_put [OF create.IH])
next
  case (update g i msg ctx hs g')
  obtain c t where c: "view_client E (ClientStore sp g i) = Some c"
    and u: "UpdateState E V ctx (ClientStore sp g i) c msg = Ok (hs, t)" and g': "g' = PutClientStore sp g i t"
    using update.hyps by (auto simp: Module_UpdateState_Ok client_store_M)
  have v: "VerifyClientMessage E (ClientStore sp g i) c msg = Ok ()"
    using update.hyps c by (auto simp: Module_VerifyClientMessage_Ok client_store_M)
  have "view E (ClientStore sp g i) \<noteq> empty_view" using c by (auto simp: view_def empty_view_def)
  then obtain c0 cs0 where "client_reach E V c0 cs0 (ClientStore sp g i)"
    using update.IH by (auto simp: clients_wf_def)
  then have "client_reach E V c0 cs0 t"
    using client_reach.update [OF _ _ v u] c by (auto simp: view_client_eq)
  then show ?case unfolding g' by (rule clients_wf_put [OF update.IH])
qed

end

section \<open>An instance\<close>

definition fun_provider :: "(bytes \<Rightarrow> 's, 's) StoreProvider" where
  "fun_provider = \<lparr>ClientStore = (\<lambda>g i. g i), PutClientStore = (\<lambda>g i s. g(i := s))\<rparr>"

interpretation fun_sp: store_provider fun_provider
  by unfold_locales (simp add: fun_provider_def)

interpretation mem_lc: light_client mem_env fun_provider
  by (intro light_client.intro mem_client.client_env_axioms fun_sp.store_provider_axioms)

definition ex_module :: "(bytes \<Rightarrow> mem, mem) LightClientModule" where
  "ex_module = NewLightClientModule mem_env fun_provider"

definition ex_id :: bytes where
  "ex_id = str ''08-groth16-0''"

lemma ex_unmarshal:
  "Unmarshal_into_ClientState (cdc mem_env) (mini_put_client c) = Inr c"
  "Unmarshal_into_ConsensusState (cdc mem_env) (mini_put_consensus s) = Inr s"
  by (simp_all add: mini_codec_def)

lemma ex_create_any:
  obtains g' where "Module_Initialize ex_module ex_ctx (\<lambda>_. fmempty) i (mini_put_client c) (mini_put_consensus cs) = Ok g'"
proof -
  obtain s where "store_height mem_env ex_ctx fmempty c cs (GetLatestClientHeight c) = Ok s"
    using mem_client.store_height_total marshal_total_mini by (metis mem_env_simps(3))
  then have "Module_Initialize ex_module ex_ctx (\<lambda>_. fmempty) i (mini_put_client c) (mini_put_consensus cs)
      = Ok (PutClientStore fun_provider (\<lambda>_. fmempty) i s)"
    unfolding ex_module_def mem_lc.Module_Initialize_Ok mem_lc.client_store_M
    by (simp add: mini_codec_def initialize_store_height fun_provider_def)
  then show ?thesis by (rule that)
qed

lemma ex_create:
  obtains g' where "Module_Initialize ex_module ex_ctx (\<lambda>_. fmempty) ex_id (mini_put_client ex_client)
    (mini_put_consensus (ex_cons 50 [6])) = Ok g'"
  by (rule ex_create_any)

lemma ex_genesis: "keeper_reach mem_env fun_provider ex_prover (\<lambda>_. fmempty)"
  by (rule keeper_reach.genesis) (simp add: fun_provider_def iter_wf_empty view_empty empty_view_def)

section \<open>Properties\<close>

text \<open>
  C7. Whatever sequence of client creations and verified updates the keeper runs, the store of
  every client identifier is empty or that of a client reached from its own initial states, so
  the invariant of reachable clients holds for each of them separately.
\<close>

theorem keeper_clients_reachable:
  assumes "light_client E sp" and "keeper_reach E sp V g"
  shows "view E (ClientStore sp g i) = empty_view \<or> (\<exists>c0 cs0. client_reach E V c0 cs0 (ClientStore sp g i))"
  using light_client.keeper_reach_wf [OF assms] by (simp add: clients_wf_def)

theorem keeper_clients_reachable_witness:
  "\<exists>g. keeper_reach mem_env fun_provider ex_prover g \<and>
     (\<exists>c0 cs0. client_reach mem_env ex_prover c0 cs0 (ClientStore fun_provider g ex_id))"
proof -
  obtain g where g: "Module_Initialize ex_module ex_ctx (\<lambda>_. fmempty) ex_id (mini_put_client ex_client)
    (mini_put_consensus (ex_cons 50 [6])) = Ok g" by (rule ex_create)
  then have r: "keeper_reach mem_env fun_provider ex_prover g"
    by (intro keeper_reach.create [OF ex_genesis]) (auto simp: ex_module_def fun_provider_def view_empty empty_view_def)
  have "view_client mem_env (ClientStore fun_provider g ex_id) \<noteq> None"
    using g unfolding ex_module_def mem_lc.Module_Initialize_Ok
    by (auto simp: initialize_store_height fun_provider_def view_def spec_store_def
        dest!: mem_client.store_height_Ok(1))
  then have "view mem_env (ClientStore fun_provider g ex_id) \<noteq> empty_view"
    by (auto simp: view_def empty_view_def)
  then show ?thesis
    using r keeper_clients_reachable [OF mem_lc.light_client_axioms r, of ex_id] by blast
qed

text \<open>
  C18. \<^verbatim>\<open>UpdateState\<close> of the module never returns an error: it succeeds, writing only the store
  of its own client and reporting the header's height, or it panics, which it does exactly when
  no client is stored or the update of the client state fails.
\<close>

theorem Module_UpdateState_total:
  assumes "light_client E sp" and "marshal_total (cdc E)" and "getClientState E (ClientStore sp g i) = Ok oc"
  shows "case Module_UpdateState (NewLightClientModule E sp) V ctx g i msg of
      Ok (hs, g') \<Rightarrow> \<exists>c header. oc = Some c \<and> msg = HeaderMsg header \<and> prover_accepts V c header \<and>
        hs = [GetHeight header] \<and> (\<forall>j. j \<noteq> i \<longrightarrow> ClientStore sp g' j = ClientStore sp g j) \<and>
        view_cons E (ClientStore sp g' i) (GetHeight header) = Some (header_consensus header)
    | Fail _ \<Rightarrow> False
    | Panic _ \<Rightarrow> \<forall>c header. oc = Some c \<longrightarrow> msg = HeaderMsg header \<longrightarrow> \<not> prover_accepts V c header"
  using light_client.update_total [OF assms] .

theorem Module_UpdateState_total_witness:
  "\<exists>e. Module_UpdateState ex_module ex_prover ex_ctx (\<lambda>_. fmempty) ex_id (HeaderMsg (ex_header 5 [])) = Panic e"
proof -
  have "getClientState mem_env (ClientStore fun_provider (\<lambda>_. fmempty) ex_id) = Ok None"
    by (simp add: fun_provider_def getClientState_def store_Get_def mem_kv_def)
  from Module_UpdateState_total [OF mem_lc.light_client_axioms _ this,
      where V = ex_prover and ctx = ex_ctx and msg = "HeaderMsg (ex_header 5 [])"]
  show ?thesis unfolding ex_module_def by (auto simp: marshal_total_mini split: outcome.splits)
qed

text \<open>
  Clients cannot be recovered or upgraded: \<^verbatim>\<open>RecoverClient\<close> and
  \<^verbatim>\<open>VerifyUpgradeAndUpdateState\<close> never succeed, whatever the state of the stores.
\<close>

lemma no_recovery_no_upgrade:
  "RecoverClient l g i j \<noteq> Ok g' \<and> Module_VerifyUpgradeAndUpdateState l g i nc ncs p1 p2 \<noteq> Ok g'"
  by (auto simp: RecoverClient_def Module_VerifyUpgradeAndUpdateState_def CheckSubstituteAndUpdateState_def
      VerifyUpgradeAndUpdateState_def out_simps Let_def split: sum.splits if_splits prod.splits)

end
