(* ===== verification/Relayer_Runs.thy ===== *)
theory Relayer_Runs
  imports Relayer_Trace Groth16_Module
begin

text \<open>
  An example world, in which the flows of the relayer run against a chain with the light client module, and
  the properties of the flows: waiting, and what each of the two transfers sends.
\<close>

section \<open>An example world\<close>

text \<open>The world counts the seconds slept and records the broadcast messages and the contract calls; a
  receipt and a transaction appear at second 3 and 15. It holds the client stores of a chain, on which the
  messages of a transaction are executed.\<close>

record ex_world =
  ex_clock :: nat
  ex_sent :: "Msg list"
  ex_called :: "EvmCall list"
  ex_chain :: "bytes \<Rightarrow> mem"

fun ex_deliver :: "Msg \<Rightarrow> (bytes \<Rightarrow> mem) \<Rightarrow> bytes \<Rightarrow> mem" where
  "ex_deliver (MsgUpdateClient i h s) g =
     (case (Module_VerifyClientMessage ex_module g i (HeaderMsg h), Module_UpdateState ex_module ex_prover ex_ctx g i (HeaderMsg h)) of
        (Ok _, Ok (_, g')) \<Rightarrow> g' | _ \<Rightarrow> g)"
| "ex_deliver (MsgCreateClient c cs s) g =
     (case Module_Initialize ex_module ex_ctx g groth16ClientID (mini_put_client c) (mini_put_consensus cs) of Ok g' \<Rightarrow> g' | _ \<Rightarrow> g)"
| "ex_deliver _ g = g"

definition ex_query_client :: "bytes \<Rightarrow> (ex_world, bytes) io" where
  "ex_query_client i w =
     (case getClientState mem_env (ex_chain w i) of Ok (Some c) \<Rightarrow> Ok (mini_put_client c) | _ \<Rightarrow> Fail (Errorf ''client not found''), w)"

text \<open>The roll-up is at block 7; its account and storage tries have one leaf each, which holds 31 bytes.\<close>

definition ex_slot :: bytes where "ex_slot = 1 # replicate 31 42"

definition ex_out :: BlevmAggOutput where
  "ex_out = \<lparr>NewestHeaderHash = replicate 32 1, OldestHeaderHash = replicate 32 2, CelestiaHeaderHashes = [replicate 32 3],
     blevm_NewestStateRoot = ex_slot, blevm_NewestHeight = 7\<rparr>"

definition ex_packet :: Packet where
  "ex_packet = \<lparr>pkt_Sequence = 1, pkt_SourceClient = tendermintClientID, pkt_DestClient = groth16ClientID,
     pkt_TimeoutTimestamp = 100, Payloads = [\<lparr>SourcePort = [1], DestPort = [1], Version = [], Encoding = [], Value = [7]\<rparr>]\<rparr>"

definition ex_addresses :: ContractAddresses where
  "ex_addresses = \<lparr>ERC20 = [1], ICS07Tendermint = [2], ICS20Transfer = [3], ICS26Router = [4], IBCERC20Logic = [5]\<rparr>"

definition ex_get_proof :: "hash \<Rightarrow> EthGetProofResponse" where
  "ex_get_proof k = \<lparr>gp_AccountProof = [toy_hash [4] @ replicate 8 0 @ ex_slot], gp_Address = [4], gp_Balance = Some 0,
     gp_CodeHash = [], gp_Nonce = 0, gp_StorageHash = ex_slot,
     gp_StorageProof = [\<lparr>sp_Key = k, sp_Value = 1, sp_Proof = [toy_hash k @ ex_slot]\<rparr>]\<rparr>"

definition ex_create_event :: TxEvent where
  "ex_create_event = \<lparr>event_Type = [7], Attributes = [\<lparr>attr_Key = [8], attr_Value = groth16ClientID\<rparr>]\<rparr>"

definition ex_hash :: bytes where "ex_hash = str ''0a''"

definition ex_event :: TxEvent where
  "ex_event = \<lparr>event_Type = str ''send_packet'', Attributes =
     [\<lparr>attr_Key = str ''packet_sequence'', attr_Value = dec 1\<rparr>, \<lparr>attr_Key = str ''packet_timeout_timestamp'', attr_Value = dec 99\<rparr>,
      \<lparr>attr_Key = str ''packet_source_client'', attr_Value = groth16ClientID\<rparr>,
      \<lparr>attr_Key = str ''packet_dest_client'', attr_Value = tendermintClientID\<rparr>, \<lparr>attr_Key = str ''encoded_packet_hex'', attr_Value = []\<rparr>]\<rparr>"

definition ex_net :: "ex_world Net" where
  "ex_net = \<lparr>Sleep = (\<lambda>d w. w\<lparr>ex_clock := ex_clock w + d\<rparr>), HttpStatus = (\<lambda>_ w. (Ok 200, w)), Getwd = Inr [], NewDemoRegistry = Inr (),
     KeyringNew = (\<lambda>_ _. Inr ()), KeyringList = [([1], Inr [2])], NewTextualTxConfig = Inr (), NewClientFromNode = (\<lambda>_. Inr ()),
     AddressFromBech32 = Inr, GetAccount = (\<lambda>_ w. (Ok \<lparr>AccountNumber = 1, acc_Sequence = 0\<rparr>, w)),
     BroadcastTx = (\<lambda>_ ms w. (Ok [1], w\<lparr>ex_sent := ex_sent w @ ms, ex_chain := fold ex_deliver ms (ex_chain w)\<rparr>)),
     UnmarshalTxResponse = (\<lambda>_. Inr \<lparr>tx_Code = 0, TxHash = ex_hash, RawLog = [], tx_Height = 0, tx_Events = []\<rparr>),
     QueryTx = (\<lambda>h w. (if 15 \<le> ex_clock w then Ok \<lparr>tx_Code = 0, TxHash = h, RawLog = [], tx_Height = 5, tx_Events = [ex_create_event]\<rparr> else Fail (Errorf ''tx not found''), w)),
     TxEvents = (\<lambda>_ w. (Ok [ex_event], w)), QueryClientState = ex_query_client,
     UnpackClientState = (\<lambda>b. case Unmarshal_into_ClientState (cdc mem_env) b of Inl e \<Rightarrow> Inl e | Inr c \<Rightarrow> Inr (Some c)),
     QueryLatestConsensusState = (\<lambda>_ w. (Ok [], w)), UnpackConsensusState = (\<lambda>_. Inr (Some \<lparr>HeaderTimestamp = None, StateRoot = []\<rparr>)),
     GrpcClient = Inr (), EvmProver = (\<lambda>_ w. (Ok \<lparr>pr_Proof = [1], pr_PublicValues = encode_public_values ex_out\<rparr>, w)),
     CelestiaProver = (\<lambda>_ w. (Ok \<lparr>pr_Proof = [], pr_PublicValues = []\<rparr>, w)),
     CelestiaMembership = (\<lambda>_ _ w. (Ok \<lparr>mr_Proof = [5], mr_Height = 6\<rparr>, w)),
     CelestiaInfo = (\<lambda>w. (Ok \<lparr>StateMembershipVerifierKeyStr = [], StateTransitionVerifierKeyStr = []\<rparr>, w)),
     ClientKeys = (\<lambda>_ w. (Ok (replicate 32 0, replicate 32 0), w)), PackUpdate = (\<lambda>_ _ _. Inr []), Dial = (\<lambda>w. (Ok (), w)), NewContract = (\<lambda>_. Inr ()),
     ToECDSA = Inr (), NewEthereum = (\<lambda>w. (Ok (), w)), PendingNonceAt = (\<lambda>w. (Ok 0, w)), SuggestGasPrice = (\<lambda>w. (Ok 1, w)),
     SendCall = (\<lambda>_ c w. (Ok [1], w\<lparr>ex_called := ex_called w @ [c]\<rparr>)),
     TransactionReceipt = (\<lambda>_ w. (Ok (if 3 \<le> ex_clock w then Some \<lparr>Successful = True, BlockNumber = 7, Logs = [[1]]\<rparr> else None), w)),
     ParseSendPacket = (\<lambda>_. (Some ex_packet, None)), HeaderTime = (\<lambda>_ w. (Ok 100, w)),
     EthGetProof = (\<lambda>_ k _ w. (Ok (ex_get_proof k), w)),
     IbcERC20Contract = (\<lambda>_ w. (Ok [9], w)), Allowance = (\<lambda>_ _ _ w. (Ok transferBackAmount, w)),
     ReadRunLatest = (\<lambda>w. (Ok [], w)),
     UnmarshalRunLatest = (\<lambda>_. Inr [(str ''returns'', JObject [(str ''0'', JObject [(str ''value'', JString [])])])]),
     UnmarshalAddresses = (\<lambda>_. Inr ex_addresses), Now = (\<lambda>w. of_nat (ex_clock w)), DenomPath = [1], SimappBalance = (\<lambda>_ _ w. (Ok 0, w)),
     Erc20Name = (\<lambda>_ w. (Ok [1], w)), Erc20Symbol = (\<lambda>_ w. (Ok [1], w)), Erc20FullDenomPath = (\<lambda>_ w. (Ok [1], w)),
     Erc20BalanceOf = (\<lambda>_ _ w. (Ok 0, w))\<rparr>"

definition ex_start :: ex_world where "ex_start = \<lparr>ex_clock = 0, ex_sent = [], ex_called = [], ex_chain = (\<lambda>_. fmempty)\<rparr>"

lemma ex_query_quiet: "quiet obs (ex_query_client i)"
  by (simp add: quiet_def ex_query_client_def)

interpretation ex_observed: observed_net ex_net ex_sent
  by unfold_locales (auto simp: ex_net_def ex_query_quiet, auto simp: quiet_def)

interpretation ex_observed_evm: observed_evm ex_net ex_called
  by unfold_locales (auto simp: ex_net_def ex_query_quiet, auto simp: quiet_def)

text \<open>From second 15 on every flow of the example world runs through. One lemma per step keeps the
  evaluation small.\<close>

definition ex_rcpt :: Receipt where "ex_rcpt = \<lparr>Successful = True, BlockNumber = 7, Logs = [[1]]\<rparr>"

lemma ex_node_ops:
  "Sleep ex_net d w = w\<lparr>ex_clock := ex_clock w + d\<rparr>" "HttpStatus ex_net u w = (Ok 200, w)" "Getwd ex_net = Inr []" "NewDemoRegistry ex_net = Inr ()"
  "KeyringNew ex_net n b = Inr ()" "KeyringList ex_net = [([1], Inr [2])]" "NewTextualTxConfig ex_net = Inr ()" "NewClientFromNode ex_net b = Inr ()"
  "AddressFromBech32 ex_net = Inr" "GetAccount ex_net b w = (Ok \<lparr>AccountNumber = 1, acc_Sequence = 0\<rparr>, w)"
  "BroadcastTx ex_net f ms w = (Ok [1], w\<lparr>ex_sent := ex_sent w @ ms, ex_chain := fold ex_deliver ms (ex_chain w)\<rparr>)"
  "UnmarshalTxResponse ex_net b = Inr \<lparr>tx_Code = 0, TxHash = ex_hash, RawLog = [], tx_Height = 0, tx_Events = []\<rparr>"
  "15 \<le> ex_clock w \<Longrightarrow> QueryTx ex_net h w = (Ok \<lparr>tx_Code = 0, TxHash = h, RawLog = [], tx_Height = 5, tx_Events = [ex_create_event]\<rparr>, w)"
  "QueryClientState ex_net i = ex_query_client i" "UnpackClientState ex_net (mini_put_client c) = Inr (Some c)"
  "QueryLatestConsensusState ex_net i w = (Ok [], w)"
  "UnpackConsensusState ex_net b = Inr (Some \<lparr>HeaderTimestamp = None, StateRoot = []\<rparr>)"
  "TxEvents ex_net h w = (Ok [ex_event], w)" "CelestiaProver ex_net i w = (Ok \<lparr>pr_Proof = [], pr_PublicValues = []\<rparr>, w)"
  "CelestiaMembership ex_net i ks w = (Ok \<lparr>mr_Proof = [5], mr_Height = 6\<rparr>, w)"
  "CelestiaInfo ex_net w = (Ok \<lparr>StateMembershipVerifierKeyStr = [], StateTransitionVerifierKeyStr = []\<rparr>, w)"
  "ClientKeys ex_net i w = (Ok (replicate 32 0, replicate 32 0), w)" "PackUpdate ex_net b b1 b' = Inr []"
  "GrpcClient ex_net = Inr ()" "EvmProver ex_net i w = (Ok \<lparr>pr_Proof = [1], pr_PublicValues = encode_public_values ex_out\<rparr>, w)"
  "SimappBalance ex_net b e w = (Ok 0, w)" "UnmarshalAddresses ex_net b = Inr ex_addresses"
  "ReadRunLatest ex_net w = (Ok [], w)"
  "UnmarshalRunLatest ex_net b = Inr [(str ''returns'', JObject [(str ''0'', JObject [(str ''value'', JString [])])])]"
  by (simp_all add: ex_net_def ex_unmarshal [simplified])

lemma ex_evm_ops:
  "Dial ex_net w = (Ok (), w)" "NewEthereum ex_net w = (Ok (), w)" "NewContract ex_net a = Inr ()" "ToECDSA ex_net = Inr ()"
  "PendingNonceAt ex_net w = (Ok 0, w)" "SuggestGasPrice ex_net w = (Ok 1, w)" "SendCall ex_net opts c w = (Ok [1], w\<lparr>ex_called := ex_called w @ [c]\<rparr>)"
  "TransactionReceipt ex_net h w = (Ok (if 3 \<le> ex_clock w then Some ex_rcpt else None), w)"
  "ParseSendPacket ex_net l = (Some ex_packet, None)" "HeaderTime ex_net n w = (Ok 100, w)"
  "IbcERC20Contract ex_net a w = (Ok [9], w)" "Allowance ex_net a b b' w = (Ok transferBackAmount, w)" "DenomPath ex_net = [1]"
  "Erc20Name ex_net a w = (Ok [1], w)" "Erc20Symbol ex_net a w = (Ok [1], w)" "Erc20FullDenomPath ex_net a w = (Ok [1], w)"
  "Erc20BalanceOf ex_net a b w = (Ok 0, w)" "Now ex_net w = of_nat (ex_clock w)"
  "EthGetProof ex_net a k n w = (Ok (ex_get_proof k), w)"
  by (simp_all add: ex_net_def ex_rcpt_def)

lemma io_bind_run: "io_bind m f w = (case m w of (Ok a, w') \<Rightarrow> f a w' | (Fail e, w') \<Rightarrow> (Fail e, w') | (Panic e, w') \<Rightarrow> (Panic e, w'))"
  by (simp add: io_bind_def)

lemmas io_run = io_bind_run io_wrap_def io_out_def io_ret_def io_asks_def io_must_def io_default_def io_result_def
lemmas ex_ops = ex_node_ops ex_evm_ops

definition ex_demo_context :: DemoContext where
  "ex_demo_context = \<lparr>dc_ChainID = str ''zkibc-demo'',
     dc_HomeDir = filepath_Join [[], str ''testing'', str ''files'', str ''simapp-validator''], dc_FromAddress = [2], dc_FromName = [1],
     dc_BroadcastMode = str ''sync'', dc_SkipConfirmation = True\<rparr>"

lemma ex_health: "CheckSimappNodeHealth ex_net u 10 w = (Ok (), w)"
proof -
  have "(10::nat) = Suc 9" by simp
  then show ?thesis by (simp only: CheckSimappNodeHealth_def health_loop.simps ex_ops StatusOK_def) simp
qed

lemma ex_context: "SetupClientContext ex_net w = (Ok ex_demo_context, w)"
  by (simp add: SetupClientContext_def new_context_def io_run ex_ops ex_demo_context_def ex_health)

lemma ex_addrs: "ExtractDeployedContractAddresses ex_net w = (Ok ex_addresses, w)"
  by (simp add: ExtractDeployedContractAddresses_def io_run json_object_def ex_ops)

lemma ex_receipt:
  assumes "3 \<le> ex_clock w"
  shows "getTxReciept ex_net (Suc polls) h w = (Ok (Some ex_rcpt), w\<lparr>ex_clock := ex_clock w + 1\<rparr>)"
proof -
  have "run_captured (WaitForCondition (captured_sleep (Sleep ex_net)) (Suc polls) 1 (query_receipt_once ex_net h)) None w
      = (Ok (Some ex_rcpt), w\<lparr>ex_clock := ex_clock w + 1\<rparr>)"
    by (subst wait_for_receipt) (use assms in \<open>simp_all add: ex_ops\<close>)
  then show ?thesis by (simp add: getTxReciept_def io_run ex_ops)
qed

lemma ex_send:
  assumes "3 \<le> ex_clock w"
  shows "send_and_wait ex_net (Suc polls) e call w =
     (Ok ([1], ex_rcpt), w\<lparr>ex_clock := ex_clock w + 1, ex_called := ex_called w @ [call]\<rparr>)"
proof -
  have "getTransactOpts ex_net w = (Ok \<lparr>opt_Nonce = 0, opt_GasPrice = 1, opt_GasLimit = 5000000\<rparr>, w)"
    by (simp add: getTransactOpts_def io_run ex_ops)
  moreover have "Successful ex_rcpt" by (simp add: ex_rcpt_def)
  ultimately show ?thesis using assms by (simp add: send_and_wait_def io_run ex_ops ex_receipt)
qed

lemma ex_broadcast:
  assumes "15 \<le> ex_clock w"
  shows "BroadcastMessages ex_net (Suc polls) u g ms w =
     (Ok \<lparr>tx_Code = 0, TxHash = ex_hash, RawLog = [], tx_Height = 5, tx_Events = [ex_create_event]\<rparr>, w\<lparr>ex_clock := ex_clock w + 15, ex_sent := ex_sent w @ ms, ex_chain := fold ex_deliver ms (ex_chain w)\<rparr>)"
proof -
  let ?w = "w\<lparr>ex_sent := ex_sent w @ ms, ex_chain := fold ex_deliver ms (ex_chain w)\<rparr>"
  have m: "maxRetries = Suc 4" by (simp add: maxRetries_def)
  have "getFullyPopulatedResponse ex_net (Suc polls) ex_hash ?w =
      (Ok \<lparr>tx_Code = 0, TxHash = ex_hash, RawLog = [], tx_Height = 5, tx_Events = [ex_create_event]\<rparr>, ?w\<lparr>ex_clock := ex_clock ?w + 15\<rparr>)"
    using assms by (simp only: full_response_attempts m query_attempts.simps) (simp add: ex_ops)
  then show ?thesis by (simp add: BroadcastMessages_def GetFactory_def io_run ex_ops)
qed

lemma ex_states:
  "getClientState mem_env (ex_chain w groth16ClientID) = Ok (Some c) \<Longrightarrow> relayer_getClientState ex_net w = (Ok c, w)"
  "relayer_getConsensusState ex_net w = (Ok \<lparr>HeaderTimestamp = None, StateRoot = []\<rparr>, w)"
  by (simp_all add: relayer_getClientState_def relayer_getConsensusState_def ex_query_client_def io_run ex_context ex_ops)

text \<open>Creating a client and updating it.\<close>

lemma ex_deliver_create:
  "getClientState mem_env (ex_deliver (MsgCreateClient c cs s) (\<lambda>_. fmempty) groth16ClientID) = Ok (Some c)"
proof -
  obtain g where g: "Module_Initialize ex_module ex_ctx (\<lambda>_. fmempty) groth16ClientID (mini_put_client c) (mini_put_consensus cs) = Ok g"
    by (rule ex_create_any)
  with mem_lc.initialize_stores(2)[OF g[unfolded ex_module_def] ex_unmarshal] show ?thesis by (simp add: fun_provider_def)
qed

lemma ex_deliver_update:
  assumes "getClientState mem_env (g i) = Ok (Some c)"
  shows "\<exists>c'. getClientState mem_env (ex_deliver (MsgUpdateClient i h s) g i) = Ok (Some c')"
proof (cases "\<exists>hs g'. Module_UpdateState ex_module ex_prover ex_ctx g i (HeaderMsg h) = Ok (hs, g')")
  case True
  then obtain hs g' where u: "Module_UpdateState ex_module ex_prover ex_ctx g i (HeaderMsg h) = Ok (hs, g')" by blast
  then have "\<exists>c'. getClientState mem_env (g' i) = Ok (Some c')"
    unfolding ex_module_def mem_lc.Module_UpdateState_Ok mem_lc.client_store_M UpdateState_Ok
    by (auto simp: fun_provider_def mem_client.view_client_eq[symmetric] view_def spec_store_def dest!: mem_client.store_height_Ok(1))
  with u assms show ?thesis by (auto split: outcome.splits)
qed (use assms in \<open>auto split: outcome.splits prod.splits\<close>)

definition ex_late :: ex_world where 
  "ex_late = \<lparr>ex_clock = 20, ex_sent = [], ex_called = [],
     ex_chain = ex_deliver (MsgCreateClient ex_client (ex_cons 50 [6]) []) (\<lambda>_. fmempty)\<rparr>"

lemma ex_late_fields: "ex_clock ex_late = 20" "ex_sent ex_late = []" "ex_called ex_late = []"
  by (simp_all add: ex_late_def)

lemma ex_late_client: "getClientState mem_env (ex_chain ex_late groth16ClientID) = Ok (Some ex_client)"
  unfolding ex_late_def ex_world.simps by (rule ex_deliver_create)

definition ex_hdr :: "u64 \<Rightarrow> Header" where
  "ex_hdr n = \<lparr>StateTransitionProof = [1], PublicValues = encode_public_values ex_out, TrustedHeight = n,
     NewestStateRoot = ex_slot, NewestHeight = 7, HdrTimestamp = Some (timestamppb_New std_lib 100000000000)\<rparr>"

lemma ex_out_wf: "output_wf ex_out"
  by (simp add: output_wf_def ex_out_def ex_slot_def)

lemma ex_getHeader:
  assumes "getClientState mem_env (ex_chain w groth16ClientID) = Ok (Some c)"
  shows "getHeader std_lib ex_net n w = (Ok (ex_hdr (LatestHeight c)), w)"
proof -
  have "DecodePublicValues (encode_public_values ex_out) = Ok ex_out" by (rule decode_encode[OF ex_out_wf])
  moreover have "sint (100 :: u64) = 100" by simp
  ultimately show ?thesis
    by (simp add: getHeader_def getProof_def getTrustedHeight_def getEVMTimestampAtHeight_def io_run ex_ops ex_states(1)[OF assms] ex_hdr_def)
      (simp add: ex_out_def)
qed

lemma ex_update:
  assumes "15 \<le> ex_clock w" and c: "getClientState mem_env (ex_chain w groth16ClientID) = Ok (Some c)"
  shows "updateGroth16LightClient std_lib Inr ex_net (Suc polls) n w =
     (Ok (), w\<lparr>ex_clock := ex_clock w + 15, ex_sent := ex_sent w @ [MsgUpdateClient groth16ClientID (ex_hdr (LatestHeight c)) sender],
        ex_chain := ex_deliver (MsgUpdateClient groth16ClientID (ex_hdr (LatestHeight c)) sender) (ex_chain w)\<rparr>)"
proof -
  obtain c' where "getClientState mem_env (ex_deliver (MsgUpdateClient groth16ClientID (ex_hdr (LatestHeight c)) sender) (ex_chain w)
      groth16ClientID) = Ok (Some c')"
    using ex_deliver_update[of "ex_chain w", OF c] by blast
  then show ?thesis
    using assms(1) by (simp add: updateGroth16LightClient_def io_run ex_states(1)[OF c] ex_states ex_context ex_getHeader[OF c] ex_broadcast
        del: ex_deliver.simps)
qed

lemma ex_balances: "queryBalances ex_net w = (Ok (), w)"
  by (simp add: queryBalances_def queryBalanceOnSimApp_def queryBalanceOnEthereum_def Int64_def getSimappUserBalance_def getEvmUserBalance_def io_run ex_context ex_addrs ex_ops zeroAddress_def)

definition ex_transfer_msg :: "ex_world \<Rightarrow> SendTransferMsg" where
  "ex_transfer_msg w = \<lparr>st_Denom = [9], st_Amount = transferBackAmount, st_Receiver = sender,
     st_TimeoutTimestamp = of_nat (ex_clock w) + 30 * 60, st_SourceClient = tendermintClientID, st_Memo = str ''transfer back memo''\<rparr>"

lemma ex_send_back:
  "3 \<le> ex_clock w \<Longrightarrow> sendTransferBackMsg ex_net (Suc polls) w =
     (Ok (ex_packet, 7), w\<lparr>ex_clock := ex_clock w + 1, ex_called := ex_called w @ [SendTransferCall [3] (ex_transfer_msg w)]\<rparr>)"
  by (simp add: sendTransferBackMsg_def getIBCERC20Address_def io_run ex_addrs ex_ops ex_send)
    (simp add: GetEvmEvent_def ex_rcpt_def io_ret_def ex_ops ex_transfer_msg_def ex_addresses_def)

lemma ex_approve:
  "3 \<le> ex_clock w \<Longrightarrow> approveSpend ex_net (Suc polls) w =
     (Ok (), w\<lparr>ex_clock := ex_clock w + 1, ex_called := ex_called w @ [ApproveCall [9] [3] transferBackAmount]\<rparr>)"
  by (simp add: approveSpend_def getIBCERC20Address_def io_run ex_addrs ex_ops ex_send ex_addresses_def)

lemma ex_transfer_back:
  assumes "20 \<le> ex_clock w" and "getClientState mem_env (ex_chain w groth16ClientID) = Ok (Some c)"
    and "query_mpt_proof P leftPad slot ex_net
      (packetCommitmentPath (pkt_SourceClient ex_packet) (pkt_Sequence ex_packet)) [4] 7 = (\<lambda>w. (Ok p, w))" and "jm p = Inr bz"
  shows "\<exists>w'. transferBack std_lib Inr jm P leftPad slot ex_net (Suc polls) w = (Ok (), w')"
proof -
  obtain m where m: "createMsgRecvPacket jm ex_packet p 7 = Ok m"
    using assms(4) by (simp add: createMsgRecvPacket_def ex_packet_def)
  have "ICS26Router ex_addresses = [4]" by (simp add: ex_addresses_def)
  with assms(1,2) show ?thesis
    by (simp add: transferBack_def io_run ex_approve ex_addrs ex_ops ex_send_back assms(3) m ex_update[where c = c]
        relayFromEvmToSimapp_def ex_context ex_broadcast ex_balances del: ex_deliver.simps)
qed

lemma ex_query_proof: "\<exists>p. query_mpt_proof leaf_lib (\<lambda>b n. b) [1] ex_net path a n = (\<lambda>w. (Ok p, w))"
  by (auto simp: query_mpt_proof_def io_run ex_ops getMPTProof_def ex_get_proof_def Let_def fun_eq_iff)

text \<open>The other direction: the keys match, and the transaction has one event, of packet 1.\<close>

definition ex_transfer_lib :: TransferLib where
  "ex_transfer_lib = \<lparr>EncodeABI = (\<lambda>d. Inr (ft_Amount d)), PortID = [1], V1 = [2], EncodingABI = [3]\<rparr>"

definition ex_send_event :: SendPacketEvent where
  "ex_send_event = \<lparr>SourceClient = groth16ClientID, DestinationClient = tendermintClientID, Sequence = 1, TimeoutTimestamp = 99,
     EncodedPacketHex = []\<rparr>"

lemma ex_info: "getCelestiaProverInfo ex_net w = (Ok \<lparr>StateMembershipVerifierKeyStr = [], StateTransitionVerifierKeyStr = []\<rparr>, w)"
  by (simp add: getCelestiaProverInfo_def io_run ex_ops)

lemma ex_key: "getProverSTFKey (Inr \<lparr>StateMembershipVerifierKeyStr = [], StateTransitionVerifierKeyStr = []\<rparr>) = Ok (replicate 32 0)"
    "getProverMembershipKey (Inr \<lparr>StateMembershipVerifierKeyStr = [], StateTransitionVerifierKeyStr = []\<rparr>) = Ok (replicate 32 0)"
  by (simp_all add: getProverSTFKey_def getProverMembershipKey_def TrimPrefix_def copy32_def)

lemma ex_keys: "check_verifier_keys ex_net w = (Ok (), w)"
  by (simp add: check_verifier_keys_def io_run ex_addrs ex_ops ex_info ex_key)

lemma ex_query_event: "query_send_packet_event ex_net ex_hash w = (Ok ex_send_event, w)"
proof -
  have h: "hex_DecodeString (TrimPrefix ex_hash [byte_of_char CHR ''0'', byte_of_char CHR ''x'']) = Inr [10]" by code_simp
  have k: "str ''packet_sequence'' \<noteq> str ''packet_timeout_timestamp''" "str ''packet_sequence'' \<noteq> str ''packet_source_client''"
    "str ''packet_sequence'' \<noteq> str ''packet_dest_client''" "str ''packet_sequence'' \<noteq> str ''encoded_packet_hex''"
    "str ''packet_timeout_timestamp'' \<noteq> str ''packet_source_client''" "str ''packet_timeout_timestamp'' \<noteq> str ''packet_dest_client''"
    "str ''packet_timeout_timestamp'' \<noteq> str ''encoded_packet_hex''" "str ''packet_source_client'' \<noteq> str ''packet_dest_client''"
    "str ''packet_source_client'' \<noteq> str ''encoded_packet_hex''" "str ''packet_dest_client'' \<noteq> str ''encoded_packet_hex''"
    by code_simp+
  have "getSendPacketEvent (\<lambda>_. Inr [ex_event]) ex_hash = Ok ex_send_event"
    using k k[symmetric]
    by (simp add: getSendPacketEvent_def h getRawEvent_def ex_event_def raw_string_def ex_send_event_def)
  then show ?thesis by (simp add: query_send_packet_event_def io_run h ex_context ex_ops)
qed

lemma ex_update_tendermint:
  "3 \<le> ex_clock w \<Longrightarrow> updateTendermintLightClient ex_net (Suc polls) w =
     (Ok (), w\<lparr>ex_clock := ex_clock w + 1, ex_called := ex_called w @ [UpdateClientCall [4] tendermintClientID []]\<rparr>)"
  by (simp add: updateTendermintLightClient_def getUpdateMsg_def getProofResponse_def io_run ex_addrs ex_ops ex_info ex_key ex_send
      ex_addresses_def)

definition ex_recv :: EvmMsgRecvPacket where
  "ex_recv = \<lparr>evm_Packet = \<lparr>pkt_Sequence = 1, pkt_SourceClient = groth16ClientID, pkt_DestClient = tendermintClientID,
       pkt_TimeoutTimestamp = 99, Payloads = [transfer_payload ex_transfer_lib (dec transferAmount)]\<rparr>,
     evm_ProofCommitment = [5], evm_RevisionNumber = 0, evm_RevisionHeight = 6\<rparr>"

lemma ex_relay:
  "3 \<le> ex_clock w \<Longrightarrow> relayByTx ex_transfer_lib ex_net (Suc polls) ex_hash i w =
     (Ok (), w\<lparr>ex_clock := ex_clock w + 1, ex_called := ex_called w @ [RecvPacketCall [4] ex_recv]\<rparr>)"
proof -
  have m: "getMsgRecvPacket ex_transfer_lib ex_send_event [5] 6 = Ok ex_recv"
    by (simp add: getMsgRecvPacket_def getPayloadValue_def ex_transfer_lib_def ex_send_event_def ex_recv_def)
  have "ICS26Router ex_addresses = [4]" by (simp add: ex_addresses_def)
  then show "3 \<le> ex_clock w \<Longrightarrow> ?thesis"
    by (simp add: relayByTx_def getCelestiaProverResponse_def io_run ex_query_event ex_addrs ex_ops m ex_send)
qed

lemma ex_transfer:
  assumes "15 \<le> ex_clock w"
  shows "\<exists>w'. transferSimAppToEVM ex_transfer_lib ex_net (Suc polls) w = (Ok (), w') \<and> ex_clock w' = ex_clock w + 17
     \<and> ex_called w' = ex_called w @ [UpdateClientCall [4] tendermintClientID [], RecvPacketCall [4] ex_recv]
     \<and> ex_chain w' = ex_chain w"
proof -
  have "getPayloadValue ex_transfer_lib = Ok (dec transferAmount)" by (simp add: getPayloadValue_def ex_transfer_lib_def)
  with assms show ?thesis
    by (simp add: transferSimAppToEVM_def io_run ex_keys ex_ops createMsgSendPacket_def submitMsgTransfer_def ex_context ex_broadcast
        ex_update_tendermint ex_relay ex_balances)
qed

section \<open>Properties\<close>

text \<open>
  C37. Waiting for a receipt is plain polling: as long as the query does not panic, \<^verbatim>\<open>getTxReciept\<close>
  returns the first receipt that one of the polls before the deadline sees, and fails when none
  does; errors of the query count as \<open>not yet\<close>, and the retry and backoff machinery is idle.
\<close>

theorem getTxReciept_polls:
  assumes "\<And>w e. fst (TransactionReceipt N h w) \<noteq> Panic e" and "Dial N w = (Ok (), w0)"
  shows "getTxReciept N polls h w =
    (case first_receipt N h polls w0 of
       (Some r, w') \<Rightarrow> (Ok (Some r), w')
     | (None, w') \<Rightarrow> (Fail (Wrap ''failed to fetch receipt'' (Errorf ''failed waiting for condition'')), w'))"
proof -
  note wait_for_receipt[OF assms(1), of polls None w0]
  then show ?thesis
    using assms(2) by (auto simp: getTxReciept_def io_bind_def io_wrap_def split: prod.splits option.splits)
qed

theorem getTxReciept_polls_witness:
  "getTxReciept ex_net 5 [1] ex_start = (Ok (Some \<lparr>Successful = True, BlockNumber = 7, Logs = [[1]]\<rparr>), ex_start\<lparr>ex_clock := 3\<rparr>)
   \<and> fst (getTxReciept ex_net 2 [1] ex_start) = Fail (Wrap ''failed to fetch receipt'' (Errorf ''failed waiting for condition''))"
proof -
  have a: "\<And>w e. fst (TransactionReceipt ex_net [1] w) \<noteq> Panic e" and d: "Dial ex_net ex_start = (Ok (), ex_start)"
    by (simp_all add: ex_net_def)
  show ?thesis
    using getTxReciept_polls[of ex_net "[1]", OF a d, of 5] getTxReciept_polls[of ex_net "[1]", OF a d, of 2]
    by (simp add: ex_ops ex_start_def ex_rcpt_def numeral_eq_Suc)
qed

text \<open>
  C38. The wait for a transaction never polls twice: after the first interval it queries at most
  five times, a query is repeated only after a connection error, and any other error, such as
  that the transaction is not found yet, ends the wait, whatever is left of the timeout.
\<close>

theorem getFullyPopulatedResponse_one_poll:
  "getFullyPopulatedResponse N (Suc polls) h w = query_attempts N h 5 1 (Sleep N 15 w)"
  using full_response_attempts[of N polls h w] by (simp add: maxRetries_def)





end
