(* ===== verification/Packet_Flow.thy ===== *)
theory Packet_Flow
  imports Relayer_Runs
begin

text \<open>
  The relayer and the light client together: a transfer from the roll-up back to SimApp, from the demo's
  \<^verbatim>\<open>transferBack\<close> to the membership check of the light client module that accepts the packet.
\<close>

section \<open>A packet on its way back\<close>

text \<open>
  A roll-up at block \<open>n\<close> with state root \<open>root\<close>: what its prover proves and its node answers. The proof of a
  storage slot verifies under the state root with the value of the slot, and the receipts are those of
  transactions in this block.
\<close>

definition slot_proof :: "EthGetProofResponse \<Rightarrow> StorageProofEntry \<Rightarrow> MptProof" where
  "slot_proof resp e = \<lparr>AccountProof = gp_AccountProof resp, Address = gp_Address resp, Balance = gp_Balance resp,
     CodeHash = gp_CodeHash resp, Nonce = gp_Nonce resp, StorageHash = gp_StorageHash resp,
     StorageProof = sp_Proof e, StorageKey = sp_Key e, StorageValue = sp_Value e\<rparr>"

definition honest_prover :: "'w Net \<Rightarrow> 'c ProverLib \<Rightarrow> ClientState \<Rightarrow> u64 \<Rightarrow> bytes \<Rightarrow> bool" where
  "honest_prover N V cs n root \<longleftrightarrow> (\<forall>w resp w'. EvmProver N groth16ClientID w = (Ok resp, w') \<longrightarrow>
     (\<exists>out. output_wf out \<and> pr_PublicValues resp = encode_public_values out
        \<and> blevm_NewestHeight out = n \<and> blevm_NewestStateRoot out = root)
     \<and> (\<forall>h. StateTransitionProof h = pr_Proof resp \<and> PublicValues h = pr_PublicValues resp \<longrightarrow> prover_accepts V cs h))"

definition honest_node :: "'w Net \<Rightarrow> 'd EthLib \<Rightarrow> u64 \<Rightarrow> bytes \<Rightarrow> (hash \<Rightarrow> bytes) \<Rightarrow> bool" where
  "honest_node N X n root slot \<longleftrightarrow>
     (\<forall>h w. case fst (TransactionReceipt N h w) of Ok (Some r) \<Rightarrow> BlockNumber r = n | Panic _ \<Rightarrow> False | _ \<Rightarrow> True)
     \<and> (\<forall>a key w resp w'. EthGetProof N a key n w = (Ok resp, w') \<longrightarrow>
     (\<exists>e. gp_StorageProof resp = [e] \<and> sp_Key e = key \<and> membership_evidence X root (slot_proof resp e) (slot key)))"

lemma getMPTProof_slot:
  assumes "getMPTProof P leftPad slot (\<lambda>_ _ _. Inr resp) path addr blk = Ok p" and "gp_StorageProof resp = [e]"
  shows "p = slot_proof resp e"
  using assms by (auto simp: getMPTProof_def slot_proof_def Let_def bind_out_eq_Ok split: if_splits)

lemma first_receipt_Some:
  "first_receipt N h polls w = (Some r, w') \<Longrightarrow> \<exists>v v'. TransactionReceipt N h v = (Ok (Some r), v')"
  by (induction polls arbitrary: w) (auto split: prod.splits outcome.splits option.splits)

lemma honest_receipt:
  assumes "honest_node N X n root val" and "getTxReciept N polls h w = (Ok (Some r), w')"
  shows "BlockNumber r = n"
proof -
  have np: "fst (TransactionReceipt N h v) \<noteq> Panic e" for v e
    using assms(1) unfolding honest_node_def by (metis outcome.simps(12))
  obtain w0 where "run_captured (WaitForCondition (captured_sleep (Sleep N)) polls 1 (query_receipt_once N h)) None w0 = (Ok (Some r), w')"
    using assms(2) by (auto simp: getTxReciept_def io_Ok_simps)
  then have "fst (first_receipt N h polls w0) = Some r"
    unfolding wait_for_receipt[OF np] by (auto split: prod.splits option.splits)
  then obtain v v' where "TransactionReceipt N h v = (Ok (Some r), v')" using first_receipt_Some by (metis prod.collapse)
  then have "fst (TransactionReceipt N h v) = Ok (Some r)" by simp
  moreover have "case fst (TransactionReceipt N h v) of Ok (Some r) \<Rightarrow> BlockNumber r = n | Panic _ \<Rightarrow> False | _ \<Rightarrow> True"
    using assms(1) unfolding honest_node_def by blast
  ultimately show ?thesis by simp
qed

lemma honest_block:
  assumes "honest_node N X n root val" and "sendTransferBackMsg N polls w = (Ok (pkt, b), w')"
  shows "b = n"
proof -
  obtain h v r v' where "getTxReciept N polls h v = (Ok (Some r), v')" "b = BlockNumber r"
    using assms(2) unfolding sendTransferBackMsg_def send_and_wait_def
    by (auto simp: io_Ok_simps split: prod.splits option.splits if_splits)
  then show ?thesis using honest_receipt[OF assms(1)] by simp
qed

lemma honest_header:
  assumes "honest_prover N V cs n root" and "getHeader L N blk w = (Ok h, w')"
  shows "NewestHeight h = n" "NewestStateRoot h = root" "prover_accepts V cs h"
proof -
  obtain resp w1 out where r: "EvmProver N groth16ClientID w = (Ok resp, w1)"
      "DecodePublicValues (pr_PublicValues resp) = Ok out" "StateTransitionProof h = pr_Proof resp"
      "PublicValues h = pr_PublicValues resp" "NewestStateRoot h = blevm_NewestStateRoot out"
      "NewestHeight h = blevm_NewestHeight out"
    using getHeader_Ok[OF assms(2)] by blast
  obtain out' where "output_wf out'" "pr_PublicValues resp = encode_public_values out'"
      "blevm_NewestHeight out' = n" "blevm_NewestStateRoot out' = root"
    using assms(1) r(1) unfolding honest_prover_def by blast
  moreover from this r(2) have "out = out'" using decode_encode[of out'] by simp
  ultimately show "NewestHeight h = n" "NewestStateRoot h = root" using r(5,6) by simp_all
  show "prover_accepts V cs h" using assms(1) r(1,3,4) unfolding honest_prover_def by blast
qed

lemma honest_proof:
  assumes "honest_node N X n root val" and "query_mpt_proof P leftPad slot N path addr n w = (Ok p, w')"
  shows "membership_evidence X root p (val (GetCommitmentsStorageKey P leftPad slot path))"
proof -
  obtain resp v where r: "EthGetProof N addr (GetCommitmentsStorageKey P leftPad slot path) n v = (Ok resp, w')"
      "getMPTProof P leftPad slot (\<lambda>_ _ _. Inr resp) path addr n = Ok p"
    using query_mpt_proof_Ok[OF assms(2)] by blast
  then obtain e where "gp_StorageProof resp = [e]"
      "membership_evidence X root (slot_proof resp e) (val (GetCommitmentsStorageKey P leftPad slot path))"
    using assms(1) unfolding honest_node_def by blast
  with getMPTProof_slot[OF r(2)] show ?thesis by simp
qed

context light_client
begin

lemma membership_at:
  assumes "view_client E (ClientStore sp g i) \<noteq> None" and "view_cons E (ClientStore sp g i) h = Some cs"
    and "json_MptProof X pbz = Inr p" and "membership_evidence X (StateRoot cs) p val"
  shows "VerifyMembership M X g i h dt db pbz path val = Ok ()"
proof -
  obtain c where "found_client M g i = Ok c" using assms(1) by (auto simp: found_client_Ok client_store_M)
  moreover have "verifyMembership E X (ClientStore sp g i) c h dt db pbz path val = Ok ()"
    using assms(2-4) by (auto simp: verifyMembership_Ok view_cons_eq)
  ultimately show ?thesis by (simp add: VerifyMembership_def client_store_M)
qed

lemma latest_height_stored:
  assumes "keeper_reach E sp V g" and "view_client E (ClientStore sp g i) = Some cs"
  shows "view_cons E (ClientStore sp g i) (Height 0 (LatestHeight cs)) \<noteq> None"
proof -
  have "view E (ClientStore sp g i) \<noteq> empty_view" using assms(2) by (auto simp: view_def empty_view_def)
  then obtain c0 cs0 where "client_reach E V c0 cs0 (ClientStore sp g i)"
    using keeper_reach_wf[OF assms(1)] unfolding clients_wf_def by blast
  then have "client_inv V c0 cs0 (view E (ClientStore sp g i))" using client_reach_inv by blast
  then show ?thesis using assms(2) by (auto simp: client_inv_def view_def)
qed

text \<open>An update that the keeper makes with an accepted header above the latest height.\<close>

lemma keeper_update:
  assumes "keeper_reach E sp V g" and "marshal_total (cdc E)" and "view_client E (ClientStore sp g i) = Some cs"
    and "prover_accepts V cs h" and "TrustedHeight h = LatestHeight cs" and "LatestHeight cs < NewestHeight h"
  obtains g' where "Module_VerifyClientMessage M g i (HeaderMsg h) = Ok ()"
    and "Module_UpdateState M V ctx g i (HeaderMsg h) = Ok ([GetHeight h], g')" and "keeper_reach E sp V g'"
    and "view_client E (ClientStore sp g' i) = Some (cs\<lparr>LatestHeight := NewestHeight h\<rparr>)"
    and "view_cons E (ClientStore sp g' i) (GetHeight h) = Some (header_consensus h)"
proof -
  let ?s = "ClientStore sp g i"
  obtain t where t: "store_height E ctx ?s (cs\<lparr>LatestHeight := NewestHeight h\<rparr>) (header_consensus h) (GetHeight h) = Ok t"
    using store_height_total[OF assms(2)] by blast
  have get: "getClientState E ?s = Ok (Some cs)" using assms(3) by (simp add: view_client_eq)
  have v: "Module_VerifyClientMessage M g i (HeaderMsg h) = Ok ()"
    using latest_height_stored[OF assms(1,3)] assms(5,6) get
    by (simp add: Module_VerifyClientMessage_def found_client_def client_store_M VerifyClientMessage_def verifyHeader_Ok)
  have "UpdateState E V ctx ?s cs (HeaderMsg h) = Ok ([GetHeight h], t)"
    using t assms(4) by (simp add: UpdateState_Ok)
  then have u: "Module_UpdateState M V ctx g i (HeaderMsg h) = Ok ([GetHeight h], PutClientStore sp g i t)"
    using get by (simp add: Module_UpdateState_def found_client_def client_store_M)
  have "keeper_reach E sp V (PutClientStore sp g i t)"
    by (rule keeper_reach.update[OF assms(1) v _ u]) (simp add: Module_CheckForMisbehaviour_def)
  with v u show ?thesis
    using store_height_Ok(1)[OF t] by (intro that) (auto simp: client_store_put view_def spec_store_def)
qed

end

section \<open>A chain behind the relayer\<close>

text \<open>
  The relayer and a chain that runs the light client module. \<open>chain\<close> reads off the world the client stores of
  the chain, as far as the light client owns their keys, once all transactions so far are executed. The
  client query answers with the stored client. The keeper executes an update that the module verifies and
  finds no misbehaviour in; it gives the first client the identifier \<^verbatim>\<open>08-groth16-0\<close>; the messages for packets
  and counterparties leave the client stores alone.
\<close>

locale chain_net = observed_net N sent + light_client E sp
  for N :: "'w Net" and sent :: "'w \<Rightarrow> Msg list" and E :: "'s Env" and sp :: "('g, 's) StoreProvider" +
  fixes V :: "'c ProverLib" and chain :: "'w \<Rightarrow> 'g"
  assumes chain_view: "simapp_view N chain" and marshal: "marshal_total (cdc E)"
    and queried: "QueryClientState N i w = (Ok b, w') \<Longrightarrow> UnpackClientState N b = Inr (Some c) \<Longrightarrow>
      getClientState E (ClientStore sp (chain w) i) = Ok (Some c)"
    and updated: "executed N [MsgUpdateClient i h s] w w' \<Longrightarrow>
      Module_VerifyClientMessage (NewLightClientModule E sp) (chain w) i (HeaderMsg h) = Ok () \<Longrightarrow>
      \<not> Module_CheckForMisbehaviour (NewLightClientModule E sp) (chain w) i (HeaderMsg h) \<Longrightarrow>
      \<exists>ctx. \<forall>hs g'. Module_UpdateState (NewLightClientModule E sp) V ctx (chain w) i (HeaderMsg h) = Ok (hs, g') \<longrightarrow> chain w' = g'"
    and created: "executed N [MsgCreateClient c cs s] w w' \<Longrightarrow> \<forall>i. view E (ClientStore sp (chain w) i) = empty_view \<Longrightarrow>
      \<exists>ctx cbz sbz. Unmarshal_into_ClientState (cdc E) cbz = Inr c \<and> Unmarshal_into_ConsensusState (cdc E) sbz = Inr cs
        \<and> (\<forall>g'. Module_Initialize (NewLightClientModule E sp) ctx (chain w) groth16ClientID cbz sbz = Ok g' \<longrightarrow> chain w' = g')"
    and packets: "executed N [SendPacketMsg p] w w' \<Longrightarrow> chain w' = chain w"
      "executed N [RecvPacketMsg m] w w' \<Longrightarrow> chain w' = chain w"
      "executed N [MsgRegisterCounterparty i ps j s] w w' \<Longrightarrow> chain w' = chain w"
begin

lemma both: "simapp_view N (\<lambda>w. (sent w, chain w))"
  by (rule simapp_view_pair[OF simapp_view_axioms chain_view])

lemma seen_client:
  assumes "relayer_getClientState N w = (Ok c, w')"
  shows "getClientState E (ClientStore sp (chain w) groth16ClientID) = Ok (Some c)"
proof -
  obtain ctx v b where st: "SetupClientContext N w = (Ok ctx, v)" "QueryClientState N groth16ClientID v = (Ok b, w')"
      "UnpackClientState N b = Inr (Some c)"
    using assms by (auto simp: relayer_getClientState_def io_Ok_simps wrap_out_eq_Ok of_result_eq_Ok split: option.splits)
  have "quiet chain (SetupClientContext N)"
    using quiet_net.context_quiet simapp_view.axioms(1)[OF chain_view] by blast
  then have "chain v = chain w" using st(1) by (rule quietD)
  then show ?thesis using queried[OF st(2,3)] by simp
qed

lemma trusted_is_latest:
  assumes "getHeader L N blk w = (Ok h, w')" and "getClientState E (ClientStore sp (chain w) groth16ClientID) = Ok (Some c)"
  shows "TrustedHeight h = LatestHeight c"
proof -
  obtain c' v v' where "chain v = chain w" "relayer_getClientState N v = (Ok c', v')" "TrustedHeight h = LatestHeight c'"
    using quiet_net.header_trusted[OF simapp_view.axioms(1)[OF chain_view] assms(1)] by blast
  with seen_client[of v c' v'] assms(2) show ?thesis by simp
qed

text \<open>An accepted header above the latest height, once its update is executed.\<close>

lemma executed_update:
  assumes "executed N [MsgUpdateClient i h s] w w'" and "keeper_reach E sp V (chain w)"
    and "getClientState E (ClientStore sp (chain w) i) = Ok (Some c)" and "prover_accepts V c h"
    and "TrustedHeight h = LatestHeight c" and "LatestHeight c < NewestHeight h"
  shows "\<exists>ctx. Module_VerifyClientMessage (NewLightClientModule E sp) (chain w) i (HeaderMsg h) = Ok ()
    \<and> Module_UpdateState (NewLightClientModule E sp) V ctx (chain w) i (HeaderMsg h) = Ok ([GetHeight h], chain w')
    \<and> keeper_reach E sp V (chain w')
    \<and> view_client E (ClientStore sp (chain w') i) = Some (c\<lparr>LatestHeight := NewestHeight h\<rparr>)
    \<and> view_cons E (ClientStore sp (chain w') i) (GetHeight h) = Some (header_consensus h)"
proof -
  have c: "view_client E (ClientStore sp (chain w) i) = Some c" using assms(3) by (simp add: view_client_eq)
  have "Module_VerifyClientMessage M (chain w) i (HeaderMsg h) = Ok ()"
    by (rule keeper_update[OF assms(2) marshal c assms(4-6)])
  then obtain ctx where x: "\<And>hs g'. Module_UpdateState M V ctx (chain w) i (HeaderMsg h) = Ok (hs, g') \<Longrightarrow> chain w' = g'"
    using updated[OF assms(1)] by (auto simp: Module_CheckForMisbehaviour_def)
  show ?thesis
    by (rule keeper_update[OF assms(2) marshal c assms(4-6), of ctx]) (use x in blast)
qed

lemma executed_create:
  assumes "executed N [MsgCreateClient c cs s] w w'" and "keeper_reach E sp V (chain w)"
    and "\<forall>i. view E (ClientStore sp (chain w) i) = empty_view"
  shows "keeper_reach E sp V (chain w')"
    and "getClientState E (ClientStore sp (chain w') groth16ClientID) = Ok (Some c)"
proof -
  obtain ctx cbz sbz where u: "Unmarshal_into_ClientState (cdc E) cbz = Inr c" "Unmarshal_into_ConsensusState (cdc E) sbz = Inr cs"
      and x: "\<And>g'. Module_Initialize M ctx (chain w) groth16ClientID cbz sbz = Ok g' \<Longrightarrow> chain w' = g'"
    using created[OF assms(1,3)] by blast
  obtain t where "store_height E ctx (ClientStore sp (chain w) groth16ClientID) c cs (GetLatestClientHeight c) = Ok t"
    using store_height_total[OF marshal] by blast
  then have "\<exists>g'. Module_Initialize M ctx (chain w) groth16ClientID cbz sbz = Ok g'"
    using u unfolding Module_Initialize_Ok by (auto simp: initialize_store_height client_store_M)
  then have i: "Module_Initialize M ctx (chain w) groth16ClientID cbz sbz = Ok (chain w')" using x by blast
  show "keeper_reach E sp V (chain w')" using keeper_reach.create[OF assms(2) _ i] assms(3) by blast
  show "getClientState E (ClientStore sp (chain w') groth16ClientID) = Ok (Some c)" by (rule initialize_stores(2)[OF i u])
qed

text \<open>A transfer back, from the run of the relayer to the client stores of the chain.\<close>

lemma transfer_back_verified:
  assumes "transferBack L packAny jm P leftPad slot N polls w = (Ok (), w')"
    and "\<forall>h h'. packAny h = Inr h' \<longrightarrow> h' = h" and "\<forall>p bz. jm p = Inr bz \<longrightarrow> json_MptProof X bz = Inr p"
    and "honest_prover N V c n root" and "honest_node N X n root val" and "keeper_reach E sp V (chain w)"
    and "getClientState E (ClientStore sp (chain w) groth16ClientID) = Ok (Some c)" and "LatestHeight c < n"
  shows "\<exists>h m ctx. sent w' = sent w @ [MsgUpdateClient groth16ClientID h sender, RecvPacketMsg m] \<and> ProofHeight m = Height 0 n
    \<and> Module_VerifyClientMessage M (chain w) groth16ClientID (HeaderMsg h) = Ok ()
    \<and> Module_UpdateState M V ctx (chain w) groth16ClientID (HeaderMsg h) = Ok ([Height 0 n], chain w')
    \<and> keeper_reach E sp V (chain w')
    \<and> getClientState E (ClientStore sp (chain w') groth16ClientID) = Ok (Some (c\<lparr>LatestHeight := n\<rparr>))
    \<and> (\<forall>dt db path. VerifyMembership M X (chain w') groth16ClientID (Height 0 n) dt db (ProofCommitment m) path
        (val (GetCommitmentsStorageKey P leftPad slot
          (packetCommitmentPath (pkt_SourceClient (recv_Packet m)) (pkt_Sequence (recv_Packet m))))) = Ok ())"
proof -
  obtain pkt p m h addr ws w1 w2 w3 w4 v1 v2 v3 v4 where st: "sendTransferBackMsg N polls ws = (Ok (pkt, n), w1)"
      "query_mpt_proof P leftPad slot N (packetCommitmentPath (pkt_SourceClient pkt) (pkt_Sequence pkt)) addr n w1 = (Ok p, w2)"
      "chain w3 = chain w" "getHeader L N n w3 = (Ok h, w4)" "createMsgRecvPacket jm pkt p n = Ok m"
      and x: "sent v1 = sent w" "chain v1 = chain w" "executed N [MsgUpdateClient groth16ClientID h sender] v1 v2"
      "sent v3 = sent v2" "chain v3 = chain v2" "executed N [RecvPacketMsg m] v3 v4" "sent w' = sent v4" "chain w' = chain v4"
    using simapp_view.transfer_back_obs[OF both assms(1)] assms(2) honest_block[OF assms(5)]
    by (elim exE conjE) (simp, metis)
  note m = createMsgRecvPacket_Ok[OF st(5)] and hdr = honest_header[OF assms(4) st(4)]
  have c: "getClientState E (ClientStore sp (chain v1) groth16ClientID) = Ok (Some c)" using assms(7) x(2) by simp
  have t: "TrustedHeight h = LatestHeight c" using trusted_is_latest[OF st(4)] assms(7) st(3) by simp
  have chain: "chain w' = chain v2" using x packets(2) by simp
  obtain ctx where up: "Module_VerifyClientMessage M (chain w) groth16ClientID (HeaderMsg h) = Ok ()"
      "Module_UpdateState M V ctx (chain w) groth16ClientID (HeaderMsg h) = Ok ([Height 0 n], chain w')" "keeper_reach E sp V (chain w')"
      "view_client E (ClientStore sp (chain w') groth16ClientID) = Some (c\<lparr>LatestHeight := n\<rparr>)"
      "view_cons E (ClientStore sp (chain w') groth16ClientID) (Height 0 n) = Some (header_consensus h)"
    using executed_update[OF x(3) _ c hdr(3) t] assms(6,8) x(2) hdr(1) chain by (auto simp: GetHeight_def)
  have json: "json_MptProof X (ProofCommitment m) = Inr p" using assms(3) m by blast
  have ev: "membership_evidence X (StateRoot (header_consensus h)) p (val (GetCommitmentsStorageKey P leftPad slot
      (packetCommitmentPath (pkt_SourceClient pkt) (pkt_Sequence pkt))))"
    using honest_proof[OF assms(5) st(2)] hdr(2) by (simp add: header_consensus_def)
  have "sent w' = sent w @ [MsgUpdateClient groth16ClientID h sender, RecvPacketMsg m]"
    using x executed_sent[OF x(3)] executed_sent[OF x(6)] by simp
  with up m membership_at[OF _ up(5) json ev] show ?thesis by (auto simp: view_client_eq)
qed

end

section \<open>The example roll-up\<close>

definition ex_commitment_key :: hash where
  "ex_commitment_key = GetCommitmentsStorageKey leaf_lib (\<lambda>b n. b) [1]
     (packetCommitmentPath (pkt_SourceClient ex_packet) (pkt_Sequence ex_packet))"

definition ex_flow_proof :: MptProof where
  "ex_flow_proof = slot_proof (ex_get_proof ex_commitment_key) (hd (gp_StorageProof (ex_get_proof ex_commitment_key)))"

definition ex_flow_json :: "MptProof \<Rightarrow> error + bytes" where
  "ex_flow_json p = (if p = ex_flow_proof then Inr [1] else Inl (Errorf ''json''))"

definition ex_flow_eth :: "mem EthLib" where
  "ex_flow_eth = ex_eth\<lparr>json_MptProof := (\<lambda>bz. if bz = [1] then Inr ex_flow_proof else Inl (Errorf ''json''))\<rparr>"

lemma toy_hash_slot: "toy_hash (toy_hash k @ ex_slot) = ex_slot" "toy_hash ex_slot = ex_slot" "length (toy_hash k) = 32"
  by (simp_all add: toy_hash_def ex_slot_def)

lemma ex_honest_prover: "honest_prover ex_net ex_prover c 7 ex_slot"
proof -
  have "blevm_NewestHeight ex_out = 7" "blevm_NewestStateRoot ex_out = ex_slot" by (simp_all add: ex_out_def)
  then show ?thesis
    using ex_out_wf by (auto simp: honest_prover_def ex_ops prover_accepts_def ex_prover_def verifyProofRequest_def)
qed

lemma ex_account_leaf:
  "VerifyMerklePatriciaTrieProof leaf_lib ex_slot (toy_hash [4]) [toy_hash [4] @ replicate 8 0 @ ex_slot] =
     Ok (Some (replicate 8 0 @ ex_slot))"
  by code_simp

lemma ex_storage_leaf: "VerifyMerklePatriciaTrieProof leaf_lib ex_slot (toy_hash k) [toy_hash k @ ex_slot] = Ok (Some ex_slot)"
  using toy_hash_slot(3)[of k]
  by (simp add: VerifyMerklePatriciaTrieProof_def ReconstructProofDB_def nodeKey_def leaf_lib_def leaf_verify_def toy_hash_slot)

lemma ex_slot_evidence:
  "membership_evidence ex_flow_eth ex_slot (slot_proof (ex_get_proof k) (hd (gp_StorageProof (ex_get_proof k)))) (replicate 31 42)"
proof -
  have "be64 0 = replicate 8 0" by code_simp
  moreover have "big_Bytes 0 = []" by (simp add: big_Bytes.simps)
  ultimately show ?thesis
    using ex_account_leaf ex_storage_leaf[of k]
    by (simp add: membership_evidence_def ex_flow_eth_def ex_eth_def slot_proof_def ex_get_proof_def bytes_Equal_def
        toy_hash_slot) (simp add: leaf_lib_def ex_slot_def)
qed

lemma ex_honest_node: "honest_node ex_net ex_flow_eth 7 ex_slot (\<lambda>_. replicate 31 42)"
proof -
  have "gp_StorageProof (ex_get_proof k) = [hd (gp_StorageProof (ex_get_proof k))]
      \<and> sp_Key (hd (gp_StorageProof (ex_get_proof k))) = k" for k
    by (simp add: ex_get_proof_def)
  then show ?thesis using ex_slot_evidence by (fastforce simp: honest_node_def ex_ops ex_rcpt_def)
qed

lemma ex_flow_query:
  "query_mpt_proof leaf_lib (\<lambda>b n. b) [1] ex_net
     (packetCommitmentPath (pkt_SourceClient ex_packet) (pkt_Sequence ex_packet)) a n = (\<lambda>w. (Ok ex_flow_proof, w))"
  unfolding ex_flow_proof_def ex_commitment_key_def
  by (rule ext) (simp add: query_mpt_proof_def io_run ex_ops getMPTProof_def ex_get_proof_def slot_proof_def Let_def)

lemma ex_flow_json_simps:
  "ex_flow_json ex_flow_proof = Inr [1]" "\<forall>p bz. ex_flow_json p = Inr bz \<longrightarrow> json_MptProof ex_flow_eth bz = Inr p"
  by (auto simp: ex_flow_json_def ex_flow_eth_def)

text \<open>The example world runs the light client module on its chain.\<close>

lemma ex_executed: "executed ex_net [msg] w w' \<Longrightarrow> ex_chain w' = ex_deliver msg (ex_chain w)"
  by (auto simp: executed_def ex_ops)

interpretation ex_chain_net: chain_net ex_net ex_sent mem_env fun_provider ex_prover ex_chain
proof (intro chain_net.intro ex_observed.observed_net_axioms mem_lc.light_client_axioms chain_net_axioms.intro)
  fix i w b w' c
  assume "QueryClientState ex_net i w = (Ok b, w')" "UnpackClientState ex_net b = Inr (Some c)"
  then show "getClientState mem_env (ClientStore fun_provider (ex_chain w) i) = Ok (Some c)"
    by (auto simp: ex_ops ex_query_client_def fun_provider_def split: outcome.splits option.splits)
next
  fix i h s w w'
  assume x: "executed ex_net [MsgUpdateClient i h s] w w'"
    and v: "Module_VerifyClientMessage (NewLightClientModule mem_env fun_provider) (ex_chain w) i (HeaderMsg h) = Ok ()"
  then show "\<exists>ctx. \<forall>hs g'. Module_UpdateState (NewLightClientModule mem_env fun_provider) ex_prover ctx (ex_chain w) i (HeaderMsg h)
      = Ok (hs, g') \<longrightarrow> ex_chain w' = g'"
    using ex_executed[OF x] by (intro exI[of _ ex_ctx]) (simp add: ex_module_def)
next
  fix c cs s w w'
  assume x: "executed ex_net [MsgCreateClient c cs s] w w'"
  then show "\<exists>ctx cbz sbz. Unmarshal_into_ClientState (cdc mem_env) cbz = Inr c
      \<and> Unmarshal_into_ConsensusState (cdc mem_env) sbz = Inr cs
      \<and> (\<forall>g'. Module_Initialize (NewLightClientModule mem_env fun_provider) ctx (ex_chain w) groth16ClientID cbz sbz = Ok g' \<longrightarrow> ex_chain w' = g')"
    using ex_executed[OF x] ex_unmarshal by (intro exI[of _ ex_ctx] exI[of _ "mini_put_client c"] exI[of _ "mini_put_consensus cs"])
      (simp add: ex_module_def)
next
  show "simapp_view ex_net ex_chain"
    by unfold_locales (auto simp: ex_net_def ex_query_quiet, auto simp: quiet_def)
next
  show "marshal_total (cdc mem_env)" by (simp add: marshal_total_mini)
qed (use ex_executed in \<open>auto simp: ex_executed\<close>)

lemma ex_late_reach: "keeper_reach mem_env fun_provider ex_prover (ex_chain ex_late)"
proof -
  obtain g where g: "Module_Initialize ex_module ex_ctx (\<lambda>_. fmempty) groth16ClientID (mini_put_client ex_client)
      (mini_put_consensus (ex_cons 50 [6])) = Ok g"
    by (rule ex_create_any)
  then have "ex_chain ex_late = g" by (simp add: ex_late_def)
  then show ?thesis
    using keeper_reach.create[OF ex_genesis _ g[unfolded ex_module_def]] by (simp add: fun_provider_def view_empty empty_view_def)
qed

section \<open>Property\<close>



end
