(* ===== verification/Setup.thy ===== *)
theory Setup
  imports Relayer_Runs
begin

text \<open>
  The setup of the demo, \<^verbatim>\<open>testing/demo/pkg/setup\<close>: creating the Groth16 light client on SimApp from
  the roll-up's blocks and the prover's keys, deploying the contracts and creating the Tendermint
  client on the roll-up, and registering the counterparty.
\<close>

section \<open>Constants and the outside world\<close>

definition relayer :: bytes where "relayer = str ''cosmos1ltvzpwf3eg8e9s7wzleqdmw02lesrdex9jgt0q''"
definition merklePrefix :: "bytes list" where "merklePrefix = [str ''ibc'', []]"
definition simappRPC :: bytes where "simappRPC = str ''http://localhost:5123''"

record Block =
  blk_Number :: u64
  blk_Root :: bytes
  blk_Time :: u64

record ClientAdded =
  added_ClientId :: bytes
  added_Counterparty :: bytes

text \<open>A block is asked for by number, or the latest one. \<open>Getenv\<close> reads the environment after the
  \<^verbatim>\<open>.env\<close> file is loaded; \<open>Forge\<close> runs the deployment script with extra environment.\<close>

record 'w SetupNet =
  net :: "'w Net"
  BlockByNumber :: "u64 option \<Rightarrow> ('w, Block) io"
  EvmProverInfo :: "('w, InfoResponse) io"
  ReadGroth16Vk :: "('w, bytes) io"
  PackClientState :: "ClientState \<Rightarrow> error + ClientState"
  PackConsensusState :: "ConsensusState \<Rightarrow> error + ConsensusState"
  LoadDotEnv :: "('w, unit) io"
  EnvVar :: "string \<Rightarrow> string"
  Forge :: "string list \<Rightarrow> ('w, unit) io"
  AddClient :: "u64 \<times> nat \<Rightarrow> bytes \<Rightarrow> bytes \<Rightarrow> bytes list \<Rightarrow> bytes \<Rightarrow> ('w, hash) io"
  ParseClientAdded :: "bytes \<Rightarrow> ClientAdded option \<times> error option"

section \<open>Events\<close>

fun getAttributeByKey :: "EventAttr list \<Rightarrow> bytes \<Rightarrow> EventAttr option" where
  "getAttributeByKey [] key = None"
| "getAttributeByKey (a # as) key = (if attr_Key a = key then Some a else getAttributeByKey as key)"

text \<open>The event type and the attribute key are constants of the IBC client module.\<close>

fun parseClientIDFromEvents :: "bytes \<Rightarrow> bytes \<Rightarrow> TxEvent list \<Rightarrow> bytes outcome" where
  "parseClientIDFromEvents createType clientIdKey [] = Fail (Errorf ''client identifier event attribute not found'')"
| "parseClientIDFromEvents createType clientIdKey (event # events) =
     (if event_Type event = createType then
        (case getAttributeByKey (Attributes event) clientIdKey of
           Some attribute \<Rightarrow> Ok (attr_Value attribute)
         | None \<Rightarrow> parseClientIDFromEvents createType clientIdKey events)
      else parseClientIDFromEvents createType clientIdKey events)"

text \<open>The loop of \<^verbatim>\<open>getEvmEvent\<close> keeps the event and the error of the last call; unlike the relayer's
  function it returns both.\<close>

fun scan_logs :: "('l \<Rightarrow> 'e option \<times> error option) \<Rightarrow> 'e option \<times> error option \<Rightarrow> 'l list \<Rightarrow> 'e option \<times> error option" where
  "scan_logs parseFn r [] = r"
| "scan_logs parseFn r (l # ls) =
     (case parseFn l of (Some e, None) \<Rightarrow> (Some e, None) | r' \<Rightarrow> scan_logs parseFn r' ls)"

definition getEvmEvent :: "'l list \<Rightarrow> ('l \<Rightarrow> 'e option \<times> error option) \<Rightarrow> 'e outcome" where
  "getEvmEvent logs parseFn =
     (case scan_logs parseFn (None, None) logs of
        (None, _) \<Rightarrow> Fail (Errorf ''event not found'')
      | (Some e, Some err) \<Rightarrow> Fail err
      | (Some e, None) \<Rightarrow> Ok e)"

section \<open>The Groth16 light client\<close>

text \<open>\<open>attempts\<close> counts down from 30; the delay is five seconds.\<close>

fun latest_block_loop :: "'w SetupNet \<Rightarrow> nat \<Rightarrow> ('w, Block) io" where
  "latest_block_loop S 0 w = (Fail (Errorf ''timed out waiting for a block with height > 0''), w)"
| "latest_block_loop S (Suc attempts) w =
     (case BlockByNumber S None w of
        (Ok latestBlock, w') \<Rightarrow>
          if blk_Number latestBlock > 0 then (Ok latestBlock, w')
          else if attempts = 0 then (Fail (Errorf ''timed out waiting for a block with height > 0''), w')
          else latest_block_loop S attempts (Sleep (net S) 5 w')
      | (Fail e, w') \<Rightarrow> (Fail (Wrap ''failed to get latest block'' e), w')
      | (Panic e, w') \<Rightarrow> (Panic e, w'))"

definition getGenesisAndLatestBlock :: "'w SetupNet \<Rightarrow> ('w, Block \<times> Block) io" where
  "getGenesisAndLatestBlock S =
     io_bind (io_wrap ''failed to get genesis block'' (BlockByNumber S (Some 0)))
       (\<lambda>genesisBlock. io_bind (latest_block_loop S 30) (\<lambda>latestBlock. io_ret (genesisBlock, latestBlock)))"

definition getEvmProverInfo :: "'w SetupNet \<Rightarrow> ('w, InfoResponse) io" where
  "getEvmProverInfo S =
     io_bind (io_out (wrap_out ''failed to connect to evm prover'' (of_result (GrpcClient (net S)))))
       (\<lambda>_. io_wrap ''failed to get evm prover info'' (EvmProverInfo S))"

definition getGroth16Vk :: "'w SetupNet \<Rightarrow> ('w, bytes) io" where
  "getGroth16Vk S = io_wrap ''failed to open vk file'' (ReadGroth16Vk S)"

definition createClientAndConsensusState :: "IBCLib \<Rightarrow> 'w SetupNet \<Rightarrow> ('w, ClientState \<times> ConsensusState) io" where
  "createClientAndConsensusState L S =
     io_bind (io_wrap ''failed to connect to Ethereum client'' (Dial (net S)))
       (\<lambda>_.
     io_bind (getGenesisAndLatestBlock S)
       (\<lambda>(genesisBlock, latestBlock).
     io_bind (io_wrap ''failed to get evm prover info'' (getEvmProverInfo S))
       (\<lambda>evmProverInfo.
     let stateMembershipVerifierKey = []; codeCommitment = [] in
     io_bind (io_wrap ''failed to get groth16 vk'' (getGroth16Vk S))
       (\<lambda>groth16Vk.
     let clientState = NewClientState (blk_Number latestBlock) (StateTransitionVerifierKeyStr evmProverInfo)
           stateMembershipVerifierKey groth16Vk codeCommitment (blk_Root genesisBlock) in
     io_bind (io_out (wrap_out ''failed to create client state any'' (of_result (PackClientState S clientState))))
       (\<lambda>clientStateAny.
     let consensusState = NewConsensusState L (sint (blk_Time latestBlock) * 1000000000) (blk_Root latestBlock) in
     io_bind (io_out (wrap_out ''failed to create consensus state any'' (of_result (PackConsensusState S consensusState))))
       (\<lambda>consensusStateAny. io_ret (clientStateAny, consensusStateAny)))))))"

text \<open>The result is the identifier that the source prints.\<close>

definition CreateGroth16LightClient :: "IBCLib \<Rightarrow> bytes \<Rightarrow> bytes \<Rightarrow> 'w SetupNet \<Rightarrow> nat \<Rightarrow> ('w, bytes) io" where
  "CreateGroth16LightClient L createType clientIdKey S polls =
     io_bind (io_wrap ''failed to setup client context'' (SetupClientContext (net S)))
       (\<lambda>_.
     io_bind (createClientAndConsensusState L S)
       (\<lambda>(clientState, consensusState).
     io_bind (io_wrap ''failed to create Groth16 light client on simapp''
        (BroadcastMessages (net S) polls relayer 200000 [MsgCreateClient clientState consensusState relayer]))
       (\<lambda>resp.
     if tx_Code resp \<noteq> 0 then io_fail (Errorf ''failed to create Groth16 light client on simapp'')
     else io_out (wrap_out ''failed to parse client id from events''
       (parseClientIDFromEvents createType clientIdKey (tx_Events resp))))))"

section \<open>The Tendermint light client and the counterparty\<close>

definition CheckEthereumNodeHealth :: "'w SetupNet \<Rightarrow> ('w, unit) io" where
  "CheckEthereumNodeHealth S =
     io_bind (io_wrap ''failed to connect to ethereum client'' (Dial (net S)))
       (\<lambda>_. io_bind (io_wrap ''ethereum node is not responding correctly'' (BlockByNumber S None)) (\<lambda>_. io_ret ()))"

definition forge_env :: "'w SetupNet \<Rightarrow> string list" where
  "forge_env S =
     (if EnvVar S ''SP1_PROVER'' = ''mock'' then [''VERIFIER=mock''] else [])
     @ [''E2E_FAUCET_ADDRESS='' @ EnvVar S ''E2E_FAUCET_ADDRESS'', ''PRIVATE_KEY='' @ EnvVar S ''PRIVATE_KEY'']"

definition deployEurekaContracts :: "'w SetupNet \<Rightarrow> ('w, unit) io" where
  "deployEurekaContracts S =
     io_bind (io_wrap ''error loading .env file'' (LoadDotEnv S))
       (\<lambda>_. io_bind (io_wrap ''failed to deploy contracts'' (Forge S (forge_env S)))
       (\<lambda>_. io_bind (ExtractDeployedContractAddresses (net S)) (\<lambda>_. io_ret ())))"

text \<open>Here a failing nonce query panics, and no gas limit is set.\<close>

definition setup_getTransactOpts :: "'w SetupNet \<Rightarrow> ('w, u64 \<times> nat) io" where
  "setup_getTransactOpts S =
     io_bind (io_must (PendingNonceAt (net S)))
       (\<lambda>nonce. io_bind (io_must (SuggestGasPrice (net S))) (\<lambda>gasPrice. io_ret (nonce, gasPrice)))"

definition getTxReceipt :: "'w SetupNet \<Rightarrow> nat \<Rightarrow> hash \<Rightarrow> ('w, Receipt option) io" where
  "getTxReceipt S polls h =
     run_captured (WaitForCondition (captured_sleep (Sleep (net S))) polls 1 (query_receipt_once (net S) h)) None"

text \<open>The status of the receipt is not looked at.\<close>

definition addClientToRouter :: "'w SetupNet \<Rightarrow> nat \<Rightarrow> ContractAddresses \<Rightarrow> ('w, unit) io" where
  "addClientToRouter S polls addresses =
     io_bind (io_out (wrap_out ''failed to convert private key'' (of_result (ToECDSA (net S)))))
       (\<lambda>_.
     io_bind (io_wrap ''failed to connect to ethereum client'' (Dial (net S)))
       (\<lambda>_.
     io_bind (io_out (wrap_out ''failed to instantiate ICS router contract'' (of_result (NewContract (net S) (ICS26Router addresses)))))
       (\<lambda>_.
     io_bind (setup_getTransactOpts S)
       (\<lambda>opts.
     io_bind (io_wrap ''failed to add Tendermint light client to router''
        (AddClient S opts tendermintClientID groth16ClientID merklePrefix (ICS07Tendermint addresses)))
       (\<lambda>h.
     io_bind (io_wrap ''failed to get transaction receipt'' (getTxReceipt S polls h))
       (\<lambda>receipt.
     case receipt of
       None \<Rightarrow> io_out (Panic ErrNilPointer)
     | Some r \<Rightarrow> io_bind (io_out (wrap_out ''failed to get event'' (getEvmEvent (Logs r) (ParseClientAdded S)))) (\<lambda>_. io_ret ())))))))"

definition CreateTendermintLightClient :: "'w SetupNet \<Rightarrow> nat \<Rightarrow> ('w, unit) io" where
  "CreateTendermintLightClient S polls =
     io_bind (io_wrap ''simapp node is not healthy'' (CheckSimappNodeHealth (net S) simappRPC 10))
       (\<lambda>_.
     io_bind (io_wrap ''ethereum node is not healthy'' (CheckEthereumNodeHealth S))
       (\<lambda>_.
     io_bind (deployEurekaContracts S)
       (\<lambda>_.
     io_bind (ExtractDeployedContractAddresses (net S))
       (\<lambda>addresses. addClientToRouter S polls addresses))))"

definition RegisterCounterparty :: "'w SetupNet \<Rightarrow> nat \<Rightarrow> ('w, unit) io" where
  "RegisterCounterparty S polls =
     io_bind (io_wrap ''failed to setup client context'' (SetupClientContext (net S)))
       (\<lambda>_.
     io_bind (io_wrap ''failed to register counterparty on simapp''
        (BroadcastMessages (net S) polls relayer 500000
           [MsgRegisterCounterparty groth16ClientID merklePrefix tendermintClientID relayer]))
       (\<lambda>resp. if tx_Code resp \<noteq> 0 then io_fail (Errorf ''failed to register counterparty on simapp'') else io_ret ()))"

text \<open>An error of a step ends the process.\<close>

definition setup_main :: "IBCLib \<Rightarrow> bytes \<Rightarrow> bytes \<Rightarrow> 'w SetupNet \<Rightarrow> nat \<Rightarrow> ('w, unit) io" where
  "setup_main L createType clientIdKey S polls =
     io_bind (io_must (io_wrap ''Failed to create Groth16 light client'' (CreateGroth16LightClient L createType clientIdKey S polls)))
       (\<lambda>_. io_bind (io_must (io_wrap ''Failed to create Tendermint light client'' (CreateTendermintLightClient S polls)))
       (\<lambda>_. io_must (io_wrap ''Failed to register counterparty on simapp'' (RegisterCounterparty S polls))))"

section \<open>What the setup stores\<close>

lemma latest_block_loop_Ok:
  "latest_block_loop S n w = (Ok b, w') \<Longrightarrow> blk_Number b > 0 \<and> (\<exists>w1. BlockByNumber S None w1 = (Ok b, w'))"
  by (induction n arbitrary: w) (auto split: prod.splits outcome.splits if_splits)

lemma createClientAndConsensusState_Ok:
  assumes "createClientAndConsensusState L S w = (Ok (c, cons), w')"
    and "\<forall>x y. PackClientState S x = Inr y \<longrightarrow> y = x" and "\<forall>x y. PackConsensusState S x = Inr y \<longrightarrow> y = x"
  shows "\<exists>b w2 w3. BlockByNumber S None w2 = (Ok b, w3) \<and> blk_Number b > 0 \<and> LatestHeight c = blk_Number b
    \<and> cons = NewConsensusState L (sint (blk_Time b) * 1000000000) (blk_Root b)
    \<and> (\<exists>gen w0 w1. BlockByNumber S (Some 0) w0 = (Ok gen, w1) \<and> GenesisStateRoot c = blk_Root gen)"
proof -
  obtain gen b info vk wa wb wc wd we where "Dial (net S) w = (Ok (), wa)" and g: "getGenesisAndLatestBlock S wa = (Ok (gen, b), wb)"
    and "getEvmProverInfo S wb = (Ok info, wc)" "getGroth16Vk S wc = (Ok vk, wd)"
    and c: "PackClientState S (NewClientState (blk_Number b) (StateTransitionVerifierKeyStr info) [] vk [] (blk_Root gen)) = Inr c"
      "PackConsensusState S (NewConsensusState L (sint (blk_Time b) * 1000000000) (blk_Root b)) = Inr cons"
    using assms(1)
    by (auto simp: createClientAndConsensusState_def io_Ok_simps wrap_out_eq_Ok of_result_eq_Ok Let_def split: prod.splits)
  moreover obtain wg where "BlockByNumber S (Some 0) wa = (Ok gen, wg)" "latest_block_loop S 30 wg = (Ok b, wb)"
    using g by (auto simp: getGenesisAndLatestBlock_def io_Ok_simps)
  moreover have "LatestHeight c = blk_Number b" "GenesisStateRoot c = blk_Root gen"
      "cons = NewConsensusState L (sint (blk_Time b) * 1000000000) (blk_Root b)"
  proof -
    have "c = NewClientState (blk_Number b) (StateTransitionVerifierKeyStr info) [] vk [] (blk_Root gen)"
      using c(1) assms(2) by blast
    then show "LatestHeight c = blk_Number b" "GenesisStateRoot c = blk_Root gen" by (simp_all add: NewClientState_def)
    show "cons = NewConsensusState L (sint (blk_Time b) * 1000000000) (blk_Root b)" using c(2) assms(3) by blast
  qed
  ultimately show ?thesis using latest_block_loop_Ok[of S 30 wg b wb] by blast
qed

definition ex_setup :: "ex_world SetupNet" where
  "ex_setup = \<lparr>net = ex_net,
     BlockByNumber = (\<lambda>n w. (Ok (if n = None then \<lparr>blk_Number = 5, blk_Root = [6], blk_Time = 50\<rparr>
        else \<lparr>blk_Number = 0, blk_Root = [5], blk_Time = 0\<rparr>), w)),
     EvmProverInfo = (\<lambda>w. (Ok \<lparr>StateMembershipVerifierKeyStr = [], StateTransitionVerifierKeyStr = [2]\<rparr>, w)),
     ReadGroth16Vk = (\<lambda>w. (Ok [3], w)), PackClientState = Inr, PackConsensusState = Inr, LoadDotEnv = (\<lambda>w. (Ok (), w)),
     EnvVar = (\<lambda>_. []), Forge = (\<lambda>_ w. (Ok (), w)), AddClient = (\<lambda>_ _ _ _ _ w. (Ok [1], w)),
     ParseClientAdded = (\<lambda>_. (Some \<lparr>added_ClientId = [], added_Counterparty = []\<rparr>, None))\<rparr>"

definition ex_created :: ClientState where
  "ex_created = NewClientState 5 [2] [] [3] [] [5]"

lemma ex_setup_creates:
  "createClientAndConsensusState std_lib ex_setup w = (Ok (ex_created, NewConsensusState std_lib 50000000000 [6]), w)"
proof -
  have "(30 :: nat) = Suc 29" by simp
  then have "latest_block_loop ex_setup 30 w = (Ok \<lparr>blk_Number = 5, blk_Root = [6], blk_Time = 50\<rparr>, w)"
    by (simp only: latest_block_loop.simps) (simp add: ex_setup_def)
  then have "getGenesisAndLatestBlock ex_setup w =
      (Ok (\<lparr>blk_Number = 0, blk_Root = [5], blk_Time = 0\<rparr>, \<lparr>blk_Number = 5, blk_Root = [6], blk_Time = 50\<rparr>), w)"
    by (simp add: getGenesisAndLatestBlock_def io_run) (simp add: ex_setup_def io_ret_def)
  moreover have "getEvmProverInfo ex_setup w = (Ok \<lparr>StateMembershipVerifierKeyStr = [], StateTransitionVerifierKeyStr = [2]\<rparr>, w)"
    by (simp add: getEvmProverInfo_def io_run ex_setup_def ex_ops)
  moreover have "getGroth16Vk ex_setup w = (Ok [3], w)" by (simp add: getGroth16Vk_def io_run ex_setup_def)
  moreover have "net ex_setup = ex_net" "PackClientState ex_setup = Inr" "PackConsensusState ex_setup = Inr"
    by (simp_all add: ex_setup_def)
  moreover have "sint (50 :: u64) = 50" by simp
  ultimately show ?thesis
    by (simp add: createClientAndConsensusState_def io_run ex_ops ex_created_def)
qed

section \<open>Properties\<close>

text \<open>
  C39. The client that the setup creates is usable: once SimApp has initialised it with the states that
  the setup made, the module reports it as active at the height of a latest block that the roll-up's
  node gave, which is not the genesis block, and the client holds the state root of this block at
  this height, so that packets of this block can be proven and later headers can refer to it.
\<close>

theorem setup_creates_active_client:
  assumes "light_client E sp" and "createClientAndConsensusState L S w = (Ok (c, cons), w')"
    and "\<forall>x y. PackClientState S x = Inr y \<longrightarrow> y = x" and "\<forall>x y. PackConsensusState S x = Inr y \<longrightarrow> y = x"
    and "Unmarshal_into_ClientState (cdc E) cbz = Inr c" and "Unmarshal_into_ConsensusState (cdc E) sbz = Inr cons"
    and "Module_Initialize (NewLightClientModule E sp) ctx g i cbz sbz = Ok g'"
  shows "\<exists>b w1 w2. BlockByNumber S None w1 = (Ok b, w2) \<and> blk_Number b > 0
    \<and> Module_Status (NewLightClientModule E sp) g' i = Ok Active
    \<and> Module_LatestHeight (NewLightClientModule E sp) g' i = Ok (Height 0 (blk_Number b))
    \<and> GetConsensusState E (ClientStore sp g' i) (Height 0 (blk_Number b)) = Ok cons
    \<and> StateRoot cons = blk_Root b
    \<and> (blk_Number b < NewestHeight h \<and> TrustedHeight h = blk_Number b \<longrightarrow>
        VerifyClientMessage E (ClientStore sp g' i) c (HeaderMsg h) = Ok ())"
proof -
  obtain b w1 w2 where b: "BlockByNumber S None w1 = (Ok b, w2)" "blk_Number b > 0" and h: "LatestHeight c = blk_Number b"
      and "cons = NewConsensusState L (sint (blk_Time b) * 1000000000) (blk_Root b)"
    using createClientAndConsensusState_Ok[OF assms(2-4)] by blast
  then have r: "StateRoot cons = blk_Root b" by (simp add: NewConsensusState_def)
  have env: "client_env E" using assms(1) by (simp add: light_client_def)
  have cons: "GetConsensusState E (ClientStore sp g' i) (Height 0 (blk_Number b)) = Ok cons"
    using light_client.initialize_stores(1)[OF assms(1,7,5,6)] h by simp
  have "Module_Status (NewLightClientModule E sp) g' i = Ok Active"
      "Module_LatestHeight (NewLightClientModule E sp) g' i = Ok (Height 0 (blk_Number b))"
    using light_client.initialize_query[OF assms(1,7)] assms(5) h by auto
  moreover have "blk_Number b < NewestHeight h \<and> TrustedHeight h = blk_Number b \<longrightarrow>
      VerifyClientMessage E (ClientStore sp g' i) c (HeaderMsg h) = Ok ()"
    using client_env.verifyHeader_Ok[OF env, of "ClientStore sp g' i" h "()"]
      client_env.view_cons_eq[OF env, of "ClientStore sp g' i" "Height 0 (blk_Number b)" cons] cons
    by (simp add: VerifyClientMessage_def)
  ultimately show ?thesis using b(1,2) cons r by blast
qed

theorem setup_creates_active_client_witness:
  "\<exists>g. Module_Status ex_module g ex_id = Ok Active \<and> Module_LatestHeight ex_module g ex_id = Ok (Height 0 5)"
proof -
  obtain g where g: "Module_Initialize ex_module ex_ctx (\<lambda>_. fmempty) ex_id (mini_put_client ex_created)
      (mini_put_consensus (NewConsensusState std_lib 50000000000 [6])) = Ok g"
    by (rule ex_create_any)
  have pack: "\<forall>x y. PackClientState ex_setup x = Inr y \<longrightarrow> y = x" "\<forall>x y. PackConsensusState ex_setup x = Inr y \<longrightarrow> y = x"
    and blk: "\<And>b w w'. BlockByNumber ex_setup None w = (Ok b, w') \<Longrightarrow> blk_Number b = 5"
    by (auto simp: ex_setup_def)
  from setup_creates_active_client[OF mem_lc.light_client_axioms ex_setup_creates pack ex_unmarshal g[unfolded ex_module_def]]
  obtain b w1 w2 where "BlockByNumber ex_setup None w1 = (Ok b, w2)"
      "Module_Status ex_module g ex_id = Ok Active" "Module_LatestHeight ex_module g ex_id = Ok (Height 0 (blk_Number b))"
    unfolding ex_module_def by blast
  then show ?thesis using blk by metis
qed

end
