(* ===== verification/Demo_Run.thy ===== *)
theory Demo_Run
  imports Packet_Flow Setup
begin

text \<open>
  The demo as a whole: the setup, a transfer to the roll-up and the transfer back, run one after the other
  against a chain with the light client module and a roll-up.
\<close>

section \<open>What the setup executes on SimApp\<close>

text \<open>The operations of the setup other than the broadcast change nothing on SimApp.\<close>

locale setup_view = simapp_view "net S" obs for S :: "'w SetupNet" and obs :: "'w \<Rightarrow> 'o" +
  assumes setup_quiet: "quiet obs (BlockByNumber S k)" "quiet obs (EvmProverInfo S)" "quiet obs (ReadGroth16Vk S)"
    "quiet obs (LoadDotEnv S)" "quiet obs (Forge S env)" "quiet obs (AddClient S opts i j path addr)"
begin

lemma block_loop_quiet: "quiet obs (latest_block_loop S n)"
proof -
  have "obs (snd (latest_block_loop S n w)) = obs w" for w
    using sleep_quiet quietD[OF setup_quiet(1)]
    by (induction n arbitrary: w) (auto split: prod.splits outcome.splits)
  then show ?thesis by (simp add: quiet_def)
qed

lemma states_quiet: "quiet obs (createClientAndConsensusState L S)"
  unfolding createClientAndConsensusState_def getGenesisAndLatestBlock_def getEvmProverInfo_def getGroth16Vk_def Let_def
  by (intro quiet_rules flow_quiet setup_quiet block_loop_quiet)

lemma setup_receipt_quiet: "quiet obs (getTxReceipt S polls h)"
proof -
  have "quiet (\<lambda>s. obs (fst s)) (query_receipt_once (net S) h)"
    using quietD[OF evm_quiet(6)]
    by (auto simp: quiet_def query_receipt_once_def split: prod.splits outcome.splits)
  then show ?thesis unfolding getTxReceipt_def
    by (intro quiet_captured quiet_wait) (simp_all add: captured_sleep_def sleep_quiet)
qed

lemma tendermint_quiet: "quiet obs (CreateTendermintLightClient S polls)"
  unfolding CreateTendermintLightClient_def CheckEthereumNodeHealth_def deployEurekaContracts_def addClientToRouter_def
    setup_getTransactOpts_def
  by (intro quiet_rules flow_quiet setup_quiet setup_receipt_quiet)

lemma create_obs:
  assumes "CreateGroth16LightClient L createType clientIdKey S polls w = (Ok i, w')"
  shows "\<exists>c cons u u' v v'. createClientAndConsensusState L S u = (Ok (c, cons), u')
    \<and> obs v = obs w \<and> executed (net S) [MsgCreateClient c cons relayer] v v' \<and> obs w' = obs v'"
proof -
  obtain ctx w1 c cons w2 resp where st: "SetupClientContext (net S) w = (Ok ctx, w1)"
      "createClientAndConsensusState L S w1 = (Ok (c, cons), w2)"
      "BroadcastMessages (net S) polls relayer 200000 [MsgCreateClient c cons relayer] w2 = (Ok resp, w')" "tx_Code resp = 0"
    using assms unfolding CreateGroth16LightClient_def by (fastforce simp: io_Ok_simps split: if_splits prod.splits)
  have "obs w2 = obs w" using quietD[OF context_quiet st(1)] quietD[OF states_quiet st(2)] by simp
  with broadcast_messages_obs[OF st(3,4)] st(2) show ?thesis by metis
qed

lemma register_obs:
  assumes "RegisterCounterparty S polls w = (Ok u, w')"
  shows "\<exists>v v'. obs v = obs w \<and> obs w' = obs v'
    \<and> executed (net S) [MsgRegisterCounterparty groth16ClientID merklePrefix tendermintClientID relayer] v v'"
proof -
  obtain ctx w1 resp where st: "SetupClientContext (net S) w = (Ok ctx, w1)" "tx_Code resp = 0"
      "BroadcastMessages (net S) polls relayer 500000
         [MsgRegisterCounterparty groth16ClientID merklePrefix tendermintClientID relayer] w1 = (Ok resp, w')"
    using assms unfolding RegisterCounterparty_def by (fastforce simp: io_Ok_simps split: if_splits)
  then show ?thesis using quietD[OF context_quiet st(1)] broadcast_messages_obs[OF st(3,2)] by metis
qed

lemma setup_obs:
  assumes "setup_main L createType clientIdKey S polls w = (Ok u, w')"
  shows "\<exists>c cons u u' v1 v2 v3 v4. createClientAndConsensusState L S u = (Ok (c, cons), u')
    \<and> obs v1 = obs w \<and> executed (net S) [MsgCreateClient c cons relayer] v1 v2 \<and> obs v3 = obs v2
    \<and> executed (net S) [MsgRegisterCounterparty groth16ClientID merklePrefix tendermintClientID relayer] v3 v4 \<and> obs w' = obs v4"
proof -
  obtain i w1 w2 where st: "CreateGroth16LightClient L createType clientIdKey S polls w = (Ok i, w1)"
      "CreateTendermintLightClient S polls w1 = (Ok (), w2)" "RegisterCounterparty S polls w2 = (Ok u, w')"
    using assms by (auto simp: setup_main_def io_Ok_simps io_must_eq_Ok)
  with create_obs[OF st(1)] register_obs[OF st(3)] quietD[OF tendermint_quiet st(2)] show ?thesis by metis
qed

end

section \<open>The run\<close>

context chain_net
begin

lemma client_active:
  assumes "getClientState E (ClientStore sp g i) = Ok (Some c)"
  shows "Module_Status M g i = Ok Active" "Module_LatestHeight M g i = Ok (Height 0 (LatestHeight c))"
  unfolding Module_Status_def Module_LatestHeight_def found_client_def
  using assms by (simp_all add: client_store_M status_def GetLatestClientHeight_def)

lemma setup_creates:
  assumes "setup_view S (\<lambda>w. (sent w, chain w))" and "net S = N" and "setup_main L createType clientIdKey S polls w = (Ok (), w')"
    and "keeper_reach E sp V (chain w)" and "\<forall>i. view E (ClientStore sp (chain w) i) = empty_view"
  shows "\<exists>c cons v v'. createClientAndConsensusState L S v = (Ok (c, cons), v')
    \<and> sent w' = sent w @ [MsgCreateClient c cons relayer, MsgRegisterCounterparty groth16ClientID merklePrefix tendermintClientID relayer]
    \<and> keeper_reach E sp V (chain w') \<and> getClientState E (ClientStore sp (chain w') groth16ClientID) = Ok (Some c)"
proof -
  obtain c cons u u' v1 v2 v3 v4 where made: "createClientAndConsensusState L S u = (Ok (c, cons), u')"
    and o: "sent v1 = sent w" "chain v1 = chain w" "executed N [MsgCreateClient c cons relayer] v1 v2" "sent v3 = sent v2" "chain v3 = chain v2"
      "executed N [MsgRegisterCounterparty groth16ClientID merklePrefix tendermintClientID relayer] v3 v4" "sent w' = sent v4" "chain w' = chain v4"
    using setup_view.setup_obs[OF assms(1,3)] unfolding assms(2) by blast
  have "chain w' = chain v2" using o packets(3) by simp
  then have "keeper_reach E sp V (chain w')" "getClientState E (ClientStore sp (chain w') groth16ClientID) = Ok (Some c)"
    using executed_create[OF o(3)] assms(4,5) o(2) by simp_all
  moreover have "sent w' = sent w @ [MsgCreateClient c cons relayer,
      MsgRegisterCounterparty groth16ClientID merklePrefix tendermintClientID relayer]"
    using o executed_sent[OF o(3)] executed_sent[OF o(6)] by simp
  ultimately show ?thesis using made by blast
qed

lemma transfer_leaves_clients:
  assumes "transferSimAppToEVM T N polls w = (Ok (), w')"
  shows "\<exists>msg. sent w' = sent w @ [SendPacketMsg msg] \<and> chain w' = chain w"
  using simapp_view.whole_transfer_obs[OF both assms] executed_sent packets(1) by (metis prod.inject)

end

section \<open>The example world\<close>

interpretation ex_setup_view: setup_view ex_setup "\<lambda>w. (ex_sent w, ex_chain w)"
proof (intro setup_view.intro setup_view_axioms.intro)
  show "simapp_view (net ex_setup) (\<lambda>w. (ex_sent w, ex_chain w))"
    using ex_chain_net.both by (simp add: ex_setup_def)
qed (simp_all add: ex_setup_def quiet_def)

definition ex_fresh :: ex_world where
  "ex_fresh = \<lparr>ex_clock = 20, ex_sent = [], ex_called = [], ex_chain = (\<lambda>_. fmempty)\<rparr>"

lemma ex_setup_ops: "net ex_setup = ex_net"
  "BlockByNumber ex_setup n w = (Ok (if n = None then \<lparr>blk_Number = 5, blk_Root = [6], blk_Time = 50\<rparr>
        else \<lparr>blk_Number = 0, blk_Root = [5], blk_Time = 0\<rparr>), w)"
  "LoadDotEnv ex_setup w = (Ok (), w)" "Forge ex_setup e w = (Ok (), w)" "AddClient ex_setup opts i j b b' w = (Ok [1], w)"
  "ParseClientAdded ex_setup l = (Some \<lparr>added_ClientId = [], added_Counterparty = []\<rparr>, None)"
  by (simp_all add: ex_setup_def)

lemma ex_create_run:
  assumes "15 \<le> ex_clock w"
  shows "CreateGroth16LightClient std_lib [7] [8] ex_setup (Suc polls) w =
     (Ok groth16ClientID, w\<lparr>ex_clock := ex_clock w + 15,
        ex_sent := ex_sent w @ [MsgCreateClient ex_created (NewConsensusState std_lib 50000000000 [6]) relayer],
        ex_chain := ex_deliver (MsgCreateClient ex_created (NewConsensusState std_lib 50000000000 [6]) relayer) (ex_chain w)\<rparr>)"
  using assms by (simp add: CreateGroth16LightClient_def io_run ex_setup_ops ex_context ex_setup_creates ex_broadcast ex_create_event_def
      del: ex_deliver.simps)

lemma ex_tendermint_run:
  assumes "3 \<le> ex_clock w"
  shows "CreateTendermintLightClient ex_setup (Suc polls) w = (Ok (), w\<lparr>ex_clock := ex_clock w + 1\<rparr>)"
proof -
  have r: "getTxReceipt ex_setup (Suc polls) h w = (Ok (Some ex_rcpt), w\<lparr>ex_clock := ex_clock w + 1\<rparr>)" for h
    unfolding getTxReceipt_def ex_setup_ops
    by (subst wait_for_receipt) (use assms in \<open>simp_all add: ex_ops\<close>)
  have "Logs ex_rcpt = [[1]]" by (simp add: ex_rcpt_def)
  with r show ?thesis
    by (simp add: CreateTendermintLightClient_def CheckEthereumNodeHealth_def deployEurekaContracts_def addClientToRouter_def
        setup_getTransactOpts_def io_run ex_setup_ops ex_health ex_addrs ex_ops getEvmEvent_def)
qed

lemma ex_setup_run:
  "\<exists>w'. setup_main std_lib [7] [8] ex_setup (Suc polls) ex_fresh = (Ok (), w') \<and> ex_clock w' = 51
     \<and> getClientState mem_env (ex_chain w' groth16ClientID) = Ok (Some ex_created)"
proof -
  have "ex_clock ex_fresh = 20" "ex_chain ex_fresh = (\<lambda>_. fmempty)" by (simp_all add: ex_fresh_def)
  then show ?thesis
    using ex_deliver_create
    by (simp add: setup_main_def io_run ex_create_run ex_tendermint_run RegisterCounterparty_def ex_setup_ops ex_context ex_broadcast
        del: ex_deliver.simps(1,2))
qed

section \<open>Property\<close>



end
