(* ===== verification/Prover_Client.thy ===== *)
theory Prover_Client
  imports Relayer
begin

text \<open>
  The generated client and server code of the prover service, \<^verbatim>\<open>provers/client\<close>: the messages with their
  getters, the client stubs, the server interface with its handlers and the service descriptor. The gRPC
  transport is a parameter; its contract \<open>served_conn\<close> says that a call reaches the handler that the
  descriptor names. Over it the light client asks exactly the method that verifies proofs.
\<close>

section \<open>Messages\<close>

text \<open>\<^verbatim>\<open>InfoRequest\<close> has no fields. The other messages are those of the light client and the relayer.\<close>

record ProveStateTransitionRequest =
  tr_ClientId :: bytes

record ProveStateMembershipRequest =
  mb_ClientId :: bytes
  mb_KeyPaths :: "bytes list"

record VerifyProofResponse =
  vr_Success :: bool
  vr_ErrorMessage :: bytes

text \<open>A getter of a nil message returns the zero value.\<close>

definition info_GetStateTransitionVerifierKey :: "InfoResponse option \<Rightarrow> bytes" where
  "info_GetStateTransitionVerifierKey x = (case x of Some m \<Rightarrow> StateTransitionVerifierKeyStr m | None \<Rightarrow> [])"

definition info_GetStateMembershipVerifierKey :: "InfoResponse option \<Rightarrow> bytes" where
  "info_GetStateMembershipVerifierKey x = (case x of Some m \<Rightarrow> StateMembershipVerifierKeyStr m | None \<Rightarrow> [])"

definition transition_GetClientId :: "ProveStateTransitionRequest option \<Rightarrow> bytes" where
  "transition_GetClientId x = (case x of Some m \<Rightarrow> tr_ClientId m | None \<Rightarrow> [])"

definition transition_GetProof :: "ProverResponse option \<Rightarrow> bytes" where
  "transition_GetProof x = (case x of Some m \<Rightarrow> pr_Proof m | None \<Rightarrow> [])"

definition transition_GetPublicValues :: "ProverResponse option \<Rightarrow> bytes" where
  "transition_GetPublicValues x = (case x of Some m \<Rightarrow> pr_PublicValues m | None \<Rightarrow> [])"

definition membership_GetClientId :: "ProveStateMembershipRequest option \<Rightarrow> bytes" where
  "membership_GetClientId x = (case x of Some m \<Rightarrow> mb_ClientId m | None \<Rightarrow> [])"

definition membership_GetKeyPaths :: "ProveStateMembershipRequest option \<Rightarrow> bytes list" where
  "membership_GetKeyPaths x = (case x of Some m \<Rightarrow> mb_KeyPaths m | None \<Rightarrow> [])"

definition membership_GetProof :: "MembershipResponse option \<Rightarrow> bytes" where
  "membership_GetProof x = (case x of Some m \<Rightarrow> mr_Proof m | None \<Rightarrow> [])"

definition membership_GetHeight :: "MembershipResponse option \<Rightarrow> i64" where
  "membership_GetHeight x = (case x of Some m \<Rightarrow> mr_Height m | None \<Rightarrow> 0)"

definition verify_GetProof :: "VerifyProofRequest option \<Rightarrow> bytes" where
  "verify_GetProof x = (case x of Some m \<Rightarrow> vp_Proof m | None \<Rightarrow> [])"

definition GetSp1PublicInputs :: "VerifyProofRequest option \<Rightarrow> bytes" where
  "GetSp1PublicInputs x = (case x of Some m \<Rightarrow> vp_Sp1PublicInputs m | None \<Rightarrow> [])"

definition GetSp1VkeyHash :: "VerifyProofRequest option \<Rightarrow> bytes" where
  "GetSp1VkeyHash x = (case x of Some m \<Rightarrow> vp_Sp1VkeyHash m | None \<Rightarrow> [])"

definition verify_GetGroth16Vk :: "VerifyProofRequest option \<Rightarrow> bytes" where
  "verify_GetGroth16Vk x = (case x of Some m \<Rightarrow> vp_Groth16Vk m | None \<Rightarrow> [])"

definition GetSuccess :: "VerifyProofResponse option \<Rightarrow> bool" where
  "GetSuccess x = (case x of Some m \<Rightarrow> vr_Success m | None \<Rightarrow> False)"

definition GetErrorMessage :: "VerifyProofResponse option \<Rightarrow> bytes" where
  "GetErrorMessage x = (case x of Some m \<Rightarrow> vr_ErrorMessage m | None \<Rightarrow> [])"

text \<open>An \<^verbatim>\<open>interface{}\<close> that holds one of the messages.\<close>

datatype ProtoMsg = InfoRequestMsg | InfoResponseMsg InfoResponse
  | StateTransitionRequestMsg ProveStateTransitionRequest | StateTransitionResponseMsg ProverResponse
  | StateMembershipRequestMsg ProveStateMembershipRequest | StateMembershipResponseMsg MembershipResponse
  | VerifyProofRequestMsg VerifyProofRequest | VerifyProofResponseMsg VerifyProofResponse

section \<open>The client\<close>

definition Prover_Info_FullMethodName :: string where
  "Prover_Info_FullMethodName = ''/celestia.prover.v1.Prover/Info''"
definition Prover_ProveStateTransition_FullMethodName :: string where
  "Prover_ProveStateTransition_FullMethodName = ''/celestia.prover.v1.Prover/ProveStateTransition''"
definition Prover_ProveStateMembership_FullMethodName :: string where
  "Prover_ProveStateMembership_FullMethodName = ''/celestia.prover.v1.Prover/ProveStateMembership''"
definition Prover_VerifyProof_FullMethodName :: string where
  "Prover_VerifyProof_FullMethodName = ''/celestia.prover.v1.Prover/VerifyProof''"

datatype CallOption = StaticMethod | OtherOption nat

text \<open>\<^verbatim>\<open>Invoke\<close> stores the reply in the message that it is given last; the result is this message.\<close>

record ClientConn =
  conn_Invoke :: "string \<Rightarrow> ProtoMsg \<Rightarrow> ProtoMsg \<Rightarrow> CallOption list \<Rightarrow> error + ProtoMsg"

record proverClient =
  cc :: ClientConn

definition NewProverClient :: "ClientConn \<Rightarrow> proverClient" where
  "NewProverClient conn = \<lparr>cc = conn\<rparr>"

text \<open>The message keeps its type, so that the other cases of the match do not occur.\<close>

definition client_Info :: "proverClient \<Rightarrow> CallOption list \<Rightarrow> InfoResponse outcome" where
  "client_Info c opts =
     (let out = \<lparr>StateMembershipVerifierKeyStr = [], StateTransitionVerifierKeyStr = []\<rparr> in
      bind_out (of_result (conn_Invoke (cc c) Prover_Info_FullMethodName InfoRequestMsg (InfoResponseMsg out) (StaticMethod # opts)))
        (\<lambda>m. case m of InfoResponseMsg r \<Rightarrow> Ok r | _ \<Rightarrow> Ok out))"

definition client_ProveStateTransition ::
    "proverClient \<Rightarrow> ProveStateTransitionRequest \<Rightarrow> CallOption list \<Rightarrow> ProverResponse outcome" where
  "client_ProveStateTransition c req opts =
     (let out = \<lparr>pr_Proof = [], pr_PublicValues = []\<rparr> in
      bind_out (of_result (conn_Invoke (cc c) Prover_ProveStateTransition_FullMethodName (StateTransitionRequestMsg req)
         (StateTransitionResponseMsg out) (StaticMethod # opts)))
        (\<lambda>m. case m of StateTransitionResponseMsg r \<Rightarrow> Ok r | _ \<Rightarrow> Ok out))"

definition client_ProveStateMembership ::
    "proverClient \<Rightarrow> ProveStateMembershipRequest \<Rightarrow> CallOption list \<Rightarrow> MembershipResponse outcome" where
  "client_ProveStateMembership c req opts =
     (let out = \<lparr>mr_Proof = [], mr_Height = 0\<rparr> in
      bind_out (of_result (conn_Invoke (cc c) Prover_ProveStateMembership_FullMethodName (StateMembershipRequestMsg req)
         (StateMembershipResponseMsg out) (StaticMethod # opts)))
        (\<lambda>m. case m of StateMembershipResponseMsg r \<Rightarrow> Ok r | _ \<Rightarrow> Ok out))"

definition client_VerifyProof :: "proverClient \<Rightarrow> VerifyProofRequest \<Rightarrow> CallOption list \<Rightarrow> VerifyProofResponse outcome" where
  "client_VerifyProof c req opts =
     (let out = \<lparr>vr_Success = False, vr_ErrorMessage = []\<rparr> in
      bind_out (of_result (conn_Invoke (cc c) Prover_VerifyProof_FullMethodName (VerifyProofRequestMsg req)
         (VerifyProofResponseMsg out) (StaticMethod # opts)))
        (\<lambda>m. case m of VerifyProofResponseMsg r \<Rightarrow> Ok r | _ \<Rightarrow> Ok out))"

section \<open>The server\<close>

text \<open>\<^verbatim>\<open>UnimplementedProverServer\<close> is embedded by value, by a pointer that may be nil, or not at all.\<close>

datatype Embedded = EmbeddedByValue | EmbeddedByPointer bool | NotEmbedded

record ProverServer =
  srv_Info :: "InfoResponse outcome"
  srv_ProveStateTransition :: "ProveStateTransitionRequest \<Rightarrow> ProverResponse outcome"
  srv_ProveStateMembership :: "ProveStateMembershipRequest \<Rightarrow> MembershipResponse outcome"
  srv_VerifyProof :: "VerifyProofRequest \<Rightarrow> VerifyProofResponse outcome"
  srv_embedded :: Embedded

definition status_Unimplemented :: "string \<Rightarrow> error" where
  "status_Unimplemented msg = Errorf (''rpc error: code = Unimplemented desc = '' @ msg)"

definition UnimplementedProverServer :: ProverServer where
  "UnimplementedProverServer = \<lparr>srv_Info = Fail (status_Unimplemented ''method Info not implemented''),
     srv_ProveStateTransition = (\<lambda>_. Fail (status_Unimplemented ''method ProveStateTransition not implemented'')),
     srv_ProveStateMembership = (\<lambda>_. Fail (status_Unimplemented ''method ProveStateMembership not implemented'')),
     srv_VerifyProof = (\<lambda>_. Fail (status_Unimplemented ''method VerifyProof not implemented'')), srv_embedded = EmbeddedByValue\<rparr>"

record UnaryServerInfo =
  info_Server :: ProverServer
  info_FullMethod :: string

type_synonym UnaryHandler = "ProtoMsg \<Rightarrow> ProtoMsg outcome"
type_synonym Interceptor = "ProtoMsg \<Rightarrow> UnaryServerInfo \<Rightarrow> UnaryHandler \<Rightarrow> ProtoMsg outcome"

text \<open>The closures that call the server; a type assertion on another message panics.\<close>

definition ErrInterfaceConversion :: error where "ErrInterfaceConversion = Sentinel ''interface conversion''"

definition call_Info :: "ProverServer \<Rightarrow> UnaryHandler" where
  "call_Info srv req = (case req of InfoRequestMsg \<Rightarrow> bind_out (srv_Info srv) (\<lambda>r. Ok (InfoResponseMsg r))
     | _ \<Rightarrow> Panic ErrInterfaceConversion)"

definition call_ProveStateTransition :: "ProverServer \<Rightarrow> UnaryHandler" where
  "call_ProveStateTransition srv req = (case req of
       StateTransitionRequestMsg m \<Rightarrow> bind_out (srv_ProveStateTransition srv m) (\<lambda>r. Ok (StateTransitionResponseMsg r))
     | _ \<Rightarrow> Panic ErrInterfaceConversion)"

definition call_ProveStateMembership :: "ProverServer \<Rightarrow> UnaryHandler" where
  "call_ProveStateMembership srv req = (case req of
       StateMembershipRequestMsg m \<Rightarrow> bind_out (srv_ProveStateMembership srv m) (\<lambda>r. Ok (StateMembershipResponseMsg r))
     | _ \<Rightarrow> Panic ErrInterfaceConversion)"

definition call_VerifyProof :: "ProverServer \<Rightarrow> UnaryHandler" where
  "call_VerifyProof srv req = (case req of
       VerifyProofRequestMsg m \<Rightarrow> bind_out (srv_VerifyProof srv m) (\<lambda>r. Ok (VerifyProofResponseMsg r))
     | _ \<Rightarrow> Panic ErrInterfaceConversion)"

text \<open>\<open>decode\<close> fills the new request from the wire.\<close>

type_synonym MethodHandler = "ProverServer \<Rightarrow> (ProtoMsg \<Rightarrow> error + ProtoMsg) \<Rightarrow> Interceptor option \<Rightarrow> ProtoMsg outcome"

definition run_handler :: "string \<Rightarrow> (ProverServer \<Rightarrow> UnaryHandler) \<Rightarrow> ProtoMsg \<Rightarrow> MethodHandler" where
  "run_handler fullMethod call new srv decode interceptor =
     bind_out (of_result (decode new))
       (\<lambda>req. case interceptor of
          None \<Rightarrow> call srv req
        | Some f \<Rightarrow> f req \<lparr>info_Server = srv, info_FullMethod = fullMethod\<rparr> (call srv))"

definition Prover_Info_Handler :: MethodHandler where
  "Prover_Info_Handler = run_handler Prover_Info_FullMethodName call_Info InfoRequestMsg"

definition Prover_ProveStateTransition_Handler :: MethodHandler where
  "Prover_ProveStateTransition_Handler = run_handler Prover_ProveStateTransition_FullMethodName call_ProveStateTransition
     (StateTransitionRequestMsg \<lparr>tr_ClientId = []\<rparr>)"

definition Prover_ProveStateMembership_Handler :: MethodHandler where
  "Prover_ProveStateMembership_Handler = run_handler Prover_ProveStateMembership_FullMethodName call_ProveStateMembership
     (StateMembershipRequestMsg \<lparr>mb_ClientId = [], mb_KeyPaths = []\<rparr>)"

definition Prover_VerifyProof_Handler :: MethodHandler where
  "Prover_VerifyProof_Handler = run_handler Prover_VerifyProof_FullMethodName call_VerifyProof
     (VerifyProofRequestMsg \<lparr>vp_Proof = [], vp_Sp1PublicInputs = [], vp_Sp1VkeyHash = [], vp_Groth16Vk = []\<rparr>)"

record ServiceDesc =
  ServiceName :: string
  Methods :: "(string \<times> MethodHandler) list"
  Metadata :: string

definition Prover_ServiceDesc :: ServiceDesc where
  "Prover_ServiceDesc = \<lparr>ServiceName = ''celestia.prover.v1.Prover'',
     Methods = [(''Info'', Prover_Info_Handler), (''ProveStateTransition'', Prover_ProveStateTransition_Handler),
       (''ProveStateMembership'', Prover_ProveStateMembership_Handler), (''VerifyProof'', Prover_VerifyProof_Handler)],
     Metadata = ''prover/v1/prover.proto''\<rparr>"

text \<open>The registrar is an argument. Calling the test method through a nil pointer panics.\<close>

definition RegisterProverServer :: "(ServiceDesc \<Rightarrow> ProverServer \<Rightarrow> 'r \<Rightarrow> 'r) \<Rightarrow> 'r \<Rightarrow> ProverServer \<Rightarrow> 'r outcome" where
  "RegisterProverServer RegisterService s srv =
     (if srv_embedded srv = EmbeddedByPointer True then Panic ErrNilPointer else Ok (RegisterService Prover_ServiceDesc srv s))"

section \<open>Calls over a connection\<close>

text \<open>A connection to a server on which \<open>srv\<close> is registered: a call under the full name of a method runs its
  handler on the request. An answer comes back as it is, an error as some error. A server that panics is
  not constrained. An interceptor only observes.\<close>

definition full_name :: "string \<Rightarrow> string" where
  "full_name name = ''/'' @ ServiceName Prover_ServiceDesc @ ''/'' @ name"

definition answers_like :: "'a outcome \<Rightarrow> 'a outcome \<Rightarrow> bool" where
  "answers_like c s = (case s of Ok r \<Rightarrow> c = Ok r | Fail _ \<Rightarrow> (\<exists>e. c = Fail e) | Panic _ \<Rightarrow> True)"

locale served_conn =
  fixes conn :: ClientConn and srv :: ProverServer and interceptor :: "Interceptor option"
  assumes transparent: "interceptor = Some f \<Longrightarrow> f req info h = h req"
    and answered: "(name, handler) \<in> set (Methods Prover_ServiceDesc) \<Longrightarrow> handler srv (\<lambda>_. Inr req) interceptor = Ok reply \<Longrightarrow>
      conn_Invoke conn (full_name name) req out opts = Inr reply"
    and refused: "(name, handler) \<in> set (Methods Prover_ServiceDesc) \<Longrightarrow> handler srv (\<lambda>_. Inr req) interceptor = Fail e \<Longrightarrow>
      \<exists>e'. conn_Invoke conn (full_name name) req out opts = Inl e'"
begin

lemma handler_runs: "run_handler m call new srv (\<lambda>_. Inr req) interceptor = call srv req"
  using transparent by (cases interceptor) (simp_all add: run_handler_def)

lemma full_names:
  "Prover_Info_FullMethodName = full_name ''Info''"
  "Prover_ProveStateTransition_FullMethodName = full_name ''ProveStateTransition''"
  "Prover_ProveStateMembership_FullMethodName = full_name ''ProveStateMembership''"
  "Prover_VerifyProof_FullMethodName = full_name ''VerifyProof''"
  by (simp_all add: full_name_def Prover_ServiceDesc_def Prover_Info_FullMethodName_def Prover_ProveStateTransition_FullMethodName_def
      Prover_ProveStateMembership_FullMethodName_def Prover_VerifyProof_FullMethodName_def)

lemma methods:
  "(''Info'', Prover_Info_Handler) \<in> set (Methods Prover_ServiceDesc)"
  "(''ProveStateTransition'', Prover_ProveStateTransition_Handler) \<in> set (Methods Prover_ServiceDesc)"
  "(''ProveStateMembership'', Prover_ProveStateMembership_Handler) \<in> set (Methods Prover_ServiceDesc)"
  "(''VerifyProof'', Prover_VerifyProof_Handler) \<in> set (Methods Prover_ServiceDesc)"
  by (simp_all add: Prover_ServiceDesc_def)

text \<open>One argument for the four stubs: the handler wraps the answer of the server, the stub unwraps it.\<close>

lemma served:
  assumes "(name, run_handler full call new) \<in> set (Methods Prover_ServiceDesc)"
    and "full = full_name name"
    and "call srv req = bind_out answer (\<lambda>r. Ok (wrap r))" and "\<And>r. unwrap (wrap r) = Ok r"
  shows "answers_like (bind_out (of_result (conn_Invoke conn full req out opts)) unwrap) answer"
proof (cases answer)
  case (Ok r)
  then show ?thesis using answered[OF assms(1)] assms(2-4) by (simp add: answers_like_def handler_runs)
next
  case (Fail e)
  with assms(3) have "run_handler full call new srv (\<lambda>_. Inr req) interceptor = Fail e" by (simp add: handler_runs)
  then obtain e' where "conn_Invoke conn full req out opts = Inl e'"
    unfolding assms(2) using refused[OF assms(1)[unfolded assms(2)]] by blast
  with Fail show ?thesis by (simp add: answers_like_def)
qed (simp add: answers_like_def)

lemma stubs_served:
  "answers_like (client_Info (NewProverClient conn) opts) (srv_Info srv)"
  "answers_like (client_ProveStateTransition (NewProverClient conn) tr opts) (srv_ProveStateTransition srv tr)"
  "answers_like (client_ProveStateMembership (NewProverClient conn) mb opts) (srv_ProveStateMembership srv mb)"
  "answers_like (client_VerifyProof (NewProverClient conn) vp opts) (srv_VerifyProof srv vp)"
  unfolding client_Info_def client_ProveStateTransition_def client_ProveStateMembership_def client_VerifyProof_def
    NewProverClient_def Let_def proverClient.simps
  by (rule served[OF methods(1)[unfolded Prover_Info_Handler_def] full_names(1), where wrap = InfoResponseMsg],
      simp_all add: call_Info_def)
    (rule served[OF methods(2)[unfolded Prover_ProveStateTransition_Handler_def] full_names(2), where wrap = StateTransitionResponseMsg],
      simp_all add: call_ProveStateTransition_def,
     rule served[OF methods(3)[unfolded Prover_ProveStateMembership_Handler_def] full_names(3), where wrap = StateMembershipResponseMsg],
      simp_all add: call_ProveStateMembership_def,
     rule served[OF methods(4)[unfolded Prover_VerifyProof_Handler_def] full_names(4), where wrap = VerifyProofResponseMsg],
      simp_all add: call_VerifyProof_def)

end

section \<open>A connection in the same process\<close>

fun assoc_method :: "string \<Rightarrow> (string \<times> MethodHandler) list \<Rightarrow> MethodHandler option" where
  "assoc_method full [] = None"
| "assoc_method full ((name, h) # ms) =
     (if full = full_name name then Some h else assoc_method full ms)"

definition local_conn :: "ProverServer \<Rightarrow> ClientConn" where
  "local_conn srv = \<lparr>conn_Invoke = (\<lambda>full req out opts. case assoc_method full (Methods Prover_ServiceDesc) of
       None \<Rightarrow> Inl (status_Unimplemented ''unknown method'')
     | Some h \<Rightarrow> (case h srv (\<lambda>_. Inr req) None of Ok m \<Rightarrow> Inr m | Fail e \<Rightarrow> Inl e | Panic e \<Rightarrow> Inl e))\<rparr>"

lemma assoc_method_name:
  "(name, h) \<in> set (Methods Prover_ServiceDesc) \<Longrightarrow>
     assoc_method (full_name name) (Methods Prover_ServiceDesc) = Some h"
  by (auto simp: Prover_ServiceDesc_def full_name_def)

interpretation local_served: served_conn "local_conn srv" srv None for srv
  by unfold_locales (simp_all add: local_conn_def assoc_method_name)

section \<open>The light client over the prover service\<close>

definition grpc_prover :: "(string \<Rightarrow> bytes) \<Rightarrow> (bytes \<Rightarrow> error + ClientConn) \<Rightarrow> ClientConn ProverLib" where
  "grpc_prover getenv newClient = \<lparr>Getenv = getenv, grpc_NewClient = newClient,
     rpc_VerifyProof = (\<lambda>conn req. case client_VerifyProof (NewProverClient conn) req [] of
        Ok r \<Rightarrow> Inr (vr_Success r) | Fail e \<Rightarrow> Inl e | Panic e \<Rightarrow> Inl e)\<rparr>"

text \<open>
  C4. The light client updates itself on the verdict of the prover service and on nothing else: over a
  connection on which a prover server is registered, an update with a header stores the state root of the
  header at its height exactly when the method \<^verbatim>\<open>VerifyProof\<close> of the server answers with success for the proof and the public
  values of the header under the two keys of the client; when it answers without success or with an
  error, the update fails and nothing is stored.
\<close>

theorem update_follows_server_verdict:
  assumes "client_env E" and "marshal_total (cdc E)" and "served_conn conn srv interceptor"
    and "newClient (getenv ''EVM_PROVER_URL'') = Inr conn"
    and "req = \<lparr>vp_Proof = StateTransitionProof h, vp_Sp1PublicInputs = PublicValues h,
      vp_Sp1VkeyHash = StateTransitionVerifierKey cs, vp_Groth16Vk = Groth16Vk cs\<rparr>"
  shows "case srv_VerifyProof srv req of
      Ok r \<Rightarrow> if vr_Success r
        then \<exists>t. UpdateState E (grpc_prover getenv newClient) ctx s cs (HeaderMsg h) = Ok ([GetHeight h], t)
          \<and> GetConsensusState E t (GetHeight h) = Ok \<lparr>HeaderTimestamp = HdrTimestamp h, StateRoot = NewestStateRoot h\<rparr>
        else \<exists>e. UpdateState E (grpc_prover getenv newClient) ctx s cs (HeaderMsg h) = Fail e
    | Fail _ \<Rightarrow> \<exists>e. UpdateState E (grpc_prover getenv newClient) ctx s cs (HeaderMsg h) = Fail e
    | Panic _ \<Rightarrow> True"
proof -
  let ?V = "grpc_prover getenv newClient"
  have req: "verifyProofRequest cs h = req" using assms(5) by (simp add: verifyProofRequest_def)
  note served = served_conn.stubs_served(4)[OF assms(3), of req "[]"]
  have verdict: "prover_accepts ?V cs h \<longleftrightarrow> (\<exists>r. srv_VerifyProof srv req = Ok r \<and> vr_Success r)"
    if "\<forall>e. srv_VerifyProof srv req \<noteq> Panic e"
    using served that assms(4)
    by (cases "srv_VerifyProof srv req") (auto simp: prover_accepts_def grpc_prover_def req answers_like_def)
  have stored: "\<exists>t. UpdateState E ?V ctx s cs (HeaderMsg h) = Ok ([GetHeight h], t)
      \<and> GetConsensusState E t (GetHeight h) = Ok (header_consensus h)" if "prover_accepts ?V cs h"
  proof -
    obtain t where t: "store_height E ctx s (cs\<lparr>LatestHeight := NewestHeight h\<rparr>) (header_consensus h) (GetHeight h) = Ok t"
      using client_env.store_height_total[OF assms(1,2)] by blast
    then show ?thesis
      using UpdateState_accepted[OF that, of E ctx s] client_env.store_height_Ok(1)[OF assms(1) t]
      by (simp add: client_env.view_cons_eq[OF assms(1), symmetric] view_def spec_store_def)
  qed
  show ?thesis
    using verdict stored UpdateState_rejected[of ?V cs h E ctx s]
    by (cases "srv_VerifyProof srv req") (auto simp: header_consensus_def)
qed

definition ex_server :: ProverServer where
  "ex_server = UnimplementedProverServer\<lparr>srv_VerifyProof := (\<lambda>r. Ok \<lparr>vr_Success = vp_Proof r = [1], vr_ErrorMessage = []\<rparr>)\<rparr>"

theorem update_follows_server_verdict_witness:
  "(\<exists>t. UpdateState mem_env (grpc_prover (\<lambda>_. []) (\<lambda>_. Inr (local_conn ex_server))) ex_ctx fmempty ex_client (HeaderMsg (ex_header 9 [8]))
      = Ok ([Height 0 9], t))
   \<and> (\<exists>e. UpdateState mem_env (grpc_prover (\<lambda>_. []) (\<lambda>_. Inr (local_conn UnimplementedProverServer))) ex_ctx fmempty ex_client
      (HeaderMsg (ex_header 9 [8])) = Fail e)"
proof -
  have m: "marshal_total (cdc mem_env)" by (simp add: marshal_total_mini)
  note u = update_follows_server_verdict[OF mem_client.client_env_axioms m local_served.served_conn_axioms _ refl,
      where getenv = "\<lambda>_. []" and cs = ex_client and h = "ex_header 9 [8]" and ctx = ex_ctx and s = fmempty]
  from u[where srv = ex_server and newClient = "\<lambda>_. Inr (local_conn ex_server)"]
    u[where srv = UnimplementedProverServer and newClient = "\<lambda>_. Inr (local_conn UnimplementedProverServer)"]
  show ?thesis by (auto simp: ex_server_def UnimplementedProverServer_def ex_header_def GetHeight_def)
qed

end
