(* ===== verification/Header_Keeper.thy ===== *)
theory Header_Keeper
  imports Stores Groth16_Types
begin

text \<open>
  The header module, \<^verbatim>\<open>x/header\<close>: a begin blocker that prunes old header hashes and saves
  the hash of the current block under its big-endian height. The store is an argument with the
  contract \<open>core_store\<close>; the iterator of \<^verbatim>\<open>PruneHeaders\<close> runs over the entries the store
  has when it is opened.
\<close>

section \<open>The keeper\<close>

definition retentionPeriod :: u64 where "retentionPeriod = 10000"
definition header_ModuleName :: bytes where "header_ModuleName = str ''header''"
definition StoreKey :: bytes where "StoreKey = header_ModuleName"

text \<open>The keeper holds the store service; \<open>'s\<close> is the store it opens. \<open>big_endian\<close> holds the
  two byte conversions of \<^verbatim>\<open>cosmos-sdk/types\<close>.\<close>

record 's Keeper =
  storeService :: "'s CoreStore"
  big_endian :: IBCLib

definition NewKeeper :: "IBCLib \<Rightarrow> 's CoreStore \<Rightarrow> 's Keeper" where
  "NewKeeper L service = \<lparr>storeService = service, big_endian = L\<rparr>"

text \<open>What the begin blocker reads of \<^verbatim>\<open>sdk.Context\<close>.\<close>

record BlockCtx =
  BlockHeight :: i64
  HeaderHash :: bytes

definition SaveHeaderHash :: "'s Keeper \<Rightarrow> 's \<Rightarrow> i64 \<Rightarrow> bytes \<Rightarrow> 's outcome" where
  "SaveHeaderHash k s height headerHash =
     c_Set (storeService k) s (Uint64ToBigEndian (big_endian k) height) headerHash"

text \<open>A nil slice read as a key is the empty key.\<close>

definition nil_bytes :: "bytes option \<Rightarrow> bytes" where
  "nil_bytes v = (case v of None \<Rightarrow> [] | Some b \<Rightarrow> b)"

definition GetHeaderHash :: "'s Keeper \<Rightarrow> 's \<Rightarrow> i64 \<Rightarrow> (bytes option \<times> bool) outcome" where
  "GetHeaderHash k s height =
     (let key = Uint64ToBigEndian (big_endian k) height in
      case c_Get (storeService k) s key of
        Fail _ \<Rightarrow> Ok (None, False)
      | Panic e \<Rightarrow> Panic e
      | Ok key' \<Rightarrow>
          (case c_Get (storeService k) s (nil_bytes key') of
             Fail _ \<Rightarrow> Ok (None, False)
           | Panic e \<Rightarrow> Panic e
           | Ok headerHash \<Rightarrow> Ok (headerHash, True)))"

definition GetLatestSavedBlockHeight :: "'s Keeper \<Rightarrow> 's \<Rightarrow> (u64 \<times> bool) outcome" where
  "GetLatestSavedBlockHeight k s =
     (case c_ReverseIterator (storeService k) s of
        Fail e \<Rightarrow> Panic e
      | Panic e \<Rightarrow> Panic e
      | Ok [] \<Rightarrow> Ok (0, False)
      | Ok ((key, _) # _) \<Rightarrow> bind_out (BigEndianToUint64 (big_endian k) key) (\<lambda>height. Ok (height, True)))"

fun prune_loop :: "'s Keeper \<Rightarrow> 's \<Rightarrow> u64 \<Rightarrow> (bytes \<times> bytes) list \<Rightarrow> 's outcome" where
  "prune_loop k s minHeightToRetain [] = Ok s"
| "prune_loop k s minHeightToRetain ((key, _) # rest) =
     bind_out (BigEndianToUint64 (big_endian k) key)
       (\<lambda>height. if height < minHeightToRetain
          then bind_out (c_Delete (storeService k) s key) (\<lambda>s'. prune_loop k s' minHeightToRetain rest)
          else Ok s)"

definition PruneHeaders :: "'s Keeper \<Rightarrow> 's \<Rightarrow> 's outcome" where
  "PruneHeaders k s =
     (case c_Iterator (storeService k) s of
        Fail e \<Rightarrow> Panic e
      | Panic e \<Rightarrow> Panic e
      | Ok entries \<Rightarrow>
          bind_out (GetLatestSavedBlockHeight k s)
            (\<lambda>(latestHeight, ok).
               if \<not> ok then Ok s
               else let minHeightToRetain = latestHeight - retentionPeriod
                 in prune_loop k s minHeightToRetain entries))"

definition BeginBlocker :: "'s Keeper \<Rightarrow> 's \<Rightarrow> BlockCtx \<Rightarrow> 's outcome" where
  "BeginBlocker k s ctx =
     bind_out (PruneHeaders k s) (\<lambda>s'. SaveHeaderHash k s' (BlockHeight ctx) (HeaderHash ctx))"

section \<open>The module\<close>

record 's HeaderModule =
  keeper :: "'s Keeper"

definition header_NewAppModule :: "'s Keeper \<Rightarrow> 's HeaderModule" where
  "header_NewAppModule k = \<lparr>keeper = k\<rparr>"

definition header_Name :: bytes where "header_Name = header_ModuleName"
definition header_DefaultGenesis :: bytes where "header_DefaultGenesis = str ''{}''"
definition header_ValidateGenesis :: "bytes \<Rightarrow> unit outcome" where "header_ValidateGenesis bz = Ok ()"
definition header_InitGenesis :: "bytes \<Rightarrow> bytes list" where "header_InitGenesis bz = []"
definition header_ExportGenesis :: "'s HeaderModule \<Rightarrow> bytes" where "header_ExportGenesis am = header_DefaultGenesis"

text \<open>The module registers nothing.\<close>

definition header_RegisterLegacyAminoCodec :: "'amino \<Rightarrow> 'amino" where "header_RegisterLegacyAminoCodec amino = amino"
definition header_RegisterGRPCGatewayRoutes :: "'mux \<Rightarrow> 'mux" where "header_RegisterGRPCGatewayRoutes mux = mux"
definition header_RegisterInterfaces :: "'reg \<Rightarrow> 'reg" where "header_RegisterInterfaces registry = registry"
definition header_RegisterInvariants :: "'reg \<Rightarrow> 'reg" where "header_RegisterInvariants registry = registry"
definition header_RegisterServices :: "'cfg \<Rightarrow> 'cfg" where "header_RegisterServices cfg = cfg"
definition header_GetTxCmd :: "'cmd \<Rightarrow> 'cmd" where "header_GetTxCmd zeroCommand = zeroCommand"

definition BeginBlock :: "'s HeaderModule \<Rightarrow> 's \<Rightarrow> BlockCtx \<Rightarrow> 's outcome" where
  "BeginBlock am s ctx = BeginBlocker (keeper am) s ctx"

section \<open>The abstract store of header hashes\<close>

definition hashes :: "'s Keeper \<Rightarrow> 's \<Rightarrow> u64 \<rightharpoonup> bytes" where
  "hashes k s h = core_lookup (storeService k) s (be64 h)"

text \<open>Every key of the store is the big-endian form of a height.\<close>

definition heights_only :: "'s Keeper \<Rightarrow> 's \<Rightarrow> bool" where
  "heights_only k s \<longleftrightarrow> (\<forall>key v. core_lookup (storeService k) s key = Some v \<longrightarrow> (\<exists>h. key = be64 h))"

locale header_keeper = store: core_store "storeService k" + be: ibc_host "big_endian k"
  for k :: "'s Keeper"
begin

lemma SaveHeaderHash_Ok:
  assumes "headerHash \<noteq> []"
  obtains t where "SaveHeaderHash k s height headerHash = Ok t"
    and "hashes k t = (hashes k s)(height \<mapsto> headerHash)" and "heights_only k s \<longrightarrow> heights_only k t"
proof -
  obtain t where t: "c_Set (storeService k) s (be64 height) headerHash = Ok t"
    "core_lookup (storeService k) t = (core_lookup (storeService k) s)(be64 height \<mapsto> headerHash)"
    using store.core_set_ok [OF be64_neq_Nil assms] by blast
  show ?thesis
    by (rule that [of t]) (use t in \<open>auto simp: SaveHeaderHash_def be.uint64_to_big_endian hashes_def heights_only_def fun_eq_iff\<close>)
qed

text \<open>On such a store the iterator lists the saved heights in ascending order.\<close>

lemma iterator_heights:
  assumes "heights_only k s"
  obtains hs where "c_Iterator (storeService k) s = Ok (map (\<lambda>h. (be64 h, the (hashes k s h))) hs)"
    and "c_ReverseIterator (storeService k) s = Ok (rev (map (\<lambda>h. (be64 h, the (hashes k s h))) hs))"
    and "set hs = dom (hashes k s)" and "sorted_wrt (<) hs"
proof -
  obtain es where es: "c_Iterator (storeService k) s = Ok es" "c_ReverseIterator (storeService k) s = Ok (rev es)"
    "set es = {(key, v). core_lookup (storeService k) s key = Some v}" "sorted_wrt (<) (map fst es)"
    using store.core_iterator_ok by blast
  define hs where "hs = map (\<lambda>e. the (read_be64 (fst e))) es"
  have e: "e = (be64 (the (read_be64 (fst e))), the (hashes k s (the (read_be64 (fst e)))))" if "e \<in> set es" for e
    using that assms unfolding es(3) heights_only_def by (auto simp: hashes_def)
  have eq: "es = map (\<lambda>h. (be64 h, the (hashes k s h))) hs"
    unfolding hs_def map_map comp_def by (rule map_idI [symmetric]) (use e in \<open>simp add: eq_commute\<close>)
  have "h \<in> set hs \<longleftrightarrow> h \<in> dom (hashes k s)" for h
  proof -
    have "h \<in> set hs \<longleftrightarrow> be64 h \<in> fst ` set es" by (subst eq) force
    then show ?thesis unfolding es(3) by (force simp: hashes_def)
  qed
  moreover have "sorted_wrt (<) hs"
    using es(4) unfolding eq by (simp add: comp_def sorted_wrt_map be64_less)
  ultimately show ?thesis using es(1,2) eq by (intro that [of hs]) auto
qed

lemma GetLatestSavedBlockHeight_Ok:
  assumes "heights_only k s"
  shows "GetLatestSavedBlockHeight k s =
    Ok (if dom (hashes k s) = {} then (0, False) else (Max (dom (hashes k s)), True))"
proof -
  obtain hs where hs: "c_ReverseIterator (storeService k) s = Ok (rev (map (\<lambda>h. (be64 h, the (hashes k s h))) hs))"
    "set hs = dom (hashes k s)" "sorted_wrt (<) hs"
    by (rule iterator_heights [OF assms])
  show ?thesis
  proof (cases hs rule: rev_cases)
    case (snoc hs' m)
    then have "Max (dom (hashes k s)) = m"
      using hs(3) unfolding hs(2) [symmetric] by (intro Max_eqI) (auto simp: sorted_wrt_append intro: less_imp_le)
    moreover have "dom (hashes k s) \<noteq> {}" using hs(2) snoc by auto
    ultimately show ?thesis
      using hs(1) snoc by (simp add: GetLatestSavedBlockHeight_def be.big_endian_to_uint64)
  qed (use hs in \<open>auto simp: GetLatestSavedBlockHeight_def\<close>)
qed

lemma prune_loop_Ok:
  assumes "sorted_wrt (<) hs" and "heights_only k s"
  shows "\<exists>t. prune_loop k s m (map (\<lambda>h. (be64 h, v h)) hs) = Ok t \<and> heights_only k t \<and>
    hashes k t = hashes k s |` (- {h \<in> set hs. h < m})"
  using assms
proof (induction hs arbitrary: s)
  case Nil
  then show ?case by (simp add: restrict_map_def)
next
  case (Cons h hs)
  show ?case
  proof (cases "h < m")
    case True
    obtain s1 where s1: "c_Delete (storeService k) s (be64 h) = Ok s1"
      "core_lookup (storeService k) s1 = (core_lookup (storeService k) s)(be64 h := None)"
      using store.core_delete_ok [OF be64_neq_Nil] by blast
    then have "heights_only k s1" "hashes k s1 = hashes k s |` (- {h})"
      using Cons.prems(2) by (auto simp: heights_only_def hashes_def restrict_map_def fun_eq_iff)
    then show ?thesis
      using Cons.IH [of s1] Cons.prems(1) True s1(1)
      by (auto simp: be.big_endian_to_uint64 restrict_map_def fun_eq_iff)
  next
    case False
    then have "{x \<in> set (h # hs). x < m} = {}" using Cons.prems(1) by auto
    then show ?thesis using False Cons.prems(2)
      by (simp add: be.big_endian_to_uint64 restrict_map_def fun_eq_iff)
  qed
qed

lemma PruneHeaders_Ok:
  assumes "heights_only k s"
  obtains t where "PruneHeaders k s = Ok t" and "heights_only k t"
    and "hashes k t = hashes k s |` {h. Max (dom (hashes k s)) - retentionPeriod \<le> h}"
proof -
  let ?D = "dom (hashes k s)"
  obtain hs where hs: "c_Iterator (storeService k) s = Ok (map (\<lambda>h. (be64 h, the (hashes k s h))) hs)"
    "set hs = ?D" "sorted_wrt (<) hs"
    by (rule iterator_heights [OF assms])
  show ?thesis
  proof (cases "?D = {}")
    case True
    then show ?thesis
      using that [of s] assms hs(1)
      by (simp add: PruneHeaders_def GetLatestSavedBlockHeight_Ok)
  next
    case False
    let ?m = "Max ?D - retentionPeriod"
    obtain t where t: "prune_loop k s ?m (map (\<lambda>h. (be64 h, the (hashes k s h))) hs) = Ok t" "heights_only k t"
      "hashes k t = hashes k s |` (- {h \<in> set hs. h < ?m})"
      using prune_loop_Ok [OF hs(3) assms, where m = ?m and v = "\<lambda>h. the (hashes k s h)"] by blast
    have "hashes k s |` (- {h \<in> ?D. h < ?m}) = hashes k s |` {h. ?m \<le> h}"
      by (auto simp: restrict_map_def fun_eq_iff not_less domIff)
    then show ?thesis
      using that [of t] t False hs(1,2) GetLatestSavedBlockHeight_Ok [OF assms]
      by (simp add: PruneHeaders_def Let_def)
  qed
qed

lemma BeginBlocker_Ok:
  assumes "heights_only k s" and "HeaderHash ctx \<noteq> []"
  obtains t where "BeginBlocker k s ctx = Ok t" and "heights_only k t"
    and "hashes k t = (hashes k s |` {h. Max (dom (hashes k s)) - retentionPeriod \<le> h})(BlockHeight ctx \<mapsto> HeaderHash ctx)"
proof -
  obtain s1 where s1: "PruneHeaders k s = Ok s1" "heights_only k s1"
    "hashes k s1 = hashes k s |` {h. Max (dom (hashes k s)) - retentionPeriod \<le> h}"
    by (rule PruneHeaders_Ok [OF assms(1)])
  obtain t where t: "SaveHeaderHash k s1 (BlockHeight ctx) (HeaderHash ctx) = Ok t"
    "hashes k t = (hashes k s1)(BlockHeight ctx \<mapsto> HeaderHash ctx)" "heights_only k s1 \<longrightarrow> heights_only k t"
    by (rule SaveHeaderHash_Ok [OF assms(2), of s1 "BlockHeight ctx"])
  show ?thesis by (rule that [of t]) (use s1 t in \<open>simp_all add: BeginBlocker_def\<close>)
qed

end

section \<open>A chain of blocks\<close>

text \<open>The begin blockers of blocks 1 to \<open>n\<close>, where block \<open>i\<close> has header hash \<open>hh i\<close>.\<close>

fun run_blocks :: "'s Keeper \<Rightarrow> (nat \<Rightarrow> bytes) \<Rightarrow> 's \<Rightarrow> nat \<Rightarrow> 's outcome" where
  "run_blocks k hh s 0 = Ok s"
| "run_blocks k hh s (Suc n) =
     bind_out (run_blocks k hh s n)
       (\<lambda>s'. BeginBlocker k s' \<lparr>BlockHeight = of_nat (Suc n), HeaderHash = hh (Suc n)\<rparr>)"

text \<open>The lowest height that is kept after block \<open>n\<close>.\<close>

definition lowest_kept :: "nat \<Rightarrow> nat" where
  "lowest_kept n = (if n \<le> 10000 then n else max 10000 (n - 10001))"

definition kept_hashes :: "(nat \<Rightarrow> bytes) \<Rightarrow> nat \<Rightarrow> u64 \<rightharpoonup> bytes" where
  "kept_hashes hh n h = (if 0 < unat h \<and> lowest_kept n \<le> unat h \<and> unat h \<le> n then Some (hh (unat h)) else None)"

lemma unat_sub_retention:
  assumes "n < 2 ^ 63"
  shows "unat ((of_nat n :: u64) - retentionPeriod) = (if n < 10000 then 2 ^ 64 + n - 10000 else n - 10000)"
proof -
  have n: "unat (of_nat n :: u64) = n" using assms by (simp add: unat_of_nat take_bit_nat_eq_self)
  show ?thesis
  proof (cases "n < 10000")
    case True
    then have "(of_nat n :: u64) < retentionPeriod" by (simp add: retentionPeriod_def word_less_nat_alt n)
    then show ?thesis using True n by (simp add: unat_sub_if' retentionPeriod_def)
  next
    case False
    then have "retentionPeriod \<le> (of_nat n :: u64)" by (simp add: retentionPeriod_def word_le_nat_alt n)
    then show ?thesis using False n by (simp add: unat_sub retentionPeriod_def)
  qed
qed

lemma wrapped_sub_greater:
  assumes "(m :: u64) < 10000"
  shows "m < m - 10000"
proof -
  have "unat m < 10000" using assms by (simp add: word_less_nat_alt)
  then have "unat (m - 10000) = 2 ^ 64 + unat m - 10000" by (simp add: unat_sub_if')
  then show ?thesis using \<open>unat m < 10000\<close> by (simp add: word_less_nat_alt)
qed

lemma Max_kept:
  assumes "0 < n" and "n < 2 ^ 63"
  shows "dom (kept_hashes hh n) \<noteq> {}" and "Max (dom (kept_hashes hh n)) = of_nat n"
proof -
  have n: "unat (of_nat n :: u64) = n" using assms by (simp add: unat_of_nat take_bit_nat_eq_self)
  then have in_dom: "of_nat n \<in> dom (kept_hashes hh n)"
    using assms(1) by (simp add: kept_hashes_def lowest_kept_def domIff)
  then show "dom (kept_hashes hh n) \<noteq> {}" by blast
  show "Max (dom (kept_hashes hh n)) = of_nat n"
    by (rule Max_eqI [OF _ _ in_dom])
      (auto simp: kept_hashes_def domIff word_le_nat_alt n split: if_splits)
qed

lemma kept_step:
  assumes "n < 2 ^ 63"
  shows "(kept_hashes hh n |` {h. Max (dom (kept_hashes hh n)) - retentionPeriod \<le> h})(of_nat (Suc n) \<mapsto> hh (Suc n)) =
    kept_hashes hh (Suc n)"
proof
  fix h :: u64
  have sn: "unat (of_nat (Suc n) :: u64) = Suc n" using assms by (simp add: unat_of_nat take_bit_nat_eq_self del: of_nat_Suc)
  show "((kept_hashes hh n |` {h. Max (dom (kept_hashes hh n)) - retentionPeriod \<le> h})(of_nat (Suc n) \<mapsto> hh (Suc n))) h =
    kept_hashes hh (Suc n) h"
  proof (cases "h = of_nat (Suc n)")
    case True
    then show ?thesis using sn by (auto simp: kept_hashes_def lowest_kept_def simp del: of_nat_Suc)
  next
    case False
    then have neq: "unat h \<noteq> Suc n" using sn by (metis word_unat_eq_iff)
    show ?thesis
    proof (cases "n = 0")
      case True
      then show ?thesis using False neq by (auto simp: kept_hashes_def lowest_kept_def restrict_map_def)
    next
      case pos: False
      have "Max (dom (kept_hashes hh n)) - retentionPeriod \<le> h \<longleftrightarrow>
          (if n < 10000 then 2 ^ 64 + n - 10000 else n - 10000) \<le> unat h"
        using pos Max_kept(2) [of n hh] assms by (simp add: word_le_nat_alt unat_sub_retention)
      then show ?thesis
        using False neq by (auto simp: kept_hashes_def lowest_kept_def restrict_map_def del: of_nat_Suc)
    qed
  qed
qed

context header_keeper
begin

lemma run_blocks_Ok:
  assumes "core_lookup (storeService k) s = Map.empty" and "\<And>i. hh i \<noteq> []"
  shows "n < 2 ^ 63 \<Longrightarrow> \<exists>t. run_blocks k hh s n = Ok t \<and> heights_only k t \<and> hashes k t = kept_hashes hh n"
proof (induction n)
  case 0
  have "kept_hashes hh 0 h = None" for h by (auto simp: kept_hashes_def)
  then show ?case using assms(1) by (auto simp: heights_only_def hashes_def fun_eq_iff)
next
  case (Suc n)
  then obtain s1 where s1: "run_blocks k hh s n = Ok s1" "heights_only k s1" "hashes k s1 = kept_hashes hh n" by auto
  obtain t where t: "BeginBlocker k s1 \<lparr>BlockHeight = of_nat (Suc n), HeaderHash = hh (Suc n)\<rparr> = Ok t" "heights_only k t"
    "hashes k t = (hashes k s1 |` {h. Max (dom (hashes k s1)) - retentionPeriod \<le> h})(of_nat (Suc n) \<mapsto> hh (Suc n))"
    using BeginBlocker_Ok [OF s1(2), of "\<lparr>BlockHeight = of_nat (Suc n), HeaderHash = hh (Suc n)\<rparr>"] assms(2)
    by (auto simp del: of_nat_Suc)
  then show ?case using s1 kept_step [of n hh] Suc.prems by (simp del: of_nat_Suc)
qed

lemma GetHeaderHash_never:
  assumes "heights_only k s" and "\<forall>h v. hashes k s h = Some v \<longrightarrow> length v = 32"
  shows "GetHeaderHash k s height \<noteq> Ok (Some v, True)"
    and "hashes k s height \<noteq> None \<Longrightarrow> GetHeaderHash k s height = Ok (None, True)"
proof -
  have g: "c_Get (storeService k) s (be64 height) = Ok (hashes k s height)"
    by (simp add: store.core_get_ok hashes_def)
  have miss: "c_Get (storeService k) s w = Ok None" if "length w = 32" for w
  proof -
    have "w \<noteq> be64 h" for h using that length_be64 [of h] by auto
    then have "core_lookup (storeService k) s w = None"
      using assms(1) by (cases "core_lookup (storeService k) s w") (auto simp: heights_only_def)
    moreover have "w \<noteq> []" using that by auto
    ultimately show ?thesis using store.core_get_ok by simp
  qed
  show stored: "hashes k s height \<noteq> None \<Longrightarrow> GetHeaderHash k s height = Ok (None, True)"
    using g miss assms(2) by (auto simp: GetHeaderHash_def be.uint64_to_big_endian nil_bytes_def)
  show "GetHeaderHash k s height \<noteq> Ok (Some v, True)"
    using stored g store.core_get_nil [of s "Some v"]
    by (cases "hashes k s height") (auto simp: GetHeaderHash_def be.uint64_to_big_endian nil_bytes_def split: outcome.splits)
qed

end

section \<open>Properties\<close>

definition ex_keeper :: "mem Keeper" where
  "ex_keeper = NewKeeper std_lib mem_core"

interpretation ex_keeper: header_keeper ex_keeper
  by (intro header_keeper.intro) (simp_all add: ex_keeper_def NewKeeper_def mem_core.core_store_axioms std.ibc_host_axioms)

lemma ex_keeper_empty: "core_lookup (storeService ex_keeper) fmempty = Map.empty"
  by (simp add: ex_keeper_def NewKeeper_def core_lookup_def mem_core_def fun_eq_iff)

lemma ex_keeper_heights: "heights_only ex_keeper fmempty"
  by (simp add: heights_only_def ex_keeper_empty)

text \<open>
  One begin block on a store of height keys: pruning removes exactly the hashes below the
  latest saved height minus the retention period, computed at 64 bits, and then the hash of the
  current block is saved. While the latest saved height is below 10000 the subtraction wraps
  around and every saved hash is removed.
\<close>

lemma BeginBlock_prunes_and_saves:
  assumes "header_keeper k" and "heights_only k s" and "HeaderHash ctx \<noteq> []"
  shows "\<exists>t. BeginBlock (header_NewAppModule k) s ctx = Ok t \<and> heights_only k t \<and>
    hashes k t = (hashes k s |` {h. Max (dom (hashes k s)) - 10000 \<le> h})(BlockHeight ctx \<mapsto> HeaderHash ctx) \<and>
    (Max (dom (hashes k s)) < 10000 \<longrightarrow> hashes k t = [BlockHeight ctx \<mapsto> HeaderHash ctx])"
proof -
  obtain t where t: "BeginBlocker k s ctx = Ok t" "heights_only k t"
    "hashes k t = (hashes k s |` {h. Max (dom (hashes k s)) - retentionPeriod \<le> h})(BlockHeight ctx \<mapsto> HeaderHash ctx)"
    by (rule header_keeper.BeginBlocker_Ok [OF assms])
  have "hashes k s |` {h. Max (dom (hashes k s)) - 10000 \<le> h} = Map.empty" if "Max (dom (hashes k s)) < 10000"
  proof -
    have "\<not> Max (dom (hashes k s)) - 10000 \<le> h" if "hashes k s h \<noteq> None" for h
    proof -
      have "h \<le> Max (dom (hashes k s))" using that by (intro Max_ge) (auto simp: finite)
      then show ?thesis using wrapped_sub_greater [OF \<open>Max (dom (hashes k s)) < 10000\<close>] by simp
    qed
    then have "hashes k s h = None" if "Max (dom (hashes k s)) - 10000 \<le> h" for h using that by blast
    then show ?thesis by (auto simp: restrict_map_def fun_eq_iff)
  qed
  then show ?thesis using t by (auto simp: BeginBlock_def header_NewAppModule_def retentionPeriod_def)
qed

lemma BeginBlock_prunes_and_saves_example:
  "\<exists>t. BeginBlock (header_NewAppModule ex_keeper) fmempty \<lparr>BlockHeight = 7, HeaderHash = [1]\<rparr> = Ok t \<and>
     hashes ex_keeper t 7 = Some [1]"
  using BeginBlock_prunes_and_saves [OF ex_keeper.header_keeper_axioms ex_keeper_heights,
      of "\<lparr>BlockHeight = 7, HeaderHash = [1]\<rparr>"] by auto

text \<open>
  C23. The retention window of a chain: after the begin blockers of blocks 1 to \<open>n\<close> on an empty
  store, the store holds the header hashes of exactly the heights from \<open>lowest_kept n\<close> to
  \<open>n\<close>. Up to block 10000 that is the last block only, because of the wrap-around; from then on
  nothing is pruned until 10002 hashes are kept, which is the size of the window for ever after.
\<close>

theorem header_retention_window:
  assumes "header_keeper k" and "core_lookup (storeService k) s = Map.empty"
    and "\<And>i. hh i \<noteq> []" and "n < 2 ^ 63"
  shows "\<exists>t. run_blocks k hh s n = Ok t \<and>
    (\<forall>h. hashes k t h = (if 0 < unat h \<and> unat h \<le> n \<and>
        (if n \<le> 10000 then n else max 10000 (n - 10001)) \<le> unat h then Some (hh (unat h)) else None)) \<and>
    (0 < n \<longrightarrow> GetLatestSavedBlockHeight k t = Ok (of_nat n, True))"
proof -
  obtain t where t: "run_blocks k hh s n = Ok t" "heights_only k t" "hashes k t = kept_hashes hh n"
    using header_keeper.run_blocks_Ok [OF assms(1,2), of hh n] assms(3,4) by blast
  then have "0 < n \<longrightarrow> GetLatestSavedBlockHeight k t = Ok (of_nat n, True)"
    using header_keeper.GetLatestSavedBlockHeight_Ok [OF assms(1) t(2)] Max_kept [of n hh] assms(4) by simp
  then show ?thesis using t by (auto simp: kept_hashes_def lowest_kept_def)
qed

theorem header_retention_window_witness:
  "\<exists>t. run_blocks ex_keeper (\<lambda>i. [of_nat i]) fmempty 3 = Ok t \<and>
     hashes ex_keeper t 2 = None \<and> hashes ex_keeper t 3 = Some [3]"
proof -
  from header_retention_window [OF ex_keeper.header_keeper_axioms ex_keeper_empty,
      of "\<lambda>i. [of_nat i]" 3]
  obtain t where "run_blocks ex_keeper (\<lambda>i. [of_nat i]) fmempty 3 = Ok t"
    and "hashes ex_keeper t h = (if 0 < unat h \<and> unat h \<le> 3 \<and> 3 \<le> unat h then Some [of_nat (unat h)] else None)" for h
    by auto
  then show ?thesis by auto
qed

text \<open>
  C24. A saved header hash cannot be read back: on a store of height keys with 32-byte hashes,
  \<^verbatim>\<open>GetHeaderHash\<close> never returns a hash, and for a saved height it returns nil and true,
  because it looks the hash up as a key.
\<close>

theorem GetHeaderHash_never_returns_hash:
  assumes "header_keeper k" and "heights_only k s" and "\<And>h v. hashes k s h = Some v \<Longrightarrow> length v = 32"
  shows "(\<forall>hash. GetHeaderHash k s height \<noteq> Ok (Some hash, True)) \<and>
    (hashes k s height \<noteq> None \<longrightarrow> GetHeaderHash k s height = Ok (None, True))"
  using header_keeper.GetHeaderHash_never [OF assms(1,2)] assms(3) by blast

theorem GetHeaderHash_never_returns_hash_witness:
  "\<exists>s. SaveHeaderHash ex_keeper fmempty 7 (replicate 32 1) = Ok s \<and> hashes ex_keeper s 7 = Some (replicate 32 1) \<and>
     GetHeaderHash ex_keeper s 7 = Ok (None, True)"
proof -
  obtain s where s: "SaveHeaderHash ex_keeper fmempty 7 (replicate 32 1) = Ok s"
    "hashes ex_keeper s = (hashes ex_keeper fmempty)(7 \<mapsto> replicate 32 1)" "heights_only ex_keeper s"
    using ex_keeper.SaveHeaderHash_Ok [of "replicate 32 1" fmempty 7] ex_keeper_heights by auto
  have "hashes ex_keeper fmempty = Map.empty" by (simp add: hashes_def fun_eq_iff ex_keeper_empty)
  then have "length v = 32" if "hashes ex_keeper s h = Some v" for h v
    using that s(2) by (auto split: if_splits)
  from GetHeaderHash_never_returns_hash [OF ex_keeper.header_keeper_axioms s(3) this, where height = 7] s
  show ?thesis by simp
qed

end
