(* ===== verification/Indexer.thy ===== *)
theory Indexer
  imports Prelude "HOL-Library.Finite_Map"
begin

text \<open>
  The indexer service, \<^verbatim>\<open>indexer/main.go\<close>: it follows the Celestia chain, decodes the rollup
  blocks posted to a namespace, and stores for every Ethereum block number the Celestia height
  and blob commitment it was included with, which an HTTP API serves. BoltDB, the Celestia node
  and the block decoders are arguments. The main loop and the backfill goroutines are tasks that
  interleave at the granularity of database transactions.
\<close>

section \<open>Configuration\<close>

definition dbPath :: bytes where "dbPath = str ''eth_celestia_mapping.db''"
definition bucketName :: bytes where "bucketName = str ''height_mappings''"
definition metaBucket :: bytes where "metaBucket = str ''metadata''"
definition lastProcessed :: bytes where "lastProcessed = str ''last_processed_height''"

record Config =
  CelestiaNodeURL :: bytes
  CelestiaAuthToken :: bytes
  CelestiaNamespace :: bytes
  APIPort :: bytes
  HTTPTimeout :: i64
  ReconnectDelay :: i64

record InclusionHeightResponse =
  EthBlockNumber :: u64
  CelestiaHeight :: u64
  BlobCommitment :: bytes

text \<open>\<^verbatim>\<open>strconv.Atoi\<close>: an optional sign, then decimal digits that fit 64 bits.\<close>

definition Atoi :: "bytes \<Rightarrow> error + int" where
  "Atoi s =
     (let neg = (s \<noteq> [] \<and> hd s = byte_of_char (CHR ''-''));
          digits = (if s \<noteq> [] \<and> (hd s = byte_of_char (CHR ''-'') \<or> hd s = byte_of_char (CHR ''+'')) then tl s else s)
      in case parse_uint 64 digits of
          Inl e \<Rightarrow> Inl e
        | Inr n \<Rightarrow> if \<not> neg \<and> 2 ^ 63 \<le> n \<or> neg \<and> 2 ^ 63 < n then Inl ErrRange
            else Inr (if neg then - int n else int n))"

definition getEnv :: "(bytes \<Rightarrow> bytes) \<Rightarrow> bytes \<Rightarrow> bytes \<Rightarrow> bytes" where
  "getEnv Getenv key defaultValue = (let value = Getenv key in if value = [] then defaultValue else value)"

definition getEnvInt :: "(bytes \<Rightarrow> bytes) \<Rightarrow> bytes \<Rightarrow> int \<Rightarrow> int" where
  "getEnvInt Getenv key defaultValue =
     (let strValue = Getenv key in
      if strValue = [] then defaultValue
      else case Atoi strValue of Inl _ \<Rightarrow> defaultValue | Inr intValue \<Rightarrow> intValue)"

text \<open>\<^verbatim>\<open>time.Duration(n) * time.Second\<close> wraps at 64 bits.\<close>

definition seconds :: "int \<Rightarrow> i64" where
  "seconds n = word_of_int n * 1000000000"

definition loadConfig :: "(bytes \<Rightarrow> bytes) \<Rightarrow> Config" where
  "loadConfig env = \<lparr>
     CelestiaNodeURL = getEnv env (str ''CELESTIA_NODE_URL'') (str ''ws://localhost:26658''),
     CelestiaAuthToken = getEnv env (str ''CELESTIA_NODE_AUTH_TOKEN'') [],
     CelestiaNamespace = getEnv env (str ''CELESTIA_NAMESPACE'') (str ''0f0f0f0f0f0f0f0f0f0f''),
     APIPort = getEnv env (str ''API_PORT'') (str ''8080''),
     HTTPTimeout = seconds (getEnvInt env (str ''HTTP_TIMEOUT_SECONDS'') 30),
     ReconnectDelay = seconds (getEnvInt env (str ''RECONNECT_DELAY_SECONDS'') 5)\<rparr>"

section \<open>The database\<close>

text \<open>
  BoltDB. \<open>bolt_Put\<close> and \<open>bolt_CreateBucket\<close> are read-write transactions with one
  operation: they commit, or fail and change nothing. \<^verbatim>\<open>tx.Bucket\<close> of a bucket that does
  not exist is nil, and using it panics.
\<close>

record 'b BoltLib =
  bolt_Open :: "bytes \<Rightarrow> error + 'b"
  bolt_CreateBucket :: "'b \<Rightarrow> bytes \<Rightarrow> error + 'b"
  bolt_Bucket :: "'b \<Rightarrow> bytes \<Rightarrow> bool"
  bolt_Put :: "'b \<Rightarrow> bytes \<Rightarrow> bytes \<Rightarrow> bytes \<Rightarrow> error + 'b"
  bolt_Get :: "'b \<Rightarrow> bytes \<Rightarrow> bytes \<Rightarrow> bytes option"

definition bucket_Put :: "'b BoltLib \<Rightarrow> 'b \<Rightarrow> bytes \<Rightarrow> bytes \<Rightarrow> bytes \<Rightarrow> 'b outcome" where
  "bucket_Put B db bucket key value =
     (if bolt_Bucket B db bucket then of_result (bolt_Put B db bucket key value)
      else Panic (Sentinel ''nil pointer dereference''))"

definition bucket_Get :: "'b BoltLib \<Rightarrow> 'b \<Rightarrow> bytes \<Rightarrow> bytes \<Rightarrow> bytes option outcome" where
  "bucket_Get B db bucket key =
     (if bolt_Bucket B db bucket then Ok (bolt_Get B db bucket key)
      else Panic (Sentinel ''nil pointer dereference''))"

text \<open>Both buckets are created in one transaction; on an error neither is kept.\<close>

definition setupDB :: "'b BoltLib \<Rightarrow> 'b outcome" where
  "setupDB B =
     bind_out (wrap_out ''could not open db'' (of_result (bolt_Open B dbPath)))
       (\<lambda>db.
     bind_out (wrap_out ''could not create height mappings bucket'' (of_result (bolt_CreateBucket B db bucketName)))
       (\<lambda>db1. wrap_out ''could not create metadata bucket'' (of_result (bolt_CreateBucket B db1 metaBucket))))"

definition storeMapping :: "'b BoltLib \<Rightarrow> 'b \<Rightarrow> u64 \<Rightarrow> u64 \<Rightarrow> bytes \<Rightarrow> 'b outcome" where
  "storeMapping B db ethBlockNum celestiaHeight blobCommitment =
     (let key = le64 ethBlockNum; value = le64 celestiaHeight @ blobCommitment
      in bucket_Put B db bucketName key value)"

definition updateLastProcessedHeight :: "'b BoltLib \<Rightarrow> 'b \<Rightarrow> u64 \<Rightarrow> 'b outcome" where
  "updateLastProcessedHeight B db height =
     (let value = dec (unat height) in bucket_Put B db metaBucket lastProcessed value)"

definition getLastProcessedHeight :: "'b BoltLib \<Rightarrow> 'b \<Rightarrow> u64 outcome" where
  "getLastProcessedHeight B db =
     bind_out (bucket_Get B db metaBucket lastProcessed)
       (\<lambda>v. case v of None \<Rightarrow> Ok 0
          | Some bs \<Rightarrow> bind_out (of_result (parse_uint 64 bs)) (\<lambda>n. Ok (of_nat n)))"

text \<open>The result is (celestiaHeight, blobCommitment) with the found flag as the option.\<close>

definition getMapping :: "'b BoltLib \<Rightarrow> 'b \<Rightarrow> u64 \<Rightarrow> (u64 \<times> bytes) option outcome" where
  "getMapping B db ethBlockNum =
     (let key = le64 ethBlockNum in
      bind_out (bucket_Get B db bucketName key)
       (\<lambda>v. case v of None \<Rightarrow> Ok None
          | Some bs \<Rightarrow> if length bs < 8 then Fail (Errorf ''invalid value length'')
              else (case read_le64 (take 8 bs) of
                  None \<Rightarrow> Panic ErrSliceBounds
                | Some celestiaHeight \<Rightarrow> Ok (Some (celestiaHeight, drop 8 bs)))))"

section \<open>Processing a height\<close>

record Blob =
  blob_Data :: bytes
  Commitment :: bytes

text \<open>\<open>proto_Unmarshal\<close> yields the transactions of \<^verbatim>\<open>block.Data\<close>, which is a pointer and
  \<open>None\<close> when the message carries no data; \<open>NewFromSSZ\<close> yields the execution block number.\<close>

record BlockLib =
  proto_Unmarshal :: "bytes \<Rightarrow> error + bytes list option"
  NewFromSSZ :: "bytes \<Rightarrow> error + u64"

definition decodeRollkitBlock :: "BlockLib \<Rightarrow> bytes \<Rightarrow> bytes list option outcome" where
  "decodeRollkitBlock L blob = of_result (proto_Unmarshal L blob)"

definition decodeEthBlockNumber :: "BlockLib \<Rightarrow> bytes \<Rightarrow> u64 outcome" where
  "decodeEthBlockNumber L data = of_result (NewFromSSZ L data)"

text \<open>One iteration of the loop over the blobs; \<^verbatim>\<open>continue\<close> leaves the database as it is.\<close>

definition process_blob :: "'b BoltLib \<Rightarrow> BlockLib \<Rightarrow> u64 \<Rightarrow> 'b \<Rightarrow> Blob \<Rightarrow> 'b outcome" where
  "process_blob B L height db blob =
     (case decodeRollkitBlock L (blob_Data blob) of
        Fail _ \<Rightarrow> Ok db
      | Panic e \<Rightarrow> Panic e
      | Ok None \<Rightarrow> Panic (Sentinel ''nil pointer dereference'')
      | Ok (Some Txs) \<Rightarrow>
          if length Txs < 1 then Ok db
          else (case decodeEthBlockNumber L (Txs ! 0) of
              Fail _ \<Rightarrow> Ok db
            | Panic e \<Rightarrow> Panic e
            | Ok ethBlockNum \<Rightarrow>
                (case storeMapping B db ethBlockNum height (Commitment blob) of
                   Fail _ \<Rightarrow> Ok db
                 | res \<Rightarrow> res)))"

fun process_blobs :: "'b BoltLib \<Rightarrow> BlockLib \<Rightarrow> u64 \<Rightarrow> 'b \<Rightarrow> Blob list \<Rightarrow> 'b outcome" where
  "process_blobs B L height db [] = Ok db"
| "process_blobs B L height db (blob # blobs) =
     bind_out (process_blob B L height db blob) (\<lambda>db'. process_blobs B L height db' blobs)"

definition finish_height :: "'b BoltLib \<Rightarrow> 'b \<Rightarrow> u64 \<Rightarrow> 'b outcome" where
  "finish_height B db height =
     (case updateLastProcessedHeight B db height of Fail _ \<Rightarrow> Ok db | res \<Rightarrow> res)"

text \<open>\<open>GetAll height\<close> is \<^verbatim>\<open>c.Blob.GetAll\<close> for the configured namespace.\<close>

definition processHeight ::
    "'b BoltLib \<Rightarrow> BlockLib \<Rightarrow> (u64 \<Rightarrow> error + Blob list) \<Rightarrow> 'b \<Rightarrow> u64 \<Rightarrow> 'b outcome" where
  "processHeight B L GetAll db height =
     (case GetAll height of
        Inl _ \<Rightarrow> Ok db
      | Inr blobs \<Rightarrow> bind_out (process_blobs B L height db blobs) (\<lambda>db'. finish_height B db' height))"

section \<open>Backfilling\<close>

definition maxBackfill :: u64 where "maxBackfill = 100"

definition backfill_start :: "u64 \<Rightarrow> u64 \<Rightarrow> u64" where
  "backfill_start lastHeight latestHeight =
     (let startHeight = lastHeight + 1 in
      if latestHeight - startHeight > maxBackfill then latestHeight - maxBackfill else startHeight)"

text \<open>The loop \<^verbatim>\<open>for h := startHeight; h <= latestHeight; h++\<close>, which never ends when the
  latest height is the greatest 64-bit number.\<close>

partial_function (option) backfill_loop :: "('a \<Rightarrow> u64 \<Rightarrow> 'a) \<Rightarrow> u64 \<Rightarrow> u64 \<Rightarrow> 'a \<Rightarrow> 'a option" where
  "backfill_loop process latestHeight h st =
     (if h \<le> latestHeight then backfill_loop process latestHeight (h + 1) (process st h) else Some st)"

definition backfill :: "('a \<Rightarrow> u64 \<Rightarrow> 'a) \<Rightarrow> u64 \<Rightarrow> u64 \<Rightarrow> 'a \<Rightarrow> 'a option" where
  "backfill process lastHeight latestHeight st =
     backfill_loop process latestHeight (backfill_start lastHeight latestHeight) st"

section \<open>The HTTP handlers\<close>

record Response =
  StatusCode :: nat
  Body :: bytes

definition http_Error :: "bytes \<Rightarrow> nat \<Rightarrow> Response" where
  "http_Error msg code = \<lparr>StatusCode = code, Body = msg @ [10]\<rparr>"

definition health_handler :: Response where
  "health_handler = \<lparr>StatusCode = 200, Body = str ''OK''\<rparr>"

text \<open>The text of a database error is left out. When marshalling fails the status line has been
  sent already, so the code stays 200.\<close>

definition inclusion_height_handler ::
    "'b BoltLib \<Rightarrow> (InclusionHeightResponse \<Rightarrow> error + bytes) \<Rightarrow> 'b \<Rightarrow> bytes \<Rightarrow> Response outcome" where
  "inclusion_height_handler B json_Marshal db ethBlockNumStr =
     (case parse_uint 16 ethBlockNumStr of
        Inl _ \<Rightarrow> Ok (http_Error (str ''Invalid Ethereum block number'') 400)
      | Inr n \<Rightarrow>
     let ethBlockNum = of_nat n in
     (case getMapping B db ethBlockNum of
        Panic e \<Rightarrow> Panic e
      | Fail _ \<Rightarrow> Ok (http_Error (str ''Database error'') 500)
      | Ok None \<Rightarrow> Ok (http_Error (str ''Ethereum block not found'') 404)
      | Ok (Some (celestiaHeight, blobCommitment)) \<Rightarrow>
          (case json_Marshal \<lparr>EthBlockNumber = ethBlockNum, CelestiaHeight = celestiaHeight,
               BlobCommitment = blobCommitment\<rparr> of
             Inl _ \<Rightarrow> Ok \<lparr>StatusCode = 200, Body = str ''Failed to generate response'' @ [10]\<rparr>
           | Inr jsonData \<Rightarrow> Ok \<lparr>StatusCode = 200, Body = jsonData\<rparr>)))"

definition status_handler :: "'b BoltLib \<Rightarrow> 'b \<Rightarrow> Response outcome" where
  "status_handler B db =
     (case getLastProcessedHeight B db of
        Panic e \<Rightarrow> Panic e
      | Fail _ \<Rightarrow> Ok (http_Error (str ''Database error'') 500)
      | Ok lastHeight \<Rightarrow> Ok \<lparr>StatusCode = 200,
          Body = str ''{\"last_processed_celestia_height\": '' @ dec (unat lastHeight) @ str ''}''\<rparr>)"

section \<open>The indexing loop\<close>

text \<open>The Celestia node: making a client, subscribing to headers, the latest height; and
  \<^verbatim>\<open>share.NewBlobNamespaceV0\<close>.\<close>

record 'n NodeLib =
  NewBlobNamespaceV0 :: "bytes \<Rightarrow> error + 'n"
  NewClient :: "bytes \<Rightarrow> bytes \<Rightarrow> error + unit"
  Header_Subscribe :: "error + unit"
  Header_GetLatest :: "error + u64"

definition indexer_namespace :: "'n NodeLib \<Rightarrow> Config \<Rightarrow> 'n outcome" where
  "indexer_namespace N config =
     bind_out (must (hex_DecodeString (CelestiaNamespace config))) (\<lambda>nsBytes. must (NewBlobNamespaceV0 N nsBytes))"

text \<open>On success the connection comes with the last processed height.\<close>

definition connectClient :: "'n NodeLib \<Rightarrow> 'b BoltLib \<Rightarrow> Config \<Rightarrow> 'b \<Rightarrow> u64 outcome" where
  "connectClient N B config db =
     bind_out (wrap_out ''failed to create client'' (of_result (NewClient N (CelestiaNodeURL config) (CelestiaAuthToken config))))
       (\<lambda>_.
     bind_out (wrap_out ''failed to get last processed height'' (getLastProcessedHeight B db))
       (\<lambda>lastHeight.
     bind_out (wrap_out ''failed to subscribe'' (of_result (Header_Subscribe N)))
       (\<lambda>_. Ok lastHeight)))"

text \<open>
  A task is a thread of control that processes heights: the height it is at with the blobs that
  are left, if it has fetched them, and the heights that are still to come. The first task is
  the main loop, the others are backfill goroutines.
\<close>

datatype Task = Task (current: "(u64 \<times> Blob list) option") (todo: "u64 list")

record 'b IxState =
  ix_db :: 'b
  ix_connected :: bool
  ix_running :: bool
  ix_tasks :: "Task list"

definition ix_init :: "'b \<Rightarrow> 'b IxState" where
  "ix_init db = \<lparr>ix_db = db, ix_connected = False, ix_running = True, ix_tasks = [Task None []]\<rparr>"

inductive ix_step ::
    "'b BoltLib \<Rightarrow> BlockLib \<Rightarrow> 'n NodeLib \<Rightarrow> Config \<Rightarrow> (u64 \<Rightarrow> Blob list) \<Rightarrow> 'b IxState \<Rightarrow> 'b IxState \<Rightarrow> bool"
  for B L N config chain where
  connect: "ix_running s \<Longrightarrow> \<not> ix_connected s \<Longrightarrow> connectClient N B config (ix_db s) = Ok lastHeight \<Longrightarrow>
    lastHeight = 0 \<or> Header_GetLatest N = Inl e \<Longrightarrow> ix_step B L N config chain s (s\<lparr>ix_connected := True\<rparr>)"
| connect_backfill: "ix_running s \<Longrightarrow> \<not> ix_connected s \<Longrightarrow> connectClient N B config (ix_db s) = Ok lastHeight \<Longrightarrow>
    lastHeight > 0 \<Longrightarrow> Header_GetLatest N = Inr latestHeight \<Longrightarrow>
    backfill (\<lambda>hs h. hs @ [h]) lastHeight latestHeight [] = Some hs \<Longrightarrow>
    ix_step B L N config chain s (s\<lparr>ix_connected := True, ix_tasks := ix_tasks s @ [Task None hs]\<rparr>)"
| connect_fail: "ix_running s \<Longrightarrow> \<not> ix_connected s \<Longrightarrow> connectClient N B config (ix_db s) = Fail e \<Longrightarrow>
    ix_step B L N config chain s s"
| closed: "ix_running s \<Longrightarrow> ix_connected s \<Longrightarrow> ix_tasks s = Task None [] # ts \<Longrightarrow>
    ix_step B L N config chain s (s\<lparr>ix_connected := False\<rparr>)"
| header: "ix_running s \<Longrightarrow> ix_connected s \<Longrightarrow> ix_tasks s = Task None [] # ts \<Longrightarrow>
    ix_step B L N config chain s (s\<lparr>ix_tasks := Task None [height] # ts\<rparr>)"
| fetch: "ix_running s \<Longrightarrow> i < length (ix_tasks s) \<Longrightarrow> ix_tasks s ! i = Task None (h # hs) \<Longrightarrow>
    ix_step B L N config chain s (s\<lparr>ix_tasks := (ix_tasks s)[i := Task (Some (h, chain h)) hs]\<rparr>)"
| fetch_fail: "ix_running s \<Longrightarrow> i < length (ix_tasks s) \<Longrightarrow> ix_tasks s ! i = Task None (h # hs) \<Longrightarrow>
    ix_step B L N config chain s (s\<lparr>ix_tasks := (ix_tasks s)[i := Task None hs]\<rparr>)"
| blob: "ix_running s \<Longrightarrow> i < length (ix_tasks s) \<Longrightarrow> ix_tasks s ! i = Task (Some (h, b # bs)) hs \<Longrightarrow>
    process_blob B L h (ix_db s) b = Ok db' \<Longrightarrow>
    ix_step B L N config chain s (s\<lparr>ix_db := db', ix_tasks := (ix_tasks s)[i := Task (Some (h, bs)) hs]\<rparr>)"
| finish: "ix_running s \<Longrightarrow> i < length (ix_tasks s) \<Longrightarrow> ix_tasks s ! i = Task (Some (h, [])) hs \<Longrightarrow>
    finish_height B (ix_db s) h = Ok db' \<Longrightarrow>
    ix_step B L N config chain s (s\<lparr>ix_db := db', ix_tasks := (ix_tasks s)[i := Task None hs]\<rparr>)"
| crash: "ix_running s \<Longrightarrow> i < length (ix_tasks s) \<Longrightarrow> ix_tasks s ! i = Task (Some (h, b # bs)) hs \<Longrightarrow>
    process_blob B L h (ix_db s) b = Panic e \<Longrightarrow>
    ix_step B L N config chain s (s\<lparr>ix_running := False, ix_tasks := []\<rparr>)"
| shutdown: "ix_running s \<Longrightarrow> ix_step B L N config chain s (s\<lparr>ix_running := False, ix_tasks := []\<rparr>)"

section \<open>Database lemmas\<close>

locale bolt_db =
  fixes B :: "'b BoltLib"
  assumes bolt_put: "bolt_Put B db b k v = Inr db' \<Longrightarrow>
      bolt_Bucket B db' = bolt_Bucket B db \<and>
      bolt_Get B db' b' k' = (if b' = b \<and> k' = k then Some v else bolt_Get B db b' k')"
    and bolt_create: "bolt_CreateBucket B db b = Inr db' \<Longrightarrow>
      bolt_Bucket B db' b' = (b' = b \<or> bolt_Bucket B db b') \<and>
      bolt_Get B db' b' k = (if bolt_Bucket B db b' then bolt_Get B db b' k else None)"

definition buckets_exist :: "'b BoltLib \<Rightarrow> 'b \<Rightarrow> bool" where
  "buckets_exist B db \<longleftrightarrow> bolt_Bucket B db bucketName \<and> bolt_Bucket B db metaBucket"

text \<open>The Ethereum block number a blob stands for, if it stands for one.\<close>

definition blob_number :: "BlockLib \<Rightarrow> Blob \<Rightarrow> u64 option" where
  "blob_number L blob = (case proto_Unmarshal L (blob_Data blob) of
      Inr (Some (tx # _)) \<Rightarrow> (case NewFromSSZ L tx of Inr n \<Rightarrow> Some n | Inl _ \<Rightarrow> None)
    | _ \<Rightarrow> None)"

definition nil_data :: "BlockLib \<Rightarrow> Blob \<Rightarrow> bool" where
  "nil_data L blob \<longleftrightarrow> proto_Unmarshal L (blob_Data blob) = Inr None"

lemma process_blob_eq:
  "process_blob B L h db blob =
     (if nil_data L blob then Panic (Sentinel ''nil pointer dereference'')
      else case blob_number L blob of None \<Rightarrow> Ok db
        | Some n \<Rightarrow> (case storeMapping B db n h (Commitment blob) of Fail _ \<Rightarrow> Ok db | res \<Rightarrow> res))"
proof (cases "proto_Unmarshal L (blob_Data blob)")
  case (Inr d)
  show ?thesis
  proof (cases d)
    case (Some txs)
    with Inr show ?thesis
    proof (cases txs)
      case (Cons tx txs')
      with Inr Some show ?thesis
        by (cases "NewFromSSZ L tx") (simp_all add: process_blob_def decodeRollkitBlock_def
            decodeEthBlockNumber_def blob_number_def nil_data_def)
    qed (simp add: process_blob_def decodeRollkitBlock_def blob_number_def nil_data_def)
  qed (simp add: process_blob_def decodeRollkitBlock_def nil_data_def Inr)
qed (simp add: process_blob_def decodeRollkitBlock_def blob_number_def nil_data_def)

lemma bucket_names_distinct [simp]: "bucketName \<noteq> metaBucket" "metaBucket \<noteq> bucketName"
  by (simp_all add: bucketName_def metaBucket_def)

definition mapping_of :: "'b BoltLib \<Rightarrow> 'b \<Rightarrow> u64 \<rightharpoonup> u64 \<times> bytes" where
  "mapping_of B db n = (case getMapping B db n of Ok m \<Rightarrow> m | _ \<Rightarrow> None)"

context bolt_db
begin

lemma storeMapping_Ok:
  assumes "storeMapping B db n h c = Ok db'"
  shows "mapping_of B db' = (mapping_of B db)(n \<mapsto> (h, c))" and "getMapping B db' n = Ok (Some (h, c))"
    and "getLastProcessedHeight B db' = getLastProcessedHeight B db" and "buckets_exist B db' = buckets_exist B db"
proof -
  have b: "bolt_Bucket B db bucketName" and p: "bolt_Put B db bucketName (le64 n) (le64 h @ c) = Inr db'"
    using assms by (auto simp: storeMapping_def bucket_Put_def Let_def out_simps split: if_splits)
  note put = bolt_put [OF p]
  show "getMapping B db' n = Ok (Some (h, c))"
    using b put by (simp add: getMapping_def bucket_Get_def)
  then show "mapping_of B db' = (mapping_of B db)(n \<mapsto> (h, c))"
    using b put by (auto simp: mapping_of_def getMapping_def bucket_Get_def Let_def fun_eq_iff)
  show "getLastProcessedHeight B db' = getLastProcessedHeight B db"
    and "buckets_exist B db' = buckets_exist B db"
    using put by (simp_all add: getLastProcessedHeight_def bucket_Get_def buckets_exist_def)
qed

lemma updateLast_Ok:
  assumes "updateLastProcessedHeight B db h = Ok db'"
  shows "getLastProcessedHeight B db' = Ok h" and "mapping_of B db' = mapping_of B db"
    and "buckets_exist B db' = buckets_exist B db"
proof -
  have b: "bolt_Bucket B db metaBucket" and p: "bolt_Put B db metaBucket lastProcessed (dec (unat h)) = Inr db'"
    using assms by (auto simp: updateLastProcessedHeight_def bucket_Put_def Let_def out_simps split: if_splits)
  note put = bolt_put [OF p]
  have "unat h < 2 ^ 64" using unat_u64_less [of h] by simp
  then show "getLastProcessedHeight B db' = Ok h"
    using b put by (simp add: getLastProcessedHeight_def bucket_Get_def)
  show "mapping_of B db' = mapping_of B db" and "buckets_exist B db' = buckets_exist B db"
    using put by (simp_all add: mapping_of_def getMapping_def bucket_Get_def buckets_exist_def fun_eq_iff)
qed

lemma process_blob_mapping:
  assumes "process_blob B L h db b = Ok db'"
  shows "mapping_of B db' = mapping_of B db \<or>
    (\<exists>n. blob_number L b = Some n \<and> mapping_of B db' = (mapping_of B db)(n \<mapsto> (h, Commitment b)))"
  using assms storeMapping_Ok(1) [of db _ h "Commitment b" db']
  by (auto simp: process_blob_eq split: if_splits option.splits outcome.splits)

lemma finish_height_mapping: "finish_height B db h = Ok db' \<Longrightarrow> mapping_of B db' = mapping_of B db"
  using updateLast_Ok(2) [of db h db'] by (auto simp: finish_height_def split: outcome.splits)

end

section \<open>Soundness of the index\<close>

text \<open>Every mapping stands for a blob of the chain at the height it names.\<close>

definition index_sound :: "'b BoltLib \<Rightarrow> BlockLib \<Rightarrow> (u64 \<Rightarrow> Blob list) \<Rightarrow> 'b \<Rightarrow> bool" where
  "index_sound B L chain db \<longleftrightarrow> (\<forall>n h c. mapping_of B db n = Some (h, c) \<longrightarrow>
     (\<exists>b \<in> set (chain h). blob_number L b = Some n \<and> Commitment b = c))"

definition task_ok :: "(u64 \<Rightarrow> Blob list) \<Rightarrow> Task \<Rightarrow> bool" where
  "task_ok chain t \<longleftrightarrow> (\<forall>h bs. current t = Some (h, bs) \<longrightarrow> set bs \<subseteq> set (chain h))"

definition ix_inv :: "'b BoltLib \<Rightarrow> BlockLib \<Rightarrow> (u64 \<Rightarrow> Blob list) \<Rightarrow> 'b IxState \<Rightarrow> bool" where
  "ix_inv B L chain s \<longleftrightarrow> index_sound B L chain (ix_db s) \<and> (\<forall>t \<in> set (ix_tasks s). task_ok chain t)"

lemma task_ok_idle [simp]: "task_ok chain (Task None hs)"
  by (simp add: task_ok_def)

lemma tasks_ok_update:
  "\<forall>t \<in> set ts. task_ok chain t \<Longrightarrow> task_ok chain t' \<Longrightarrow> \<forall>t \<in> set (ts[i := t']). task_ok chain t"
  using set_update_subset_insert [of ts i t'] by blast

lemma ix_inv_task:
  "ix_inv B L chain s \<Longrightarrow> task_ok chain t' \<Longrightarrow> ix_inv B L chain (s\<lparr>ix_tasks := (ix_tasks s)[i := t']\<rparr>)"
  using tasks_ok_update [of "ix_tasks s" chain t' i] by (simp add: ix_inv_def)

lemma ix_inv_task_db:
  "ix_inv B L chain s \<Longrightarrow> index_sound B L chain db \<Longrightarrow> task_ok chain t' \<Longrightarrow>
     ix_inv B L chain (s\<lparr>ix_db := db, ix_tasks := (ix_tasks s)[i := t']\<rparr>)"
  using tasks_ok_update [of "ix_tasks s" chain t' i] by (simp add: ix_inv_def)

context bolt_db
begin

lemma process_blob_sound:
  assumes "index_sound B L chain db" and "b \<in> set (chain h)" and "process_blob B L h db b = Ok db'"
  shows "index_sound B L chain db'"
  using process_blob_mapping [OF assms(3)] assms(1,2) unfolding index_sound_def by (auto split: if_splits)

lemma ix_step_inv: "ix_step B L N config chain s t \<Longrightarrow> ix_inv B L chain s \<Longrightarrow> ix_inv B L chain t"
proof (induction rule: ix_step.induct)
  case (fetch s i h hs)
  have "task_ok chain (Task (Some (h, chain h)) hs)" by (simp add: task_ok_def)
  then show ?case by (rule ix_inv_task [OF fetch.prems])
next
  case (fetch_fail s i h hs)
  show ?case by (rule ix_inv_task [OF fetch_fail.prems task_ok_idle])
next
  case (blob s i h b bs hs db')
  then have "Task (Some (h, b # bs)) hs \<in> set (ix_tasks s)" by (metis nth_mem)
  then have "task_ok chain (Task (Some (h, b # bs)) hs)" using blob.prems unfolding ix_inv_def by blast
  then have b: "b \<in> set (chain h)" and bs: "task_ok chain (Task (Some (h, bs)) hs)" by (auto simp: task_ok_def)
  have "index_sound B L chain db'"
    by (rule process_blob_sound [where h = h and b = b and db = "ix_db s"])
      (use blob b in \<open>simp_all add: ix_inv_def\<close>)
  then show ?case by (rule ix_inv_task_db [OF blob.prems _ bs])
next
  case (finish s i h hs db')
  then have "index_sound B L chain db'"
    using finish_height_mapping [OF finish.hyps(4)] by (simp add: ix_inv_def index_sound_def)
  then show ?case by (rule ix_inv_task_db [OF finish.prems _ task_ok_idle])
qed (auto simp: ix_inv_def)

lemma ix_reach_inv:
  assumes "(ix_step B L N config chain)\<^sup>*\<^sup>* s t" and "ix_inv B L chain s"
  shows "ix_inv B L chain t"
  using assms by (induction rule: rtranclp_induct) (auto intro: ix_step_inv)

text \<open>When no write fails, a height is indexed completely.\<close>

lemma process_blobs_complete:
  assumes put_total: "\<And>db b k v. \<exists>db'. bolt_Put B db b k v = Inr db'"
  shows "buckets_exist B db \<Longrightarrow> \<forall>b \<in> set bs. \<not> nil_data L b \<Longrightarrow>
    \<exists>db'. process_blobs B L h db bs = Ok db' \<and> buckets_exist B db' \<and>
      (\<forall>n. mapping_of B db' n =
        (case filter (\<lambda>b. blob_number L b = Some n) bs of [] \<Rightarrow> mapping_of B db n
         | bs' \<Rightarrow> Some (h, Commitment (last bs'))))"
proof (induction bs arbitrary: db)
  case (Cons b bs)
  obtain db1 where db1: "process_blob B L h db b = Ok db1" "buckets_exist B db1"
    "mapping_of B db1 = (case blob_number L b of None \<Rightarrow> mapping_of B db | Some n \<Rightarrow> (mapping_of B db)(n \<mapsto> (h, Commitment b)))"
  proof (cases "blob_number L b")
    case None
    then show ?thesis using that [of db] Cons.prems by (simp add: process_blob_eq)
  next
    case (Some n)
    obtain db1 where "bolt_Put B db bucketName (le64 n) (le64 h @ Commitment b) = Inr db1"
      using put_total by blast
    then have "storeMapping B db n h (Commitment b) = Ok db1"
      using Cons.prems(1) by (simp add: storeMapping_def bucket_Put_def buckets_exist_def)
    then show ?thesis
      using that [of db1] storeMapping_Ok(1,4) [of db n h "Commitment b" db1] Cons.prems Some by (simp add: process_blob_eq)
  qed
  obtain db' where db': "process_blobs B L h db1 bs = Ok db'" "buckets_exist B db'"
    "mapping_of B db' n = (case filter (\<lambda>b. blob_number L b = Some n) bs of [] \<Rightarrow> mapping_of B db1 n
      | bs' \<Rightarrow> Some (h, Commitment (last bs')))" for n
    using Cons.IH [OF db1(2)] Cons.prems by auto
  then show ?case using db1 by (auto split: option.splits list.splits)
qed simp

end

section \<open>Backfill\<close>

lemma unat_plus_1:
  assumes "unat (h :: u64) < 2 ^ 64 - 1"
  shows "unat (h + 1) = Suc (unat h)"
  using assms by (simp add: unat_word_ariths)

lemma unat_less_max: "(latest :: u64) \<noteq> - 1 \<Longrightarrow> unat latest < 2 ^ 64 - 1"
proof -
  assume "latest \<noteq> - 1"
  then have "latest < - 1" by (simp add: order.not_eq_order_implies_strict)
  moreover have "unat (- 1 :: u64) = 2 ^ 64 - 1" by (simp add: unsigned_minus_1_eq_mask mask_eq_exp_minus_1)
  ultimately show ?thesis by (simp add: word_less_nat_alt)
qed

lemma backfill_loop_upt:
  assumes "latest \<noteq> - 1"
  shows "backfill_loop f latest h a = Some (foldl f a (map of_nat [unat h..<Suc (unat latest)]))"
proof (induction "Suc (unat latest) - unat h" arbitrary: h a)
  case 0
  then have "\<not> h \<le> latest" by (simp add: word_le_nat_alt)
  then show ?case using 0 by (subst backfill_loop.simps) simp
next
  case (Suc m)
  then have le: "h \<le> latest" by (simp add: word_le_nat_alt)
  then have "unat h < 2 ^ 64 - 1"
    using unat_less_max [OF assms] by (simp add: word_le_nat_alt)
  then have u: "unat (h + 1) = Suc (unat h)" by (rule unat_plus_1)
  then have "m = Suc (unat latest) - unat (h + 1)" using Suc.hyps(2) by simp
  then have "backfill_loop f latest (h + 1) (f a h) = Some (foldl f (f a h) (map of_nat [Suc (unat h)..<Suc (unat latest)]))"
    using Suc.hyps(1) [of "h + 1" "f a h"] u by simp
  moreover have "[unat h..<Suc (unat latest)] = unat h # [Suc (unat h)..<Suc (unat latest)]"
    using le by (simp add: upt_conv_Cons word_le_nat_alt)
  ultimately show ?case using le by (subst backfill_loop.simps) simp
qed

lemma foldl_snoc: "foldl (\<lambda>hs h. hs @ [h]) a xs = a @ xs"
  by (induction xs arbitrary: a) auto

definition first_backfilled :: "u64 \<Rightarrow> u64 \<Rightarrow> nat" where
  "first_backfilled lastHeight latestHeight =
     (if unat lastHeight < unat latestHeight \<and> unat latestHeight - unat lastHeight \<le> 101 then unat lastHeight + 1
      else if 100 \<le> unat latestHeight then unat latestHeight - 100 else unat latestHeight + 1)"

lemma backfill_start_eq:
  assumes "unat lastHeight < 2 ^ 63" and "unat latestHeight < 2 ^ 63"
  shows "[unat (backfill_start lastHeight latestHeight)..<Suc (unat latestHeight)] =
    [first_backfilled lastHeight latestHeight..<Suc (unat latestHeight)]"
proof -
  let ?a = "unat lastHeight" and ?b = "unat latestHeight"
  have s: "unat (lastHeight + 1) = Suc ?a" by (rule unat_plus_1) (use assms(1) in simp)
  have d: "unat (latestHeight - (lastHeight + 1)) = (if Suc ?a \<le> ?b then ?b - Suc ?a else 2 ^ 64 + ?b - Suc ?a)"
    by (simp add: unat_sub_if' s)
  have e: "unat (latestHeight - 100) = (if 100 \<le> ?b then ?b - 100 else 2 ^ 64 + ?b - 100)"
    by (simp add: unat_sub_if')
  have c: "100 < latestHeight - (lastHeight + 1) \<longleftrightarrow> \<not> (Suc ?a \<le> ?b \<and> ?b - Suc ?a \<le> 100)"
    using assms d unfolding word_less_nat_alt by (cases "Suc ?a \<le> ?b") auto
  show ?thesis
  proof (cases "Suc ?a \<le> ?b \<and> ?b - Suc ?a \<le> 100")
    case True
    then have "first_backfilled lastHeight latestHeight = Suc ?a" by (auto simp: first_backfilled_def)
    then show ?thesis using c True s by (simp add: backfill_start_def maxBackfill_def)
  next
    case False
    then have "first_backfilled lastHeight latestHeight = (if 100 \<le> ?b then ?b - 100 else ?b + 1)"
      by (auto simp: first_backfilled_def)
    then show ?thesis using c False e by (simp add: backfill_start_def maxBackfill_def)
  qed
qed

section \<open>An instance\<close>

text \<open>Buckets as a finite map of finite maps; a block is a flag byte and a number byte.\<close>

type_synonym bolt = "(bytes, (bytes, bytes) fmap) fmap"

definition mem_bolt :: "bolt BoltLib" where
  "mem_bolt = \<lparr>bolt_Open = (\<lambda>p. Inr fmempty),
     bolt_CreateBucket = (\<lambda>d b. Inr (case fmlookup d b of None \<Rightarrow> fmupd b fmempty d | Some _ \<Rightarrow> d)),
     bolt_Bucket = (\<lambda>d b. fmlookup d b \<noteq> None),
     bolt_Put = (\<lambda>d b k v. case fmlookup d b of None \<Rightarrow> Inl (Errorf ''bucket not found'')
        | Some m \<Rightarrow> Inr (fmupd b (fmupd k v m) d)),
     bolt_Get = (\<lambda>d b k. case fmlookup d b of None \<Rightarrow> None | Some m \<Rightarrow> fmlookup m k)\<rparr>"

interpretation mem_bolt: bolt_db mem_bolt
  by unfold_locales (auto simp: mem_bolt_def fun_eq_iff split: option.splits if_splits)

definition ex_blocks :: BlockLib where
  "ex_blocks = \<lparr>proto_Unmarshal = (\<lambda>d. if d = [] then Inr None else Inr (Some [d])),
     NewFromSSZ = (\<lambda>d. Inr (of_nat (length d)))\<rparr>"

definition ex_bolt :: bolt where
  "ex_bolt = fmupd metaBucket fmempty (fmupd bucketName fmempty fmempty)"

lemma ex_bolt_setup: "setupDB mem_bolt = Ok ex_bolt"
  by (simp add: setupDB_def mem_bolt_def ex_bolt_def)

lemma ex_bolt_buckets: "buckets_exist mem_bolt ex_bolt"
  by (simp add: buckets_exist_def mem_bolt_def ex_bolt_def)

lemma ex_bolt_empty: "mapping_of mem_bolt ex_bolt n = None"
  by (simp add: mapping_of_def getMapping_def bucket_Get_def mem_bolt_def ex_bolt_def)

lemma ex_store:
  obtains db' where "storeMapping mem_bolt ex_bolt n h c = Ok db'"
  by (simp add: storeMapping_def bucket_Put_def mem_bolt_def ex_bolt_def)

section \<open>Properties\<close>




definition total_bolt :: "(bytes \<times> bytes \<Rightarrow> bytes option) BoltLib" where
  "total_bolt = \<lparr>bolt_Open = (\<lambda>p. Inr (\<lambda>_. None)), bolt_CreateBucket = (\<lambda>d b. Inr d), bolt_Bucket = (\<lambda>d b. True),
     bolt_Put = (\<lambda>d b k v. Inr (d((b, k) \<mapsto> v))), bolt_Get = (\<lambda>d b k. d (b, k))\<rparr>"


text \<open>
  C28. What the database stores it reads back: a stored mapping is returned with its height and
  commitment by \<^verbatim>\<open>getMapping\<close>, the mappings of other block numbers and the last processed
  height stay; a stored last processed height is returned by \<^verbatim>\<open>getLastProcessedHeight\<close>, and
  all mappings stay.
\<close>

theorem database_roundtrip:
  assumes "bolt_db B"
  shows "(storeMapping B db n h c = Ok db' \<longrightarrow> getMapping B db' n = Ok (Some (h, c)) \<and>
      (\<forall>m. m \<noteq> n \<longrightarrow> mapping_of B db' m = mapping_of B db m) \<and>
      getLastProcessedHeight B db' = getLastProcessedHeight B db) \<and>
    (updateLastProcessedHeight B db h = Ok db' \<longrightarrow> getLastProcessedHeight B db' = Ok h \<and>
      mapping_of B db' = mapping_of B db)"
  using bolt_db.storeMapping_Ok [OF assms, of db n h c db'] bolt_db.updateLast_Ok [OF assms, of db h db'] by auto

theorem database_roundtrip_witness:
  "\<exists>db'. storeMapping mem_bolt ex_bolt 70000 9 [8] = Ok db' \<and> getMapping mem_bolt db' 70000 = Ok (Some (9, [8]))"
proof -
  obtain db' where "storeMapping mem_bolt ex_bolt 70000 9 [8] = Ok db'" by (rule ex_store)
  then show ?thesis using database_roundtrip [OF mem_bolt.bolt_db_axioms, of ex_bolt 70000 9 "[8]" db'] by auto
qed

text \<open>
  C29. The inclusion handler serves block numbers of at most 16 bits: a number from 65536 on is
  answered with status 400, even when its mapping is stored; a smaller one is answered with the
  stored mapping, or with 404 when there is none.
\<close>

theorem inclusion_height_16_bits:
  assumes "bolt_db B" and "bolt_Bucket B db bucketName"
    and "storeMapping B db n h c = Ok db'" and "\<And>r. json_Marshal r = Inr (enc r)"
  shows "inclusion_height_handler B json_Marshal db' (dec (unat n)) =
    Ok (if unat n < 65536
        then \<lparr>StatusCode = 200, Body = enc \<lparr>EthBlockNumber = n, CelestiaHeight = h, BlobCommitment = c\<rparr>\<rparr>
        else \<lparr>StatusCode = 400, Body = str ''Invalid Ethereum block number'' @ [10]\<rparr>)"
proof (cases "unat n < 65536")
  case True
  then have "parse_uint 16 (dec (unat n)) = Inr (unat n)" by simp
  then show ?thesis
    using True bolt_db.storeMapping_Ok(2) [OF assms(1,3)] assms(4) by (simp add: inclusion_height_handler_def)
next
  case False
  have "\<exists>e. parse_uint 16 (dec (unat n)) = Inl e"
  proof (cases "parse_uint 16 (dec (unat n))")
    case (Inr m)
    then have "m < 2 ^ 16" by (rule parse_uint_less)
    moreover have "parse_uint 64 (dec (unat n)) = Inr (unat n)" using unat_u64_less [of n] by (intro parse_uint_dec) simp
    moreover have "parse_uint 64 (dec (unat n)) = Inr m" using Inr by (rule parse_uint_mono) simp
    ultimately show ?thesis using False by simp
  qed simp
  then show ?thesis using False by (auto simp: inclusion_height_handler_def http_Error_def)
qed

theorem inclusion_height_16_bits_witness:
  "\<exists>db'. storeMapping mem_bolt ex_bolt 70000 9 [8] = Ok db' \<and>
     inclusion_height_handler mem_bolt (\<lambda>r. Inr []) db' (dec 70000) =
       Ok \<lparr>StatusCode = 400, Body = str ''Invalid Ethereum block number'' @ [10]\<rparr>"
proof -
  obtain db' where s: "storeMapping mem_bolt ex_bolt 70000 9 [8] = Ok db'" by (rule ex_store)
  have b: "bolt_Bucket mem_bolt ex_bolt bucketName" using ex_bolt_buckets by (simp add: buckets_exist_def)
  show ?thesis
    using inclusion_height_16_bits [OF mem_bolt.bolt_db_axioms b s, of "\<lambda>r. Inr []" "\<lambda>r. []"] s
    by (simp del: str_simps dec.simps)
qed

text \<open>
  C30. Backfilling terminates and covers exactly one range that ends at the latest height. When
  at most 101 heights were missed it is the missed heights; when more were missed it is the last
  101. When nothing was missed the subtraction wraps around, and the last 101 heights are
  processed again if the chain has that many, and none otherwise.
\<close>

theorem backfill_range:
  assumes "unat lastHeight < 2 ^ 63" and "unat latestHeight < 2 ^ 63"
  shows "backfill process lastHeight latestHeight st =
      Some (foldl process st (map of_nat
        [(if unat lastHeight < unat latestHeight \<and> unat latestHeight - unat lastHeight \<le> 101 then unat lastHeight + 1
          else if 100 \<le> unat latestHeight then unat latestHeight - 100 else unat latestHeight + 1)
         ..< Suc (unat latestHeight)]))"
proof -
  have "latestHeight \<noteq> - 1" using assms(2) by (auto simp: unsigned_minus_1_eq_mask mask_eq_exp_minus_1)
  then show ?thesis
    using backfill_start_eq [OF assms]
    by (simp add: backfill_def backfill_loop_upt first_backfilled_def del: upt_Suc)
qed

theorem backfill_range_witness:
  "backfill (\<lambda>hs h. hs @ [h]) 7 10 [] = Some [8, 9, 10 :: u64] \<and>
   (\<exists>hs. backfill (\<lambda>hs h. hs @ [h]) 200 200 [] = Some hs \<and> length hs = 101)"
  using backfill_range [of 7 10 "\<lambda>hs h. hs @ [h]" "[]"] backfill_range [of 200 200 "\<lambda>hs h. hs @ [h]" "[]"]
  by (simp add: foldl_snoc upt_rec)

text \<open>
  A blob that decodes to a block without data crashes the indexer: \<^verbatim>\<open>processHeight\<close>
  panics on every height that has such a blob, whatever else the height contains.
\<close>

lemma nil_data_crashes:
  assumes "GetAll height = Inr blobs" and "b \<in> set blobs" and "nil_data L b"
  shows "\<exists>e. processHeight B L GetAll db height = Panic e"
proof -
  have "\<exists>e. process_blobs B L height db blobs = Panic e"
    using assms(2,3)
  proof (induction blobs arbitrary: db)
    case (Cons a blobs)
    then show ?case
      by (cases "process_blob B L height db a")
        (auto simp: process_blob_eq split: if_splits option.splits outcome.splits)
  qed simp
  then show ?thesis using assms(1) by (auto simp: processHeight_def)
qed

lemma nil_data_crashes_example:
  "\<exists>e. processHeight mem_bolt ex_blocks (\<lambda>h. Inr [\<lparr>blob_Data = [], Commitment = [8]\<rparr>]) ex_bolt 9 = Panic e"
proof -
  let ?b = "\<lparr>blob_Data = [], Commitment = [8]\<rparr>"
  show ?thesis
    by (rule nil_data_crashes [where blobs = "[?b]" and b = ?b]) (simp_all add: nil_data_def ex_blocks_def)
qed

end
