(* ===== verification/Indexer_Service.thy ===== *)
theory Indexer_Service
  imports Indexer
begin

text \<open>
  The life of the indexer process, \<^verbatim>\<open>main\<close> and the server part of \<^verbatim>\<open>startAPI\<close> in \<^verbatim>\<open>indexer/main.go\<close>: the API
  server and the indexing loop as two goroutines of a wait group, the signal handler that closes the
  shutdown channel and cancels the context, and the end of the process. Routing and listening are
  those of \<^verbatim>\<open>gorilla/mux\<close> and \<^verbatim>\<open>net/http\<close>; what is modelled is which handler is registered where.
\<close>

section \<open>The API server\<close>

datatype Handler = HealthHandler | InclusionHeightHandler | StatusHandler

definition api_routes :: "(bytes \<times> bytes \<times> Handler) list" where
  "api_routes =
     [(str ''GET'', str ''/health'', HealthHandler),
      (str ''GET'', str ''/inclusion_height/{eth_block_number}'', InclusionHeightHandler),
      (str ''GET'', str ''/status'', StatusHandler)]"

text \<open>\<open>vars\<close> is \<^verbatim>\<open>mux.Vars\<close>; a missing variable is the empty string.\<close>

definition handle ::
    "'b BoltLib \<Rightarrow> (InclusionHeightResponse \<Rightarrow> error + bytes) \<Rightarrow> 'b \<Rightarrow> Handler \<Rightarrow> (bytes \<rightharpoonup> bytes) \<Rightarrow> Response outcome" where
  "handle B json_Marshal db handler vars =
     (case handler of
        HealthHandler \<Rightarrow> Ok health_handler
      | InclusionHeightHandler \<Rightarrow> inclusion_height_handler B json_Marshal db
          (case vars (str ''eth_block_number'') of None \<Rightarrow> [] | Some v \<Rightarrow> v)
      | StatusHandler \<Rightarrow> status_handler B db)"

record Server =
  Addr :: bytes
  ReadTimeout :: i64
  WriteTimeout :: i64

definition api_server :: "Config \<Rightarrow> Server" where
  "api_server config =
     \<lparr>Addr = str '':'' @ APIPort config, ReadTimeout = HTTPTimeout config, WriteTimeout = HTTPTimeout config\<rparr>"

section \<open>The process\<close>

datatype End = Exited | Crashed

text \<open>\<open>api_done\<close> and \<open>loop_done\<close> say that \<^verbatim>\<open>startAPI\<close> and \<^verbatim>\<open>startIndexer\<close> have returned, with their
  \<^verbatim>\<open>wg.Done()\<close>; the tasks of \<open>svc_ix\<close> after the first are the backfill goroutines, which the wait group
  does not count.\<close>

record 'b Service =
  svc_ix :: "'b IxState"
  shutdown_closed :: bool
  ctx_cancelled :: bool
  api_done :: bool
  loop_done :: bool
  wg_count :: nat
  svc_end :: "End option"

text \<open>The process after \<^verbatim>\<open>main\<close> has started both services and waits for them.\<close>

definition indexer_main :: "'b BoltLib \<Rightarrow> 'b Service outcome" where
  "indexer_main B =
     (case setupDB B of
        Ok db \<Rightarrow> Ok \<lparr>svc_ix = ix_init db, shutdown_closed = False, ctx_cancelled = False,
          api_done = False, loop_done = False, wg_count = 2, svc_end = None\<rparr>
      | Fail e \<Rightarrow> Panic (Wrap ''Failed to setup database'' e)
      | Panic e \<Rightarrow> Panic e)"

text \<open>
  \<open>index\<close> is a step of the indexing loop or of a backfill goroutine; after the loop has returned only
  the goroutines step. The loop leaves its \<^verbatim>\<open>select\<close> for a closed shutdown channel, and for a cancelled
  context only while it is connected. A panic of any goroutine ends the process, also the one on an
  invalid namespace at the start of \<^verbatim>\<open>startIndexer\<close>.
\<close>

inductive svc_step ::
    "'b BoltLib \<Rightarrow> BlockLib \<Rightarrow> 'n NodeLib \<Rightarrow> Config \<Rightarrow> (u64 \<Rightarrow> Blob list) \<Rightarrow> 'b Service \<Rightarrow> 'b Service \<Rightarrow> bool"
  for B L N config chain where
  signal_close: "svc_end s = None \<Longrightarrow> \<not> shutdown_closed s \<Longrightarrow>
    svc_step B L N config chain s (s\<lparr>shutdown_closed := True\<rparr>)"
| signal_cancel: "svc_end s = None \<Longrightarrow> shutdown_closed s \<Longrightarrow> \<not> ctx_cancelled s \<Longrightarrow>
    svc_step B L N config chain s (s\<lparr>ctx_cancelled := True\<rparr>)"
| api_shutdown: "svc_end s = None \<Longrightarrow> shutdown_closed s \<Longrightarrow> \<not> api_done s \<Longrightarrow>
    svc_step B L N config chain s (s\<lparr>api_done := True, wg_count := wg_count s - 1\<rparr>)"
| api_error: "svc_end s = None \<Longrightarrow> \<not> api_done s \<Longrightarrow>
    svc_step B L N config chain s (s\<lparr>api_done := True, wg_count := wg_count s - 1\<rparr>)"
| index: "svc_end s = None \<Longrightarrow> indexer_namespace N config = Ok ns \<Longrightarrow>
    ix_step B L N config chain (svc_ix s) t \<Longrightarrow> ix_running t \<Longrightarrow>
    loop_done s \<longrightarrow> ix_connected t = ix_connected (svc_ix s) \<and> hd (ix_tasks t) = hd (ix_tasks (svc_ix s)) \<Longrightarrow>
    svc_step B L N config chain s (s\<lparr>svc_ix := t\<rparr>)"
| blob_panic: "svc_end s = None \<Longrightarrow> Task (Some (h, b # bs)) hs \<in> set (ix_tasks (svc_ix s)) \<Longrightarrow>
    process_blob B L h (ix_db (svc_ix s)) b = Panic e \<Longrightarrow>
    svc_step B L N config chain s (s\<lparr>svc_end := Some Crashed\<rparr>)"
| finish_panic: "svc_end s = None \<Longrightarrow> Task (Some (h, [])) hs \<in> set (ix_tasks (svc_ix s)) \<Longrightarrow>
    finish_height B (ix_db (svc_ix s)) h = Panic e \<Longrightarrow>
    svc_step B L N config chain s (s\<lparr>svc_end := Some Crashed\<rparr>)"
| namespace_panic: "svc_end s = None \<Longrightarrow> \<not> loop_done s \<Longrightarrow> indexer_namespace N config = Panic e \<Longrightarrow>
    svc_step B L N config chain s (s\<lparr>svc_end := Some Crashed\<rparr>)"
| loop_return: "svc_end s = None \<Longrightarrow> \<not> loop_done s \<Longrightarrow> indexer_namespace N config = Ok ns \<Longrightarrow>
    ix_tasks (svc_ix s) = Task None [] # ts \<Longrightarrow>
    shutdown_closed s \<or> ix_connected (svc_ix s) \<and> ctx_cancelled s \<Longrightarrow>
    svc_step B L N config chain s (s\<lparr>loop_done := True, wg_count := wg_count s - 1\<rparr>)"
| main_exit: "svc_end s = None \<Longrightarrow> wg_count s = 0 \<Longrightarrow>
    svc_step B L N config chain s (s\<lparr>svc_end := Some Exited\<rparr>)"

section \<open>The invariant of the process\<close>

lemma ix_step_tasks: "ix_step B L N config chain s t \<Longrightarrow> ix_running t \<Longrightarrow> ix_tasks s \<noteq> [] \<Longrightarrow> ix_tasks t \<noteq> []"
  by (induction rule: ix_step.induct) auto

definition svc_inv :: "'b BoltLib \<Rightarrow> BlockLib \<Rightarrow> (u64 \<Rightarrow> Blob list) \<Rightarrow> 'b Service \<Rightarrow> bool" where
  "svc_inv B L chain s \<longleftrightarrow>
     wg_count s = (if api_done s then 0 else 1) + (if loop_done s then 0 else 1)
     \<and> (loop_done s \<or> ctx_cancelled s \<longrightarrow> shutdown_closed s)
     \<and> (svc_end s = Some Exited \<longrightarrow> wg_count s = 0)
     \<and> ix_running (svc_ix s) \<and> ix_tasks (svc_ix s) \<noteq> []
     \<and> buckets_exist B (ix_db (svc_ix s)) \<and> ix_inv B L chain (svc_ix s)"

text \<open>A step of the indexing loop alone.\<close>

definition only_ix :: "'b Service \<Rightarrow> 'b Service \<Rightarrow> bool" where
  "only_ix s t \<longleftrightarrow> t = s\<lparr>svc_ix := svc_ix t\<rparr>"

lemma only_ix_trans: "only_ix s t \<Longrightarrow> only_ix t u \<Longrightarrow> only_ix s u"
  by (cases s, cases t, cases u) (simp add: only_ix_def)

lemma only_ix_fields:
  "only_ix s t \<Longrightarrow> shutdown_closed t = shutdown_closed s \<and> ctx_cancelled t = ctx_cancelled s \<and> api_done t = api_done s
     \<and> loop_done t = loop_done s \<and> wg_count t = wg_count s \<and> svc_end t = svc_end s"
  by (cases s, cases t) (simp add: only_ix_def)

context bolt_db
begin

lemma process_blob_buckets: "process_blob B L h db b = Ok db' \<Longrightarrow> buckets_exist B db' = buckets_exist B db"
  using storeMapping_Ok(4) [of db _ h "Commitment b" db']
  by (auto simp: process_blob_eq split: if_splits option.splits outcome.splits)

lemma finish_height_buckets: "finish_height B db h = Ok db' \<Longrightarrow> buckets_exist B db' = buckets_exist B db"
  using updateLast_Ok(3) [of db h db'] by (auto simp: finish_height_def split: outcome.splits)

lemma ix_step_buckets:
  "ix_step B L N config chain s t \<Longrightarrow> buckets_exist B (ix_db t) = buckets_exist B (ix_db s)"
  by (induction rule: ix_step.induct) (auto dest: process_blob_buckets finish_height_buckets)

lemma setupDB_buckets:
  assumes "setupDB B = Ok db"
  shows "buckets_exist B db"
proof -
  obtain db0 db1 where "bolt_CreateBucket B db0 bucketName = Inr db1" "bolt_CreateBucket B db1 metaBucket = Inr db"
    using assms by (auto simp: setupDB_def out_simps wrap_out_eq_Ok of_result_eq_Ok)
  then show ?thesis using bolt_create by (auto simp: buckets_exist_def)
qed

lemma svc_inv_main:
  assumes "indexer_main B = Ok s" and "index_sound B L chain (ix_db (svc_ix s))"
  shows "svc_inv B L chain s"
  using assms setupDB_buckets by (auto simp: indexer_main_def svc_inv_def ix_init_def ix_inv_def split: outcome.splits)

lemma svc_step_inv: "svc_step B L N config chain s t \<Longrightarrow> svc_inv B L chain s \<Longrightarrow> svc_inv B L chain t"
proof (induction rule: svc_step.induct)
  case (index s ns t)
  then show ?case
    using ix_step_tasks [OF index.hyps(3,4)] ix_step_buckets [OF index.hyps(3)] ix_step_inv [OF index.hyps(3)]
    by (simp add: svc_inv_def)
qed (auto simp: svc_inv_def split: if_splits)

lemma svc_reach_inv:
  "(svc_step B L N config chain)\<^sup>*\<^sup>* s t \<Longrightarrow> svc_inv B L chain s \<Longrightarrow> svc_inv B L chain t"
  by (induction rule: rtranclp_induct) (auto intro: svc_step_inv)

end

section \<open>Shutting down\<close>

lemma bucket_Put_no_panic: "bolt_Bucket B db b \<Longrightarrow> bucket_Put B db b k v \<noteq> Panic e"
  by (cases "bolt_Put B db b k v") (simp_all add: bucket_Put_def)

lemma process_blob_total:
  assumes "buckets_exist B db" and "\<not> nil_data L b"
  obtains db' where "process_blob B L h db b = Ok db'"
proof -
  have "\<exists>db'. process_blob B L h db b = Ok db'"
    using assms bucket_Put_no_panic [of B db bucketName]
    by (auto simp: process_blob_eq storeMapping_def buckets_exist_def split: option.splits outcome.splits)
  then show ?thesis using that by blast
qed

lemma finish_height_total:
  assumes "buckets_exist B db"
  obtains db' where "finish_height B db h = Ok db'"
proof -
  have "\<exists>db'. finish_height B db h = Ok db'"
    using assms bucket_Put_no_panic [of B db metaBucket]
    by (auto simp: finish_height_def updateLastProcessedHeight_def buckets_exist_def split: outcome.splits)
  then show ?thesis using that by blast
qed

text \<open>What is left of a task.\<close>

fun task_size :: "Task \<Rightarrow> nat" where
  "task_size (Task None hs) = length hs"
| "task_size (Task (Some (h, bs)) hs) = Suc (length bs + length hs)"

definition ix_moves where
  "ix_moves B L N config chain s t \<longleftrightarrow> (svc_step B L N config chain)\<^sup>*\<^sup>* s t \<and> only_ix s t"

lemma ix_moves_step:
  assumes "svc_end s = None" and "\<not> loop_done s" and "indexer_namespace N config = Ok ns"
    and "ix_step B L N config chain (svc_ix s) x" and "ix_running x"
    and "ix_moves B L N config chain (s\<lparr>svc_ix := x\<rparr>) t"
  shows "ix_moves B L N config chain s t"
proof -
  have "svc_step B L N config chain s (s\<lparr>svc_ix := x\<rparr>)" by (rule svc_step.index [OF assms(1,3-5)]) (simp add: assms(2))
  moreover have "only_ix s (s\<lparr>svc_ix := x\<rparr>)" by (simp add: only_ix_def)
  ultimately show ?thesis
    using assms(6) unfolding ix_moves_def by (blast intro: converse_rtranclp_into_rtranclp only_ix_trans)
qed

context bolt_db
begin

lemma next_task_step:
  assumes inv: "svc_inv B L chain s" and nil: "\<forall>h. \<forall>b \<in> set (chain h). \<not> nil_data L b"
    and tasks: "ix_tasks (svc_ix s) = Task c hs # ts" and pos: "task_size (Task c hs) = Suc n"
  obtains x c' hs' where "ix_step B L N config chain (svc_ix s) x" "ix_running x"
    "ix_tasks x = Task c' hs' # ts" "task_size (Task c' hs') = n"
proof -
  let ?s = "svc_ix s"
  have run: "ix_running ?s" and buckets: "buckets_exist B (ix_db ?s)" and ok: "task_ok chain (Task c hs)"
    and i: "0 < length (ix_tasks ?s)" "ix_tasks ?s ! 0 = Task c hs"
    using inv tasks by (auto simp: svc_inv_def ix_inv_def)
  show ?thesis
  proof (cases c)
    case None
    with pos obtain h hs' where "hs = h # hs'" "length hs' = n" by (auto simp: length_Suc_conv)
    with ix_step.fetch_fail [OF run i(1), of h hs'] i(2) None tasks run show ?thesis
      by (intro that [of "?s\<lparr>ix_tasks := (ix_tasks ?s)[0 := Task None hs']\<rparr>" None hs']) simp_all
  next
    case (Some hb)
    obtain h bs where c: "c = Some (h, bs)" using Some by (cases hb) simp
    show ?thesis
    proof (cases bs)
      case Nil
      obtain db' where "finish_height B (ix_db ?s) h = Ok db'" using finish_height_total [OF buckets] .
      with ix_step.finish [OF run i(1), of h hs] i(2) c Nil pos tasks run show ?thesis
        by (intro that [of "?s\<lparr>ix_db := db', ix_tasks := (ix_tasks ?s)[0 := Task None hs]\<rparr>" None hs]) simp_all
    next
      case (Cons b bs')
      then have "\<not> nil_data L b" using ok c nil by (auto simp: task_ok_def)
      then obtain db' where "process_blob B L h (ix_db ?s) b = Ok db'" using process_blob_total [OF buckets] by blast
      with ix_step.blob [OF run i(1), of h b bs' hs] i(2) c Cons pos tasks run show ?thesis
        by (intro that [of "?s\<lparr>ix_db := db', ix_tasks := (ix_tasks ?s)[0 := Task (Some (h, bs')) hs]\<rparr>"
            "Some (h, bs')" hs]) simp_all
    qed
  qed
qed

text \<open>The indexing loop can always finish the height it is at.\<close>

lemma drain_loop:
  assumes "\<forall>h. \<forall>b \<in> set (chain h). \<not> nil_data L b" and "indexer_namespace N config = Ok ns"
  shows "svc_inv B L chain s \<Longrightarrow> svc_end s = None \<Longrightarrow> \<not> loop_done s \<Longrightarrow> ix_tasks (svc_ix s) = Task c hs # ts \<Longrightarrow>
    task_size (Task c hs) = n \<Longrightarrow> \<exists>t. ix_moves B L N config chain s t \<and> ix_tasks (svc_ix t) = Task None [] # ts"
proof (induction n arbitrary: s c hs)
  case 0
  then have "c = None" "hs = []" by (cases "Task c hs" rule: task_size.cases; simp)+
  then show ?case using 0 by (intro exI [of _ s]) (simp add: ix_moves_def only_ix_def)
next
  case (Suc n)
  obtain x c' hs' where x: "ix_step B L N config chain (svc_ix s) x" "ix_running x"
      "ix_tasks x = Task c' hs' # ts" "task_size (Task c' hs') = n"
    using next_task_step [OF Suc.prems(1) assms(1) Suc.prems(4,5)] by blast
  have "svc_step B L N config chain s (s\<lparr>svc_ix := x\<rparr>)"
    by (rule svc_step.index [OF Suc.prems(2) assms(2) x(1,2)]) (simp add: Suc.prems(3))
  then have "svc_inv B L chain (s\<lparr>svc_ix := x\<rparr>)" using Suc.prems(1) by (rule svc_step_inv)
  then obtain t where "ix_moves B L N config chain (s\<lparr>svc_ix := x\<rparr>) t" "ix_tasks (svc_ix t) = Task None [] # ts"
    using Suc.IH [of "s\<lparr>svc_ix := x\<rparr>" c' hs'] Suc.prems(2,3) x by auto
  then show ?case using ix_moves_step [OF Suc.prems(2,3) assms(2) x(1,2)] by blast
qed

lemma loop_returns:
  assumes "\<forall>h. \<forall>b \<in> set (chain h). \<not> nil_data L b" and "indexer_namespace N config = Ok ns"
    and "svc_inv B L chain s" and "svc_end s = None" and "shutdown_closed s"
  shows "\<exists>t. (svc_step B L N config chain)\<^sup>*\<^sup>* s t \<and> svc_end t = None \<and> loop_done t \<and> shutdown_closed t"
proof (cases "loop_done s")
  case False
  obtain c hs ts where tasks: "ix_tasks (svc_ix s) = Task c hs # ts"
    using assms(3) by (metis svc_inv_def neq_Nil_conv Task.exhaust)
  obtain t where t: "ix_moves B L N config chain s t" "ix_tasks (svc_ix t) = Task None [] # ts"
    using drain_loop [OF assms(1-4) False tasks refl] by blast
  then have f: "svc_end t = None" "\<not> loop_done t" "shutdown_closed t"
    using only_ix_fields [of s t] assms(4,5) False by (simp_all add: ix_moves_def)
  then have "svc_step B L N config chain t (t\<lparr>loop_done := True, wg_count := wg_count t - 1\<rparr>)"
    by (intro svc_step.loop_return [OF _ _ assms(2) t(2)]) simp_all
  then have "(svc_step B L N config chain)\<^sup>*\<^sup>* s (t\<lparr>loop_done := True, wg_count := wg_count t - 1\<rparr>)"
    using t(1) unfolding ix_moves_def by (blast intro: rtranclp.rtrancl_into_rtrancl)
  then show ?thesis using f by (intro exI [of _ "t\<lparr>loop_done := True, wg_count := wg_count t - 1\<rparr>"]) simp
qed (use assms in blast)

lemma process_exits:
  assumes "\<forall>h. \<forall>b \<in> set (chain h). \<not> nil_data L b" and "indexer_namespace N config = Ok ns"
    and "svc_inv B L chain s" and "svc_end s = None" and "shutdown_closed s"
  shows "\<exists>t. (svc_step B L N config chain)\<^sup>*\<^sup>* s t \<and> svc_end t = Some Exited"
proof -
  obtain t where t: "(svc_step B L N config chain)\<^sup>*\<^sup>* s t" "svc_end t = None" "loop_done t" "shutdown_closed t"
    using loop_returns [OF assms] by blast
  obtain u where u: "(svc_step B L N config chain)\<^sup>*\<^sup>* s u" "svc_end u = None" "loop_done u" "api_done u"
  proof (cases "api_done t")
    case False
    then have "svc_step B L N config chain t (t\<lparr>api_done := True, wg_count := wg_count t - 1\<rparr>)"
      by (rule svc_step.api_shutdown [OF t(2,4)])
    with t show ?thesis by (intro that [of "t\<lparr>api_done := True, wg_count := wg_count t - 1\<rparr>"]) simp_all
  qed (use t that in blast)
  have "svc_inv B L chain u" using svc_reach_inv [OF u(1) assms(3)] .
  then have "wg_count u = 0" using u by (simp add: svc_inv_def)
  then have "svc_step B L N config chain u (u\<lparr>svc_end := Some Exited\<rparr>)" using u(2) by (intro svc_step.main_exit)
  with u(1) show ?thesis by (intro exI [of _ "u\<lparr>svc_end := Some Exited\<rparr>"]) simp
qed

end

definition ex_node :: "bytes NodeLib" where
  "ex_node = \<lparr>NewBlobNamespaceV0 = Inr, NewClient = (\<lambda>_ _. Inr ()), Header_Subscribe = Inr (), Header_GetLatest = Inr 5\<rparr>"

definition ex_config :: Config where
  "ex_config = \<lparr>CelestiaNodeURL = [], CelestiaAuthToken = [], CelestiaNamespace = [], APIPort = [], HTTPTimeout = 30,
     ReconnectDelay = 5\<rparr>"

lemma ex_namespace: "indexer_namespace ex_node ex_config = Ok []"
  by (simp add: indexer_namespace_def ex_node_def ex_config_def)

section \<open>Properties\<close>



end
