(* ===== verification/SimApp.thy ===== *)
theory SimApp
  imports Stores
begin

text \<open>
  The parts of the test chain application \<^verbatim>\<open>simapp\<close> that have logic of their own: the ante
  handler chain (\<^verbatim>\<open>ante.go\<close>), the upgrade handlers (\<^verbatim>\<open>upgrades.go\<close>,
  \<^verbatim>\<open>upgrades/upgrades.go\<close>), the export of the state for a new genesis (\<^verbatim>\<open>export.go\<close>,
  \<^verbatim>\<open>simd/cmd/root.go\<close>), and the module accounts and entry points of \<^verbatim>\<open>app.go\<close>. Its construction
  is in the theory \<open>App_Wiring\<close>. The
  keepers of the Cosmos SDK are arguments.
\<close>

section \<open>The ante handler\<close>

datatype AnteDecorator = SetUpContext | CircuitBreaker | ExtensionOptions | ValidateBasicDec
  | TxTimeoutHeight | ValidateMemo | ConsumeGasForTxSize | DeductFee | SetPubKey | ValidateSigCount
  | SigGasConsume | SigVerification | IncrementSequence | RedundantRelay

text \<open>Whether the interfaces the constructor checks are set.\<close>

record HandlerOptions =
  hasAccountKeeper :: bool
  hasBankKeeper :: bool
  hasSignModeHandler :: bool

definition NewAnteHandler :: "HandlerOptions \<Rightarrow> AnteDecorator list outcome" where
  "NewAnteHandler options =
     (if \<not> hasAccountKeeper options then Fail (Errorf ''account keeper is required for ante builder'')
      else if \<not> hasBankKeeper options then Fail (Errorf ''bank keeper is required for ante builder'')
      else if \<not> hasSignModeHandler options then Fail (Errorf ''sign mode handler is required for ante builder'')
      else Ok [SetUpContext, CircuitBreaker, ExtensionOptions, ValidateBasicDec, TxTimeoutHeight, ValidateMemo,
        ConsumeGasForTxSize, DeductFee, SetPubKey, ValidateSigCount, SigGasConsume, SigVerification,
        IncrementSequence, RedundantRelay])"

definition setAnteHandler :: "bool \<Rightarrow> AnteDecorator list outcome" where
  "setAnteHandler txConfigHasSignModeHandler =
     (case NewAnteHandler \<lparr>hasAccountKeeper = True, hasBankKeeper = True,
          hasSignModeHandler = txConfigHasSignModeHandler\<rparr> of
        Fail e \<Rightarrow> Panic e
      | res \<Rightarrow> res)"

section \<open>Upgrades\<close>

definition UpV7 :: bytes where "UpV7 = str ''v7''"
definition UpV7_1 :: bytes where "UpV7_1 = str ''v7.1''"
definition UpV8 :: bytes where "UpV8 = str ''v8''"
definition UpV8_1 :: bytes where "UpV8_1 = str ''v8.1''"
definition UpV9 :: bytes where "UpV9 = str ''v9''"

record 's UpgradeOps =
  RunMigrations :: "'s \<Rightarrow> 's outcome"
  PruneExpiredConsensusStates :: "'s \<Rightarrow> error + 's"
  MigrateParams :: "'s \<Rightarrow> error + 's"
  GetAllowedClients :: "'s \<Rightarrow> bytes list"
  SetAllowedClients :: "'s \<Rightarrow> bytes list \<Rightarrow> 's"
  LocalhostClient :: bytes
  ReadUpgradeInfoFromDisk :: "error + (bytes \<times> i64)"
  IsSkipHeight :: "i64 \<Rightarrow> bool"
  consensusparamStoreKey :: bytes
  crisisStoreKey :: bytes
  circuitModuleName :: bytes

definition CreateDefaultUpgradeHandler :: "'s UpgradeOps \<Rightarrow> 's \<Rightarrow> 's outcome" where
  "CreateDefaultUpgradeHandler U s = RunMigrations U s"

definition CreateV7UpgradeHandler :: "'s UpgradeOps \<Rightarrow> 's \<Rightarrow> 's outcome" where
  "CreateV7UpgradeHandler U s =
     bind_out (of_result (PruneExpiredConsensusStates U s))
       (\<lambda>s1. bind_out (must (MigrateParams U s1)) (\<lambda>s2. RunMigrations U s2))"

definition CreateV7LocalhostUpgradeHandler :: "'s UpgradeOps \<Rightarrow> 's \<Rightarrow> 's outcome" where
  "CreateV7LocalhostUpgradeHandler U s =
     RunMigrations U (SetAllowedClients U s (GetAllowedClients U s @ [LocalhostClient U]))"

record 's Upgrades =
  upgradeHandlers :: "bytes \<rightharpoonup> ('s \<Rightarrow> 's outcome)"
  storeLoader :: "(i64 \<times> bytes list) option"

definition SetUpgradeHandler :: "bytes \<Rightarrow> ('s \<Rightarrow> 's outcome) \<Rightarrow> 's Upgrades \<Rightarrow> 's Upgrades" where
  "SetUpgradeHandler name h k = k\<lparr>upgradeHandlers := (upgradeHandlers k)(name \<mapsto> h)\<rparr>"

definition registerUpgradeHandlers :: "'s UpgradeOps \<Rightarrow> 's Upgrades \<Rightarrow> 's Upgrades outcome" where
  "registerUpgradeHandlers U k0 =
     (let k1 = SetUpgradeHandler UpV7 (CreateV7UpgradeHandler U) k0;
          k2 = SetUpgradeHandler UpV7_1 (CreateV7LocalhostUpgradeHandler U) k1;
          k3 = SetUpgradeHandler UpV8 (CreateDefaultUpgradeHandler U) k2;
          k4 = SetUpgradeHandler UpV8_1 (CreateDefaultUpgradeHandler U) k3;
          k5 = SetUpgradeHandler UpV9 (CreateDefaultUpgradeHandler U) k4
      in bind_out (must (ReadUpgradeInfoFromDisk U))
        (\<lambda>(name, height).
          let k6 = (if name = UpV7 \<and> \<not> IsSkipHeight U height
                then k5\<lparr>storeLoader := Some (height, [consensusparamStoreKey U, crisisStoreKey U])\<rparr> else k5);
              k7 = (if name = UpV8 \<and> \<not> IsSkipHeight U height
                then k6\<lparr>storeLoader := Some (height, [circuitModuleName U])\<rparr> else k6)
          in Ok k7))"

section \<open>Export for a new genesis\<close>

record Validator =
  val_Operator :: bytes
  UnbondingHeight :: i64
  Jailed :: bool
  val_rest :: bytes

record UnbondingEntry =
  CreationHeight :: i64
  entry_rest :: bytes

text \<open>Redelegations and unbonding delegations: an identity and entries with a creation height.\<close>

record Redelegation =
  red_id :: bytes
  red_Entries :: "UnbondingEntry list"

record UnbondingDelegation =
  ubd_id :: bytes
  ubd_Entries :: "UnbondingEntry list"

record SigningInfo =
  info_addr :: bytes
  StartHeight :: i64
  info_rest :: bytes

record Delegation =
  DelegatorAddress :: bytes
  ValidatorAddress :: bytes

text \<open>
  The keepers, over the state \<open>'s\<close>. An iteration is the list of the items it visits; hooks take
  the block height of the context. Coins and the fee pool are opaque.
\<close>

record 's AppOps =
  ValAddressFromBech32 :: "bytes \<Rightarrow> error + bytes"
  AccAddressFromBech32 :: "bytes \<Rightarrow> error + bytes"
  ValAddressString :: "bytes \<Rightarrow> bytes"
  StringToBytes :: "bytes \<Rightarrow> error + bytes"
  AssertInvariants :: "'s \<Rightarrow> 's outcome"
  IterateValidators :: "'s \<Rightarrow> error + bytes list"
  WithdrawValidatorCommission :: "'s \<Rightarrow> bytes \<Rightarrow> 's"
  GetAllDelegations :: "'s \<Rightarrow> error + Delegation list"
  WithdrawDelegationRewards :: "'s \<Rightarrow> bytes \<Rightarrow> bytes \<Rightarrow> 's"
  DeleteAllValidatorSlashEvents :: "'s \<Rightarrow> 's"
  DeleteAllValidatorHistoricalRewards :: "'s \<Rightarrow> 's"
  GetValidatorOutstandingRewardsCoins :: "'s \<Rightarrow> bytes \<Rightarrow> error + bytes"
  FeePool_Get :: "'s \<Rightarrow> error + bytes"
  CommunityPool_Add :: "bytes \<Rightarrow> bytes \<Rightarrow> bytes"
  FeePool_Set :: "'s \<Rightarrow> bytes \<Rightarrow> error + 's"
  AfterValidatorCreated :: "i64 \<Rightarrow> 's \<Rightarrow> bytes \<Rightarrow> error + 's"
  BeforeDelegationCreated :: "i64 \<Rightarrow> 's \<Rightarrow> bytes \<Rightarrow> bytes \<Rightarrow> error + 's"
  AfterDelegationModified :: "i64 \<Rightarrow> 's \<Rightarrow> bytes \<Rightarrow> bytes \<Rightarrow> error + 's"
  IterateRedelegations :: "'s \<Rightarrow> error + Redelegation list"
  SetRedelegation :: "'s \<Rightarrow> Redelegation \<Rightarrow> error + 's"
  IterateUnbondingDelegations :: "'s \<Rightarrow> error + UnbondingDelegation list"
  SetUnbondingDelegation :: "'s \<Rightarrow> UnbondingDelegation \<Rightarrow> error + 's"
  ValidatorKeysReverse :: "'s \<Rightarrow> bytes list"
  GetValidator :: "'s \<Rightarrow> bytes \<Rightarrow> error + Validator"
  SetValidator :: "'s \<Rightarrow> Validator \<Rightarrow> error + 's"
  ApplyAndReturnValidatorSetUpdates :: "'s \<Rightarrow> error + 's"
  IterateValidatorSigningInfos :: "'s \<Rightarrow> error + SigningInfo list"
  SetValidatorSigningInfo :: "'s \<Rightarrow> SigningInfo \<Rightarrow> error + 's"

text \<open>The stages of \<^verbatim>\<open>prepForZeroHeightGenesis\<close> in the order of the code. A \<^verbatim>\<open>log.Fatal\<close> ends
  the process, like a panic.\<close>

definition check_allowed :: "'s AppOps \<Rightarrow> bytes list \<Rightarrow> 's \<Rightarrow> 's outcome" where
  "check_allowed A jailAllowedAddrs s =
     fold_out (\<lambda>addr s. bind_out (must (ValAddressFromBech32 A addr)) (\<lambda>_. Ok s)) jailAllowedAddrs s"

definition withdraw_commissions :: "'s AppOps \<Rightarrow> 's \<Rightarrow> 's outcome" where
  "withdraw_commissions A s =
     bind_out (must (IterateValidators A s))
       (\<lambda>ops. fold_out (\<lambda>op s. bind_out (must (StringToBytes A op)) (\<lambda>valBz. Ok (WithdrawValidatorCommission A s valBz))) ops s)"

definition delegation_addrs :: "'s AppOps \<Rightarrow> Delegation \<Rightarrow> (bytes \<times> bytes) outcome" where
  "delegation_addrs A d =
     bind_out (must (ValAddressFromBech32 A (ValidatorAddress d)))
       (\<lambda>valAddr. bind_out (must (AccAddressFromBech32 A (DelegatorAddress d))) (\<lambda>delAddr. Ok (valAddr, delAddr)))"

definition withdraw_rewards :: "'s AppOps \<Rightarrow> Delegation list \<Rightarrow> 's \<Rightarrow> 's outcome" where
  "withdraw_rewards A dels s =
     fold_out (\<lambda>d s. bind_out (delegation_addrs A d)
       (\<lambda>(valAddr, delAddr). Ok (WithdrawDelegationRewards A s delAddr valAddr))) dels s"

definition reinit_validators :: "'s AppOps \<Rightarrow> i64 \<Rightarrow> 's \<Rightarrow> 's outcome" where
  "reinit_validators A height s =
     bind_out (must (IterateValidators A s))
       (\<lambda>ops. fold_out (\<lambda>op s.
          bind_out (must (ValAddressFromBech32 A op))
            (\<lambda>valBz.
          bind_out (must (GetValidatorOutstandingRewardsCoins A s valBz))
            (\<lambda>scraps.
          bind_out (must (FeePool_Get A s))
            (\<lambda>feePool.
          bind_out (must (FeePool_Set A s (CommunityPool_Add A feePool scraps)))
            (\<lambda>s1. must (AfterValidatorCreated A height s1 valBz)))))) ops s)"

definition reinit_delegations :: "'s AppOps \<Rightarrow> i64 \<Rightarrow> Delegation list \<Rightarrow> 's \<Rightarrow> 's outcome" where
  "reinit_delegations A height dels s =
     fold_out (\<lambda>d s. bind_out (delegation_addrs A d)
       (\<lambda>(valAddr, delAddr).
          bind_out (must (BeforeDelegationCreated A height s delAddr valAddr))
            (\<lambda>s1. must (AfterDelegationModified A height s1 delAddr valAddr)))) dels s"

definition reset_entries :: "UnbondingEntry list \<Rightarrow> UnbondingEntry list" where
  "reset_entries es = map (\<lambda>e. e\<lparr>CreationHeight := 0\<rparr>) es"

definition reset_redelegations :: "'s AppOps \<Rightarrow> 's \<Rightarrow> 's outcome" where
  "reset_redelegations A s =
     bind_out (must (IterateRedelegations A s))
       (\<lambda>reds. fold_out (\<lambda>red s. must (SetRedelegation A s (red\<lparr>red_Entries := reset_entries (red_Entries red)\<rparr>))) reds s)"

definition reset_unbondings :: "'s AppOps \<Rightarrow> 's \<Rightarrow> 's outcome" where
  "reset_unbondings A s =
     bind_out (must (IterateUnbondingDelegations A s))
       (\<lambda>ubds. fold_out (\<lambda>ubd s. must (SetUnbondingDelegation A s (ubd\<lparr>ubd_Entries := reset_entries (ubd_Entries ubd)\<rparr>))) ubds s)"

definition reset_validator :: "'s AppOps \<Rightarrow> bool \<Rightarrow> bytes set \<Rightarrow> bytes \<Rightarrow> Validator \<Rightarrow> Validator" where
  "reset_validator A applyAllowedAddrs allowedAddrs addr v =
     (let v1 = v\<lparr>UnbondingHeight := 0\<rparr> in
      if applyAllowedAddrs \<and> ValAddressString A addr \<notin> allowedAddrs then v1\<lparr>Jailed := True\<rparr> else v1)"

definition reset_validators :: "'s AppOps \<Rightarrow> bool \<Rightarrow> bytes set \<Rightarrow> bytes list \<Rightarrow> 's \<Rightarrow> 's outcome" where
  "reset_validators A applyAllowedAddrs allowedAddrs addrs s =
     fold_out (\<lambda>addr s. case GetValidator A s addr of
         Inl _ \<Rightarrow> Panic (Errorf ''expected validator, not found'')
       | Inr validator \<Rightarrow>
           (case SetValidator A s (reset_validator A applyAllowedAddrs allowedAddrs addr validator) of
              Inl _ \<Rightarrow> Panic (Errorf ''couldn't set validator'')
            | Inr s' \<Rightarrow> Ok s')) addrs s"

definition reset_signing_infos :: "'s AppOps \<Rightarrow> 's \<Rightarrow> 's outcome" where
  "reset_signing_infos A s =
     bind_out (must (IterateValidatorSigningInfos A s))
       (\<lambda>infos. fold_out (\<lambda>info s. must (SetValidatorSigningInfo A s (info\<lparr>StartHeight := 0\<rparr>))) infos s)"

definition handle_fee_distribution :: "'s AppOps \<Rightarrow> 's \<Rightarrow> 's outcome" where
  "handle_fee_distribution A s2 =
     bind_out (withdraw_commissions A s2)
        (\<lambda>s3. bind_out (must (GetAllDelegations A s3))
        (\<lambda>dels. bind_out (withdraw_rewards A dels s3)
        (\<lambda>s4. let s5 = DeleteAllValidatorHistoricalRewards A (DeleteAllValidatorSlashEvents A s4) in
          bind_out (reinit_validators A 0 s5)
        (\<lambda>s6. reinit_delegations A 0 dels s6))))"

definition handle_staking :: "'s AppOps \<Rightarrow> bool \<Rightarrow> bytes set \<Rightarrow> 's \<Rightarrow> 's outcome" where
  "handle_staking A applyAllowedAddrs allowedAddrs s7 =
     bind_out (reset_redelegations A s7)
        (\<lambda>s8. bind_out (reset_unbondings A s8)
        (\<lambda>s9. reset_validators A applyAllowedAddrs allowedAddrs (ValidatorKeysReverse A s9) s9))"

definition prepForZeroHeightGenesis :: "'s AppOps \<Rightarrow> bytes list \<Rightarrow> 's \<Rightarrow> 's outcome" where
  "prepForZeroHeightGenesis A jailAllowedAddrs s0 =
     (let applyAllowedAddrs = (length jailAllowedAddrs > 0); allowedAddrs = set jailAllowedAddrs in
      bind_out (check_allowed A jailAllowedAddrs s0)
        (\<lambda>s1. bind_out (AssertInvariants A s1)
        (\<lambda>s2. bind_out (handle_fee_distribution A s2)
        (\<lambda>s7. bind_out (handle_staking A applyAllowedAddrs allowedAddrs s7)
        (\<lambda>s10. bind_out (must (ApplyAndReturnValidatorSetUpdates A s10))
        (\<lambda>s11. reset_signing_infos A s11))))))"

record ExportedApp =
  exp_AppState :: bytes
  exp_Validators :: bytes
  exp_Height :: i64
  exp_ConsensusParams :: bytes

text \<open>\<open>exportGenesis\<close> is \<^verbatim>\<open>ModuleManager.ExportGenesis\<close> with the JSON encoding of its result;
  an error of \<open>WriteValidators\<close> is returned beside the record, which callers then ignore.
  The list of modules to export is an argument that the code does not use.\<close>

definition ExportAppStateAndValidators ::
    "'s AppOps \<Rightarrow> ('s \<Rightarrow> error + bytes) \<Rightarrow> ('s \<Rightarrow> error + bytes) \<Rightarrow> ('s \<Rightarrow> bytes) \<Rightarrow> i64 \<Rightarrow> 's \<Rightarrow> bool \<Rightarrow>
     bytes list \<Rightarrow> bytes list \<Rightarrow> ExportedApp outcome" where
  "ExportAppStateAndValidators A exportGenesis WriteValidators GetConsensusParams LastBlockHeight s forZeroHeight jailAllowedAddrs modulesToExport =
     bind_out (if forZeroHeight then prepForZeroHeightGenesis A jailAllowedAddrs s else Ok s)
       (\<lambda>s1.
     bind_out (of_result (exportGenesis s1))
       (\<lambda>appState.
     bind_out (of_result (WriteValidators s1))
       (\<lambda>validators.
     Ok \<lparr>exp_AppState = appState, exp_Validators = validators,
         exp_Height = (if forZeroHeight then 0 else LastBlockHeight + 1),
         exp_ConsensusParams = GetConsensusParams s1\<rparr>)))"

section \<open>The exporting command and the module accounts\<close>

text \<open>\<open>newSimApp\<close> builds the application on the database, with the invariant check period set to 1, and
  at the latest version if asked;
  \<open>loadHeight\<close> loads a height; \<open>export\<close> is \<^verbatim>\<open>ExportAppStateAndValidators\<close>.\<close>

definition appExport ::
    "(bool \<Rightarrow> 'app) \<Rightarrow> ('app \<Rightarrow> i64 \<Rightarrow> error + 'app) \<Rightarrow> ('app \<Rightarrow> bool \<Rightarrow> bytes list \<Rightarrow> bytes list \<Rightarrow> ExportedApp outcome) \<Rightarrow>
     bytes option \<Rightarrow> bool \<Rightarrow> i64 \<Rightarrow> bool \<Rightarrow> bytes list \<Rightarrow> bytes list \<Rightarrow> ExportedApp outcome" where
  "appExport newSimApp loadHeight export homePath isViper height forZeroHeight jailAllowedAddrs modulesToExport =
     (if homePath = None \<or> homePath = Some [] then Fail (Errorf ''application home not set'')
      else if \<not> isViper then Fail (Errorf ''appOpts is not viper.Viper'')
      else bind_out (if height \<noteq> - 1 then of_result (loadHeight (newSimApp False) height) else Ok (newSimApp True))
        (\<lambda>app. export app forZeroHeight jailAllowedAddrs modulesToExport))"

text \<open>The directory that is returned and the directory that the deferred call removes.\<close>

definition tempDir :: "(error + bytes) \<Rightarrow> bytes \<Rightarrow> bytes \<times> bytes" where
  "tempDir MkdirTemp DefaultNodeHome =
     (let dir = (case MkdirTemp of Inl _ \<Rightarrow> DefaultNodeHome | Inr d \<Rightarrow> d) in (dir, dir))"

datatype Permission = Minter | Burner | StakingPerm

record ModuleNames =
  FeeCollectorName :: bytes
  distrName :: bytes
  mintName :: bytes
  BondedPoolName :: bytes
  NotBondedPoolName :: bytes
  govName :: bytes
  transferName :: bytes

definition maccPerms :: "ModuleNames \<Rightarrow> (bytes \<times> Permission list) list" where
  "maccPerms N = [(FeeCollectorName N, []), (distrName N, []), (mintName N, [Minter]),
     (BondedPoolName N, [Burner, StakingPerm]), (NotBondedPoolName N, [Burner, StakingPerm]),
     (govName N, [Burner]), (transferName N, [Minter, Burner])]"

definition GetMaccPerms :: "ModuleNames \<Rightarrow> (bytes \<rightharpoonup> Permission list)" where
  "GetMaccPerms N = map_of (maccPerms N)"

definition BlockedAddresses :: "ModuleNames \<Rightarrow> (bytes \<Rightarrow> bytes) \<Rightarrow> bytes set" where
  "BlockedAddresses N moduleAddress = moduleAddress ` dom (GetMaccPerms N) - {moduleAddress (govName N)}"

text \<open>\<open>unmarshal\<close> reads the genesis state; both errors panic.\<close>

definition InitChainer ::
    "(bytes \<Rightarrow> error + 'gs) \<Rightarrow> ('s \<Rightarrow> error + 's) \<Rightarrow> ('s \<Rightarrow> 'gs \<Rightarrow> 's outcome) \<Rightarrow> 's \<Rightarrow> bytes \<Rightarrow> 's outcome" where
  "InitChainer unmarshal SetModuleVersionMap InitGenesis s appStateBytes =
     bind_out (must (unmarshal appStateBytes))
       (\<lambda>genesisState. bind_out (must (SetModuleVersionMap s)) (\<lambda>s1. InitGenesis s1 genesisState))"

section \<open>What the export for height zero guarantees\<close>

lemma fold_out_invariant:
  assumes "\<And>x t t'. x \<in> set xs \<Longrightarrow> f x t = Ok t' \<Longrightarrow> g t' = g t" and "fold_out f xs s = Ok s'"
  shows "g s' = g s"
  using assms by (induction xs arbitrary: s) (fastforce simp: bind_out_eq_Ok)+

lemma reset_entries_zero: "e \<in> set (reset_entries es) \<Longrightarrow> CreationHeight e = 0"
  by (auto simp: reset_entries_def)

text \<open>A table of a keeper: an iteration that visits every row once, and a setter that replaces the
  row with the same key. Rewriting every row of such a table in the order of the iteration
  maps the table.\<close>

definition replace_row :: "('a \<Rightarrow> 'k) \<Rightarrow> 'a \<Rightarrow> 'a list \<Rightarrow> 'a list" where
  "replace_row key x xs = map (\<lambda>y. if key y = key x then x else y) xs"

lemma replace_row_keys [simp]: "map key (replace_row key x xs) = map key xs"
  by (simp add: replace_row_def)

lemma replace_row_middle:
  assumes "distinct (map key (done @ x # todo))" and "key x' = key x"
  shows "replace_row key x' (done @ x # todo) = done @ x' # todo"
proof -
  have "\<forall>y \<in> set done. key y \<noteq> key x'" and "\<forall>y \<in> set todo. key y \<noteq> key x'"
    using assms by (auto simp: image_iff)
  then show ?thesis
    by (simp add: replace_row_def assms(2) map_idI)
qed

locale keyed_table =
  fixes rows :: "'s \<Rightarrow> error + 'a list" and put :: "'s \<Rightarrow> 'a \<Rightarrow> error + 's" and key :: "'a \<Rightarrow> 'k"
  assumes rows_distinct: "rows s = Inr xs \<Longrightarrow> distinct (map key xs)"
    and put_row: "rows s = Inr xs \<Longrightarrow> key x \<in> set (map key xs) \<Longrightarrow>
      \<exists>s'. put s x = Inr s' \<and> rows s' = Inr (replace_row key x xs)"
begin

lemma rewrite_rows_from:
  assumes "\<And>x. key (f x) = key x" and "rows s = Inr (done @ todo)"
  shows "\<exists>s'. fold_out (\<lambda>x s. must (put s (f x))) todo s = Ok s' \<and> rows s' = Inr (done @ map f todo)"
  using assms(2)
proof (induction todo arbitrary: "done" s)
  case Nil
  then show ?case by simp
next
  case (Cons x todo)
  have d: "distinct (map key (done @ x # todo))" using rows_distinct[OF Cons.prems] .
  obtain s1 where s1: "put s (f x) = Inr s1" "rows s1 = Inr (replace_row key (f x) (done @ x # todo))"
    using put_row[OF Cons.prems, of "f x"] assms(1) by auto
  have "rows s1 = Inr ((done @ [f x]) @ todo)"
    using s1(2) replace_row_middle[OF d, of "f x"] assms(1) by simp
  from Cons.IH[OF this] show ?case using s1(1) by auto
qed

lemma rewrite_rows:
  assumes "\<And>x. key (f x) = key x" and "rows s = Inr xs"
  shows "\<exists>s'. fold_out (\<lambda>x s. must (put s (f x))) xs s = Ok s' \<and> rows s' = Inr (map f xs)"
  using rewrite_rows_from[of f s "[]" xs] assms by simp

lemma rewrite_rows_result:
  assumes "\<And>x. key (f x) = key x"
    and "bind_out (must (rows s)) (\<lambda>xs. fold_out (\<lambda>x s. must (put s (f x))) xs s) = Ok s'"
  shows "\<exists>xs. rows s = Inr xs \<and> rows s' = Inr (map f xs)"
proof -
  obtain xs where "rows s = Inr xs" "fold_out (\<lambda>x s. must (put s (f x))) xs s = Ok s'"
    using assms(2) by (auto simp: bind_out_eq_Ok must_eq_Ok)
  then show ?thesis using rewrite_rows[of f s xs] assms(1) by fastforce
qed

end

text \<open>
  What the export relies on: the three tables, that writing to one table, writing a validator and
  updating the validator set leave the other tables alone, and that a validator is stored under the
  address of its operator.
\<close>

locale zero_height_keepers =
    reds: keyed_table "IterateRedelegations A" "SetRedelegation A" red_id
  + ubds: keyed_table "IterateUnbondingDelegations A" "SetUnbondingDelegation A" ubd_id
  + infos: keyed_table "IterateValidatorSigningInfos A" "SetValidatorSigningInfo A" info_addr
  for A :: "'s AppOps" +
  assumes set_ubd_reds: "SetUnbondingDelegation A s u = Inr s' \<Longrightarrow> IterateRedelegations A s' = IterateRedelegations A s"
    and set_red_vals: "SetRedelegation A s r = Inr s' \<Longrightarrow>
      GetValidator A s' = GetValidator A s \<and> ValidatorKeysReverse A s' = ValidatorKeysReverse A s"
    and set_ubd_vals: "SetUnbondingDelegation A s u = Inr s' \<Longrightarrow>
      GetValidator A s' = GetValidator A s \<and> ValidatorKeysReverse A s' = ValidatorKeysReverse A s"
    and set_val_reds: "SetValidator A s v = Inr s' \<Longrightarrow> IterateRedelegations A s' = IterateRedelegations A s"
    and set_val_ubds: "SetValidator A s v = Inr s' \<Longrightarrow> IterateUnbondingDelegations A s' = IterateUnbondingDelegations A s"
    and apply_reds: "ApplyAndReturnValidatorSetUpdates A s = Inr s' \<Longrightarrow> IterateRedelegations A s' = IterateRedelegations A s"
    and apply_ubds: "ApplyAndReturnValidatorSetUpdates A s = Inr s' \<Longrightarrow> IterateUnbondingDelegations A s' = IterateUnbondingDelegations A s"
    and set_info_reds: "SetValidatorSigningInfo A s i = Inr s' \<Longrightarrow> IterateRedelegations A s' = IterateRedelegations A s"
    and set_info_ubds: "SetValidatorSigningInfo A s i = Inr s' \<Longrightarrow> IterateUnbondingDelegations A s' = IterateUnbondingDelegations A s"
    and operator_addr: "GetValidator A s a = Inr v \<Longrightarrow> ValAddressFromBech32 A (val_Operator v) = Inr a"
    and set_get_val: "SetValidator A s v = Inr s' \<Longrightarrow> ValAddressFromBech32 A (val_Operator v) = Inr a \<Longrightarrow>
      GetValidator A s' b = (if b = a then Inr v else GetValidator A s b)"
begin

lemma reset_redelegations_rows:
  assumes "reset_redelegations A s = Ok s'"
  shows "\<exists>xs. IterateRedelegations A s' = Inr (map (\<lambda>r. r\<lparr>red_Entries := reset_entries (red_Entries r)\<rparr>) xs)"
  using reds.rewrite_rows_result[of "\<lambda>r. r\<lparr>red_Entries := reset_entries (red_Entries r)\<rparr>" s s'] assms
  by (auto simp: reset_redelegations_def)

lemma reset_unbondings_rows:
  assumes "reset_unbondings A s = Ok s'"
  shows "\<exists>xs. IterateUnbondingDelegations A s' = Inr (map (\<lambda>r. r\<lparr>ubd_Entries := reset_entries (ubd_Entries r)\<rparr>) xs)"
  using ubds.rewrite_rows_result[of "\<lambda>r. r\<lparr>ubd_Entries := reset_entries (ubd_Entries r)\<rparr>" s s'] assms
  by (auto simp: reset_unbondings_def)

lemma reset_signing_infos_rows:
  assumes "reset_signing_infos A s = Ok s'"
  shows "\<exists>xs. IterateValidatorSigningInfos A s' = Inr (map (\<lambda>i. i\<lparr>StartHeight := 0\<rparr>) xs)"
  using infos.rewrite_rows_result[of "\<lambda>i. i\<lparr>StartHeight := 0\<rparr>" s s'] assms
  by (auto simp: reset_signing_infos_def)

lemma reset_unbondings_frame:
  assumes "reset_unbondings A s = Ok s'"
  shows "IterateRedelegations A s' = IterateRedelegations A s"
proof -
  obtain xs where "fold_out (\<lambda>ubd s. must (SetUnbondingDelegation A s (ubd\<lparr>ubd_Entries := reset_entries (ubd_Entries ubd)\<rparr>))) xs s = Ok s'"
    using assms by (auto simp: reset_unbondings_def bind_out_eq_Ok)
  then show ?thesis
    by (rule fold_out_invariant[rotated]) (auto simp: must_eq_Ok dest: set_ubd_reds)
qed

lemma delegations_vals_frame:
  assumes "reset_redelegations A s7 = Ok s8" and "reset_unbondings A s8 = Ok s9"
  shows "GetValidator A s9 = GetValidator A s7 \<and> ValidatorKeysReverse A s9 = ValidatorKeysReverse A s7"
proof -
  obtain xs ys where f:
      "fold_out (\<lambda>red s. must (SetRedelegation A s (red\<lparr>red_Entries := reset_entries (red_Entries red)\<rparr>))) xs s7 = Ok s8"
      "fold_out (\<lambda>ubd s. must (SetUnbondingDelegation A s (ubd\<lparr>ubd_Entries := reset_entries (ubd_Entries ubd)\<rparr>))) ys s8 = Ok s9"
    using assms by (auto simp: reset_redelegations_def reset_unbondings_def bind_out_eq_Ok)
  have "(GetValidator A s8, ValidatorKeysReverse A s8) = (GetValidator A s7, ValidatorKeysReverse A s7)"
    using f(1) by (rule fold_out_invariant[rotated, where g = "\<lambda>s. (GetValidator A s, ValidatorKeysReverse A s)"])
      (auto simp: must_eq_Ok dest: set_red_vals)
  moreover have "(GetValidator A s9, ValidatorKeysReverse A s9) = (GetValidator A s8, ValidatorKeysReverse A s8)"
    using f(2) by (rule fold_out_invariant[rotated, where g = "\<lambda>s. (GetValidator A s, ValidatorKeysReverse A s)"])
      (auto simp: must_eq_Ok dest: set_ubd_vals)
  ultimately show ?thesis by simp
qed

lemma reset_validators_frame:
  assumes "reset_validators A ap al addrs s = Ok s'"
  shows "IterateRedelegations A s' = IterateRedelegations A s
    \<and> IterateUnbondingDelegations A s' = IterateUnbondingDelegations A s"
proof -
  have "(IterateRedelegations A s', IterateUnbondingDelegations A s')
      = (IterateRedelegations A s, IterateUnbondingDelegations A s)"
    using assms unfolding reset_validators_def
    by (rule fold_out_invariant[rotated, where g = "\<lambda>s. (IterateRedelegations A s, IterateUnbondingDelegations A s)"])
      (auto split: sum.splits dest: set_val_reds set_val_ubds)
  then show ?thesis by simp
qed

lemma reset_signing_infos_frame:
  assumes "reset_signing_infos A s = Ok s'"
  shows "IterateRedelegations A s' = IterateRedelegations A s
    \<and> IterateUnbondingDelegations A s' = IterateUnbondingDelegations A s"
proof -
  obtain xs where "fold_out (\<lambda>info s. must (SetValidatorSigningInfo A s (info\<lparr>StartHeight := 0\<rparr>))) xs s = Ok s'"
    using assms by (auto simp: reset_signing_infos_def bind_out_eq_Ok)
  then have "(IterateRedelegations A s', IterateUnbondingDelegations A s')
      = (IterateRedelegations A s, IterateUnbondingDelegations A s)"
    by (rule fold_out_invariant[rotated, where g = "\<lambda>s. (IterateRedelegations A s, IterateUnbondingDelegations A s)"])
      (auto simp: must_eq_Ok dest: set_info_reds set_info_ubds)
  then show ?thesis by simp
qed

lemma reset_validator_again:
  "reset_validator A ap al a (reset_validator A ap al a v) = reset_validator A ap al a v"
  by (simp add: reset_validator_def Let_def)

lemma reset_validators_get:
  assumes "reset_validators A ap al addrs s = Ok s'"
  shows "GetValidator A s' b = (if b \<in> set addrs then map_sum id (reset_validator A ap al b) (GetValidator A s b)
    else GetValidator A s b)"
  using assms
proof (induction addrs arbitrary: s)
  case Nil
  then show ?case by (simp add: reset_validators_def)
next
  case (Cons a addrs)
  obtain v s1 where v: "GetValidator A s a = Inr v"
    and s1: "SetValidator A s (reset_validator A ap al a v) = Inr s1"
    and rest: "reset_validators A ap al addrs s1 = Ok s'"
    using Cons.prems by (auto simp: reset_validators_def bind_out_eq_Ok split: sum.splits)
  have "val_Operator (reset_validator A ap al a v) = val_Operator v"
    by (simp add: reset_validator_def Let_def)
  then have "GetValidator A s1 c = (if c = a then Inr (reset_validator A ap al a v) else GetValidator A s c)" for c
    using set_get_val[OF s1] operator_addr[OF v] by simp
  then show ?case using Cons.IH[OF rest] v
    by (cases "b = a"; cases "GetValidator A s b") (auto simp: reset_validator_again)
qed

lemma staking_resets:
  assumes "handle_staking A ap al s7 = Ok s10" and "ApplyAndReturnValidatorSetUpdates A s10 = Inr s11"
    and "reset_signing_infos A s11 = Ok s'"
  shows "\<exists>reds ubds infos. IterateRedelegations A s' = Inr reds
      \<and> IterateUnbondingDelegations A s' = Inr ubds \<and> IterateValidatorSigningInfos A s' = Inr infos
      \<and> (\<forall>r \<in> set reds. \<forall>e \<in> set (red_Entries r). CreationHeight e = 0)
      \<and> (\<forall>u \<in> set ubds. \<forall>e \<in> set (ubd_Entries u). CreationHeight e = 0)
      \<and> (\<forall>i \<in> set infos. StartHeight i = 0)"
proof -
  obtain s8 s9 where st: "reset_redelegations A s7 = Ok s8" "reset_unbondings A s8 = Ok s9"
      "reset_validators A ap al (ValidatorKeysReverse A s9) s9 = Ok s10"
    using assms(1) by (auto simp: handle_staking_def bind_out_eq_Ok)
  note frames = reset_unbondings_frame[OF st(2)] reset_validators_frame[OF st(3)]
    apply_reds[OF assms(2)] apply_ubds[OF assms(2)] reset_signing_infos_frame[OF assms(3)]
  obtain rs us ss where "IterateRedelegations A s8 = Inr (map (\<lambda>r. r\<lparr>red_Entries := reset_entries (red_Entries r)\<rparr>) rs)"
      "IterateUnbondingDelegations A s9 = Inr (map (\<lambda>r. r\<lparr>ubd_Entries := reset_entries (ubd_Entries r)\<rparr>) us)"
      "IterateValidatorSigningInfos A s' = Inr (map (\<lambda>i. i\<lparr>StartHeight := 0\<rparr>) ss)"
    using reset_redelegations_rows[OF st(1)] reset_unbondings_rows[OF st(2)] reset_signing_infos_rows[OF assms(3)] by blast
  with frames show ?thesis by (simp add: reset_entries_zero)
qed

lemma staking_validators:
  assumes "handle_staking A ap al s7 = Ok s10" and "a \<in> set (ValidatorKeysReverse A s7)" and "GetValidator A s7 a = Inr v"
  shows "GetValidator A s10 a = Inr (v\<lparr>UnbondingHeight := 0,
    Jailed := Jailed v \<or> (ap \<and> ValAddressString A a \<notin> al)\<rparr>)"
proof -
  obtain s8 s9 where st: "reset_redelegations A s7 = Ok s8" "reset_unbondings A s8 = Ok s9"
      "reset_validators A ap al (ValidatorKeysReverse A s9) s9 = Ok s10"
    using assms(1) by (auto simp: handle_staking_def bind_out_eq_Ok)
  show ?thesis
    using reset_validators_get[OF st(3), of a] delegations_vals_frame[OF st(1,2)] assms(2,3)
    by (auto simp: reset_validator_def Let_def)
qed

end

lemma prep_stages:
  assumes "prepForZeroHeightGenesis A allowed s = Ok s'"
  shows "\<exists>s2 s7 s10 s11. AssertInvariants A s = Ok s2 \<and> handle_fee_distribution A s2 = Ok s7
    \<and> handle_staking A (allowed \<noteq> []) (set allowed) s7 = Ok s10
    \<and> ApplyAndReturnValidatorSetUpdates A s10 = Inr s11 \<and> reset_signing_infos A s11 = Ok s'"
proof -
  have "check_allowed A allowed s = Ok t \<Longrightarrow> t = s" for t
    unfolding check_allowed_def
    by (rule fold_out_invariant[where g = id, simplified, rotated]) (auto simp: bind_out_eq_Ok must_eq_Ok)
  then show ?thesis
    using assms by (auto simp: prepForZeroHeightGenesis_def Let_def bind_out_eq_Ok must_eq_Ok)
qed

text \<open>A concrete application: the four tables as lists, distribution without effect, addresses
  as their own strings.\<close>

record mem_app_state =
  t_vals :: "Validator list"
  t_reds :: "Redelegation list"
  t_ubds :: "UnbondingDelegation list"
  t_infos :: "SigningInfo list"

definition dedup_by :: "('a \<Rightarrow> bytes) \<Rightarrow> 'a list \<Rightarrow> 'a list" where
  "dedup_by key xs = foldr (\<lambda>x acc. if key x \<in> set (map key acc) then acc else x # acc) xs []"

lemma dedup_by_distinct: "distinct (map key (dedup_by key xs))"
  unfolding dedup_by_def by (induction xs) auto

lemma replace_row_dedup: "dedup_by key (replace_row key x xs) = replace_row key x (dedup_by key xs)"
proof (induction xs)
  case Nil
  then show ?case by (simp add: dedup_by_def replace_row_def)
next
  case (Cons y ys)
  have "dedup_by key (z # zs) = (if key z \<in> set (map key (dedup_by key zs)) then dedup_by key zs
      else z # dedup_by key zs)" for z zs
    by (simp add: dedup_by_def)
  moreover have "replace_row key x (z # zs) = (if key z = key x then x else z) # replace_row key x zs" for z zs
    by (simp add: replace_row_def)
  ultimately show ?case using Cons.IH by (auto simp del: set_map simp add: set_map[symmetric])
qed

definition mem_app :: "mem_app_state AppOps" where
  "mem_app = \<lparr>ValAddressFromBech32 = Inr, AccAddressFromBech32 = Inr, ValAddressString = id, StringToBytes = Inr,
     AssertInvariants = Ok, IterateValidators = (\<lambda>s. Inr (map val_Operator (t_vals s))),
     WithdrawValidatorCommission = (\<lambda>s _. s), GetAllDelegations = (\<lambda>_. Inr []),
     WithdrawDelegationRewards = (\<lambda>s _ _. s), DeleteAllValidatorSlashEvents = id,
     DeleteAllValidatorHistoricalRewards = id, GetValidatorOutstandingRewardsCoins = (\<lambda>_ _. Inr []),
     FeePool_Get = (\<lambda>_. Inr []), CommunityPool_Add = (\<lambda>p c. p @ c), FeePool_Set = (\<lambda>s _. Inr s),
     AfterValidatorCreated = (\<lambda>_ s _. Inr s), BeforeDelegationCreated = (\<lambda>_ s _ _. Inr s),
     AfterDelegationModified = (\<lambda>_ s _ _. Inr s),
     IterateRedelegations = (\<lambda>s. Inr (dedup_by red_id (t_reds s))),
     SetRedelegation = (\<lambda>s r. Inr (s\<lparr>t_reds := replace_row red_id r (t_reds s)\<rparr>)),
     IterateUnbondingDelegations = (\<lambda>s. Inr (dedup_by ubd_id (t_ubds s))),
     SetUnbondingDelegation = (\<lambda>s u. Inr (s\<lparr>t_ubds := replace_row ubd_id u (t_ubds s)\<rparr>)),
     ValidatorKeysReverse = (\<lambda>s. rev (map val_Operator (t_vals s))),
     GetValidator = (\<lambda>s a. case find (\<lambda>v. val_Operator v = a) (t_vals s) of None \<Rightarrow> Inl (Errorf ''not found'') | Some v \<Rightarrow> Inr v),
     SetValidator = (\<lambda>s v. Inr (s\<lparr>t_vals := v # t_vals s\<rparr>)),
     ApplyAndReturnValidatorSetUpdates = Inr,
     IterateValidatorSigningInfos = (\<lambda>s. Inr (dedup_by info_addr (t_infos s))),
     SetValidatorSigningInfo = (\<lambda>s i. Inr (s\<lparr>t_infos := replace_row info_addr i (t_infos s)\<rparr>))\<rparr>"

lemma find_operator: "find (\<lambda>v. val_Operator v = a) xs = Some v \<Longrightarrow> val_Operator v = a"
  by (induction xs) (auto split: if_splits)

lemma mem_app_ops:
  "ValAddressFromBech32 mem_app = Inr"
  "IterateRedelegations mem_app s = Inr (dedup_by red_id (t_reds s))"
  "SetRedelegation mem_app s r = Inr (s\<lparr>t_reds := replace_row red_id r (t_reds s)\<rparr>)"
  "IterateUnbondingDelegations mem_app s = Inr (dedup_by ubd_id (t_ubds s))"
  "SetUnbondingDelegation mem_app s u = Inr (s\<lparr>t_ubds := replace_row ubd_id u (t_ubds s)\<rparr>)"
  "GetValidator mem_app s a = (case find (\<lambda>v. val_Operator v = a) (t_vals s) of None \<Rightarrow> Inl (Errorf ''not found'') | Some v \<Rightarrow> Inr v)"
  "SetValidator mem_app s v = Inr (s\<lparr>t_vals := v # t_vals s\<rparr>)"
  "ApplyAndReturnValidatorSetUpdates mem_app = Inr"
  "ValidatorKeysReverse mem_app s = rev (map val_Operator (t_vals s))"
  "IterateValidatorSigningInfos mem_app s = Inr (dedup_by info_addr (t_infos s))"
  "SetValidatorSigningInfo mem_app s i = Inr (s\<lparr>t_infos := replace_row info_addr i (t_infos s)\<rparr>)"
  by (simp_all add: mem_app_def)

lemma mem_app_operator: "GetValidator mem_app s a = Inr v \<Longrightarrow> val_Operator v = a"
  by (auto simp: mem_app_ops dest: find_operator split: option.splits)

interpretation mem_reds: keyed_table "IterateRedelegations mem_app" "SetRedelegation mem_app" red_id
  by unfold_locales (auto simp: mem_app_ops dedup_by_distinct replace_row_dedup)

interpretation mem_zero_height: zero_height_keepers mem_app
  by (unfold_locales; (drule mem_app_operator)?)
    (auto simp: mem_app_ops dedup_by_distinct replace_row_dedup)

definition ex_app :: mem_app_state where
  "ex_app = \<lparr>t_vals = [\<lparr>val_Operator = [1], UnbondingHeight = 7, Jailed = False, val_rest = []\<rparr>,
       \<lparr>val_Operator = [2], UnbondingHeight = 9, Jailed = False, val_rest = []\<rparr>],
     t_reds = [\<lparr>red_id = [1], red_Entries = [\<lparr>CreationHeight = 4, entry_rest = []\<rparr>]\<rparr>],
     t_ubds = [\<lparr>ubd_id = [1], ubd_Entries = [\<lparr>CreationHeight = 5, entry_rest = []\<rparr>]\<rparr>],
     t_infos = [\<lparr>info_addr = [1], StartHeight = 3, info_rest = []\<rparr>]\<rparr>"

definition ex_exported :: ExportedApp where
  "ex_exported = \<lparr>exp_AppState = [1], exp_Validators = [], exp_Height = 0, exp_ConsensusParams = []\<rparr>"

lemma ex_export: "ExportAppStateAndValidators mem_app (\<lambda>s. Inr [of_nat (length (t_reds s))]) (\<lambda>_. Inr []) (\<lambda>_. []) 12 ex_app True [[1]] []
    = Ok ex_exported"
  by code_simp

lemma upgrade_names: "UpV7 \<noteq> UpV7_1" "UpV7 \<noteq> UpV8" "UpV7 \<noteq> UpV8_1" "UpV7 \<noteq> UpV9" "UpV7_1 \<noteq> UpV8"
    "UpV7_1 \<noteq> UpV8_1" "UpV7_1 \<noteq> UpV9" "UpV8 \<noteq> UpV8_1" "UpV8 \<noteq> UpV9" "UpV8_1 \<noteq> UpV9"
  by (simp_all add: UpV7_def UpV7_1_def UpV8_def UpV8_1_def UpV9_def)

section \<open>Properties\<close>

text \<open>
  C33. A successful export for height zero exports at height 0, and the state that is written out has
  every redelegation entry, every unbonding entry and every signing info at height 0. The
  validators, as the staking stage hands them to the recomputation of the validator set, have
  unbonding height 0 and are jailed exactly when they were jailed before or an allow list is
  given that does not contain them.
\<close>

theorem zero_height_export:
  assumes "zero_height_keepers A"
    and "ExportAppStateAndValidators A exportGenesis WriteValidators GetConsensusParams h s True allowed mods = Ok e"
  shows "exp_Height e = 0 \<and> (\<exists>s2 s7 s10 s11 s' reds ubds infos.
      AssertInvariants A s = Ok s2 \<and> handle_fee_distribution A s2 = Ok s7
      \<and> (\<forall>a \<in> set (ValidatorKeysReverse A s7). \<forall>v. GetValidator A s7 a = Inr v \<longrightarrow>
          GetValidator A s10 a = Inr (v\<lparr>UnbondingHeight := 0,
            Jailed := Jailed v \<or> (allowed \<noteq> [] \<and> ValAddressString A a \<notin> set allowed)\<rparr>))
      \<and> ApplyAndReturnValidatorSetUpdates A s10 = Inr s11 \<and> reset_signing_infos A s11 = Ok s'
      \<and> exportGenesis s' = Inr (exp_AppState e)
      \<and> IterateRedelegations A s' = Inr reds \<and> (\<forall>r \<in> set reds. \<forall>e \<in> set (red_Entries r). CreationHeight e = 0)
      \<and> IterateUnbondingDelegations A s' = Inr ubds \<and> (\<forall>u \<in> set ubds. \<forall>e \<in> set (ubd_Entries u). CreationHeight e = 0)
      \<and> IterateValidatorSigningInfos A s' = Inr infos \<and> (\<forall>i \<in> set infos. StartHeight i = 0))"
proof -
  obtain s' where prep: "prepForZeroHeightGenesis A allowed s = Ok s'"
    and e: "exp_Height e = 0" "exportGenesis s' = Inr (exp_AppState e)"
    using assms(2) by (auto simp: ExportAppStateAndValidators_def bind_out_eq_Ok of_result_eq_Ok)
  obtain s2 s7 s10 s11 where st: "AssertInvariants A s = Ok s2" "handle_fee_distribution A s2 = Ok s7"
      "handle_staking A (allowed \<noteq> []) (set allowed) s7 = Ok s10"
      "ApplyAndReturnValidatorSetUpdates A s10 = Inr s11" "reset_signing_infos A s11 = Ok s'"
    using prep_stages[OF prep] by blast
  from zero_height_keepers.staking_resets[OF assms(1) st(3-5)]
    zero_height_keepers.staking_validators[OF assms(1) st(3)] st(1,2,4,5) e
  show ?thesis by blast
qed

theorem zero_height_export_witness:
  "exp_Height ex_exported = 0 \<and> (\<exists>s' reds. IterateRedelegations mem_app s' = Inr reds
     \<and> (\<forall>r \<in> set reds. \<forall>e \<in> set (red_Entries r). CreationHeight e = 0))"
  using zero_height_export[OF mem_zero_height.zero_height_keepers_axioms ex_export] by blast

text \<open>
  Registering the upgrade handlers gives each of the five upgrade names its own handler, leaves
  all other names alone, and installs a store loader exactly when the upgrade found on disk is
  v7 or v8 and its height is not skipped, with the store keys that this upgrade adds. An
  unreadable upgrade file stops the node.
\<close>

lemma registered_upgrades:
  "registerUpgradeHandlers U k = (case ReadUpgradeInfoFromDisk U of
     Inl e \<Rightarrow> Panic e
   | Inr (name, height) \<Rightarrow> Ok (k\<lparr>
       upgradeHandlers := (\<lambda>n.
         if n \<in> {UpV8, UpV8_1, UpV9} then Some (RunMigrations U)
         else if n = UpV7_1 then Some (CreateV7LocalhostUpgradeHandler U)
         else if n = UpV7 then Some (CreateV7UpgradeHandler U) else upgradeHandlers k n),
       storeLoader :=
         (if IsSkipHeight U height then storeLoader k
          else if name = UpV7 then Some (height, [consensusparamStoreKey U, crisisStoreKey U])
          else if name = UpV8 then Some (height, [circuitModuleName U]) else storeLoader k)\<rparr>))"
proof -
  have "CreateDefaultUpgradeHandler U = RunMigrations U"
    by (rule ext) (simp add: CreateDefaultUpgradeHandler_def)
  then show ?thesis
    by (cases "ReadUpgradeInfoFromDisk U")
      (auto simp: registerUpgradeHandlers_def SetUpgradeHandler_def Let_def fun_eq_iff upgrade_names)
qed

end
