(* ===== verification/App_Wiring.thy ===== *)
theory App_Wiring
  imports SimApp
begin

text \<open>
  The construction of the test chain application: \<^verbatim>\<open>NewSimApp\<close> of \<^verbatim>\<open>simapp/app.go\<close> with its store
  keys, keepers, client routes, modules and orders, the root command and the configuration of
  \<^verbatim>\<open>simapp/simd/cmd/root.go\<close>. What the SDK does at each step is an argument; what is modelled is
  which object is built from which, in which order, and how errors end the construction.
\<close>

section \<open>Modules, stores and orders\<close>

text \<open>The modules by their names. The light client of this repository is \<open>M_groth16\<close>; the header module
  is commented out in the code.\<close>

datatype Module = M_genutil | M_auth | M_vesting | M_bank | M_crisis | M_feegrant | M_gov | M_mint | M_slashing
  | M_distr | M_staking | M_upgrade | M_evidence | M_params | M_authz | M_group | M_consensus | M_circuit
  | M_ibc | M_transfer | M_tendermint | M_groth16 | M_solomachine | M_header

definition app_store_keys :: "Module list" where
  "app_store_keys = [M_auth, M_bank, M_staking, M_crisis, M_mint, M_distr, M_slashing, M_gov, M_group, M_params,
     M_ibc, M_upgrade, M_feegrant, M_evidence, M_transfer, M_authz, M_consensus, M_circuit]"

definition order_pre_blockers :: "Module list" where
  "order_pre_blockers = [M_upgrade]"

definition order_begin_blockers :: "Module list" where
  "order_begin_blockers = [M_mint, M_distr, M_slashing, M_evidence, M_staking, M_ibc, M_transfer, M_genutil, M_authz]"

definition order_end_blockers :: "Module list" where
  "order_end_blockers = [M_crisis, M_gov, M_staking, M_ibc, M_transfer, M_genutil, M_feegrant, M_group]"

definition genesisModuleOrder :: "Module list" where
  "genesisModuleOrder = [M_auth, M_bank, M_distr, M_staking, M_slashing, M_gov, M_mint, M_crisis, M_ibc, M_genutil,
     M_evidence, M_authz, M_transfer, M_feegrant, M_params, M_upgrade, M_vesting, M_group, M_consensus, M_circuit]"

definition app_modules :: "Module list" where
  "app_modules = [M_genutil, M_auth, M_vesting, M_bank, M_crisis, M_feegrant, M_gov, M_mint, M_slashing, M_distr,
     M_staking, M_upgrade, M_evidence, M_params, M_authz, M_group, M_consensus, M_circuit, M_ibc, M_transfer,
     M_tendermint, M_groth16, M_solomachine]"

section \<open>Keepers\<close>

datatype AppKeeper = K_params | K_consensus | K_account | K_bank | K_staking | K_mint | K_distr | K_slashing | K_crisis
  | K_feegrant | K_circuit | K_authz | K_group | K_upgrade | K_ibc | K_gov | K_transfer | K_evidence

text \<open>The options that the constructor reads: the invariant check period, the heights of skipped upgrades,
  the home directory and whether the genesis invariants are skipped.\<close>

record AppOptions =
  invCheckPeriod :: nat
  unsafeSkipUpgrades :: "int list"
  homePath :: bytes
  skipGenesisInvariants :: bool

text \<open>\<^verbatim>\<open>skipUpgradeHeights\<close>: the heights of the option, converted to 64 bits.\<close>

definition skipUpgradeHeights :: "int list \<Rightarrow> i64 set" where
  "skipUpgradeHeights hs = (\<lambda>h. word_of_int h) ` set hs"

text \<open>What a keeper or module is made of besides other keepers: the address of the governance module as the
  authority, the fee collector's name, the module account permissions, the blocked addresses, the transient
  store of the parameters, and values from the options.\<close>

datatype Setting = GovAuthority | FeeCollector | MaccPerms | Blocked | TransientStore Module | InvCheckPeriod nat
  | SkipHeights "i64 set" | HomePath bytes | SkipGenesisInvariants bool

section \<open>Calls on the objects of the SDK\<close>

text \<open>Query services of the gRPC router.\<close>

datatype QueryService = S_autocli "Module list" | S_reflection | S_testpb | S_tx | S_cometbft | S_node

text \<open>The calls that configure the base application, its routers and hooks. The model records them in the
  order in which the code makes them.\<close>

datatype AppCall = NewBaseApp string | SetCommitMultiStoreTracer | SetVersion | SetInterfaceRegistry | SetTxEncoder
  | StreamingServices "Module list" | SetParamStore AppKeeper | SetStakingHooks "AppKeeper list" | SetCircuitBreaker AppKeeper
  | SetGovHooks "AppKeeper list" | AddPortRoute Module | AddPortRouteV2 Module | SetRouter | SetRouterV2
  | AddClientRoute Module | RegisterInvariants AppKeeper | ModuleServices | UpgradeHandlers | RegisterService QueryService
  | RegisterStoreDecoders | MountKVStores "Module list" | MountTransientStores "Module list" | SetInitChainer
  | SetPreBlocker | SetBeginBlocker | SetEndBlocker | SetAnteHandler | SetPostHandler | LoadLatest

definition appName :: string where
  "appName = ''SimApp''"

definition base_app_calls :: "AppCall list" where
  "base_app_calls = [NewBaseApp appName, SetCommitMultiStoreTracer, SetVersion, SetInterfaceRegistry, SetTxEncoder]"

text \<open>The constructor calls in the order of the code: the keeper, the store key it gets, the keepers
  that are passed to it and its settings; between them the calls that use keepers. A parameter subspace
  comes from the parameter keeper.\<close>

datatype BuildStep = MakeKeeper AppKeeper Module "AppKeeper list" "Setting list" | Invoke AppCall "AppKeeper list"

definition keeper_steps :: "AppOptions \<Rightarrow> BuildStep list" where
  "keeper_steps opts = [
     MakeKeeper K_params M_params [] [TransientStore M_params],
     MakeKeeper K_consensus M_consensus [] [GovAuthority],
     Invoke (SetParamStore K_consensus) [K_consensus],
     MakeKeeper K_account M_auth [] [MaccPerms, GovAuthority],
     MakeKeeper K_bank M_bank [K_account] [Blocked, GovAuthority],
     MakeKeeper K_staking M_staking [K_account, K_bank] [GovAuthority],
     MakeKeeper K_mint M_mint [K_staking, K_account, K_bank] [FeeCollector, GovAuthority],
     MakeKeeper K_distr M_distr [K_account, K_bank, K_staking] [FeeCollector, GovAuthority],
     MakeKeeper K_slashing M_slashing [K_staking] [GovAuthority],
     MakeKeeper K_crisis M_crisis [K_bank, K_account] [InvCheckPeriod (invCheckPeriod opts), FeeCollector, GovAuthority],
     MakeKeeper K_feegrant M_feegrant [K_account] [],
     Invoke (SetStakingHooks [K_distr, K_slashing]) [K_staking, K_distr, K_slashing],
     MakeKeeper K_circuit M_circuit [K_account] [GovAuthority],
     Invoke (SetCircuitBreaker K_circuit) [K_circuit],
     MakeKeeper K_authz M_authz [K_account] [],
     MakeKeeper K_group M_group [K_account] [],
     MakeKeeper K_upgrade M_upgrade [] [SkipHeights (skipUpgradeHeights (unsafeSkipUpgrades opts)), HomePath (homePath opts), GovAuthority],
     MakeKeeper K_ibc M_ibc [K_params, K_upgrade] [GovAuthority],
     MakeKeeper K_gov M_gov [K_account, K_bank, K_staking, K_distr] [GovAuthority],
     Invoke (SetGovHooks []) [K_gov],
     MakeKeeper K_transfer M_transfer [K_params, K_ibc, K_account, K_bank] [GovAuthority],
     Invoke (AddPortRoute M_transfer) [K_transfer],
     Invoke (AddPortRouteV2 M_transfer) [K_transfer],
     Invoke SetRouter [K_ibc],
     Invoke SetRouterV2 [K_ibc],
     Invoke (AddClientRoute M_tendermint) [K_ibc],
     Invoke (AddClientRoute M_groth16) [K_ibc],
     Invoke (AddClientRoute M_solomachine) [K_ibc],
     MakeKeeper K_evidence M_evidence [K_staking, K_slashing, K_account] []]"

text \<open>The modules of the manager, in its order, with the keepers they are made of. The light client
  modules get the store provider of the IBC client keeper.\<close>

definition module_steps :: "AppOptions \<Rightarrow> (Module \<times> AppKeeper list \<times> Setting list) list" where
  "module_steps opts = [
     (M_genutil, [K_account, K_staking], []),
     (M_auth, [K_account, K_params], []),
     (M_vesting, [K_account, K_bank], []),
     (M_bank, [K_bank, K_account, K_params], []),
     (M_crisis, [K_crisis, K_params], [SkipGenesisInvariants (skipGenesisInvariants opts)]),
     (M_feegrant, [K_account, K_bank, K_feegrant], []),
     (M_gov, [K_gov, K_account, K_bank, K_params], []),
     (M_mint, [K_mint, K_account, K_params], []),
     (M_slashing, [K_slashing, K_account, K_bank, K_staking, K_params], []),
     (M_distr, [K_distr, K_account, K_bank, K_staking, K_params], []),
     (M_staking, [K_staking, K_account, K_bank, K_params], []),
     (M_upgrade, [K_upgrade, K_account], []),
     (M_evidence, [K_evidence], []),
     (M_params, [K_params], []),
     (M_authz, [K_authz, K_account, K_bank], []),
     (M_group, [K_group, K_account, K_bank], []),
     (M_consensus, [K_consensus], []),
     (M_circuit, [K_circuit], []),
     (M_ibc, [K_ibc], []),
     (M_transfer, [K_transfer], []),
     (M_tendermint, [K_ibc], []),
     (M_groth16, [K_ibc], []),
     (M_solomachine, [K_ibc], [])]"

text \<open>Building in order: a store key that was not made or a keeper that was not built yet would pass on a
  nil value.\<close>

fun build_keepers ::
    "Module list \<Rightarrow> (AppKeeper \<times> Setting list) list \<times> AppCall list \<Rightarrow> BuildStep list \<Rightarrow>
     ((AppKeeper \<times> Setting list) list \<times> AppCall list) outcome" where
  "build_keepers keys (built, calls) [] = Ok (built, calls)"
| "build_keepers keys (built, calls) (MakeKeeper k store deps settings # steps) =
     (if store \<in> set keys \<and> set deps \<subseteq> set (map fst built)
      then build_keepers keys (built @ [(k, settings)], calls) steps
      else Panic (Sentinel ''nil pointer dereference''))"
| "build_keepers keys (built, calls) (Invoke c deps # steps) =
     (if set deps \<subseteq> set (map fst built) then build_keepers keys (built, calls @ [c]) steps
      else Panic (Sentinel ''nil pointer dereference''))"

fun build_modules ::
    "AppKeeper list \<Rightarrow> (Module \<times> Setting list) list \<Rightarrow> (Module \<times> AppKeeper list \<times> Setting list) list \<Rightarrow>
     (Module \<times> Setting list) list outcome" where
  "build_modules built ms [] = Ok ms"
| "build_modules built ms ((m, deps, settings) # steps) =
     (if set deps \<subseteq> set built then build_modules built (ms @ [(m, settings)]) steps
      else Panic (Sentinel ''nil pointer dereference''))"

section \<open>Codecs and managers\<close>

text \<open>What is registered in the interface registry and in the amino codec. A module that the basic manager
  registers is \<open>I_basic\<close>.\<close>

datatype Iface = I_std | I_groth16 | I_solomachine | I_tendermint | I_transfer | I_connection | I_client | I_clientV2
  | I_channel | I_channelV2 | I_basic Module

definition registered_interfaces :: "Iface list" where
  "registered_interfaces = [I_std, I_groth16, I_solomachine, I_tendermint, I_transfer, I_connection, I_client,
     I_clientV2, I_channel, I_channelV2]"

text \<open>The codec and the transaction configuration refer to the registry, so they see everything that it
  holds.\<close>

datatype CodecObj = ProtoCodec "Iface list"

datatype TxCfg = TxCfgDefault CodecObj

text \<open>The basic manager has the modules of the manager; two of them are replaced.\<close>

datatype ModuleBasic = OwnBasic | GenutilBasic | GovBasic "string list"

definition basic_overrides :: "Module \<rightharpoonup> ModuleBasic" where
  "basic_overrides = [M_genutil \<mapsto> GenutilBasic, M_gov \<mapsto> GovBasic [''params'']]"

definition basic_manager :: "Module list \<Rightarrow> (Module \<times> ModuleBasic) list" where
  "basic_manager modules = map (\<lambda>m. (m, case basic_overrides m of None \<Rightarrow> OwnBasic | Some b \<Rightarrow> b)) modules"

definition sim_overrides :: "Module list" where
  "sim_overrides = [M_auth]"

section \<open>The application\<close>

text \<open>The external steps of the construction that can fail. A step of the module manager that sets an order
  panics when the order forgets a module. \<open>NewSimulationManager\<close> gets the modules and the ones that are
  overridden.\<close>

record 's AppLib =
  NewInterfaceRegistry :: "error + unit"
  RegisterStreamingServices :: "error + unit"
  SetOrder :: "Module list \<Rightarrow> Module list \<Rightarrow> error + unit"
  RegisterServices :: "error + unit"
  NewReflectionService :: "error + unit"
  NewSimulationManager :: "Module list \<Rightarrow> Module list \<Rightarrow> Module list"
  SignModeHandler :: bool
  NewPostHandler :: "error + unit"
  MergedRegistry :: "error + unit"
  ValidateProtoAnnotations :: "error + unit"
  LoadLatestVersion :: "error + unit"
  upgradeOps :: "'s UpgradeOps"

record ModuleOrders =
  OrderPreBlockers :: "Module list"
  OrderBeginBlockers :: "Module list"
  OrderEndBlockers :: "Module list"
  OrderInitGenesis :: "Module list"
  OrderExportGenesis :: "Module list"

record 's SimApp =
  app_calls :: "AppCall list"
  app_legacyAmino :: "Iface list"
  app_appCodec :: CodecObj
  app_txConfig :: TxCfg
  app_interfaceRegistry :: "Iface list"
  app_keys :: "Module list"
  app_tkeys :: "Module list"
  app_keepers :: "(AppKeeper \<times> Setting list) list"
  app_ModuleManager :: "(Module \<times> Setting list) list"
  app_orders :: ModuleOrders
  app_BasicModuleManager :: "(Module \<times> ModuleBasic) list"
  app_simulationManager :: "Module list"
  app_upgrades :: "'s Upgrades"
  app_anteHandler :: "AnteDecorator list"
  app_warnings :: "error list"

definition setPostHandler :: "'s AppLib \<Rightarrow> unit outcome" where
  "setPostHandler A = must (NewPostHandler A)"

definition set_orders :: "'s AppLib \<Rightarrow> Module list \<Rightarrow> ModuleOrders outcome" where
  "set_orders A modules =
     bind_out (must (SetOrder A modules order_pre_blockers))
       (\<lambda>_. bind_out (must (SetOrder A modules order_begin_blockers))
       (\<lambda>_. bind_out (must (SetOrder A modules order_end_blockers))
       (\<lambda>_. bind_out (must (SetOrder A modules genesisModuleOrder))
       (\<lambda>_. bind_out (must (SetOrder A modules genesisModuleOrder))
       (\<lambda>_. Ok \<lparr>OrderPreBlockers = order_pre_blockers, OrderBeginBlockers = order_begin_blockers,
             OrderEndBlockers = order_end_blockers, OrderInitGenesis = genesisModuleOrder,
             OrderExportGenesis = genesisModuleOrder\<rparr>)))))"

text \<open>The registry, the codecs and the base application. The error of the registry is dropped; the nil
  registry that comes with it is then used.\<close>

definition new_base :: "'s AppLib \<Rightarrow> (AppCall list \<times> Iface list) outcome" where
  "new_base A =
     bind_out (case NewInterfaceRegistry A of
         Inl _ \<Rightarrow> Panic (Sentinel ''nil pointer dereference'')
       | Inr _ \<Rightarrow> Ok registered_interfaces)
       (\<lambda>registry.
     bind_out (must (RegisterStreamingServices A))
       (\<lambda>_. Ok (base_app_calls @ [StreamingServices app_store_keys], registry)))"

text \<open>Invariants, message and query services, upgrade handlers, reflection and the simulation manager.\<close>

definition register_services ::
    "'s AppLib \<Rightarrow> AppOptions \<Rightarrow> Module list \<Rightarrow> (AppCall list \<times> 's Upgrades \<times> Module list) outcome" where
  "register_services A opts modules =
     bind_out (must (RegisterServices A))
       (\<lambda>_.
     bind_out (registerUpgradeHandlers
         ((upgradeOps A)\<lparr>IsSkipHeight := (\<lambda>h. h \<in> skipUpgradeHeights (unsafeSkipUpgrades opts))\<rparr>)
         \<lparr>upgradeHandlers = Map.empty, storeLoader = None\<rparr>)
       (\<lambda>upgrades.
     bind_out (must (NewReflectionService A))
       (\<lambda>_.
     Ok ([RegisterInvariants K_crisis, ModuleServices, UpgradeHandlers, RegisterService (S_autocli modules),
          RegisterService S_reflection, RegisterService S_testpb, RegisterStoreDecoders],
         upgrades, NewSimulationManager A modules sim_overrides))))"

text \<open>Stores and handlers. An invalid proto annotation is only reported.\<close>

definition init_base_app ::
    "'s AppLib \<Rightarrow> bool \<Rightarrow> Module list \<Rightarrow> Module list \<Rightarrow> (AppCall list \<times> AnteDecorator list \<times> error list) outcome" where
  "init_base_app A loadLatest keys tkeys =
     bind_out (setAnteHandler (SignModeHandler A))
       (\<lambda>ante.
     bind_out (setPostHandler A)
       (\<lambda>_.
     bind_out (must (MergedRegistry A))
       (\<lambda>_.
     bind_out (if loadLatest then must (map_sum (Wrap ''error loading last version'') id (LoadLatestVersion A)) else Ok ())
       (\<lambda>_.
     Ok ([MountKVStores keys, MountTransientStores tkeys, SetInitChainer, SetPreBlocker, SetBeginBlocker, SetEndBlocker,
          SetAnteHandler, SetPostHandler] @ (if loadLatest then [LoadLatest] else []),
         ante, case ValidateProtoAnnotations A of Inl e \<Rightarrow> [e] | Inr _ \<Rightarrow> [])))))"

definition NewSimApp :: "'s AppLib \<Rightarrow> bool \<Rightarrow> AppOptions \<Rightarrow> 's SimApp outcome" where
  "NewSimApp A loadLatest opts =
     bind_out (new_base A)
       (\<lambda>(calls0, registry).
     let keys = app_store_keys; tkeys = [M_params] in
     bind_out (build_keepers keys ([], calls0) (keeper_steps opts))
       (\<lambda>(keepers, calls1).
     bind_out (build_modules (map fst keepers) [] (module_steps opts))
       (\<lambda>manager.
     let modules = map fst manager;
         basics = basic_manager modules;
         amino = I_std # map I_basic modules;
         registry' = registry @ map I_basic modules in
     bind_out (set_orders A modules)
       (\<lambda>orders.
     bind_out (register_services A opts modules)
       (\<lambda>(calls2, upgrades, simulation).
     bind_out (init_base_app A loadLatest keys tkeys)
       (\<lambda>(calls3, ante, warnings).
     Ok \<lparr>app_calls = calls1 @ calls2 @ calls3, app_legacyAmino = amino, app_appCodec = ProtoCodec registry',
         app_txConfig = TxCfgDefault (ProtoCodec registry'), app_interfaceRegistry = registry', app_keys = keys,
         app_tkeys = tkeys, app_keepers = keepers, app_ModuleManager = manager, app_orders = orders,
         app_BasicModuleManager = basics, app_simulationManager = simulation, app_upgrades = upgrades,
         app_anteHandler = ante, app_warnings = warnings\<rparr>))))))"

section \<open>Methods of the application\<close>

definition Name :: "'s SimApp \<Rightarrow> string" where
  "Name app = (case app_calls app of NewBaseApp n # _ \<Rightarrow> n | _ \<Rightarrow> [])"

text \<open>The module manager runs a hook of the modules in the order that was set; \<open>run\<close> is its loop.\<close>

definition SimApp_PreBlocker :: "(Module list \<Rightarrow> 'c \<Rightarrow> 'r) \<Rightarrow> 's SimApp \<Rightarrow> 'c \<Rightarrow> 'r" where
  "SimApp_PreBlocker run app ctx = run (OrderPreBlockers (app_orders app)) ctx"

definition SimApp_BeginBlocker :: "(Module list \<Rightarrow> 'c \<Rightarrow> 'r) \<Rightarrow> 's SimApp \<Rightarrow> 'c \<Rightarrow> 'r" where
  "SimApp_BeginBlocker run app ctx = run (OrderBeginBlockers (app_orders app)) ctx"

definition SimApp_EndBlocker :: "(Module list \<Rightarrow> 'c \<Rightarrow> 'r) \<Rightarrow> 's SimApp \<Rightarrow> 'c \<Rightarrow> 'r" where
  "SimApp_EndBlocker run app ctx = run (OrderEndBlockers (app_orders app)) ctx"

definition LoadHeight :: "('s SimApp \<Rightarrow> i64 \<Rightarrow> error + 's SimApp) \<Rightarrow> 's SimApp \<Rightarrow> i64 \<Rightarrow> error + 's SimApp" where
  "LoadHeight LoadVersion app height = LoadVersion app height"

definition LegacyAmino :: "'s SimApp \<Rightarrow> Iface list" where
  "LegacyAmino app = app_legacyAmino app"

definition AppCodec :: "'s SimApp \<Rightarrow> CodecObj" where
  "AppCodec app = app_appCodec app"

definition SimApp_InterfaceRegistry :: "'s SimApp \<Rightarrow> Iface list" where
  "SimApp_InterfaceRegistry app = app_interfaceRegistry app"

definition TxConfig :: "'s SimApp \<Rightarrow> TxCfg" where
  "TxConfig app = app_txConfig app"

text \<open>\<open>hasName\<close> and \<open>isAppModule\<close> are the two type assertions.\<close>

fun autocli_modules :: "(Module \<Rightarrow> bool) \<Rightarrow> (Module \<Rightarrow> bool) \<Rightarrow> Module list \<Rightarrow> Module list" where
  "autocli_modules hasName isAppModule [] = []"
| "autocli_modules hasName isAppModule (m # ms) =
     (if hasName m \<and> isAppModule m then m # autocli_modules hasName isAppModule ms
      else autocli_modules hasName isAppModule ms)"

definition AutoCliOpts :: "(Module \<Rightarrow> bool) \<Rightarrow> (Module \<Rightarrow> bool) \<Rightarrow> 's SimApp \<Rightarrow> Module list" where
  "AutoCliOpts hasName isAppModule app = autocli_modules hasName isAppModule (map fst (app_ModuleManager app))"

text \<open>The genesis of the chain: the raw message of each module.\<close>

type_synonym GenesisState = "Module \<rightharpoonup> bytes"

text \<open>The basic manager collects the default genesis of the modules that have one.\<close>

definition SimApp_DefaultGenesis :: "(ModuleBasic \<Rightarrow> Module \<Rightarrow> bytes option) \<Rightarrow> 's SimApp \<Rightarrow> GenesisState" where
  "SimApp_DefaultGenesis moduleDefault app =
     (\<lambda>m. case map_of (app_BasicModuleManager app) m of None \<Rightarrow> None | Some b \<Rightarrow> moduleDefault b m)"

definition GetStoreKeys :: "'s SimApp \<Rightarrow> Module set" where
  "GetStoreKeys app = set (app_keys app)"

text \<open>A key that was not made is nil.\<close>

definition GetKey :: "'s SimApp \<Rightarrow> Module \<Rightarrow> Module option" where
  "GetKey app m = (if m \<in> set (app_keys app) then Some m else None)"

text \<open>The two subspaces that get a key table.\<close>

definition initParamsKeeper :: "Module list" where
  "initParamsKeeper = [M_ibc, M_transfer]"

text \<open>The subspace of a module, or the zero subspace: whether it was found is dropped.\<close>

definition GetSubspace :: "Module \<Rightarrow> Module option" where
  "GetSubspace m = (if m \<in> set initParamsKeeper then Some m else None)"

definition SimulationManager :: "'s SimApp \<Rightarrow> Module list" where
  "SimulationManager app = app_simulationManager app"

section \<open>Services for clients\<close>

text \<open>The gateway routes and the router of an API server.\<close>

datatype Gateway = G_tx | G_cometbft | G_node | G_modules "Module list"

record ApiServer =
  GRPCGatewayRouter :: "Gateway list"
  swagger :: "bool option"

definition RegisterAPIRoutes :: "(bool \<Rightarrow> error + unit) \<Rightarrow> 's SimApp \<Rightarrow> ApiServer \<Rightarrow> bool \<Rightarrow> ApiServer outcome" where
  "RegisterAPIRoutes RegisterSwaggerAPI app apiSvr Swagger =
     (let svr = apiSvr\<lparr>GRPCGatewayRouter := GRPCGatewayRouter apiSvr @
            [G_tx, G_cometbft, G_node, G_modules (map fst (app_BasicModuleManager app))]\<rparr> in
      bind_out (must (RegisterSwaggerAPI Swagger)) (\<lambda>_. Ok (svr\<lparr>swagger := Some Swagger\<rparr>)))"

definition register_query_service :: "QueryService \<Rightarrow> 's SimApp \<Rightarrow> 's SimApp" where
  "register_query_service svc app = app\<lparr>app_calls := app_calls app @ [RegisterService svc]\<rparr>"

definition RegisterTxService :: "'s SimApp \<Rightarrow> 's SimApp" where
  "RegisterTxService app = register_query_service S_tx app"

definition RegisterTendermintService :: "'s SimApp \<Rightarrow> 's SimApp" where
  "RegisterTendermintService app = register_query_service S_cometbft app"

definition RegisterNodeService :: "'s SimApp \<Rightarrow> 's SimApp" where
  "RegisterNodeService app = register_query_service S_node app"

section \<open>The wiring is consistent\<close>

text \<open>\<open>happens_before xs a b\<close>: both occur in the order, \<open>a\<close> first.\<close>

fun happens_before :: "'a list \<Rightarrow> 'a \<Rightarrow> 'a \<Rightarrow> bool" where
  "happens_before [] a b = False"
| "happens_before (x # xs) a b = (if x = a then b \<in> set xs else if x = b then False else happens_before xs a b)"

text \<open>The light clients that are routed.\<close>

definition client_routes :: "AppCall list \<Rightarrow> Module list" where
  "client_routes calls = concat (map (\<lambda>c. case c of AddClientRoute m \<Rightarrow> [m] | _ \<Rightarrow> []) calls)"

definition keeper_calls :: "AppCall list" where
  "keeper_calls = [SetParamStore K_consensus, SetStakingHooks [K_distr, K_slashing], SetCircuitBreaker K_circuit,
     SetGovHooks [], AddPortRoute M_transfer, AddPortRouteV2 M_transfer, SetRouter, SetRouterV2,
     AddClientRoute M_tendermint, AddClientRoute M_groth16, AddClientRoute M_solomachine]"

definition built_keepers :: "AppOptions \<Rightarrow> (AppKeeper \<times> Setting list) list" where
  "built_keepers opts = concat (map (\<lambda>s. case s of MakeKeeper k _ _ ss \<Rightarrow> [(k, ss)] | Invoke _ _ \<Rightarrow> []) (keeper_steps opts))"

definition built_modules :: "AppOptions \<Rightarrow> (Module \<times> Setting list) list" where
  "built_modules opts = map (\<lambda>(m, _, ss). (m, ss)) (module_steps opts)"

text \<open>
  No list names a module twice; the orders name only modules that exist and whose store is
  mounted, up to genutil and vesting, which have none; the genesis order is complete but for the
  light clients, whose state lives in the IBC store. The orders obey the constraints that the code
  states: slashing begins after distribution, and genutil initialises after staking and auth.
\<close>

lemma app_orders:
  "list_all (\<lambda>xs. distinct xs \<and> set xs \<subseteq> set app_modules)
      [app_modules, app_store_keys, client_routes keeper_calls, order_begin_blockers, order_end_blockers, genesisModuleOrder]
   \<and> set app_modules - set genesisModuleOrder = set (client_routes keeper_calls)
   \<and> set (order_pre_blockers @ order_begin_blockers @ order_end_blockers @ genesisModuleOrder)
       - set app_store_keys = {M_genutil, M_vesting}
   \<and> set app_store_keys \<subseteq> set genesisModuleOrder
   \<and> M_groth16 \<in> set (client_routes keeper_calls) \<and> M_header \<notin> set app_modules
   \<and> happens_before order_begin_blockers M_distr M_slashing
   \<and> happens_before genesisModuleOrder M_staking M_genutil \<and> happens_before genesisModuleOrder M_auth M_genutil"
  unfolding app_modules_def app_store_keys_def client_routes_def order_pre_blockers_def order_begin_blockers_def
    order_end_blockers_def genesisModuleOrder_def keeper_calls_def
  by (intro conjI; (code_simp | auto))

lemma keepers_built:
  "build_keepers app_store_keys ([], calls) (keeper_steps opts) = Ok (built_keepers opts, calls @ keeper_calls)"
proof -
  have keys: "M \<in> set app_store_keys" if "M \<in> {M_auth, M_bank, M_staking, M_crisis, M_mint, M_distr, M_slashing, M_gov,
      M_group, M_params, M_ibc, M_upgrade, M_feegrant, M_evidence, M_transfer, M_authz, M_consensus, M_circuit}" for M
    using that by (auto simp: app_store_keys_def)
  show ?thesis
    by (simp add: keeper_steps_def built_keepers_def keeper_calls_def keys)
qed

lemma built_keepers_fst:
  "map fst (built_keepers opts) = [K_params, K_consensus, K_account, K_bank, K_staking, K_mint, K_distr, K_slashing, K_crisis,
     K_feegrant, K_circuit, K_authz, K_group, K_upgrade, K_ibc, K_gov, K_transfer, K_evidence]"
  by (simp add: built_keepers_def keeper_steps_def)

lemma modules_built: "build_modules (map fst (built_keepers opts)) [] (module_steps opts) = Ok (built_modules opts)"
  unfolding built_keepers_fst by (simp add: module_steps_def built_modules_def)

lemma built_modules_fst: "map fst (built_modules opts) = app_modules"
  by (simp add: built_modules_def module_steps_def app_modules_def)

lemma keepers_complete: "distinct (map fst (built_keepers opts))" "set (map fst (built_keepers opts)) = UNIV"
proof -
  have "k \<in> set (map fst (built_keepers opts))" for k
    unfolding built_keepers_fst by (cases k) simp_all
  then show "set (map fst (built_keepers opts)) = UNIV" by blast
qed (simp add: built_keepers_fst)

lemma keepers_without_authority:
  "fst ` {(k, ss) \<in> set (built_keepers opts). GovAuthority \<notin> set ss} = {K_params, K_feegrant, K_authz, K_group, K_evidence}"
proof -
  have eq: "{(k, ss) \<in> set xs. GovAuthority \<notin> set ss} = set (filter (\<lambda>(k, ss). GovAuthority \<notin> set ss) xs)"
    for xs :: "(AppKeeper \<times> Setting list) list" by auto
  have "map fst (filter (\<lambda>(k, ss). GovAuthority \<notin> set ss) (built_keepers opts)) = [K_params, K_feegrant, K_authz, K_group, K_evidence]"
    by (simp add: built_keepers_def keeper_steps_def)
  then show ?thesis unfolding eq set_map [symmetric] by simp
qed

lemma bind_out_eq_Fail: "bind_out x f = Fail e \<longleftrightarrow> x = Fail e \<or> (\<exists>a. x = Ok a \<and> f a = Fail e)"
  by (cases x) auto

lemma must_neq_Fail: "must x \<noteq> Fail e"
  by (cases x) auto

lemma must_eq_Panic: "must x = Panic e \<longleftrightarrow> x = Inl e"
  by (cases x) auto

lemma setAnteHandler_Ok: "setAnteHandler b = Ok a \<longleftrightarrow> b \<and> NewAnteHandler \<lparr>hasAccountKeeper = True, hasBankKeeper = True, hasSignModeHandler = b\<rparr> = Ok a"
  by (auto simp: setAnteHandler_def NewAnteHandler_def)

text \<open>The phases: none of them returns an error, and a panic comes from a step that failed.\<close>

lemma phases_neq_Fail:
  "new_base A \<noteq> Fail e" "set_orders A ms \<noteq> Fail e" "register_services A opts ms \<noteq> Fail e"
  "init_base_app A l ks ts \<noteq> Fail e"
  by (auto simp: new_base_def set_orders_def register_services_def init_base_app_def bind_out_eq_Fail must_neq_Fail
      registerUpgradeHandlers_def Let_def setAnteHandler_def setPostHandler_def split: sum.splits outcome.splits if_splits)

lemma new_base_Panic:
  "new_base A = Panic e \<Longrightarrow>
    (\<exists>e'. NewInterfaceRegistry A = Inl e') \<and> e = Sentinel ''nil pointer dereference'' \<or> RegisterStreamingServices A = Inl e"
  by (auto simp: new_base_def bind_out_eq_Panic must_eq_Panic split: sum.splits)

lemma register_services_Panic:
  "register_services A opts ms = Panic e \<Longrightarrow>
    Inl e \<in> {RegisterServices A, NewReflectionService A} \<or> ReadUpgradeInfoFromDisk (upgradeOps A) = Inl e"
  by (auto simp: register_services_def registerUpgradeHandlers_def Let_def bind_out_eq_Panic must_eq_Panic)

lemma init_base_app_Panic:
  "init_base_app A l ks ts = Panic e \<Longrightarrow>
    Inl e \<in> {NewPostHandler A, MergedRegistry A, map_sum (Wrap ''error loading last version'') id (LoadLatestVersion A)}
    \<or> setAnteHandler (SignModeHandler A) = Panic e"
  by (auto simp: init_base_app_def setPostHandler_def bind_out_eq_Panic must_eq_Panic split: if_splits)

lemma NewSimApp_phases:
  "NewSimApp A l opts = bind_out (new_base A) (\<lambda>(calls0, registry).
     bind_out (set_orders A app_modules) (\<lambda>orders.
     bind_out (register_services A opts app_modules) (\<lambda>(calls2, upgrades, simulation).
     bind_out (init_base_app A l app_store_keys [M_params]) (\<lambda>(calls3, ante, warnings).
     Ok \<lparr>app_calls = calls0 @ keeper_calls @ calls2 @ calls3, app_legacyAmino = I_std # map I_basic app_modules,
         app_appCodec = ProtoCodec (registry @ map I_basic app_modules),
         app_txConfig = TxCfgDefault (ProtoCodec (registry @ map I_basic app_modules)),
         app_interfaceRegistry = registry @ map I_basic app_modules, app_keys = app_store_keys,
         app_tkeys = [M_params], app_keepers = built_keepers opts, app_ModuleManager = built_modules opts,
         app_orders = orders, app_BasicModuleManager = basic_manager app_modules, app_simulationManager = simulation,
         app_upgrades = upgrades, app_anteHandler = ante, app_warnings = warnings\<rparr>))))"
  unfolding NewSimApp_def Let_def keepers_built by (simp add: modules_built built_modules_fst split_def del: map_map)

lemma NewSimApp_calls:
  assumes "NewSimApp A l opts = Ok app"
  shows "app_calls app = base_app_calls @ [StreamingServices (app_keys app)] @ keeper_calls
      @ [RegisterInvariants K_crisis, ModuleServices, UpgradeHandlers, RegisterService (S_autocli app_modules),
          RegisterService S_reflection, RegisterService S_testpb, RegisterStoreDecoders]
      @ [MountKVStores (app_keys app), MountTransientStores (app_tkeys app), SetInitChainer, SetPreBlocker, SetBeginBlocker,
         SetEndBlocker, SetAnteHandler, SetPostHandler] @ (if l then [LoadLatest] else [])"
  using assms unfolding NewSimApp_phases
  by (auto simp: bind_out_eq_Ok new_base_def register_services_def init_base_app_def split: sum.splits)

lemma NewSimApp_failures:
  "NewSimApp A l opts \<noteq> Fail e"
  "NewSimApp A l opts = Panic e \<Longrightarrow> Inl e \<in> {RegisterStreamingServices A, RegisterServices A, NewReflectionService A,
         NewPostHandler A, MergedRegistry A, map_sum (Wrap ''error loading last version'') id (LoadLatestVersion A)}
       \<or> (\<exists>e'. NewInterfaceRegistry A = Inl e') \<and> e = Sentinel ''nil pointer dereference''
       \<or> ReadUpgradeInfoFromDisk (upgradeOps A) = Inl e \<or> set_orders A app_modules = Panic e
       \<or> setAnteHandler (SignModeHandler A) = Panic e"
  unfolding NewSimApp_phases
  by (auto simp: bind_out_eq_Fail phases_neq_Fail)
    (auto simp: bind_out_eq_Panic dest!: new_base_Panic register_services_Panic init_base_app_Panic)


end
