(* ===== verification/App_Commands.thy ===== *)
theory App_Commands
  imports App_Wiring Paths
begin

text \<open>
  The program \<^verbatim>\<open>simd\<close>: the home directory (\<^verbatim>\<open>init\<close> of \<^verbatim>\<open>simapp/app.go\<close>), the root command with its pre-run
  hook, configuration and subcommands (\<^verbatim>\<open>simapp/simd/cmd/root.go\<close>), the entry point (\<^verbatim>\<open>simapp/simd/main.go\<close>)
  and the simulation parameters (\<^verbatim>\<open>simapp/params\<close>). Commands of the SDK are named by the call that makes
  them; what the SDK does with a command is an argument.
\<close>

section \<open>The home directory\<close>

definition app_init :: "error + bytes \<Rightarrow> bytes outcome" where
  "app_init UserHomeDir = bind_out (must UserHomeDir) (\<lambda>userHomeDir. Ok (filepath_Join [userHomeDir, str ''.simapp'']))"

section \<open>Commands\<close>

record EncodingConfig =
  enc_InterfaceRegistry :: "Iface list"
  enc_Codec :: CodecObj
  enc_TxConfig :: TxCfg
  enc_Amino :: "Iface list"

text \<open>Commands that the SDK makes, by the call.\<close>

datatype LibCmd = genutilcli_InitCmd "(Module \<times> ModuleBasic) list" bytes | debug_Cmd | confixcmd_ConfigCommand | pruning_Cmd bytes
  | snapshot_Cmd | server_QueryBlockResultsCmd | server_StatusCommand | genutilcli_Commands TxCfg "(Module \<times> ModuleBasic) list" bytes
  | keys_Commands | rpc_ValidatorCommand | server_QueryBlockCmd | authcmd_QueryTxsByEventsCmd | server_QueryBlocksCmd
  | authcmd_QueryTxCmd | authcmd_GetSimulateCmd | authcmd_GetSignCommand | authcmd_GetSignBatchCommand
  | authcmd_GetMultiSignCommand | authcmd_GetMultiSignBatchCmd | authcmd_GetValidateSignaturesCommand
  | authcmd_GetBroadcastCommand | authcmd_GetEncodeCommand | authcmd_GetDecodeCommand

record CommandInfo =
  Use :: string
  Aliases :: "string list"
  Short :: string
  SilenceErrors :: bool
  DisableFlagParsing :: bool
  SuggestionsMinimumDistance :: nat

datatype Command = Own CommandInfo "Command list" | Lib LibCmd "Command list"

fun AddCommand :: "Command \<Rightarrow> Command list \<Rightarrow> Command" where
  "AddCommand (Own i subs) cs = Own i (subs @ cs)"
| "AddCommand (Lib l subs) cs = Lib l (subs @ cs)"

fun subcommands :: "Command \<Rightarrow> Command list" where
  "subcommands (Own i subs) = subs"
| "subcommands (Lib l subs) = subs"

definition queryCommand :: Command where
  "queryCommand =
     AddCommand (Own \<lparr>Use = ''query'', Aliases = [''q''], Short = ''Querying subcommands'', SilenceErrors = False,
         DisableFlagParsing = False, SuggestionsMinimumDistance = 2\<rparr> [])
       [Lib rpc_ValidatorCommand [], Lib server_QueryBlockCmd [], Lib authcmd_QueryTxsByEventsCmd [], Lib server_QueryBlocksCmd [],
        Lib authcmd_QueryTxCmd [], Lib authcmd_GetSimulateCmd []]"

definition txCommand :: Command where
  "txCommand =
     AddCommand (Own \<lparr>Use = ''tx'', Aliases = [], Short = ''Transactions subcommands'', SilenceErrors = False,
         DisableFlagParsing = False, SuggestionsMinimumDistance = 2\<rparr> [])
       [Lib authcmd_GetSignCommand [], Lib authcmd_GetSignBatchCommand [], Lib authcmd_GetMultiSignCommand [],
        Lib authcmd_GetMultiSignBatchCmd [], Lib authcmd_GetValidateSignaturesCommand [], Lib authcmd_GetBroadcastCommand [],
        Lib authcmd_GetEncodeCommand [], Lib authcmd_GetDecodeCommand [], Lib authcmd_GetSimulateCmd []]"

definition genesisCommand :: "bytes \<Rightarrow> EncodingConfig \<Rightarrow> (Module \<times> ModuleBasic) list \<Rightarrow> Command list \<Rightarrow> Command" where
  "genesisCommand DefaultNodeHome encodingConfig basicManager cmds =
     foldl (\<lambda>cmd subCmd. AddCommand cmd [subCmd]) (Lib (genutilcli_Commands (enc_TxConfig encodingConfig) basicManager DefaultNodeHome) []) cmds"

definition addModuleInitFlags :: "('f \<Rightarrow> 'f) \<Rightarrow> 'f \<Rightarrow> 'f" where
  "addModuleInitFlags crisis_AddModuleInitFlags startCmd = crisis_AddModuleInitFlags startCmd"

section \<open>Configuration\<close>

text \<open>The address prefixes of the SDK, and whether its configuration is sealed.\<close>

record SdkConfig =
  Bech32AccountAddrPrefix :: bytes
  Bech32ValidatorAddrPrefix :: bytes
  Bech32ConsensusAddrPrefix :: bytes
  sealed :: bool

record WASMConfig =
  QueryGasLimit :: u64
  LruSize :: u64

text \<open>\<open>'cfg\<close> is the server configuration of the SDK with a setter for the gas prices.\<close>

record 'cfg CustomAppConfig =
  srvConfig :: 'cfg
  WASM :: WASMConfig

definition wasm_template :: "string list" where
  \<open>wasm_template = [[], ''[wasm]'',
     ''# This is the maximum sdk gas (wasm and storage) that we allow for any x/wasm "smart" queries'',
     ''query_gas_limit = 300000'',
     ''# This is the number of wasm vm instances we keep cached in memory for speed-up'',
     ''# Warning: this is currently unstable and may lead to crashes, best to keep for 0 unless testing locally'',
     ''lru_size = 0'']\<close>

definition initAppConfig :: "string list \<Rightarrow> (string \<Rightarrow> 'cfg \<Rightarrow> 'cfg) \<Rightarrow> 'cfg \<Rightarrow> string list \<times> 'cfg CustomAppConfig" where
  "initAppConfig DefaultConfigTemplate setMinGasPrices DefaultConfig =
     (DefaultConfigTemplate @ wasm_template,
      \<lparr>srvConfig = setMinGasPrices ''0stake'' DefaultConfig, WASM = \<lparr>QueryGasLimit = 300000, LruSize = 1\<rparr>\<rparr>)"

text \<open>The client context, with the fields that this code sets or reads.\<close>

record ClientContext =
  ctx_Codec :: "CodecObj option"
  ctx_InterfaceRegistry :: "Iface list"
  ctx_LegacyAmino :: "Iface list"
  ctx_Input :: bool
  ctx_AccountRetriever :: bool
  ctx_HomeDir :: bytes
  ctx_Viper :: "bytes option"
  ctx_TxConfig :: "TxCfg option"
  ctx_CmdContext :: bool
  Offline :: bool

definition emptyContext :: ClientContext where
  "emptyContext = \<lparr>ctx_Codec = None, ctx_InterfaceRegistry = [], ctx_LegacyAmino = [], ctx_Input = False,
     ctx_AccountRetriever = False, ctx_HomeDir = [], ctx_Viper = None, ctx_TxConfig = None, ctx_CmdContext = False,
     Offline = False\<rparr>"

text \<open>The SDK calls of the command, for the server configuration \<open>'cfg\<close>. \<open>NewTxConfigWithOptions\<close> gets the
  codec, the sign modes and the context that queries coin metadata.\<close>

record 'cfg CmdLib =
  ReadPersistentCommandFlags :: "ClientContext \<Rightarrow> error + ClientContext"
  ReadFromClientConfig :: "ClientContext \<Rightarrow> error + ClientContext"
  DefaultSignModes :: "string list"
  NewTxConfigWithOptions :: "CodecObj \<Rightarrow> string list \<Rightarrow> ClientContext \<Rightarrow> error + TxCfg"
  SetCmdClientContextHandler :: "ClientContext \<Rightarrow> error + unit"
  InterceptConfigsPreRunHandler :: "string list \<Rightarrow> 'cfg CustomAppConfig \<Rightarrow> 'cfg \<Rightarrow> error + unit"
  DefaultTemplate :: "string list"
  DefaultServerConfig :: 'cfg
  DefaultCometConfig :: 'cfg
  setGasPrices :: "string \<Rightarrow> 'cfg \<Rightarrow> 'cfg"
  server_AddCommands :: "bytes \<Rightarrow> Command \<Rightarrow> Command"
  hasName :: "Module \<Rightarrow> bool"
  isAppModule :: "Module \<Rightarrow> bool"

definition initCometBFTConfig :: "'cfg CmdLib \<Rightarrow> 'cfg" where
  "initCometBFTConfig C = DefaultCometConfig C"

section \<open>The root command\<close>

definition with_textual :: "'cfg CmdLib \<Rightarrow> EncodingConfig \<Rightarrow> ClientContext \<Rightarrow> ClientContext outcome" where
  "with_textual C encodingConfig ctx =
     (if \<not> Offline ctx then
        bind_out (of_result (NewTxConfigWithOptions C (ProtoCodec (enc_InterfaceRegistry encodingConfig))
            (DefaultSignModes C @ [''SIGN_MODE_TEXTUAL'']) ctx))
          (\<lambda>txConfigWithTextual. Ok (ctx\<lparr>ctx_TxConfig := Some txConfigWithTextual\<rparr>))
      else Ok ctx)"

definition PersistentPreRunE :: "'cfg CmdLib \<Rightarrow> EncodingConfig \<Rightarrow> ClientContext \<Rightarrow> unit outcome" where
  "PersistentPreRunE C encodingConfig initClientCtx =
     bind_out (of_result (ReadPersistentCommandFlags C (initClientCtx\<lparr>ctx_CmdContext := True\<rparr>)))
       (\<lambda>ctx1.
     bind_out (of_result (ReadFromClientConfig C ctx1))
       (\<lambda>ctx2.
     bind_out (with_textual C encodingConfig ctx2)
       (\<lambda>ctx3.
     bind_out (of_result (SetCmdClientContextHandler C ctx3))
       (\<lambda>_.
     let (customAppTemplate, customAppConfig) = initAppConfig (DefaultTemplate C) (setGasPrices C) (DefaultServerConfig C);
         customCMTConfig = initCometBFTConfig C in
     of_result (InterceptConfigsPreRunHandler C customAppTemplate customAppConfig customCMTConfig)))))"

definition initRootCmd ::
    "'cfg CmdLib \<Rightarrow> bytes \<Rightarrow> SdkConfig \<Rightarrow> Command \<Rightarrow> EncodingConfig \<Rightarrow> (Module \<times> ModuleBasic) list \<Rightarrow> SdkConfig \<times> Command" where
  "initRootCmd C DefaultNodeHome cfg rootCmd encodingConfig basicManager =
     (let cmd1 = AddCommand rootCmd
            [Lib (genutilcli_InitCmd basicManager DefaultNodeHome) [], Lib debug_Cmd [], Lib confixcmd_ConfigCommand [],
             Lib (pruning_Cmd DefaultNodeHome) [], Lib snapshot_Cmd [], Lib server_QueryBlockResultsCmd []];
          cmd2 = server_AddCommands C DefaultNodeHome cmd1;
          cmd3 = AddCommand cmd2
            [Lib server_StatusCommand [], genesisCommand DefaultNodeHome encodingConfig basicManager [], txCommand, queryCommand,
             Lib keys_Commands []]
      in (cfg\<lparr>sealed := True\<rparr>, cmd3))"

text \<open>The options of the generated commands.\<close>

record AutoCli =
  autocli_Modules :: "Module list"
  AddressCodec :: bytes
  ValidatorAddressCodec :: bytes
  ConsensusAddressCodec :: bytes
  autocli_ClientCtx :: ClientContext

definition enrichAutoCliOpts :: "'cfg CmdLib \<Rightarrow> SdkConfig \<Rightarrow> Module list \<Rightarrow> ClientContext \<Rightarrow> AutoCli outcome" where
  "enrichAutoCliOpts C cfg modules clientCtx =
     bind_out (of_result (ReadFromClientConfig C clientCtx))
       (\<lambda>ctx. Ok \<lparr>autocli_Modules = modules, AddressCodec = Bech32AccountAddrPrefix cfg,
          ValidatorAddressCodec = Bech32ValidatorAddrPrefix cfg, ConsensusAddressCodec = Bech32ConsensusAddrPrefix cfg,
          autocli_ClientCtx = ctx\<rparr>)"

text \<open>The root command with its pre-run hook, the configuration, and the directory that was removed.\<close>

record RootCmd =
  root_Command :: Command
  root_PreRunE :: "unit outcome"
  root_config :: SdkConfig
  root_removed :: bytes

text \<open>The temporary application, the command and the generated commands; errors panic.\<close>

definition NewRootCmd ::
    "'s AppLib \<Rightarrow> 'cfg CmdLib \<Rightarrow> (AutoCli \<Rightarrow> Command \<Rightarrow> error + Command) \<Rightarrow> SdkConfig \<Rightarrow> bytes \<Rightarrow> error + bytes \<Rightarrow> RootCmd outcome" where
  "NewRootCmd A C EnhanceRootCommand cfg DefaultNodeHome MkdirTemp =
     (let (dir, removed) = tempDir MkdirTemp DefaultNodeHome in
      bind_out (NewSimApp A True \<lparr>invCheckPeriod = 0, unsafeSkipUpgrades = [], homePath = dir, skipGenesisInvariants = False\<rparr>)
        (\<lambda>tempApp.
      let encodingConfig = \<lparr>enc_InterfaceRegistry = SimApp_InterfaceRegistry tempApp, enc_Codec = AppCodec tempApp,
            enc_TxConfig = TxConfig tempApp, enc_Amino = LegacyAmino tempApp\<rparr>;
          initClientCtx = emptyContext\<lparr>ctx_Codec := Some (enc_Codec encodingConfig),
            ctx_InterfaceRegistry := enc_InterfaceRegistry encodingConfig, ctx_LegacyAmino := enc_Amino encodingConfig,
            ctx_Input := True, ctx_AccountRetriever := True, ctx_HomeDir := DefaultNodeHome, ctx_Viper := Some []\<rparr>;
          rootCmd = Own \<lparr>Use = ''simd'', Aliases = [], Short = ''simulation app'', SilenceErrors = True,
            DisableFlagParsing = False, SuggestionsMinimumDistance = 0\<rparr> [];
          (cfg', rootCmd') = initRootCmd C DefaultNodeHome cfg rootCmd encodingConfig (app_BasicModuleManager tempApp) in
      case enrichAutoCliOpts C cfg' (AutoCliOpts (hasName C) (isAppModule C) tempApp) initClientCtx of
        Ok autoCliOpts \<Rightarrow>
          bind_out (must (EnhanceRootCommand autoCliOpts rootCmd'))
            (\<lambda>cmd. Ok \<lparr>root_Command = cmd, root_PreRunE = PersistentPreRunE C encodingConfig initClientCtx,
               root_config = cfg', root_removed = removed\<rparr>)
      | Fail e \<Rightarrow> Panic e
      | Panic e \<Rightarrow> Panic e))"

definition newApp :: "'s AppLib \<Rightarrow> AppOptions \<Rightarrow> 's SimApp outcome" where
  "newApp A appOpts = NewSimApp A True appOpts"

text \<open>The exit status of the program.\<close>

definition simd_main ::
    "'s AppLib \<Rightarrow> 'cfg CmdLib \<Rightarrow> (AutoCli \<Rightarrow> Command \<Rightarrow> error + Command) \<Rightarrow> (RootCmd \<Rightarrow> bytes \<Rightarrow> bytes \<Rightarrow> error + unit) \<Rightarrow>
     SdkConfig \<Rightarrow> bytes \<Rightarrow> error + bytes \<Rightarrow> nat outcome" where
  "simd_main A C EnhanceRootCommand Execute cfg DefaultNodeHome MkdirTemp =
     bind_out (NewRootCmd A C EnhanceRootCommand cfg DefaultNodeHome MkdirTemp)
       (\<lambda>rootCmd. case Execute rootCmd [] DefaultNodeHome of Inl _ \<Rightarrow> Ok 1 | Inr _ \<Rightarrow> Ok 0)"

section \<open>Simulation parameters\<close>

definition StakePerAccount :: string where "StakePerAccount = ''stake_per_account''"
definition InitiallyBondedValidators :: string where "InitiallyBondedValidators = ''initially_bonded_validators''"

definition default_weights :: "(string \<times> int) list" where
  "default_weights = [
     (''MsgSend'', 100), (''MsgMultiSend'', 10), (''MsgSetWithdrawAddress'', 50), (''MsgWithdrawDelegationReward'', 50),
     (''MsgWithdrawValidatorCommission'', 50), (''MsgFundCommunityPool'', 50), (''MsgDeposit'', 100), (''MsgVote'', 67),
     (''MsgVoteWeighted'', 33), (''MsgUnjail'', 100), (''MsgCreateValidator'', 100), (''MsgEditValidator'', 5),
     (''MsgDelegate'', 100), (''MsgUndelegate'', 100), (''MsgBeginRedelegate'', 100), (''CommunitySpendProposal'', 5),
     (''TextProposal'', 5), (''ParamChangeProposal'', 5), (''GrantFeeAllowance'', 100), (''RevokeFeeAllowance'', 100)]"

text \<open>The weights are percentages, as the documentation of the package says.\<close>

lemma default_weights_percent:
  "distinct (map fst default_weights)" "list_all (\<lambda>(_, w). 0 < w \<and> w \<le> 100) default_weights"
  by (simp_all add: default_weights_def)

section \<open>Properties\<close>

text \<open>The home of the node is a directory named \<^verbatim>\<open>.simapp\<close> below the cleaned home of the user.\<close>

lemma app_init_home:
  assumes "app_init (Inr home) = Ok dir" and "home \<noteq> []"
  shows "\<exists>es. dir = (if hd home = slash then [slash] else []) @ join_path (es @ [str ''.simapp''])"
proof -
  have "dir = filepath_Clean (home @ slash # str ''.simapp'')"
    using assms by (simp add: app_init_def filepath_Join_def)
  then show ?thesis
    using filepath_Clean_append [OF assms(2), of "str ''.simapp''"] by (auto simp: str_def byte_of_char_def)
qed

text \<open>
  The root command never returns an error. When it is made, the configuration of the SDK is sealed and the
  temporary directory is removed; when that directory could not be created, it is the home of the node that
  is removed, before any command has run.
\<close>

lemma NewRootCmd_no_error: "NewRootCmd A C E cfg home MkdirTemp \<noteq> Fail e"
  by (auto simp: NewRootCmd_def Let_def bind_out_eq_Fail must_neq_Fail NewSimApp_failures(1) split: outcome.splits prod.splits)

lemma case_panic_Ok:
  "(case x of Ok a \<Rightarrow> f a | Fail e \<Rightarrow> Panic e | Panic e \<Rightarrow> Panic e) = Ok r \<longleftrightarrow> (\<exists>a. x = Ok a \<and> f a = Ok r)"
  by (cases x) auto

lemma NewRootCmd_removes:
  assumes "NewRootCmd A C E cfg home MkdirTemp = Ok r"
  shows "sealed (root_config r)" and "root_removed r = (case MkdirTemp of Inl _ \<Rightarrow> home | Inr d \<Rightarrow> d)"
  using assms by (auto simp: NewRootCmd_def Let_def tempDir_def initRootCmd_def bind_out_eq_Ok case_panic_Ok)

text \<open>A root command that was made offers the commands of the chain, after those of the server.\<close>

lemma initRootCmd_commands:
  "subcommands (snd (initRootCmd C home cfg root enc basics)) =
     subcommands (server_AddCommands C home (AddCommand root
       [Lib (genutilcli_InitCmd basics home) [], Lib debug_Cmd [], Lib confixcmd_ConfigCommand [],
        Lib (pruning_Cmd home) [], Lib snapshot_Cmd [], Lib server_QueryBlockResultsCmd []]))
     @ [Lib server_StatusCommand [], Lib (genutilcli_Commands (enc_TxConfig enc) basics home) [], txCommand, queryCommand,
        Lib keys_Commands []]"
proof -
  have "subcommands (AddCommand c cs) = subcommands c @ cs" for c cs by (cases c) simp_all
  then show ?thesis by (simp add: initRootCmd_def Let_def genesisCommand_def)
qed

end
