(* ===== verification/Ethereum_Client.thy ===== *)
theory Ethereum_Client
  imports Relayer
begin

text \<open>
  The Ethereum and beacon chain clients of the demo, \<^verbatim>\<open>testing/demo/pkg/ethereum\<close>: retrying, the beacon API
  over HTTP, the RPC client and the commands it runs, with the integer parsing of \<^verbatim>\<open>strconv\<close> in base 0. HTTP,
  RPC, JSON decoding and processes are arguments; a computation passes the outside world as in the
  relayer. A JSON response is whatever its decoder returns, up to the fields that the code reads.
\<close>

section \<open>Integers with a base prefix\<close>

definition digit_value :: "byte \<Rightarrow> nat option" where
  "digit_value c =
     (let x = unat c in
      if 48 \<le> x \<and> x \<le> 57 then Some (x - 48)
      else if 97 \<le> x \<and> x \<le> 122 then Some (x - 97 + 10)
      else if 65 \<le> x \<and> x \<le> 90 then Some (x - 65 + 10)
      else None)"

abbreviation ch :: "char \<Rightarrow> byte" where "ch c \<equiv> byte_of_char c"

text \<open>The digit loop of \<^verbatim>\<open>strconv.ParseUint\<close> for base 0, which passes over underscores.\<close>

fun parse_base :: "nat \<Rightarrow> nat \<Rightarrow> nat \<Rightarrow> bytes \<Rightarrow> error + nat" where
  "parse_base bits base n [] = Inr n"
| "parse_base bits base n (c # cs) =
     (if c = ch (CHR ''_'') then parse_base bits base n cs
      else case digit_value c of
          None \<Rightarrow> Inl ErrSyntax
        | Some d \<Rightarrow>
            if base \<le> d then Inl ErrSyntax
            else if 2 ^ bits \<le> n * base + d then Inl ErrRange
            else parse_base bits base (n * base + d) cs)"

definition base_prefix :: "bytes \<Rightarrow> nat \<times> bytes" where
  "base_prefix s =
     (case s of
        a # b # c # cs \<Rightarrow>
          if a \<noteq> ch (CHR ''0'') then (10, s)
          else if b \<in> {ch (CHR ''b''), ch (CHR ''B'')} then (2, c # cs)
          else if b \<in> {ch (CHR ''o''), ch (CHR ''O'')} then (8, c # cs)
          else if b \<in> {ch (CHR ''x''), ch (CHR ''X'')} then (16, c # cs)
          else (8, b # c # cs)
      | a # cs \<Rightarrow> if a = ch (CHR ''0'') then (8, cs) else (10, s)
      | [] \<Rightarrow> (10, s))"

text \<open>\<^verbatim>\<open>underscoreOK\<close>: an underscore stands between digits, where a base prefix counts as one.\<close>

datatype Seen = AtStart | ADigit | AnUnderscore | AnOther

fun underscore_loop :: "bool \<Rightarrow> Seen \<Rightarrow> bytes \<Rightarrow> bool" where
  "underscore_loop hex i [] = (i \<noteq> AnUnderscore)"
| "underscore_loop hex i (c # cs) =
     (if 48 \<le> unat c \<and> unat c \<le> 57 \<or> hex \<and> from_hex_char c \<noteq> None then underscore_loop hex ADigit cs
      else if c = ch (CHR ''_'') then i = ADigit \<and> underscore_loop hex AnUnderscore cs
      else i \<noteq> AnUnderscore \<and> underscore_loop hex AnOther cs)"

definition underscoreOK :: "bytes \<Rightarrow> bool" where
  "underscoreOK s =
     (case s of
        a # b # cs \<Rightarrow>
          if a = ch (CHR ''0'') \<and> b \<in> {ch (CHR ''b''), ch (CHR ''B''), ch (CHR ''o''), ch (CHR ''O''), ch (CHR ''x''), ch (CHR ''X'')}
          then underscore_loop (b \<in> {ch (CHR ''x''), ch (CHR ''X'')}) ADigit cs
          else underscore_loop False AtStart s
      | _ \<Rightarrow> underscore_loop False AtStart s)"

text \<open>\<^verbatim>\<open>strconv.ParseUint(s, 0, bits)\<close> and \<^verbatim>\<open>strconv.ParseInt\<close>, whose unsigned parser is an argument.\<close>

definition parse_uint0 :: "nat \<Rightarrow> bytes \<Rightarrow> error + nat" where
  "parse_uint0 bits s =
     (if s = [] then Inl ErrSyntax
      else let (base, digits) = base_prefix s in
        case parse_base bits base 0 digits of
          Inl e \<Rightarrow> Inl e
        | Inr n \<Rightarrow> if ch (CHR ''_'') \<in> set s \<and> \<not> underscoreOK s then Inl ErrSyntax else Inr n)"

definition parse_signed :: "(bytes \<Rightarrow> error + nat) \<Rightarrow> bytes \<Rightarrow> error + int" where
  "parse_signed parse s =
     (if s = [] then Inl ErrSyntax
      else let neg = (hd s = ch (CHR ''-''));
               s' = (if hd s = ch (CHR ''+'') \<or> neg then tl s else s)
        in case parse s' of
          Inl e \<Rightarrow> Inl e
        | Inr un \<Rightarrow>
            if \<not> neg \<and> 2 ^ 63 \<le> un then Inl ErrRange
            else if neg \<and> 2 ^ 63 < un then Inl ErrRange
            else Inr (if neg then - int un else int un))"

section \<open>Types\<close>

record Spec =
  SecondsPerSlot :: i64
  SlotsPerEpoch :: u64
  EpochsPerSyncCommitteePeriod :: u64
  GenesisForkVersion :: bytes
  GenesisSlot :: u64
  AltairForkVersion :: bytes
  AltairForkEpoch :: u64
  BellatrixForkVersion :: bytes
  BellatrixForkEpoch :: u64
  CapellaForkVersion :: bytes
  CapellaForkEpoch :: u64
  DenebForkVersion :: bytes
  DenebForkEpoch :: u64

record Fork =
  fork_Version :: bytes
  fork_Epoch :: u64

record ForkParameters =
  fp_GenesisForkVersion :: bytes
  fp_GenesisSlot :: u64
  fp_Altair :: Fork
  fp_Bellatrix :: Fork
  fp_Capella :: Fork
  fp_Deneb :: Fork

text \<open>\<^verbatim>\<open>ethcommon.Bytes2Hex\<close> is \<^verbatim>\<open>hex.EncodeToString\<close>.\<close>

definition ToForkParameters :: "Spec \<Rightarrow> ForkParameters" where
  "ToForkParameters s =
     \<lparr>fp_GenesisForkVersion = hex_EncodeToString (GenesisForkVersion s), fp_GenesisSlot = GenesisSlot s,
      fp_Altair = \<lparr>fork_Version = hex_EncodeToString (AltairForkVersion s), fork_Epoch = AltairForkEpoch s\<rparr>,
      fp_Bellatrix = \<lparr>fork_Version = hex_EncodeToString (BellatrixForkVersion s), fork_Epoch = BellatrixForkEpoch s\<rparr>,
      fp_Capella = \<lparr>fork_Version = hex_EncodeToString (CapellaForkVersion s), fork_Epoch = CapellaForkEpoch s\<rparr>,
      fp_Deneb = \<lparr>fork_Version = hex_EncodeToString (DenebForkVersion s), fork_Epoch = DenebForkEpoch s\<rparr>\<rparr>"

definition Period :: "Spec \<Rightarrow> u64" where
  "Period s = EpochsPerSyncCommitteePeriod s * SlotsPerEpoch s"

text \<open>Of the beacon block response the fields that are read: \<^verbatim>\<open>Finalized\<close> and
  \<^verbatim>\<open>Data.Message.Body.ExecutionPayload.BlockNumber\<close>.\<close>

record BeaconBlocksResponseJSON =
  Finalized :: bool
  ExecutionBlockNumber :: u64

definition GetSlot :: "bytes \<Rightarrow> u64 outcome" where
  "GetSlot Slot = bind_out (must (parse_uint0 64 Slot)) (\<lambda>slot. Ok (of_nat slot))"

definition GetSignatureSlot :: "bytes \<Rightarrow> u64 outcome" where
  "GetSignatureSlot SignatureSlot = bind_out (must (parse_uint0 64 SignatureSlot)) (\<lambda>slot. Ok (of_nat slot))"

section \<open>Retrying\<close>

text \<open>With no attempt at all the result is the zero value and a nil error.\<close>

fun retry_loop_from :: "(nat \<Rightarrow> 'w \<Rightarrow> 'w) \<Rightarrow> nat \<Rightarrow> ('w, 'a) io \<Rightarrow> nat \<Rightarrow> 'a outcome \<Rightarrow> ('w, 'a) io" where
  "retry_loop_from sleep waitTime fn 0 result w = (result, w)"
| "retry_loop_from sleep waitTime fn (Suc n) result w =
     (case fn w of
        (Ok r, w') \<Rightarrow> (Ok r, w')
      | (Fail e, w') \<Rightarrow> retry_loop_from sleep waitTime fn n (Fail e) (sleep waitTime w')
      | (Panic e, w') \<Rightarrow> (Panic e, w'))"

definition retry :: "(nat \<Rightarrow> 'w \<Rightarrow> 'w) \<Rightarrow> nat \<Rightarrow> nat \<Rightarrow> 'a \<Rightarrow> ('w, 'a) io \<Rightarrow> ('w, 'a) io" where
  "retry sleep retries waitTime zero fn = retry_loop_from sleep waitTime fn retries (Ok zero)"

section \<open>The beacon API\<close>

text \<open>\<open>HttpGet\<close> makes and sends the request and reads the body; it returns the status code with the body.
  \<open>RunCommand\<close> gets a command line and an environment, where the empty one is that of the process itself,
  and returns the standard output. \<open>ctxCancel\<close> cancels the context of the beacon client.\<close>

record 'w EthNet =
  eSleep :: "nat \<Rightarrow> 'w \<Rightarrow> 'w"
  HttpGet :: "bytes \<Rightarrow> ('w, nat \<times> bytes) io"
  ethttp_New :: "bytes \<Rightarrow> ('w, unit) io"
  ctxCancel :: "('w, unit) io"
  RpcDial :: "bytes \<Rightarrow> ('w, unit) io"
  ChainIDCall :: "bytes \<Rightarrow> ('w, nat) io"
  RpcBlockNumber :: "('w, bytes) io"
  RunCommand :: "bytes list \<Rightarrow> bytes list \<Rightarrow> ('w, bytes) io"
  GenerateKey :: "('w, bytes) io"

record BeaconAPIClient =
  beacon_url :: bytes
  beacon_Retries :: nat
  beacon_RetryWait :: nat

definition NewBeaconAPIClient :: "'w EthNet \<Rightarrow> bytes \<Rightarrow> ('w, BeaconAPIClient) io" where
  "NewBeaconAPIClient H beaconAPIAddress =
     io_bind (io_must (ethttp_New H beaconAPIAddress))
       (\<lambda>_. io_ret \<lparr>beacon_url = beaconAPIAddress, beacon_Retries = 60, beacon_RetryWait = 10\<rparr>)"

definition beacon_Close :: "'w EthNet \<Rightarrow> BeaconAPIClient \<Rightarrow> ('w, unit) io" where
  "beacon_Close H b = ctxCancel H"

definition GetBeaconAPIURL :: "BeaconAPIClient \<Rightarrow> bytes" where
  "GetBeaconAPIURL b = beacon_url b"

definition beacon_retry :: "'w EthNet \<Rightarrow> BeaconAPIClient \<Rightarrow> 'a \<Rightarrow> ('w, 'a) io \<Rightarrow> ('w, 'a) io" where
  "beacon_retry H b zero fn = retry (eSleep H) (beacon_Retries b) (beacon_RetryWait b) zero fn"

text \<open>The calls of the go-eth2-client service; its answer holds a pointer, nil by default.\<close>

definition beacon_GetHeader :: "'w EthNet \<Rightarrow> (bytes \<Rightarrow> ('w, 'h option) io) \<Rightarrow> BeaconAPIClient \<Rightarrow> bytes \<Rightarrow> ('w, 'h option) io" where
  "beacon_GetHeader H BeaconBlockHeader b blockID = beacon_retry H b None (BeaconBlockHeader blockID)"

definition GetGenesis :: "'w EthNet \<Rightarrow> ('w, 'g option) io \<Rightarrow> BeaconAPIClient \<Rightarrow> ('w, 'g option) io" where
  "GetGenesis H Genesis b = beacon_retry H b None Genesis"

definition GetSpec ::
    "'w EthNet \<Rightarrow> ('w, 'd) io \<Rightarrow> ('d \<Rightarrow> error + bytes) \<Rightarrow> (bytes \<Rightarrow> error + 's) \<Rightarrow> 's \<Rightarrow> BeaconAPIClient \<Rightarrow> ('w, 's) io" where
  "GetSpec H SpecCall json_Marshal json_Unmarshal zeroSpec b =
     beacon_retry H b zeroSpec
       (io_bind SpecCall
         (\<lambda>specData. io_bind (io_out (of_result (json_Marshal specData)))
         (\<lambda>specJsonBz. io_out (of_result (json_Unmarshal specJsonBz)))))"

text \<open>The HTTP calls. Two of them look at the status code, two do not.\<close>

definition get_checked :: "'w EthNet \<Rightarrow> string \<Rightarrow> bytes \<Rightarrow> (bytes \<Rightarrow> error + 'a) \<Rightarrow> ('w, 'a) io" where
  "get_checked H failure url unmarshal =
     io_bind (HttpGet H url)
       (\<lambda>(StatusCode, body). if StatusCode \<noteq> 200 then io_fail (Errorf failure) else io_out (of_result (unmarshal body)))"

definition get_unchecked :: "'w EthNet \<Rightarrow> bytes \<Rightarrow> (bytes \<Rightarrow> error + 'a) \<Rightarrow> ('w, 'a) io" where
  "get_unchecked H url unmarshal =
     io_bind (HttpGet H url) (\<lambda>(StatusCode, body). io_out (of_result (unmarshal body)))"

definition GetBootstrap :: "'w EthNet \<Rightarrow> (bytes \<Rightarrow> error + 'a) \<Rightarrow> 'a \<Rightarrow> BeaconAPIClient \<Rightarrow> bytes \<Rightarrow> ('w, 'a) io" where
  "GetBootstrap H unmarshal zero b finalizedRootStr =
     beacon_retry H b zero
       (get_checked H ''get bootstrap failed'' (beacon_url b @ str ''/eth/v1/beacon/light_client/bootstrap/'' @ finalizedRootStr)
          unmarshal)"

definition GetLightClientUpdates ::
    "'w EthNet \<Rightarrow> (bytes \<Rightarrow> error + 'a) \<Rightarrow> 'a \<Rightarrow> BeaconAPIClient \<Rightarrow> u64 \<Rightarrow> u64 \<Rightarrow> ('w, 'a) io" where
  "GetLightClientUpdates H unmarshal zero b startPeriod count =
     beacon_retry H b zero
       (get_unchecked H (beacon_url b @ str ''/eth/v1/beacon/light_client/updates?start_period='' @ dec (unat startPeriod)
          @ str ''&count='' @ dec (unat count)) unmarshal)"

definition GetFinalityUpdate :: "'w EthNet \<Rightarrow> (bytes \<Rightarrow> error + 'a) \<Rightarrow> 'a \<Rightarrow> BeaconAPIClient \<Rightarrow> ('w, 'a) io" where
  "GetFinalityUpdate H unmarshal zero b =
     beacon_retry H b zero (get_unchecked H (beacon_url b @ str ''/eth/v1/beacon/light_client/finality_update'') unmarshal)"

definition zeroBlocks :: BeaconBlocksResponseJSON where
  "zeroBlocks = \<lparr>Finalized = False, ExecutionBlockNumber = 0\<rparr>"

definition GetBeaconBlocks ::
    "'w EthNet \<Rightarrow> (bytes \<Rightarrow> error + BeaconBlocksResponseJSON) \<Rightarrow> BeaconAPIClient \<Rightarrow> bytes \<Rightarrow> ('w, BeaconBlocksResponseJSON) io" where
  "GetBeaconBlocks H unmarshal b blockID =
     beacon_retry H b zeroBlocks
       (get_checked H ''get execution height failed'' (beacon_url b @ str ''/eth/v2/beacon/blocks/'' @ blockID) unmarshal)"

definition GetFinalizedBlocks ::
    "'w EthNet \<Rightarrow> (bytes \<Rightarrow> error + BeaconBlocksResponseJSON) \<Rightarrow> BeaconAPIClient \<Rightarrow> ('w, BeaconBlocksResponseJSON) io" where
  "GetFinalizedBlocks H unmarshal b =
     beacon_retry H b zeroBlocks
       (io_bind (GetBeaconBlocks H unmarshal b (str ''finalized''))
         (\<lambda>resp. if \<not> Finalized resp then io_fail (Errorf ''block is not finalized'') else io_ret resp))"

definition GetExecutionHeight ::
    "'w EthNet \<Rightarrow> (bytes \<Rightarrow> error + BeaconBlocksResponseJSON) \<Rightarrow> BeaconAPIClient \<Rightarrow> bytes \<Rightarrow> ('w, u64) io" where
  "GetExecutionHeight H unmarshal b blockID =
     beacon_retry H b 0
       (io_bind (GetBeaconBlocks H unmarshal b blockID)
         (\<lambda>resp. if blockID = str ''finalized'' \<and> \<not> Finalized resp then io_fail (Errorf ''block is not finalized'')
              else io_ret (ExecutionBlockNumber resp)))"

section \<open>The RPC client and the commands\<close>

record EthAPI =
  eth_Retries :: nat
  eth_RetryWait :: nat

definition NewEthAPI :: "'w EthNet \<Rightarrow> bytes \<Rightarrow> ('w, EthAPI) io" where
  "NewEthAPI H rpc = io_bind (RpcDial H rpc) (\<lambda>_. io_ret \<lparr>eth_Retries = 6, eth_RetryWait = 10\<rparr>)"

definition GetProof ::
    "'w EthNet \<Rightarrow> (bytes \<Rightarrow> bytes list \<Rightarrow> bytes \<Rightarrow> ('w, 'p) io) \<Rightarrow> 'p \<Rightarrow> EthAPI \<Rightarrow> bytes \<Rightarrow> bytes list \<Rightarrow> bytes \<Rightarrow> ('w, 'p) io" where
  "GetProof H eth_getProof zero e address storageKeys blockHex =
     retry (eSleep H) (eth_Retries e) (eth_RetryWait e) zero (eth_getProof address storageKeys blockHex)"

text \<open>The number is converted from a signed to an unsigned integer.\<close>

definition GetBlockNumber :: "'w EthNet \<Rightarrow> ('w, bytes \<times> u64) io" where
  "GetBlockNumber H =
     io_bind (RpcBlockNumber H)
       (\<lambda>blockNumberHex. io_bind (io_out (of_result (parse_signed (parse_uint0 64) blockNumberHex)))
       (\<lambda>blockNumber. io_ret (blockNumberHex, word_of_int blockNumber)))"

record Ethereum =
  ChainID :: nat
  RPC :: bytes
  ethAPI :: EthAPI
  BeaconClient :: "BeaconAPIClient option"
  Faucet :: bytes

definition newEthereum :: "'w EthNet \<Rightarrow> bytes \<Rightarrow> BeaconAPIClient option \<Rightarrow> bytes \<Rightarrow> ('w, Ethereum) io" where
  "newEthereum H rpc beaconAPIClient faucet =
     io_bind (RpcDial H rpc)
       (\<lambda>_. io_bind (ChainIDCall H rpc)
       (\<lambda>chainID. io_bind (NewEthAPI H rpc)
       (\<lambda>api. io_ret \<lparr>ChainID = chainID, RPC = rpc, ethAPI = api, BeaconClient = beaconAPIClient, Faucet = faucet\<rparr>)))"

text \<open>A private key is the bytes of its scalar; \<open>addr\<close> is the hexadecimal address of its public key.\<close>

definition ForgeScript :: "'w EthNet \<Rightarrow> (bytes \<Rightarrow> bytes) \<Rightarrow> bytes list \<Rightarrow> Ethereum \<Rightarrow> bytes \<Rightarrow> bytes \<Rightarrow> bytes list \<Rightarrow> ('w, bytes) io" where
  "ForgeScript H addr Environ e deployer solidityContract args =
     RunCommand H
       (str ''forge'' # args @ [str ''script'', str ''--rpc-url'', RPC e, str ''--private-key'', hex_EncodeToString deployer,
          str ''--broadcast'', str ''--non-interactive'', str ''-vvvv'', solidityContract])
       (Environ @ [str ''E2E_FAUCET_ADDRESS='' @ addr (Faucet e)])"

definition SendEth :: "'w EthNet \<Rightarrow> Ethereum \<Rightarrow> bytes \<Rightarrow> bytes \<Rightarrow> nat \<Rightarrow> ('w, unit) io" where
  "SendEth H e key toAddress amount =
     io_bind (io_wrap ''failed to send eth''
        (RunCommand H [str ''cast'', str ''send'', toAddress, str ''--value'', dec amount,
           str ''--private-key'', str ''0x'' @ hex_EncodeToString key, str ''--rpc-url'', RPC e] []))
       (\<lambda>_. io_ret ())"

definition FundUser :: "'w EthNet \<Rightarrow> Ethereum \<Rightarrow> bytes \<Rightarrow> nat \<Rightarrow> ('w, unit) io" where
  "FundUser H e address amount = SendEth H e (Faucet e) address amount"

definition StartingEthBalance :: nat where
  "StartingEthBalance = 2 * 1000000000000000000"

definition CreateAndFundUser :: "'w EthNet \<Rightarrow> (bytes \<Rightarrow> bytes) \<Rightarrow> Ethereum \<Rightarrow> ('w, bytes) io" where
  "CreateAndFundUser H addr e =
     io_bind (GenerateKey H)
       (\<lambda>key. io_bind (FundUser H e (addr key) StartingEthBalance) (\<lambda>_. io_ret key))"

text \<open>\<^verbatim>\<open>strings.TrimSpace\<close>: the white space runes of Unicode in their UTF-8 encoding, cut off at both ends.\<close>

definition space_runes :: "bytes list" where
  "space_runes = map (\<lambda>b. [b]) [9, 10, 11, 12, 13, 32] @ [[0xC2, 0x85], [0xC2, 0xA0], [0xE1, 0x9A, 0x80]]
     @ map (\<lambda>b. [0xE2, 0x80, b]) [0x80, 0x81, 0x82, 0x83, 0x84, 0x85, 0x86, 0x87, 0x88, 0x89, 0x8A, 0xA8, 0xA9, 0xAF]
     @ [[0xE2, 0x81, 0x9F], [0xE3, 0x80, 0x80]]"

fun trim_front :: "bytes list \<Rightarrow> nat \<Rightarrow> bytes \<Rightarrow> bytes" where
  "trim_front runes 0 s = s"
| "trim_front runes (Suc n) s =
     (case find (\<lambda>r. prefix r s) runes of None \<Rightarrow> s | Some r \<Rightarrow> trim_front runes n (drop (length r) s))"

definition TrimSpace :: "bytes \<Rightarrow> bytes" where
  "TrimSpace s =
     (let s' = trim_front space_runes (length s) s
      in rev (trim_front (map rev space_runes) (length s') (rev s')))"

definition EthHeight :: "'w EthNet \<Rightarrow> Ethereum \<Rightarrow> ('w, int) io" where
  "EthHeight H e =
     io_bind (RunCommand H [str ''cast'', str ''block-number'', str ''--rpc-url'', RPC e] [])
       (\<lambda>stdout. io_out (of_result (parse_signed (parse_uint 64) (TrimSpace stdout))))"

section \<open>What retrying does\<close>

text \<open>The world after \<open>k\<close> failed attempts in a row, each followed by the wait.\<close>

fun failed :: "(nat \<Rightarrow> 'w \<Rightarrow> 'w) \<Rightarrow> nat \<Rightarrow> ('w, 'a) io \<Rightarrow> nat \<Rightarrow> 'w \<Rightarrow> 'w option" where
  "failed sleep wait fn 0 w = Some w"
| "failed sleep wait fn (Suc k) w =
     (case fn w of (Fail e, w') \<Rightarrow> failed sleep wait fn k (sleep wait w') | _ \<Rightarrow> None)"

lemma retry_loop_Ok:
  "retry_loop_from sleep wait fn n res w = (Ok r, w') \<longleftrightarrow>
     (\<exists>k < n. \<exists>v. failed sleep wait fn k w = Some v \<and> fn v = (Ok r, w'))
     \<or> failed sleep wait fn n w = Some w' \<and> n = 0 \<and> res = Ok r"
proof (induction n arbitrary: res w)
  case (Suc n)
  show ?case
  proof (cases "fn w")
    case (Pair x w1)
    then show ?thesis
      using Suc.IH [of "Fail _" "sleep wait w1"] by (cases x) (auto simp: Ex_less_Suc2)
  qed
qed auto

lemma retry_loop_Fail:
  "(\<exists>e. fst (retry_loop_from sleep wait fn n res w) = Fail e) \<longleftrightarrow>
     failed sleep wait fn n w \<noteq> None \<and> (n = 0 \<longrightarrow> (\<exists>e. res = Fail e))"
proof (induction n arbitrary: res w)
  case (Suc n)
  show ?case
  proof (cases "fn w")
    case (Pair x w1)
    then show ?thesis using Suc.IH [of "Fail _" "sleep wait w1"] by (cases x) auto
  qed
qed auto

lemma failed_always:
  assumes "\<And>v. \<exists>e. fst (fn v) = Fail e"
  shows "failed sleep wait fn n w \<noteq> None"
proof (induction n arbitrary: w)
  case (Suc n)
  obtain e w1 where "fn w = (Fail e, w1)" using assms [of w] by (metis prod.collapse)
  then show ?case using Suc.IH by simp
qed simp

lemma retry_always_failing:
  assumes "\<And>v. \<exists>e. fst (fn v) = Fail e" and "0 < n"
  shows "\<exists>e. fst (retry sleep n wait zero fn w) = Fail e"
  using failed_always [OF assms(1)] assms(2) unfolding retry_def retry_loop_Fail by simp

text \<open>A measure of the world that grows by at most \<open>c\<close> in an attempt and by \<open>d\<close> in a wait.\<close>

lemma retry_cost:
  assumes "\<And>v. cost (snd (fn v)) \<le> cost v + c" and "\<And>v. cost (sleep wait v) \<le> cost v + (d :: nat)"
  shows "cost (snd (retry_loop_from sleep wait fn n res w)) \<le> cost w + n * (c + d)"
proof (induction n arbitrary: res w)
  case (Suc n)
  obtain x w1 where x: "fn w = (x, w1)" by fastforce
  then have "cost w1 \<le> cost w + c" using assms(1) [of w] by simp
  moreover from this have "cost (snd (retry_loop_from sleep wait fn n r (sleep wait w1))) \<le> cost w + Suc n * (c + d)" for r
    using Suc.IH [of r "sleep wait w1"] assms(2) [of w1] by simp
  moreover have "cost w + c \<le> cost w + Suc n * (c + d)" by simp
  ultimately show ?case using x by (cases x) (auto intro: order_trans)
qed simp

lemma retry_cost_failing:
  assumes "\<And>v. \<exists>e. fst (fn v) = Fail e" and "\<And>v. cost (snd (fn v)) = cost v + c"
    and "\<And>v. cost (sleep wait v) = cost v + (d :: nat)"
  shows "cost (snd (retry_loop_from sleep wait fn n res w)) = cost w + n * (c + d)"
proof (induction n arbitrary: res w)
  case (Suc n)
  obtain e w1 where x: "fn w = (Fail e, w1)" using assms(1) [of w] by (metis prod.collapse)
  then have "cost w1 = cost w + c" using assms(2) [of w] by simp
  with x show ?case using Suc.IH [of "Fail e" "sleep wait w1"] assms(3) [of w1] by simp
qed simp

section \<open>Requests of the beacon client\<close>

text \<open>What can be observed of the outside world: the number of requests and the seconds spent waiting.\<close>

locale counted_net =
  fixes H :: "'w EthNet" and requests slept :: "'w \<Rightarrow> nat"
  assumes get_requests: "requests (snd (HttpGet H u w)) = requests w + 1"
    and get_slept: "slept (snd (HttpGet H u w)) = slept w"
    and sleep_requests: "requests (eSleep H d w) = requests w"
    and sleep_slept: "slept (eSleep H d w) = slept w + d"
begin

lemma bind_pure:
  assumes "\<And>a v. snd (f a v) = v"
  shows "snd (io_bind m f w) = snd (m w)"
  by (cases "m w"; cases "fst (m w)") (auto simp: io_bind_def assms)

lemma get_checked_world: "snd (get_checked H e u um w) = snd (HttpGet H u w)"
  unfolding get_checked_def by (rule bind_pure) (simp add: io_fail_def io_out_def split: prod.splits)

lemma GetBeaconBlocks_bound:
  "requests (snd (GetBeaconBlocks H um b i w)) \<le> requests w + beacon_Retries b"
  "slept (snd (GetBeaconBlocks H um b i w)) \<le> slept w + beacon_Retries b * beacon_RetryWait b"
  unfolding GetBeaconBlocks_def beacon_retry_def retry_def
  using retry_cost [where cost = requests and c = 1 and d = 0 and fn = "get_checked H _ _ um" and sleep = "eSleep H"]
    retry_cost [where cost = slept and c = 0 and d = "beacon_RetryWait b" and fn = "get_checked H _ _ um" and sleep = "eSleep H"
      and wait = "beacon_RetryWait b"]
  by (simp_all add: get_checked_world get_requests get_slept sleep_requests sleep_slept)

lemma finalized_attempt_world:
  "snd (io_bind (GetBeaconBlocks H um b i) (\<lambda>resp. if \<not> Finalized resp then io_fail e else io_ret resp) w)
     = snd (GetBeaconBlocks H um b i w)"
  by (rule bind_pure) (simp add: io_fail_def io_ret_def)

lemma GetFinalizedBlocks_bound:
  "requests (snd (GetFinalizedBlocks H um b w)) \<le> requests w + beacon_Retries b * beacon_Retries b"
  "slept (snd (GetFinalizedBlocks H um b w)) \<le> slept w + beacon_Retries b * (beacon_Retries b * beacon_RetryWait b + beacon_RetryWait b)"
  unfolding GetFinalizedBlocks_def beacon_retry_def retry_def
  using GetBeaconBlocks_bound
  by (auto intro!: retry_cost [where cost = requests and d = 0, simplified] retry_cost [where cost = slept]
      simp: finalized_attempt_world sleep_requests sleep_slept)

text \<open>A node that does not answer.\<close>

lemma GetBeaconBlocks_down:
  assumes "\<And>u v. \<exists>e. fst (HttpGet H u v) = Fail e" and "0 < beacon_Retries b"
  shows "\<exists>e. fst (GetBeaconBlocks H um b i w) = Fail e"
    and "requests (snd (GetBeaconBlocks H um b i w)) = requests w + beacon_Retries b"
    and "slept (snd (GetBeaconBlocks H um b i w)) = slept w + beacon_Retries b * beacon_RetryWait b"
proof -
  have f: "\<exists>e. fst (get_checked H m u um v) = Fail e" for m u v
    using assms(1) [of u v] by (cases "HttpGet H u v") (auto simp: get_checked_def io_bind_def)
  show "\<exists>e. fst (GetBeaconBlocks H um b i w) = Fail e"
    unfolding GetBeaconBlocks_def beacon_retry_def by (rule retry_always_failing [OF f assms(2)])
  show "requests (snd (GetBeaconBlocks H um b i w)) = requests w + beacon_Retries b"
    "slept (snd (GetBeaconBlocks H um b i w)) = slept w + beacon_Retries b * beacon_RetryWait b"
    unfolding GetBeaconBlocks_def beacon_retry_def retry_def
    using retry_cost_failing [OF f, where cost = requests and c = 1 and d = 0 and sleep = "eSleep H"]
      retry_cost_failing [OF f, where cost = slept and c = 0 and d = "beacon_RetryWait b" and sleep = "eSleep H"
        and wait = "beacon_RetryWait b"]
    by (simp_all add: get_checked_world get_requests get_slept sleep_requests sleep_slept)
qed

lemma GetFinalizedBlocks_down:
  assumes "\<And>u v. \<exists>e. fst (HttpGet H u v) = Fail e" and "0 < beacon_Retries b"
  shows "\<exists>e. fst (GetFinalizedBlocks H um b w) = Fail e"
    and "requests (snd (GetFinalizedBlocks H um b w)) = requests w + beacon_Retries b * beacon_Retries b"
    and "slept (snd (GetFinalizedBlocks H um b w)) =
      slept w + beacon_Retries b * (beacon_Retries b * beacon_RetryWait b + beacon_RetryWait b)"
proof -
  let ?fn = "io_bind (GetBeaconBlocks H um b (str ''finalized''))
    (\<lambda>resp. if \<not> Finalized resp then io_fail (Errorf ''block is not finalized'') else io_ret resp)"
  note down = GetBeaconBlocks_down [OF assms]
  have f: "\<exists>e. fst (?fn v) = Fail e" for v
    using down(1) [of um "str ''finalized''" v] by (cases "GetBeaconBlocks H um b (str ''finalized'') v") (auto simp: io_bind_def)
  show "\<exists>e. fst (GetFinalizedBlocks H um b w) = Fail e"
    unfolding GetFinalizedBlocks_def beacon_retry_def by (rule retry_always_failing [OF f assms(2)])
  show "requests (snd (GetFinalizedBlocks H um b w)) = requests w + beacon_Retries b * beacon_Retries b"
    unfolding GetFinalizedBlocks_def beacon_retry_def retry_def
    using retry_cost_failing [where fn = ?fn and cost = requests and c = "beacon_Retries b" and d = 0 and sleep = "eSleep H", OF f]
    by (simp add: finalized_attempt_world down(2) sleep_requests)
  show "slept (snd (GetFinalizedBlocks H um b w)) =
      slept w + beacon_Retries b * (beacon_Retries b * beacon_RetryWait b + beacon_RetryWait b)"
    unfolding GetFinalizedBlocks_def beacon_retry_def retry_def
    using retry_cost_failing [where fn = ?fn and cost = slept and c = "beacon_Retries b * beacon_RetryWait b"
        and d = "beacon_RetryWait b" and sleep = "eSleep H" and wait = "beacon_RetryWait b", OF f]
    by (simp add: finalized_attempt_world down(3) sleep_slept)
qed

end

lemma GetFinalizedBlocks_Ok:
  assumes "GetFinalizedBlocks H um b w = (Ok r, w')" and "0 < beacon_Retries b"
  shows "Finalized r"
  using assms unfolding GetFinalizedBlocks_def beacon_retry_def retry_def retry_loop_Ok
  by (auto simp: io_Ok_simps split: if_splits)

section \<open>An example\<close>

text \<open>A world that counts; the node answers with a finalized block after three requests.\<close>

definition ex_beacon :: "(nat \<times> nat) EthNet" where
  "ex_beacon = \<lparr>eSleep = (\<lambda>d (r, s). (r, s + d)),
     HttpGet = (\<lambda>u (r, s). (if 3 \<le> r then Ok (200, [1]) else Fail (Errorf ''connection refused''), (r + 1, s))),
     ethttp_New = (\<lambda>_ w. (Ok (), w)), ctxCancel = (\<lambda>w. (Ok (), w)), RpcDial = (\<lambda>_ w. (Ok (), w)), ChainIDCall = (\<lambda>_ w. (Ok 1, w)),
     RpcBlockNumber = (\<lambda>w. (Ok (str ''0x1b''), w)), RunCommand = (\<lambda>_ _ w. (Ok [], w)), GenerateKey = (\<lambda>w. (Ok [1], w))\<rparr>"

interpretation ex_beacon: counted_net ex_beacon fst snd
  by unfold_locales (auto simp: ex_beacon_def split: prod.splits)

text \<open>The same node, down.\<close>

definition ex_beacon_down :: "(nat \<times> nat) EthNet" where
  "ex_beacon_down = ex_beacon\<lparr>HttpGet := (\<lambda>u (r, s). (Fail (Errorf ''connection refused''), (r + 1, s)))\<rparr>"

interpretation ex_beacon_down: counted_net ex_beacon_down fst snd
  by unfold_locales (auto simp: ex_beacon_down_def ex_beacon_def split: prod.splits)

definition ex_beacon_client :: BeaconAPIClient where
  "ex_beacon_client = \<lparr>beacon_url = [], beacon_Retries = 60, beacon_RetryWait = 10\<rparr>"

lemma ex_finalized:
  "GetFinalizedBlocks ex_beacon (\<lambda>_. Inr \<lparr>Finalized = True, ExecutionBlockNumber = 7\<rparr>) ex_beacon_client (0, 0)
     = (Ok \<lparr>Finalized = True, ExecutionBlockNumber = 7\<rparr>, (4, 30))"
  by code_simp

section \<open>Properties\<close>

text \<open>
  \<^verbatim>\<open>retry\<close> returns the result of the first attempt that succeeds, made in the world that the failed
  attempts before it and their waits leave; it fails exactly when there is at least one attempt and all
  of them fail, and then only after the last wait as well. Without attempts it succeeds with the zero
  value.
\<close>

lemma retry_first_success:
  "(retry sleep n wait zero fn w = (Ok r, w') \<longleftrightarrow>
      n = 0 \<and> r = zero \<and> w' = w \<or> (\<exists>k < n. \<exists>v. failed sleep wait fn k w = Some v \<and> fn v = (Ok r, w')))
   \<and> ((\<exists>e. fst (retry sleep n wait zero fn w) = Fail e) \<longleftrightarrow> 0 < n \<and> failed sleep wait fn n w \<noteq> None)"
  unfolding retry_def retry_loop_Ok retry_loop_Fail by auto

text \<open>
  C40. A query for the finalized blocks retries a query that retries itself: a client made by
  \<^verbatim>\<open>NewBeaconAPIClient\<close> makes at most 3600 requests and waits at most 36600 seconds, more than ten hours,
  and it does exactly that when the node does not answer, before it reports an error. A response is
  returned only if it is marked as finalized.
\<close>

theorem GetFinalizedBlocks_requests:
  assumes "counted_net H requests slept" and "NewBeaconAPIClient H addr w0 = (Ok b, w)"
  shows "requests (snd (GetFinalizedBlocks H um b w)) \<le> requests w + 3600
    \<and> slept (snd (GetFinalizedBlocks H um b w)) \<le> slept w + 36600
    \<and> (\<forall>r w'. GetFinalizedBlocks H um b w = (Ok r, w') \<longrightarrow> Finalized r)
    \<and> ((\<forall>u v. \<exists>e. fst (HttpGet H u v) = Fail e) \<longrightarrow>
        (\<exists>e. fst (GetFinalizedBlocks H um b w) = Fail e)
        \<and> requests (snd (GetFinalizedBlocks H um b w)) = requests w + 3600
        \<and> slept (snd (GetFinalizedBlocks H um b w)) = slept w + 36600)"
proof -
  have b: "beacon_Retries b = 60" "beacon_RetryWait b = 10"
    using assms(2) by (auto simp: NewBeaconAPIClient_def io_Ok_simps)
  show ?thesis
    using counted_net.GetFinalizedBlocks_bound [OF assms(1), of um b w] counted_net.GetFinalizedBlocks_down [OF assms(1), of b um w]
      GetFinalizedBlocks_Ok [of H um b w] by (simp add: b)
qed

theorem GetFinalizedBlocks_requests_witness:
  "fst (snd (GetFinalizedBlocks ex_beacon (\<lambda>_. Inr \<lparr>Finalized = True, ExecutionBlockNumber = 7\<rparr>) ex_beacon_client (0, 0))) \<le> 3600
   \<and> (\<exists>e. GetFinalizedBlocks ex_beacon_down (\<lambda>_. Inl (Errorf ''no block'')) ex_beacon_client (0, 0) = (Fail e, (3600, 36600)))"
proof -
  have new: "NewBeaconAPIClient H [] (0, 0) = (Ok ex_beacon_client, (0, 0))" if "H = ex_beacon \<or> H = ex_beacon_down" for H
    using that by (auto simp: NewBeaconAPIClient_def ex_beacon_client_def ex_beacon_down_def ex_beacon_def io_must_def io_bind_def io_ret_def)
  have "\<forall>u v. \<exists>e. fst (HttpGet ex_beacon_down u v) = Fail e" by (simp add: ex_beacon_down_def split: prod.splits)
  with GetFinalizedBlocks_requests [OF ex_beacon_down.counted_net_axioms new, of "\<lambda>_. Inl (Errorf ''no block'')"]
  have "\<exists>e. GetFinalizedBlocks ex_beacon_down (\<lambda>_. Inl (Errorf ''no block'')) ex_beacon_client (0, 0) = (Fail e, (3600, 36600))"
    by (cases "GetFinalizedBlocks ex_beacon_down (\<lambda>_. Inl (Errorf ''no block'')) ex_beacon_client (0, 0)") auto
  moreover have "fst (snd (GetFinalizedBlocks ex_beacon (\<lambda>_. Inr \<lparr>Finalized = True, ExecutionBlockNumber = 7\<rparr>) ex_beacon_client (0, 0))) \<le> 3600"
    using GetFinalizedBlocks_requests [OF ex_beacon.counted_net_axioms new] by fastforce
  ultimately show ?thesis by blast
qed

section \<open>Debugging tools\<close>

text \<open>The two tools of the demo; the result is what they print, and an error ends the process. The conversions
  of the hash and the call \<^verbatim>\<open>debug_traceTransaction\<close> are arguments.\<close>

definition debug_contracts_main :: "'w Net \<Rightarrow> ('w, ContractAddresses) io" where
  "debug_contracts_main N = io_must (io_wrap ''failed to get contract addresses'' (ExtractDeployedContractAddresses N))"

definition getRevertReason :: "'w EthNet \<Rightarrow> (hash \<Rightarrow> bytes) \<Rightarrow> (bytes \<Rightarrow> ('w, bytes) io) \<Rightarrow> hash \<Rightarrow> bytes \<Rightarrow> ('w, bytes) io" where
  "getRevertReason H Hex traceTransaction txHash rpcURL =
     io_bind (io_must (io_wrap ''Failed to connect to RPC'' (RpcDial H rpcURL)))
       (\<lambda>_. io_must (io_wrap ''Failed to trace transaction'' (traceTransaction (Hex txHash))))"

definition debug_txhash_main ::
    "'w EthNet \<Rightarrow> (bytes \<Rightarrow> hash) \<Rightarrow> (hash \<Rightarrow> bytes) \<Rightarrow> (bytes \<Rightarrow> ('w, bytes) io) \<Rightarrow> bytes list \<Rightarrow> ('w, bytes) io" where
  "debug_txhash_main H HexToHash Hex traceTransaction Args =
     (if length Args < 2 then io_out (Panic (Errorf ''Usage: <transaction-hash>''))
      else getRevertReason H Hex traceTransaction (HexToHash (Args ! 1)) (str ''http://localhost:8545/''))"

text \<open>The tool traces the transaction of its first argument and no other, or ends without a result.\<close>

lemma debug_txhash_traces:
  assumes "debug_txhash_main H HexToHash Hex trace Args w = (Ok r, w')"
  shows "2 \<le> length Args \<and> (\<exists>v. trace (Hex (HexToHash (Args ! 1))) v = (Ok r, w'))"
  using assms unfolding debug_txhash_main_def getRevertReason_def
  by (auto simp: io_Ok_simps io_must_eq_Ok not_less split: if_split_asm)

end
