(* ===== verification/Spec2Isabelle.thy ===== *)
theory Spec2Isabelle
  imports Groth16_Typing Demo_Run Prover_Client Header_Keeper Indexer_Service App_Commands Ethereum_Client
begin

text \<open>
  A verification development for the Celestia zkEVM IBC demo.

  \<^bold>\<open>The program.\<close> Two chains exchange IBC packets. \<^verbatim>\<open>simapp\<close> is a Cosmos SDK chain that runs a light
  client of an EVM roll-up: the Groth16 light client of \<^verbatim>\<open>ibc/lightclients/groth16\<close>, which stores state
  roots of the roll-up per height, accepts a new root when the prover service accepts the state
  transition proof of a header, and checks packets with Merkle Patricia trie proofs against a stored
  root (\<^verbatim>\<open>ibc/mpt\<close>). \<^verbatim>\<open>x/header\<close> is a module that keeps recent block hashes of the chain. The indexer
  (\<^verbatim>\<open>indexer\<close>) follows the Celestia chain and records at which height each roll-up block was posted.
  The demo programs (\<^verbatim>\<open>testing/demo/pkg\<close>) create the clients on both chains (\<^verbatim>\<open>setup\<close>) and relay one
  transfer in each direction (\<^verbatim>\<open>transfer\<close>, \<^verbatim>\<open>utils\<close>).

  \<^bold>\<open>Conventions.\<close> Go integers are words of their width; strings and byte slices are lists of bytes. A
  call that may fail is an \<open>outcome\<close>: \<open>Ok\<close> with its results, \<open>Fail\<close> with the returned error, or
  \<open>Panic\<close>, so that a nil dereference, an index out of range and an explicit panic are results that
  theorems speak about. Chain state is passed in and returned. Computations of the demo programs
  pass the state of the outside world (\<open>io\<close>). Code outside the repository (the SDK's stores and
  keepers, ibc-go, go-ethereum, BoltDB, nodes, provers, contracts) is a record of operations that the
  definitions take as an argument; what they rely on are the laws of a locale, and each locale is
  interpreted on an executable instance, which the witnesses run on.

  \<^bold>\<open>Theories, from the bottom.\<close>
  \<^item> \<open>Prelude\<close>: machine integers, byte encodings, decimal strings, outcomes, the lexicographic order.
  \<^item> \<open>Stores\<close>: the contracts \<open>kv_map\<close>, \<open>kv_store\<close> and \<open>core_store\<close> of the key-value stores, on a finite map.
  \<^item> \<open>Groth16_Types\<close>: \<^verbatim>\<open>groth16.pb.go\<close> (messages and getters), \<^verbatim>\<open>consts.go\<close>, \<^verbatim>\<open>consensus_state.go\<close>,
    \<^verbatim>\<open>header.go\<close>; the contracts \<open>ibc_host\<close> and \<open>client_codec\<close>.
  \<^item> \<open>Groth16_Store\<close>: \<^verbatim>\<open>store.go\<close>. Under \<open>client_env\<close> a store is abstracted to three maps from heights and
    the client state (\<open>view\<close>), and the operations refine updates of it; iteration keys order like
    heights; the neighbour lookups find the nearest heights; pruning deletes exactly what
    \<^verbatim>\<open>IsExpired\<close> accepts.
  \<^item> \<open>MPT\<close>: \<^verbatim>\<open>ibc/mpt\<close>. Proof databases are content addressed, verification is sound and independent of
    node order; the walk over dirty layers of the node database terminates on every database that
    fresh updates and commits build, and diverges on a cycle of parents.
  \<^item> \<open>Groth16_Client\<close>: \<^verbatim>\<open>client_state.go\<close> and \<^verbatim>\<open>witness.go\<close>. Initialization, header verification, update,
    membership and non-membership; the reachable client stores as an inductive predicate and their
    invariant; what an accepted header is not bound to.
  \<^item> \<open>Groth16_Typing\<close>: client stores as typed stores. Each key has a type; reachable stores are well typed, the
    operations keep them so and reads of a well-typed store do not panic.
  \<^item> \<open>Groth16_Module\<close>: \<^verbatim>\<open>light_client_module.go\<close>, \<^verbatim>\<open>module.go\<close>, \<^verbatim>\<open>codec.go\<close>, \<^verbatim>\<open>errors.go\<close>, over the stores of all
    clients; a sequence of keeper calls keeps each client on its own.
  \<^item> \<open>Header_Keeper\<close>: \<^verbatim>\<open>x/header\<close>. One begin block, and the window of hashes after any number of them.
  \<^item> \<open>Indexer\<close>: \<^verbatim>\<open>indexer/main.go\<close>. The database, block processing, backfilling, the HTTP handlers, and the
    indexing tasks as a step relation in which every interleaving keeps the index sound.
  \<^item> \<open>Indexer_Service\<close>: \<^verbatim>\<open>main\<close> and the server of \<^verbatim>\<open>indexer/main.go\<close> as a step relation on the process; it exits
    only on request and can always do so then.
  \<^item> \<open>SimApp\<close>: \<^verbatim>\<open>simapp/ante.go\<close>, \<^verbatim>\<open>upgrades.go\<close>, \<^verbatim>\<open>upgrades/upgrades.go\<close>, \<^verbatim>\<open>export.go\<close> and the export command; a
    zero-height export leaves no height behind.
  \<^item> \<open>App_Wiring\<close>: \<^verbatim>\<open>NewSimApp\<close> of \<^verbatim>\<open>simapp/app.go\<close> as the sequence of its construction steps and of its calls on
    the SDK, and the methods of the application.
  \<^item> \<open>Paths\<close>: cleaning and joining file paths.
  \<^item> \<open>App_Commands\<close>: the program \<^verbatim>\<open>simd\<close>: \<^verbatim>\<open>simd/cmd/root.go\<close> with its commands and configuration, \<^verbatim>\<open>simd/main.go\<close>, the
    home directory and the parameters of \<^verbatim>\<open>simapp/params\<close>.
  \<^item> \<open>Relayer_Data\<close>: the decoding, encoding and message building functions of \<^verbatim>\<open>transfer\<close>.
  \<^item> \<open>Relayer\<close>: waiting, broadcasting, client updates and the two transfers of \<^verbatim>\<open>transfer\<close> and \<^verbatim>\<open>utils\<close>.
  \<^item> \<open>Relayer_Trace\<close>: what these flows send, read off the world by an observation. \<open>quiet_net\<close> says which operations
    leave an observation alone; \<open>simapp_view\<close> adds contract calls, \<open>observed_net\<close> the messages that were broadcast and
    \<open>observed_evm\<close> the calls that were sent. Each transfer is reduced to the transactions it executes on SimApp.
  \<^item> \<open>Relayer_Runs\<close>: an example world with a chain that runs the light client module, on which both transfers run;
    waiting without the retry machinery, and exactly what each transfer sends to the two chains.
  \<^item> \<open>Packet_Flow\<close>: the relayer, the keeper and the light client together. \<open>chain_net\<close> is the contract of a chain behind
    the relayer: what an executed message does to the client stores, in terms of the entry points of the module. With an honest prover and node the
    messages of a transfer back are accepted, and the chain verifies the packet.
  \<^item> \<open>Prover_Client\<close>: \<^verbatim>\<open>provers/client\<close>. Messages, stubs, handlers and the service descriptor; over a connection that
    keeps \<open>served_conn\<close> the light client follows the verdict of the registered server.
  \<^item> \<open>Ethereum_Client\<close>: \<^verbatim>\<open>testing/demo/pkg/ethereum\<close>. Retries, requests and the parsing of numbers; the contract
    \<open>counted_net\<close> says what counts as a request and as waiting. The debugging tools of the demo.
  \<^item> \<open>Setup\<close>: \<^verbatim>\<open>setup\<close>, and that the client it creates is active at the block it was made from.
  \<^item> \<open>Demo_Run\<close>: the setup, a transfer and the transfer back one after the other. From a chain without clients the
    demo ends with an active client that verifies the returned packet.
  \<^item> this theory: the relayer's header and the light client together.

  \<^bold>\<open>Bounds and fuel.\<close> Loops over data are structural. The walk over dirty layers is a
  \<^theory_text>\<open>partial_function (option)\<close>, so that divergence is \<open>None\<close>, and both results are proved. Waiting
  loops with a deadline take the number of polls that fit before it as an argument and the
  theorems hold for every number; retries within a poll (five), health checks (ten) and waits for the
  first block (thirty) and the attempts of the beacon client (sixty) are the bounds of the source. Backfilling is such a
  partial function too, because its 64-bit counter never passes the greatest height, and it is
  proved to return for every other one. Nothing else needs fuel.

  \<^bold>\<open>Not modelled.\<close> The provers (Rust) and the zero-knowledge proof system, which are parameters; of the code
  generated from protobuf files the wire format, reflection and descriptors, which call the protobuf runtime;
  JSON types that only mirror a response, which are type parameters; constants for tests;
  log output and \<^verbatim>\<open>String\<close> methods for it; timeouts of single requests.
\<close>

section \<open>The relayer and the light client\<close>

lemma header_of_proven_values:
  assumes "getHeader L N blk w = (Ok h, w')" and "EvmProver N groth16ClientID w = (Ok resp, w1)"
    and "pr_PublicValues resp = encode_public_values out" and "output_wf out"
  shows "NewestStateRoot h = blevm_NewestStateRoot out \<and> NewestHeight h = blevm_NewestHeight out
    \<and> PublicValues h = encode_public_values out"
  using getHeader_Ok[OF assms(1)] assms(2,3) decode_encode[OF assms(4)] by auto

lemma membership_needs_consensus_state:
  assumes "view_cons E s h = None"
  shows "\<exists>e. verifyMembership E X s c h dt db pbz path val = Fail e"
  using assms GetConsensusState_no_panic[of E s h]
  by (cases "GetConsensusState E s h") (auto simp: verifyMembership_def view_cons_def)

text \<open>
  C5. With an honest prover the relayed header does what it should, in spite of the missing binding
  of its fields: an update of the Groth16 client with the header that the relayer makes of the
  encoded public values stores the proven state root at the proven height, and the header
  passes verification whenever its trusted height is stored and lower. But the relayer proves the
  packet at the block of the transfer: if the prover has meanwhile reached another height and the
  client had no state at this block, every membership check at this block fails.
\<close>

theorem relayed_update_installs_proven_root:
  assumes "client_env E" and "marshal_total (cdc E)"
    and "getHeader L N blk w = (Ok h, w')" and "EvmProver N groth16ClientID w = (Ok resp, w1)"
    and "pr_PublicValues resp = encode_public_values out" and "output_wf out" and "prover_accepts V cs h"
  shows "\<exists>t. UpdateState E V ctx s cs (HeaderMsg h) = Ok ([Height 0 (blevm_NewestHeight out)], t)
    \<and> GetConsensusState E t (Height 0 (blevm_NewestHeight out)) =
        Ok \<lparr>HeaderTimestamp = HdrTimestamp h, StateRoot = blevm_NewestStateRoot out\<rparr>
    \<and> (view_cons E s (Height 0 (TrustedHeight h)) \<noteq> None \<and> TrustedHeight h < blevm_NewestHeight out \<longrightarrow>
        VerifyClientMessage E s cs (HeaderMsg h) = Ok ())
    \<and> (blk \<noteq> blevm_NewestHeight out \<and> view_cons E s (Height 0 blk) = None \<longrightarrow>
        (\<exists>e. verifyMembership E X t c (Height 0 blk) dt db pbz path val = Fail e))"
proof -
  note hdr = header_of_proven_values[OF assms(3-6)]
  obtain t where t: "store_height E ctx s (cs\<lparr>LatestHeight := NewestHeight h\<rparr>) (header_consensus h) (GetHeight h) = Ok t"
    using client_env.store_height_total[OF assms(1,2)] by blast
  have view: "view_cons E t = (view_cons E s)(Height 0 (blevm_NewestHeight out) \<mapsto>
      \<lparr>HeaderTimestamp = HdrTimestamp h, StateRoot = blevm_NewestStateRoot out\<rparr>)"
    using client_env.store_height_Ok(1)[OF assms(1) t] hdr
    by (simp add: view_def spec_store_def GetHeight_def header_consensus_def)
  have "UpdateState E V ctx s cs (HeaderMsg h) = Ok ([Height 0 (blevm_NewestHeight out)], t)"
    using UpdateState_accepted[OF assms(7), of E ctx s] t hdr by (simp add: GetHeight_def)
  moreover have "GetConsensusState E t (Height 0 (blevm_NewestHeight out)) =
      Ok \<lparr>HeaderTimestamp = HdrTimestamp h, StateRoot = blevm_NewestStateRoot out\<rparr>"
    by (simp add: client_env.view_cons_eq[OF assms(1), symmetric] view)
  moreover have "view_cons E s (Height 0 (TrustedHeight h)) \<noteq> None \<and> TrustedHeight h < blevm_NewestHeight out \<longrightarrow>
      VerifyClientMessage E s cs (HeaderMsg h) = Ok ()"
    using client_env.verifyHeader_Ok[OF assms(1)] hdr by (simp add: VerifyClientMessage_def)
  moreover have "blk \<noteq> blevm_NewestHeight out \<and> view_cons E s (Height 0 blk) = None \<longrightarrow>
      (\<exists>e. verifyMembership E X t c (Height 0 blk) dt db pbz path val = Fail e)"
    using view by (intro impI membership_needs_consensus_state) simp
  ultimately show ?thesis by blast
qed

theorem relayed_update_installs_proven_root_witness:
  "\<exists>t. UpdateState mem_env ex_prover ex_ctx fmempty ex_client (HeaderMsg (ex_hdr 1)) = Ok ([Height 0 7], t)
    \<and> GetConsensusState mem_env t (Height 0 7) =
        Ok \<lparr>HeaderTimestamp = HdrTimestamp (ex_hdr 1), StateRoot = ex_slot\<rparr>"
proof -
  have a: "prover_accepts ex_prover ex_client (ex_hdr 1)"
    by (simp add: prover_accepts_def ex_prover_def verifyProofRequest_def ex_hdr_def)
  have m: "marshal_total (cdc mem_env)" by (simp add: marshal_total_mini)
  have p: "EvmProver ex_net groth16ClientID ex_late = (Ok \<lparr>pr_Proof = [1], pr_PublicValues = encode_public_values ex_out\<rparr>, ex_late)"
    by (simp add: ex_ops)
  have "blevm_NewestHeight ex_out = 7" "blevm_NewestStateRoot ex_out = ex_slot" by (simp_all add: ex_out_def)
  moreover have h: "getHeader std_lib ex_net 7 ex_late = (Ok (ex_hdr 1), ex_late)"
    using ex_getHeader[OF ex_late_client, of 7] by (simp add: ex_client_def NewClientState_def)
  ultimately show ?thesis
    using relayed_update_installs_proven_root[OF mem_client.client_env_axioms m h p _ ex_out_wf a,
      where ctx = ex_ctx and s = fmempty and X = ex_eth]
    by fastforce
qed

end
